(* ===== verification/Prelude.thy ===== *)
theory Prelude
  imports Main "HOL-Library.Word" "HOL-Library.AList"
begin

unbundle bit_operations_syntax

text \<open>
  Shared vocabulary of the development: machine integer types, the outcome of code that may
  panic, the two build profiles of a Rust crate, checked integer arithmetic, the byte codecs of
  \<^verbatim>\<open>to_le_bytes\<close> / \<^verbatim>\<open>from_be_bytes\<close> and the association-list view of
  \<^verbatim>\<open>std::collections::HashMap\<close>. Nothing here models a line of the repository: it
  models what the repository uses of the Rust language and of its standard library.
\<close>

named_theorems outcome_simps \<open>reduction rules for code that may panic\<close>
named_theorems codec_simps \<open>length and round-trip rules of the byte codecs\<close>
named_theorems hmap_simps \<open>lookup rules for the HashMap view\<close>

subsection \<open>Machine types\<close>

type_synonym u8 = "8 word"
type_synonym u16 = "16 word"
type_synonym u32 = "32 word"
type_synonym u64 = "64 word"
type_synonym byte = "8 word"

text \<open>
  A signed integer has the same representation as the unsigned one of its width; \<open>sint\<close> reads it
  as two's complement.
\<close>

type_synonym i8 = "8 word"
type_synonym i16 = "16 word"
type_synonym i32 = "32 word"
type_synonym i64 = "64 word"

subsection \<open>Panics and build profiles\<close>

datatype panic =
    IndexOutOfBounds
  | ArithmeticOverflow
  | DivideByZero
  | AssertionFailed
  | ExplicitPanic

datatype 'a outcome = Panic panic | Ok 'a

text \<open>
  The workspace sets no profile of its own, so a development build checks integer overflow and a
  release build wraps around.
\<close>

datatype profile = DevBuild | ReleaseBuild

fun bindo :: "'a outcome \<Rightarrow> ('a \<Rightarrow> 'b outcome) \<Rightarrow> 'b outcome" where
  "bindo (Panic e) f = Panic e"
| "bindo (Ok x) f = f x"

lemma bindo_eq_Ok [outcome_simps]: "bindo m f = Ok y \<longleftrightarrow> (\<exists>x. m = Ok x \<and> f x = Ok y)"
  by (cases m) auto

lemma bindo_eq_Panic [outcome_simps]:
  "bindo m f = Panic e \<longleftrightarrow> m = Panic e \<or> (\<exists>x. m = Ok x \<and> f x = Panic e)"
  by (cases m) auto

lemma bindo_Ok_right [simp]: "bindo m Ok = m"
  by (cases m) auto

lemma bindo_assoc: "bindo (bindo m f) g = bindo m (\<lambda>x. bindo (f x) g)"
  by (cases m) auto

fun mapo :: "('a \<Rightarrow> 'b) \<Rightarrow> 'a outcome \<Rightarrow> 'b outcome" where
  "mapo f (Panic e) = Panic e"
| "mapo f (Ok x) = Ok (f x)"

lemma mapo_eq_Ok [outcome_simps]: "mapo f m = Ok y \<longleftrightarrow> (\<exists>x. m = Ok x \<and> y = f x)"
  by (cases m) auto

lemma mapo_eq_Panic [outcome_simps]: "mapo f m = Panic e \<longleftrightarrow> m = Panic e"
  by (cases m) auto

fun is_ok :: "'a outcome \<Rightarrow> bool" where
  "is_ok (Ok x) = True"
| "is_ok (Panic e) = False"

lemma is_ok_iff [outcome_simps]: "is_ok m \<longleftrightarrow> (\<exists>x. m = Ok x)"
  by (cases m) auto

text \<open>Indexing a vector or slice.\<close>

definition vec_at :: "'a list \<Rightarrow> nat \<Rightarrow> 'a outcome" where
  "vec_at xs i = (if i < length xs then Ok (xs ! i) else Panic IndexOutOfBounds)"

lemma vec_at_Ok [simp, outcome_simps]: "i < length xs \<Longrightarrow> vec_at xs i = Ok (xs ! i)"
  by (simp add: vec_at_def)

subsection \<open>Checked integer arithmetic\<close>

lemma unat_bound: "unat (w :: 'a::len word) < 2 ^ LENGTH('a)"
  by (rule unsigned_less)

text \<open>
  The value of a signed or unsigned operation whose mathematical result is \<open>r\<close>: wrapped to the
  width, or an overflow panic in a development build when wrapping changes the value.
\<close>

definition sres :: "profile \<Rightarrow> int \<Rightarrow> 'a::len word outcome" where
  "sres p r = (let w = word_of_int r in
     if p = DevBuild \<and> sint w \<noteq> r then Panic ArithmeticOverflow else Ok w)"

definition ures :: "profile \<Rightarrow> int \<Rightarrow> 'a::len word outcome" where
  "ures p r = (let w = word_of_int r in
     if p = DevBuild \<and> uint w \<noteq> r then Panic ArithmeticOverflow else Ok w)"

definition tdiv :: "int \<Rightarrow> int \<Rightarrow> int" where
  "tdiv a b = sgn a * sgn b * (\<bar>a\<bar> div \<bar>b\<bar>)"

definition trem :: "int \<Rightarrow> int \<Rightarrow> int" where
  "trem a b = sgn a * (\<bar>a\<bar> mod \<bar>b\<bar>)"

text \<open>
  Division and remainder of signed integers panic on a zero divisor and on
  \<^verbatim>\<open>MIN / -1\<close> in every profile.
\<close>

definition sdivide :: "(int \<Rightarrow> int \<Rightarrow> int) \<Rightarrow> 'a::len word \<Rightarrow> 'a word \<Rightarrow> 'a word outcome" where
  "sdivide f a b =
     (if b = 0 then Panic DivideByZero
      else if sint a = - (2 ^ (LENGTH('a) - 1)) \<and> sint b = -1 then Panic ArithmeticOverflow
      else Ok (word_of_int (f (sint a) (sint b))))"

definition udivide :: "(int \<Rightarrow> int \<Rightarrow> int) \<Rightarrow> 'a::len word \<Rightarrow> 'a word \<Rightarrow> 'a word outcome" where
  "udivide f a b =
     (if b = 0 then Panic DivideByZero else Ok (word_of_int (f (uint a) (uint b))))"

lemma sres_Release [simp]: "sres ReleaseBuild r = Ok (word_of_int r)"
  by (simp add: sres_def Let_def)

lemma ures_Release [simp]: "ures ReleaseBuild r = Ok (word_of_int r)"
  by (simp add: ures_def Let_def)

lemma sres_Ok_Dev: "sres DevBuild r = Ok w \<longleftrightarrow> w = word_of_int r \<and> sint w = r"
  by (auto simp: sres_def Let_def)

lemma ures_Ok_Dev: "ures DevBuild r = Ok w \<longleftrightarrow> w = word_of_int r \<and> uint w = r"
  by (auto simp: ures_def Let_def)

lemma unat_of_nat_small:
  "n < 2 ^ LENGTH('a) \<Longrightarrow> unat (word_of_nat n :: 'a::len word) = n"
  by (simp add: unsigned_of_nat take_bit_nat_eq_self)

lemma ures_of_nat:
  assumes "n < 2 ^ LENGTH('a)"
  shows "ures p (int n) = Ok (word_of_nat n :: 'a::len word)"
proof -
  have "uint (word_of_nat n :: 'a word) = int n"
    using assms by (simp add: unsigned_of_nat take_bit_nat_eq_self)
  then show ?thesis by (simp add: ures_def Let_def)
qed

lemma tdiv_trem: "tdiv a b * b + trem a b = a"
proof -
  have "tdiv a b * b + trem a b = sgn a * (\<bar>a\<bar> div \<bar>b\<bar> * (sgn b * b) + \<bar>a\<bar> mod \<bar>b\<bar>)"
    by (simp add: tdiv_def trem_def algebra_simps)
  also have "sgn b * b = \<bar>b\<bar>" by (simp add: abs_sgn mult.commute)
  finally show ?thesis by (simp add: sgn_mult_abs)
qed

definition saturating_add_u64 :: "u64 \<Rightarrow> u64 \<Rightarrow> u64" where
  "saturating_add_u64 a b = (if unat a + unat b < 2 ^ 64 then a + b else - 1)"

lemma unat_saturating_add:
  "unat (saturating_add_u64 a b) = min (unat a + unat b) (2 ^ 64 - 1)"
  by (auto simp: saturating_add_u64_def unat_word_ariths unsigned_minus_1_eq_mask mask_eq_exp_minus_1)

definition saturating_sub_u32 :: "u32 \<Rightarrow> u32 \<Rightarrow> u32" where
  "saturating_sub_u32 a b = (if b \<le> a then a - b else 0)"

lemma unat_saturating_sub: "unat (saturating_sub_u32 a b) = unat a - unat b"
  by (auto simp: saturating_sub_u32_def unat_sub word_le_nat_alt)

subsection \<open>Byte codecs\<close>

text \<open>
  \<open>le_bytes n x\<close> is the little-endian image of \<open>x\<close> in \<open>n\<close> bytes and \<open>le_nat\<close> its inverse;
  \<^verbatim>\<open>to_le_bytes\<close> and \<^verbatim>\<open>from_le_bytes\<close> of every width are instances.
\<close>

primrec le_bytes :: "nat \<Rightarrow> int \<Rightarrow> byte list" where
  "le_bytes 0 x = []"
| "le_bytes (Suc n) x = word_of_int (x mod 256) # le_bytes n (x div 256)"

primrec le_int :: "byte list \<Rightarrow> int" where
  "le_int [] = 0"
| "le_int (b # bs) = uint b + 256 * le_int bs"

lemma length_le_bytes [simp, codec_simps]: "length (le_bytes n x) = n"
  by (induction n arbitrary: x) auto

lemma uint_byte_bounds: "0 \<le> uint (b :: byte)" "uint (b :: byte) < 256"
  using uint_lt2p [of b] by simp_all

lemma uint_word_of_int_byte [simp]: "uint (word_of_int (x mod 256) :: byte) = x mod 256"
  by (simp add: uint_word_of_int)

lemma le_int_le_bytes: "le_int (le_bytes n x) = x mod 256 ^ n"
  by (induction n arbitrary: x) (auto simp: zmod_zmult2_eq)

lemma le_int_bounds: "0 \<le> le_int bs" "le_int bs < 256 ^ length bs"
proof (induction bs)
  case (Cons b bs)
  have "uint b < 256" "0 \<le> uint b" using uint_byte_bounds [of b] by simp_all
  { case 1 show ?case using Cons \<open>0 \<le> uint b\<close> by simp }
  { case 2 show ?case using Cons \<open>uint b < 256\<close> by simp }
qed simp_all

lemma le_bytes_le_int: "length bs = n \<Longrightarrow> le_bytes n (le_int bs) = bs"
proof (induction bs arbitrary: n)
  case (Cons b bs)
  have b: "uint b < 256" "0 \<le> uint b" using uint_byte_bounds [of b] by simp_all
  have "(uint b + 256 * le_int bs) mod 256 = uint b" using b by simp
  moreover have "(uint b + 256 * le_int bs) div 256 = le_int bs" using b by simp
  ultimately show ?case using Cons by auto
qed simp

definition word_le :: "'a::len word \<Rightarrow> byte list" where
  "word_le w = le_bytes (LENGTH('a) div 8) (uint w)"

definition le_word :: "byte list \<Rightarrow> 'a::len word" where
  "le_word bs = word_of_int (le_int bs)"

lemma length_word_le [simp, codec_simps]: "length (word_le (w :: 'a::len word)) = LENGTH('a) div 8"
  by (simp add: word_le_def)

lemma pow256: "LENGTH('a::len) = 8 * n \<Longrightarrow> (256 :: int) ^ n = 2 ^ LENGTH('a)"
  by (simp add: power_mult)

lemma le_word_word_le [codec_simps]:
  assumes "LENGTH('a::len) = 8 * (LENGTH('a) div 8)"
  shows "le_word (word_le (w :: 'a word)) = w"
proof -
  have "uint w < 256 ^ (LENGTH('a) div 8)" using uint_lt2p [of w] pow256 [OF assms] by simp
  then show ?thesis by (simp add: le_word_def word_le_def le_int_le_bytes)
qed

lemma word_le_le_word [codec_simps]:
  assumes "LENGTH('a::len) = 8 * (LENGTH('a) div 8)" and "length bs = LENGTH('a) div 8"
  shows "word_le (le_word bs :: 'a word) = bs"
proof -
  have "le_int bs mod 2 ^ LENGTH('a) = le_int bs"
    using le_int_bounds [of bs] pow256 [OF assms(1)] assms(2) by simp
  then show ?thesis
    using assms(2) by (simp add: word_le_def le_word_def uint_word_of_int le_bytes_le_int)
qed

text \<open>
  A codec of fixed width: what \<^verbatim>\<open>to_le_bytes\<close> and \<^verbatim>\<open>from_le_bytes\<close> promise for each type. A
  decoder that reads a prefix of its input, or a slot of an array, needs no more than these laws.
\<close>

locale fixed_codec =
  fixes enc :: "'a \<Rightarrow> byte list" and dec :: "byte list \<Rightarrow> 'a" and width :: nat
  assumes enc_width: "length (enc x) = width"
    and dec_enc: "dec (enc x) = x"
begin

lemma dec_prefix: "dec (take width (enc x @ ys)) = x"
  by (simp add: enc_width dec_enc)

lemma dec_slot: "i = length xs \<Longrightarrow> dec (take width (drop i (xs @ enc x @ ys))) = x"
  by (simp add: enc_width dec_enc)

lemma enc_inj: "enc x = enc y \<Longrightarrow> x = y"
  by (metis dec_enc)

end

interpretation le8: fixed_codec "word_le :: 8 word \<Rightarrow> byte list" le_word 1
  by unfold_locales (simp_all add: le_word_word_le)

interpretation le16: fixed_codec "word_le :: 16 word \<Rightarrow> byte list" le_word 2
  by unfold_locales (simp_all add: le_word_word_le)

interpretation le32: fixed_codec "word_le :: 32 word \<Rightarrow> byte list" le_word 4
  by unfold_locales (simp_all add: le_word_word_le)

interpretation le64: fixed_codec "word_le :: 64 word \<Rightarrow> byte list" le_word 8
  by unfold_locales (simp_all add: le_word_word_le)

text \<open>Big-endian words, as the Modbus frames carry them.\<close>

definition be_u16 :: "byte \<Rightarrow> byte \<Rightarrow> u16" where
  "be_u16 hi lo = word_of_int (256 * uint hi + uint lo)"

definition u16_hi :: "u16 \<Rightarrow> byte" where
  "u16_hi w = word_of_int (uint w div 256)"

definition u16_lo :: "u16 \<Rightarrow> byte" where
  "u16_lo w = word_of_int (uint w mod 256)"

lemma uint_be_u16: "uint (be_u16 hi lo) = 256 * uint hi + uint lo"
  unfolding be_u16_def uint_word_of_int
  using uint_byte_bounds [of hi] uint_byte_bounds [of lo]
  by (subst mod_pos_pos_trivial) simp_all

lemma be_u16_hi_lo [simp, codec_simps]: "be_u16 (u16_hi w) (u16_lo w) = w"
proof -
  have "uint w < 65536" "0 \<le> uint w" using uint_lt2p [of w] by simp_all
  then have "0 \<le> uint w div 256" "uint w div 256 < 256" by linarith+
  then have "uint w div 256 mod 256 = uint w div 256" by (rule mod_pos_pos_trivial)
  then show ?thesis by (simp add: be_u16_def u16_hi_def u16_lo_def uint_word_of_int)
qed

lemma u16_hi_be [simp, codec_simps]: "u16_hi (be_u16 hi lo) = hi"
  and u16_lo_be [simp, codec_simps]: "u16_lo (be_u16 hi lo) = lo"
  using uint_byte_bounds [of lo] by (simp_all add: u16_hi_def u16_lo_def uint_be_u16)

subsection \<open>Slices\<close>

text \<open>
  \<^verbatim>\<open>xs[a..b]\<close> panics unless \<open>a \<le> b\<close> and \<open>b \<le> len\<close>; \<^verbatim>\<open>xs[a..b].copy_from_slice(ys)\<close> replaces the
  range by a slice of the same length.
\<close>

definition slice :: "'a list \<Rightarrow> nat \<Rightarrow> nat \<Rightarrow> 'a list outcome" where
  "slice xs a b = (if a \<le> b \<and> b \<le> length xs then Ok (take (b - a) (drop a xs))
     else Panic IndexOutOfBounds)"

definition splice :: "'a list \<Rightarrow> nat \<Rightarrow> 'a list \<Rightarrow> 'a list" where
  "splice xs a ys = take a xs @ ys @ drop (a + length ys) xs"

lemma length_splice: "a + length ys \<le> length xs \<Longrightarrow> length (splice xs a ys) = length xs"
  by (simp add: splice_def)

lemma slice_splice_same:
  "a + length ys \<le> length xs \<Longrightarrow> slice (splice xs a ys) a (a + length ys) = Ok ys"
  by (simp add: slice_def splice_def)

lemma nth_splice:
  assumes "a + length ys \<le> length xs" and "i < length xs" and "i < a \<or> a + length ys \<le> i"
  shows "splice xs a ys ! i = xs ! i"
proof (cases "i < a")
  case True
  with assms show ?thesis by (simp add: splice_def nth_append)
next
  case False
  with assms have "a \<le> i" "\<not> i - a < length ys" "min (length xs) a = a" by simp_all
  then show ?thesis using assms by (simp add: splice_def nth_append)
qed

lemma slice_splice_other:
  assumes "a + length ys \<le> length xs" and "d \<le> a \<or> a + length ys \<le> c"
  shows "slice (splice xs a ys) c d = slice xs c d"
proof -
  have "take (d - c) (drop c (splice xs a ys)) = take (d - c) (drop c xs)"
    if "c \<le> d" "d \<le> length xs"
  proof (rule nth_equalityI)
    fix i assume "i < length (take (d - c) (drop c (splice xs a ys)))"
    then have "i < d - c" "c + i < length xs" using that assms(1) by (simp_all add: length_splice)
    moreover have "splice xs a ys ! (c + i) = xs ! (c + i)"
      by (rule nth_splice [OF assms(1)]) (use calculation assms(2) in linarith)+
    ultimately show "take (d - c) (drop c (splice xs a ys)) ! i = take (d - c) (drop c xs) ! i"
      using assms(1) by (simp add: length_splice)
  qed (use assms(1) in \<open>simp add: length_splice\<close>)
  then show ?thesis using assms(1) by (simp add: slice_def length_splice)
qed

subsection \<open>Text as bytes\<close>

text \<open>A Rust string is its UTF-8 bytes; a \<open>char\<close> of HOL is one byte.\<close>

definition string_bytes :: "string \<Rightarrow> byte list" where
  "string_bytes s = map (\<lambda>c. of_nat (of_char c)) s"

definition bytes_string :: "byte list \<Rightarrow> string" where
  "bytes_string bs = map (\<lambda>b. char_of (unat b)) bs"

lemma length_string_bytes [simp]: "length (string_bytes s) = length s"
  by (simp add: string_bytes_def)

lemma bytes_string_inverse [simp, codec_simps]: "bytes_string (string_bytes s) = s"
proof -
  have "char_of (unat (of_nat (of_char c) :: byte)) = c" for c
  proof -
    have "(of_char c :: nat) < 256" by (rule nat_of_char_less_256)
    then have "unat (of_nat (of_char c) :: byte) = of_char c" by (simp add: unat_of_nat)
    then show ?thesis by simp
  qed
  then show ?thesis by (simp add: bytes_string_def string_bytes_def comp_def)
qed

subsection \<open>HashMap as an association list\<close>

text \<open>
  A \<^verbatim>\<open>HashMap\<close> is an association list with distinct keys: the order of the list stands
  for the unspecified iteration order, lookups and updates are those of \<open>HOL-Library.AList\<close>.
\<close>

type_synonym ('k, 'v) hmap = "('k \<times> 'v) list"

abbreviation hm_get :: "('k, 'v) hmap \<Rightarrow> 'k \<Rightarrow> 'v option" where
  "hm_get \<equiv> map_of"

abbreviation hm_insert :: "'k \<Rightarrow> 'v \<Rightarrow> ('k, 'v) hmap \<Rightarrow> ('k, 'v) hmap" where
  "hm_insert \<equiv> AList.update"

abbreviation hm_remove :: "'k \<Rightarrow> ('k, 'v) hmap \<Rightarrow> ('k, 'v) hmap" where
  "hm_remove \<equiv> AList.delete"

abbreviation hm_keys :: "('k, 'v) hmap \<Rightarrow> 'k list" where
  "hm_keys m \<equiv> map fst m"

definition hm_wf :: "('k, 'v) hmap \<Rightarrow> bool" where
  "hm_wf m \<longleftrightarrow> distinct (hm_keys m)"

lemma hm_wf_Nil [simp]: "hm_wf []"
  by (simp add: hm_wf_def)

lemma hm_wf_insert [simp, intro]: "hm_wf m \<Longrightarrow> hm_wf (hm_insert k v m)"
  by (simp add: hm_wf_def distinct_update)

lemma hm_wf_remove [simp, intro]: "hm_wf m \<Longrightarrow> hm_wf (hm_remove k m)"
  by (simp add: hm_wf_def distinct_delete)

lemma hm_get_insert [simp, hmap_simps]:
  "hm_get (hm_insert k v m) k' = (if k = k' then Some v else hm_get m k')"
  by (simp add: update_conv)

lemma hm_get_remove [simp, hmap_simps]:
  "hm_get (hm_remove k m) k' = (if k = k' then None else hm_get m k')"
  by (simp add: delete_conv)

lemma hm_in_set: "hm_wf m \<Longrightarrow> (k, v) \<in> set m \<longleftrightarrow> hm_get m k = Some v"
  by (auto simp: hm_wf_def dest: map_of_SomeD intro: map_of_is_SomeI)

lemma map_of_rev_distinct: "distinct (map fst xs) \<Longrightarrow> map_of (rev xs) = map_of xs"
  by (subst map_of_inject_set) (simp_all add: rev_map [symmetric])

lemma hm_set_keys: "set (hm_keys m) = dom (hm_get m)"
  by (simp add: dom_map_of_conv_image_fst)

end
