(* ===== verification/Ieee_Float.thy ===== *)
theory Ieee_Float
  imports Prelude
begin

text \<open>
  IEEE 754 binary floating point, executable and exact: \<^verbatim>\<open>f32\<close> and \<^verbatim>\<open>f64\<close> are the words that
  \<^verbatim>\<open>to_bits\<close> returns. Every operation decodes its operands into exact numbers \<open>m * 2 ^ e\<close>,
  computes on integers and rounds once, to nearest with ties to even. Rust leaves the sign and the
  payload of a computed NaN open; the model returns the positive quiet NaN.
\<close>

type_synonym f32 = "32 word"
type_synonym f64 = "64 word"

text \<open>
  A format: \<open>ff_prec\<close> significand bits (the hidden one included), \<open>ff_ebits\<close> exponent bits and the
  exponent \<open>ff_emin\<close> of the last significand bit of a subnormal number.
\<close>

record fformat =
  ff_prec :: nat
  ff_ebits :: nat
  ff_emin :: int

definition binary32 :: fformat where
  "binary32 = \<lparr>ff_prec = 24, ff_ebits = 8, ff_emin = -149\<rparr>"

definition binary64 :: fformat where
  "binary64 = \<lparr>ff_prec = 53, ff_ebits = 11, ff_emin = -1074\<rparr>"

definition sign_weight :: "fformat \<Rightarrow> int" where
  "sign_weight f = 2 ^ (ff_prec f - 1 + ff_ebits f)"

definition inf_bits :: "fformat \<Rightarrow> int" where
  "inf_bits f = (2 ^ ff_ebits f - 1) * 2 ^ (ff_prec f - 1)"

definition nan_bits :: "fformat \<Rightarrow> int" where
  "nan_bits f = inf_bits f + 2 ^ (ff_prec f - 2)"

datatype fval = FNan | FInf bool | FFin bool int int

definition fdecode :: "fformat \<Rightarrow> int \<Rightarrow> fval" where
  "fdecode f x =
     (let s = odd (x div sign_weight f);
          ex = (x div 2 ^ (ff_prec f - 1)) mod 2 ^ ff_ebits f;
          fr = x mod 2 ^ (ff_prec f - 1)
      in if ex = 2 ^ ff_ebits f - 1 then (if fr = 0 then FInf s else FNan)
         else if ex = 0 then FFin s fr (ff_emin f)
         else FFin s (fr + 2 ^ (ff_prec f - 1)) (ff_emin f + ex - 1))"

function ilog2 :: "int \<Rightarrow> int" where
  "ilog2 n = (if n < 2 then 0 else 1 + ilog2 (n div 2))"
  by pat_completeness auto
termination
  by (relation "measure nat") auto

declare ilog2.simps [simp del]

definition shiftz :: "int \<Rightarrow> int \<Rightarrow> int" where
  "shiftz n k = (if 0 \<le> k then n * 2 ^ nat k else n)"

text \<open>The floor of \<open>log2 (n / d)\<close> for positive \<open>n\<close> and \<open>d\<close>.\<close>

definition qlog2 :: "int \<Rightarrow> int \<Rightarrow> int" where
  "qlog2 n d = (let l = ilog2 n - ilog2 d
     in if shiftz d l \<le> shiftz n (- l) then l else l - 1)"

definition signed_bits :: "fformat \<Rightarrow> bool \<Rightarrow> int \<Rightarrow> int" where
  "signed_bits f s x = (if s then sign_weight f else 0) + x"

text \<open>Round \<open>n / d * 2 ^ e\<close> (\<open>n\<close> and \<open>d\<close> positive) to the format.\<close>

definition fround :: "fformat \<Rightarrow> bool \<Rightarrow> int \<Rightarrow> int \<Rightarrow> int \<Rightarrow> int" where
  "fround f s n d e =
     (let q = max (ff_emin f) (qlog2 n d + e - (int (ff_prec f) - 1));
          num = shiftz n (e - q); den = shiftz d (q - e);
          t = num div den; r = num mod den;
          t' = (if den < 2 * r \<or> (den = 2 * r \<and> odd t) then t + 1 else t);
          b = (q - ff_emin f) * 2 ^ (ff_prec f - 1) + t'
      in signed_bits f s (min b (inf_bits f)))"

definition fneg :: "fformat \<Rightarrow> int \<Rightarrow> int" where
  "fneg f x = (if odd (x div sign_weight f) then x - sign_weight f else x + sign_weight f)"

definition sval :: "bool \<Rightarrow> int \<Rightarrow> int" where
  "sval s m = (if s then - m else m)"

fun fadd_val :: "fformat \<Rightarrow> fval \<Rightarrow> fval \<Rightarrow> int" where
  "fadd_val f FNan y = nan_bits f"
| "fadd_val f x FNan = nan_bits f"
| "fadd_val f (FInf s) (FInf t) = (if s = t then signed_bits f s (inf_bits f) else nan_bits f)"
| "fadd_val f (FInf s) (FFin t m e) = signed_bits f s (inf_bits f)"
| "fadd_val f (FFin s m e) (FInf t) = signed_bits f t (inf_bits f)"
| "fadd_val f (FFin s m e) (FFin t n g) =
     (let k = min e g; v = sval s m * 2 ^ nat (e - k) + sval t n * 2 ^ nat (g - k)
      in if v = 0 then signed_bits f (s \<and> t) 0 else fround f (v < 0) \<bar>v\<bar> 1 k)"

fun fmul_val :: "fformat \<Rightarrow> fval \<Rightarrow> fval \<Rightarrow> int" where
  "fmul_val f FNan y = nan_bits f"
| "fmul_val f x FNan = nan_bits f"
| "fmul_val f (FInf s) (FInf t) = signed_bits f (s \<noteq> t) (inf_bits f)"
| "fmul_val f (FInf s) (FFin t m e) =
     (if m = 0 then nan_bits f else signed_bits f (s \<noteq> t) (inf_bits f))"
| "fmul_val f (FFin s m e) (FInf t) =
     (if m = 0 then nan_bits f else signed_bits f (s \<noteq> t) (inf_bits f))"
| "fmul_val f (FFin s m e) (FFin t n g) =
     (if m * n = 0 then signed_bits f (s \<noteq> t) 0 else fround f (s \<noteq> t) (m * n) 1 (e + g))"

fun fdiv_val :: "fformat \<Rightarrow> fval \<Rightarrow> fval \<Rightarrow> int" where
  "fdiv_val f FNan y = nan_bits f"
| "fdiv_val f x FNan = nan_bits f"
| "fdiv_val f (FInf s) (FInf t) = nan_bits f"
| "fdiv_val f (FInf s) (FFin t m e) = signed_bits f (s \<noteq> t) (inf_bits f)"
| "fdiv_val f (FFin s m e) (FInf t) = signed_bits f (s \<noteq> t) 0"
| "fdiv_val f (FFin s m e) (FFin t n g) =
     (if n = 0 then (if m = 0 then nan_bits f else signed_bits f (s \<noteq> t) (inf_bits f))
      else if m = 0 then signed_bits f (s \<noteq> t) 0
      else fround f (s \<noteq> t) m n (e - g))"

text \<open>The remainder of \<^verbatim>\<open>%\<close>: exact, with the sign of the dividend.\<close>

fun frem_val :: "fformat \<Rightarrow> int \<Rightarrow> fval \<Rightarrow> fval \<Rightarrow> int" where
  "frem_val f x FNan y = nan_bits f"
| "frem_val f x (FInf s) y = nan_bits f"
| "frem_val f x (FFin s m e) FNan = nan_bits f"
| "frem_val f x (FFin s m e) (FInf t) = x"
| "frem_val f x (FFin s m e) (FFin t n g) =
     (if n = 0 then nan_bits f
      else let k = min e g; v = (m * 2 ^ nat (e - k)) mod (n * 2 ^ nat (g - k))
           in if v = 0 then signed_bits f s 0 else fround f s v 1 k)"

datatype ordering = Less | Equal | Greater

definition int_cmp :: "int \<Rightarrow> int \<Rightarrow> ordering" where
  "int_cmp a b = (if a < b then Less else if a = b then Equal else Greater)"

fun fcmp_val :: "fval \<Rightarrow> fval \<Rightarrow> ordering option" where
  "fcmp_val FNan y = None"
| "fcmp_val x FNan = None"
| "fcmp_val (FInf s) (FInf t) = Some (if s = t then Equal else if s then Less else Greater)"
| "fcmp_val (FInf s) (FFin t n g) = Some (if s then Less else Greater)"
| "fcmp_val (FFin s m e) (FInf t) = Some (if t then Greater else Less)"
| "fcmp_val (FFin s m e) (FFin t n g) =
     (let k = min e g
      in Some (int_cmp (sval s m * 2 ^ nat (e - k)) (sval t n * 2 ^ nat (g - k))))"

text \<open>The cast \<^verbatim>\<open>x as u16\<close>: truncation toward zero, saturating, NaN to zero.\<close>

fun ftrunc_sat :: "int \<Rightarrow> fval \<Rightarrow> int" where
  "ftrunc_sat hi FNan = 0"
| "ftrunc_sat hi (FInf s) = (if s then 0 else hi)"
| "ftrunc_sat hi (FFin s m e) =
     (if s then 0 else min hi (shiftz m e div shiftz 1 (- e)))"

subsection \<open>The operations on words\<close>

definition f32_dec :: "f32 \<Rightarrow> fval" where
  "f32_dec x = fdecode binary32 (uint x)"

definition f64_dec :: "f64 \<Rightarrow> fval" where
  "f64_dec x = fdecode binary64 (uint x)"

definition f32_add :: "f32 \<Rightarrow> f32 \<Rightarrow> f32" where
  "f32_add x y = word_of_int (fadd_val binary32 (f32_dec x) (f32_dec y))"

definition f64_add :: "f64 \<Rightarrow> f64 \<Rightarrow> f64" where
  "f64_add x y = word_of_int (fadd_val binary64 (f64_dec x) (f64_dec y))"

definition f32_neg :: "f32 \<Rightarrow> f32" where
  "f32_neg x = word_of_int (fneg binary32 (uint x))"

definition f64_neg :: "f64 \<Rightarrow> f64" where
  "f64_neg x = word_of_int (fneg binary64 (uint x))"

definition f32_sub :: "f32 \<Rightarrow> f32 \<Rightarrow> f32" where
  "f32_sub x y = f32_add x (f32_neg y)"

definition f64_sub :: "f64 \<Rightarrow> f64 \<Rightarrow> f64" where
  "f64_sub x y = f64_add x (f64_neg y)"

definition f32_mul :: "f32 \<Rightarrow> f32 \<Rightarrow> f32" where
  "f32_mul x y = word_of_int (fmul_val binary32 (f32_dec x) (f32_dec y))"

definition f64_mul :: "f64 \<Rightarrow> f64 \<Rightarrow> f64" where
  "f64_mul x y = word_of_int (fmul_val binary64 (f64_dec x) (f64_dec y))"

definition f32_div :: "f32 \<Rightarrow> f32 \<Rightarrow> f32" where
  "f32_div x y = word_of_int (fdiv_val binary32 (f32_dec x) (f32_dec y))"

definition f64_div :: "f64 \<Rightarrow> f64 \<Rightarrow> f64" where
  "f64_div x y = word_of_int (fdiv_val binary64 (f64_dec x) (f64_dec y))"

definition f32_rem :: "f32 \<Rightarrow> f32 \<Rightarrow> f32" where
  "f32_rem x y = word_of_int (frem_val binary32 (uint x) (f32_dec x) (f32_dec y))"

definition f64_rem :: "f64 \<Rightarrow> f64 \<Rightarrow> f64" where
  "f64_rem x y = word_of_int (frem_val binary64 (uint x) (f64_dec x) (f64_dec y))"

definition f32_cmp :: "f32 \<Rightarrow> f32 \<Rightarrow> ordering option" where
  "f32_cmp x y = fcmp_val (f32_dec x) (f32_dec y)"

definition f64_cmp :: "f64 \<Rightarrow> f64 \<Rightarrow> ordering option" where
  "f64_cmp x y = fcmp_val (f64_dec x) (f64_dec y)"

definition f32_as_u16 :: "f32 \<Rightarrow> u16" where
  "f32_as_u16 x = word_of_int (ftrunc_sat 65535 (f32_dec x))"

subsection \<open>Literals, square root and rounding up\<close>

text \<open>An \<^verbatim>\<open>f64\<close> literal: an integer, or a decimal fraction as a quotient, rounded once.\<close>

definition f64_of_int :: "int \<Rightarrow> f64" where
  "f64_of_int n = (if n = 0 then 0 else word_of_int (fround binary64 (n < 0) \<bar>n\<bar> 1 0))"

definition f64_of_ratio :: "int \<Rightarrow> int \<Rightarrow> f64" where
  "f64_of_ratio n d = word_of_int (fround binary64 False n d 0)"

function isqrt :: "int \<Rightarrow> int" where
  "isqrt n = (if n < 1 then 0 else let r = 2 * isqrt (n div 4) in if (r + 1) * (r + 1) \<le> n then r + 1 else r)"
  by pat_completeness auto

termination isqrt
  by (relation "measure nat") auto

declare isqrt.simps [simp del]

text \<open>
  The square root is correctly rounded: the mantissa is scaled so that the integer root has more
  bits than the format, and a sticky bit stands for the remainder.
\<close>

fun fsqrt_val :: "fformat \<Rightarrow> int \<Rightarrow> fval \<Rightarrow> int" where
  "fsqrt_val f x FNan = nan_bits f"
| "fsqrt_val f x (FInf s) = (if s then nan_bits f else inf_bits f)"
| "fsqrt_val f x (FFin s m e) =
     (if m = 0 then x else if s then nan_bits f else
      let big = m * 2 ^ nat (120 + e mod 2); r = isqrt big in
      fround f False (2 * r + (if r * r = big then 0 else 1)) 1 ((e - 120 - e mod 2) div 2 - 1))"

definition f64_sqrt :: "f64 \<Rightarrow> f64" where
  "f64_sqrt x = word_of_int (fsqrt_val binary64 (uint x) (f64_dec x))"

definition f64_abs :: "f64 \<Rightarrow> f64" where
  "f64_abs x = word_of_int (uint x mod sign_weight binary64)"

definition f64_lt :: "f64 \<Rightarrow> f64 \<Rightarrow> bool" where
  "f64_lt x y \<longleftrightarrow> f64_cmp x y = Some Less"

definition f64_is_nan :: "f64 \<Rightarrow> bool" where
  "f64_is_nan x \<longleftrightarrow> f64_dec x = FNan"

text \<open>\<^verbatim>\<open>f64::max\<close> and \<^verbatim>\<open>f64::min\<close>: a NaN loses against a number.\<close>

definition f64_max :: "f64 \<Rightarrow> f64 \<Rightarrow> f64" where
  "f64_max x y = (if f64_is_nan x \<or> f64_lt x y then y else x)"

definition f64_min :: "f64 \<Rightarrow> f64 \<Rightarrow> f64" where
  "f64_min x y = (if f64_is_nan x \<or> f64_lt y x then y else x)"

text \<open>\<^verbatim>\<open>x.ceil() as u32\<close>: round up, then saturate; not-a-number gives 0.\<close>

definition f64_ceil_u32 :: "f64 \<Rightarrow> u32" where
  "f64_ceil_u32 x =
     (case f64_dec x of
        FNan \<Rightarrow> 0
      | FInf s \<Rightarrow> if s then 0 else - 1
      | FFin s m e \<Rightarrow>
          if s then 0
          else let c = (if 0 \<le> e then m * 2 ^ nat e else (m + 2 ^ nat (- e) - 1) div 2 ^ nat (- e))
               in word_of_int (min c (2 ^ 32 - 1)))"

subsection \<open>Rounding is exact on representable numbers\<close>

definition fformat_ok :: "fformat \<Rightarrow> bool" where
  "fformat_ok f \<longleftrightarrow> 2 \<le> ff_prec f \<and> 2 \<le> ff_ebits f"

lemma fformat_ok_binary [simp]: "fformat_ok binary32" "fformat_ok binary64"
  by (simp_all add: fformat_ok_def binary32_def binary64_def)

lemma ilog2_nonneg [simp]: "0 \<le> ilog2 n"
  by (induction n rule: ilog2.induct) (subst ilog2.simps, auto)

lemma ilog2_unique:
  assumes "2 ^ k \<le> n" and "n < 2 ^ Suc k"
  shows "ilog2 n = int k"
  using assms
proof (induction k arbitrary: n)
  case 0
  then show ?case by (simp add: ilog2.simps)
next
  case (Suc k)
  have "(1::int) \<le> 2 ^ k" by simp
  with Suc.prems have "2 \<le> n" unfolding power_Suc by linarith
  moreover have "ilog2 (n div 2) = int k" by (rule Suc.IH) (use Suc.prems in auto)
  ultimately show ?case by (simp add: ilog2.simps [of n])
qed

lemma ilog2_bounds: "0 < n \<Longrightarrow> \<exists>k. ilog2 n = int k \<and> 2 ^ k \<le> n \<and> n < 2 ^ Suc k"
proof (induction n rule: ilog2.induct)
  case (1 n)
  show ?case
  proof (cases "n < 2")
    case True
    then show ?thesis using "1.prems" by (intro exI [of _ 0]) (simp add: ilog2.simps)
  next
    case False
    then have "0 < n div 2" by linarith
    with False "1.IH" obtain k
      where "ilog2 (n div 2) = int k" "2 ^ k \<le> n div 2" "n div 2 < 2 ^ Suc k"
      by blast
    then show ?thesis using False by (intro exI [of _ "Suc k"]) (auto simp: ilog2.simps [of n])
  qed
qed

lemma ilog2_scale: "0 < n \<Longrightarrow> ilog2 (n * 2 ^ j) = ilog2 n + int j"
proof -
  assume "0 < n"
  then obtain k where k: "ilog2 n = int k" "2 ^ k \<le> n" "n < 2 ^ Suc k" using ilog2_bounds by blast
  have "ilog2 (n * 2 ^ j) = int (k + j)"
    by (rule ilog2_unique) (use k in \<open>simp_all add: power_add\<close>)
  with k show ?thesis by simp
qed

lemma qlog2_one: "0 < n \<Longrightarrow> qlog2 n 1 = ilog2 n"
proof -
  assume "0 < n"
  then obtain k where "ilog2 n = int k" "2 ^ k \<le> n" using ilog2_bounds by blast
  moreover have "ilog2 1 = 0" by (simp add: ilog2.simps)
  ultimately show ?thesis using \<open>0 < n\<close> by (simp add: qlog2_def shiftz_def Let_def)
qed

text \<open>
  A representable finite number survives rounding, also when it is written with a smaller exponent
  and a larger significand, as addition writes it.
\<close>

lemma fround_at:
  assumes m: "0 < m" and q: "max (ff_emin f) (ilog2 m + e - (int (ff_prec f) - 1)) = e"
  shows "fround f s (m * 2 ^ j) 1 (e - int j) =
    signed_bits f s (min ((e - ff_emin f) * 2 ^ (ff_prec f - 1) + m) (inf_bits f))"
proof -
  have "qlog2 (m * 2 ^ j) 1 = ilog2 m + int j" using m by (simp add: qlog2_one ilog2_scale)
  then have q': "max (ff_emin f) (qlog2 (m * 2 ^ j) 1 + (e - int j) - (int (ff_prec f) - 1)) = e"
    using q by simp
  have "shiftz (m * 2 ^ j) (- int j) = m * 2 ^ j" and "shiftz 1 (int j) = 2 ^ j"
    by (simp_all add: shiftz_def)
  then show ?thesis
    unfolding fround_def Let_def q' by simp
qed

lemma sign_cases:
  assumes "0 \<le> x" "x < 2 * w" "0 < (w :: int)"
  shows "x = (if odd (x div w) then w else 0) + x mod w"
proof (cases "x < w")
  case True
  with assms show ?thesis by simp
next
  case False
  with assms have "x div w = 1" by (intro int_div_pos_eq [of _ _ _ "x - w"]) auto
  then show ?thesis using div_mult_mod_eq [of x w] by simp
qed

lemma fdecode_emin: "fdecode f x = FFin s m e \<Longrightarrow> ff_emin f \<le> e"
proof -
  assume d: "fdecode f x = FFin s m e"
  define ex where "ex = x div 2 ^ (ff_prec f - 1) mod 2 ^ ff_ebits f"
  have "0 \<le> ex" by (simp add: ex_def)
  then show ?thesis
    using d unfolding fdecode_def Let_def ex_def [symmetric] by (auto split: if_splits)
qed

lemma fround_exact:
  assumes ok: "fformat_ok f" and dec: "fdecode f x = FFin s m e" and m: "0 < m"
    and x: "0 \<le> x" "x < 2 * sign_weight f"
  shows "fround f s (m * 2 ^ j) 1 (e - int j) = x"
proof -
  define w :: int where "w = 2 ^ (ff_prec f - 1)"
  define ex where "ex = (x div w) mod 2 ^ ff_ebits f"
  define fr where "fr = x mod w"
  have w: "0 < w" and sw: "sign_weight f = w * 2 ^ ff_ebits f"
    by (simp_all add: w_def sign_weight_def power_add)
  have fr: "0 \<le> fr" "fr < w" using w by (simp_all add: fr_def)
  have ex: "0 \<le> ex" "ex < 2 ^ ff_ebits f" by (simp_all add: ex_def)
  have "x mod sign_weight f = w * ex + fr"
    unfolding sw ex_def fr_def using w by (simp add: zmod_zmult2_eq)
  with sign_cases [OF x] w have xeq: "x = signed_bits f (odd (x div sign_weight f)) (w * ex + fr)"
    by (simp add: signed_bits_def sw)
  have d: "s = odd (x div sign_weight f)" "ex \<noteq> 2 ^ ff_ebits f - 1"
    "ex = 0 \<Longrightarrow> m = fr \<and> e = ff_emin f"
    "ex \<noteq> 0 \<Longrightarrow> m = fr + w \<and> e = ff_emin f + ex - 1"
    using dec by (auto simp: fdecode_def Let_def ex_def fr_def w_def split: if_splits)
  have inf: "inf_bits f = (2 ^ ff_ebits f - 1) * w" by (simp add: inf_bits_def w_def)
  have "ex + 1 \<le> 2 ^ ff_ebits f - 1" using ex d(2) by linarith
  then have "(ex + 1) * w \<le> inf_bits f" unfolding inf by (rule mult_right_mono) (use w in simp)
  then have le: "w * ex + fr \<le> inf_bits f" using fr by (simp add: algebra_simps)
  have p: "2 \<le> ff_prec f" using ok by (simp add: fformat_ok_def)
  have "max (ff_emin f) (ilog2 m + e - (int (ff_prec f) - 1)) = e \<and>
        (e - ff_emin f) * w + m = w * ex + fr"
  proof (cases "ex = 0")
    case True
    obtain k where k: "ilog2 m = int k" "2 ^ k \<le> m" using ilog2_bounds [OF m] by blast
    have "m < w" using d(3) [OF True] fr by simp
    with k(2) have "(2::int) ^ k < 2 ^ (ff_prec f - 1)" unfolding w_def by (rule le_less_trans)
    then have "k < ff_prec f - 1" by simp
    then have "ilog2 m - (int (ff_prec f) - 1) \<le> 0" using k(1) by simp
    then show ?thesis using d(3) [OF True] True by (simp add: max_def)
  next
    case False
    have "ilog2 m = int (ff_prec f - 1)"
      by (rule ilog2_unique) (use d(4) [OF False] fr in \<open>simp_all add: w_def\<close>)
    moreover have "ff_emin f \<le> e" by (rule fdecode_emin [OF dec])
    moreover have "e - ff_emin f = ex - 1" and "m = fr + w" using d(4) [OF False] by simp_all
    ultimately show ?thesis using p by (simp add: max_def right_diff_distrib mult.commute [of _ w])
  qed
  then show ?thesis
    using fround_at [OF m, of f e s j] le xeq d(1) by (simp add: w_def)
qed

lemma f64_bits: "0 \<le> uint (x :: f64)" "uint (x :: f64) < 2 * sign_weight binary64"
  using uint_lt2p [of x] by (simp_all add: sign_weight_def binary64_def)

text \<open>Adding positive zero to a finite non-zero number returns it bit for bit.\<close>

lemma f64_add_zero:
  assumes "f64_dec x = FFin s m e" and "0 < m"
  shows "f64_add x 0 = x"
proof -
  have "ff_emin binary64 \<le> e"
    using assms fdecode_emin by (auto simp: f64_dec_def)
  then obtain j where j: "e - ff_emin binary64 = int j" using zero_le_imp_eq_int by force
  have z: "f64_dec 0 = FFin False 0 (ff_emin binary64)"
    by (simp add: f64_dec_def fdecode_def binary64_def sign_weight_def)
  have "fround binary64 s (m * 2 ^ j) 1 (e - int j) = uint x"
    using fround_exact [OF fformat_ok_binary(2) _ assms(2) f64_bits] assms(1)
    by (simp add: f64_dec_def)
  then have "fadd_val binary64 (FFin s m e) (FFin False 0 (ff_emin binary64)) = uint x"
    using j assms(2) \<open>ff_emin binary64 \<le> e\<close>
    by (cases s) (auto simp: Let_def sval_def abs_mult algebra_simps mult_less_0_iff)
  then show ?thesis by (simp add: f64_add_def assms(1) z)
qed

subsection \<open>Evaluation\<close>

text \<open>
  The operations on literals, by the simplifier: the local definitions are evaluated one after the
  other, with the congruence rule \<^verbatim>\<open>let_weak_cong\<close>.
\<close>

lemma ilog2_numeral:
  "ilog2 1 = 0" "ilog2 (numeral (Num.Bit0 n)) = 1 + ilog2 (numeral n)" "ilog2 (numeral (Num.Bit1 n)) = 1 + ilog2 (numeral n)"
  by (simp_all add: ilog2.simps [of "numeral (Num.Bit0 n)"] ilog2.simps [of "numeral (Num.Bit1 n)"] ilog2.simps [of 1])

lemma isqrt_numeral:
  "isqrt 0 = 0" "isqrt 1 = 1"
  "isqrt (numeral n) = (let q = isqrt (numeral n div 4) in let r = 2 * q in if (r + 1) * (r + 1) \<le> numeral n then r + 1 else r)"
  by (simp_all add: isqrt.simps [of "numeral n"] isqrt.simps [of 1] isqrt.simps [of 0] Let_def)

lemma fround_binary64:
  "fround binary64 s n d e =
     (let q = max (-1074) (qlog2 n d + e - 52) in
      let num = shiftz n (e - q) in
      let den = shiftz d (q - e) in
      let t = num div den in
      let r = num mod den in
      let t' = (if den < 2 * r \<or> (den = 2 * r \<and> odd t) then t + 1 else t) in
      let b = (q + 1074) * 4503599627370496 + t' in
      (if s then 9223372036854775808 else 0) + min b 9218868437227405312)"
  by (simp add: fround_def binary64_def signed_bits_def sign_weight_def inf_bits_def Let_def)

lemma fdecode_binary64:
  "fdecode binary64 x =
     (let s = odd (x div 9223372036854775808) in
      let e = (x div 4503599627370496) mod 2048 in
      let fr = x mod 4503599627370496 in
      if e = 2047 then (if fr = 0 then FInf s else FNan)
      else if e = 0 then FFin s fr (-1074)
      else FFin s (fr + 4503599627370496) (e - 1075))"
  by (simp add: fdecode_def binary64_def sign_weight_def Let_def)

lemma signs_binary64:
  "sign_weight binary64 = 9223372036854775808"
  "signed_bits binary64 s x = (if s then 9223372036854775808 else 0) + x"
  by (simp_all add: signed_bits_def sign_weight_def binary64_def)

lemmas float_eval = f64_add_def f64_mul_def f64_div_def f64_sub_def f64_neg_def f64_dec_def f64_of_int_def
  f64_of_ratio_def f64_sqrt_def f64_cmp_def f64_lt_def f64_ceil_u32_def int_cmp_def fdecode_binary64 fround_binary64 qlog2_def
  shiftz_def sval_def fneg_def ilog2_numeral isqrt_numeral signs_binary64
  Let_def

end
