(* ===== verification/Hal_Value.thy ===== *)
theory Hal_Value
  imports Ieee_Float
begin

text \<open>
  The unified HAL value of \<^verbatim>\<open>audesys-hal-core\<close>: the pin type discriminator and the error type of
  \<^verbatim>\<open>types.rs\<close>, the value enum of \<^verbatim>\<open>value.rs\<close> with its array element access and the operator
  implementations the register machine calls. Operators that may panic return an \<open>outcome\<close>.
\<close>

subsection \<open>Types\<close>

datatype hal_pin_type =
    TBool | TS8 | TU8 | TS16 | TU16 | TS32 | TU32 | TS64 | TU64 | TF32 | TF64 | TBlob | TString

record timestamp =
  ts_secs :: u64
  ts_micros :: u32

datatype hal_error =
    NotFound string
  | AlreadyExists string
  | TransportClosed
  | Timeout string u64
  | Rejected u16 string
  | Execution string string
  | TypeMismatch hal_pin_type hal_pin_type
  | InvalidUtf8
  | InvalidBlobLength u32 u32
  | UnknownHalType u8
  | MaxNestingExceeded u32
  | Internal string

type_synonym 'a hal_result = "hal_error + 'a"

datatype hal_value =
    VBool bool
  | VS8 i8 | VU8 u8 | VS16 i16 | VU16 u16 | VS32 i32 | VU32 u32 | VS64 i64 | VU64 u64
  | VF32 f32 | VF64 f64
  | VBlob "byte list"
  | VString string
  | VArray hal_pin_type "byte list"

fun pin_type :: "hal_value \<Rightarrow> hal_pin_type" where
  "pin_type (VBool _) = TBool"
| "pin_type (VS8 _) = TS8"
| "pin_type (VU8 _) = TU8"
| "pin_type (VS16 _) = TS16"
| "pin_type (VU16 _) = TU16"
| "pin_type (VS32 _) = TS32"
| "pin_type (VU32 _) = TU32"
| "pin_type (VS64 _) = TS64"
| "pin_type (VU64 _) = TU64"
| "pin_type (VF32 _) = TF32"
| "pin_type (VF64 _) = TF64"
| "pin_type (VBlob _) = TBlob"
| "pin_type (VString _) = TString"
| "pin_type (VArray t _) = t"

subsection \<open>Array elements\<close>

fun to_bytes :: "hal_value \<Rightarrow> byte list" where
  "to_bytes (VBool b) = [if b then 1 else 0]"
| "to_bytes (VS8 n) = word_le n"
| "to_bytes (VU8 n) = word_le n"
| "to_bytes (VS16 n) = word_le n"
| "to_bytes (VU16 n) = word_le n"
| "to_bytes (VS32 n) = word_le n"
| "to_bytes (VU32 n) = word_le n"
| "to_bytes (VS64 n) = word_le n"
| "to_bytes (VU64 n) = word_le n"
| "to_bytes (VF32 n) = word_le n"
| "to_bytes (VF64 n) = word_le n"
| "to_bytes (VBlob b) = word_le (word_of_nat (length b) :: u32) @ b"
| "to_bytes (VString s) = string_bytes s"
| "to_bytes (VArray t d) = d"

fun byte_size :: "hal_pin_type \<Rightarrow> nat" where
  "byte_size TBool = 1"
| "byte_size TS8 = 1"
| "byte_size TU8 = 1"
| "byte_size TS16 = 2"
| "byte_size TU16 = 2"
| "byte_size TS32 = 4"
| "byte_size TU32 = 4"
| "byte_size TF32 = 4"
| "byte_size TS64 = 8"
| "byte_size TU64 = 8"
| "byte_size TF64 = 8"
| "byte_size TBlob = 8"
| "byte_size TString = 8"

fun zero :: "hal_pin_type \<Rightarrow> hal_value" where
  "zero TBool = VBool False"
| "zero TS8 = VS8 0"
| "zero TU8 = VU8 0"
| "zero TS16 = VS16 0"
| "zero TU16 = VU16 0"
| "zero TS32 = VS32 0"
| "zero TU32 = VU32 0"
| "zero TS64 = VS64 0"
| "zero TU64 = VU64 0"
| "zero TF32 = VF32 0"
| "zero TF64 = VF64 0"
| "zero TBlob = VBlob []"
| "zero TString = VString []"

text \<open>\<open>take_le n bs\<close> reads \<^verbatim>\<open>[bytes[0], ..., bytes[n-1]]\<close>, panicking when the slice is shorter.\<close>

definition take_le :: "nat \<Rightarrow> byte list \<Rightarrow> 'a::len word outcome" where
  "take_le n bs = (if n \<le> length bs then Ok (le_word (take n bs)) else Panic IndexOutOfBounds)"

fun from_bytes :: "hal_pin_type \<Rightarrow> byte list \<Rightarrow> hal_value outcome" where
  "from_bytes TBool bs = mapo (\<lambda>w :: u8. VBool (w \<noteq> 0)) (take_le 1 bs)"
| "from_bytes TS8 bs = mapo VS8 (take_le 1 bs)"
| "from_bytes TU8 bs = mapo VU8 (take_le 1 bs)"
| "from_bytes TS16 bs = mapo VS16 (take_le 2 bs)"
| "from_bytes TU16 bs = mapo VU16 (take_le 2 bs)"
| "from_bytes TS32 bs = mapo VS32 (take_le 4 bs)"
| "from_bytes TU32 bs = mapo VU32 (take_le 4 bs)"
| "from_bytes TS64 bs = mapo VS64 (take_le 8 bs)"
| "from_bytes TU64 bs = mapo VU64 (take_le 8 bs)"
| "from_bytes TF32 bs = mapo VF32 (take_le 4 bs)"
| "from_bytes TF64 bs = mapo VF64 (take_le 8 bs)"
| "from_bytes TBlob bs = Ok (VS32 0)"
| "from_bytes TString bs = Ok (VS32 0)"

text \<open>
  The byte range of element \<open>idx\<close>: \<^verbatim>\<open>offset = idx * elem_size\<close> and \<^verbatim>\<open>offset + elem_size\<close> in
  \<^verbatim>\<open>usize\<close>, which is 64 bits wide.
\<close>

definition elem_range :: "profile \<Rightarrow> hal_pin_type \<Rightarrow> u64 \<Rightarrow> (nat \<times> nat) outcome" where
  "elem_range p t idx =
     bindo (ures p (uint idx * int (byte_size t))) (\<lambda>offset :: u64.
     bindo (ures p (uint offset + int (byte_size t))) (\<lambda>stop :: u64.
     Ok (unat offset, unat stop)))"

fun index :: "profile \<Rightarrow> hal_value \<Rightarrow> u64 \<Rightarrow> hal_value outcome" where
  "index p (VArray t d) idx =
     bindo (elem_range p t idx) (\<lambda>(offset, stop).
       if length d < stop then Ok (zero t)
       else bindo (slice d offset stop) (from_bytes t))"
| "index p v idx = Ok (zero (pin_type v))"

fun set_index :: "profile \<Rightarrow> hal_value \<Rightarrow> u64 \<Rightarrow> hal_value \<Rightarrow> hal_value outcome" where
  "set_index p (VArray t d) idx v =
     bindo (elem_range p t idx) (\<lambda>(offset, stop).
       if length d < stop then Ok (VArray t d)
       else bindo (slice d offset stop) (\<lambda>_.
            bindo (slice (to_bytes v) 0 (byte_size t)) (\<lambda>bs.
            Ok (VArray t (splice d offset bs)))))"
| "set_index p u idx v = Ok u"

subsection \<open>Operators\<close>

datatype arith_op = OpAdd | OpSub | OpMul | OpDiv | OpRem

fun s_arith :: "profile \<Rightarrow> arith_op \<Rightarrow> 'a::len word \<Rightarrow> 'a word \<Rightarrow> 'a word outcome" where
  "s_arith p OpAdd a b = sres p (sint a + sint b)"
| "s_arith p OpSub a b = sres p (sint a - sint b)"
| "s_arith p OpMul a b = sres p (sint a * sint b)"
| "s_arith p OpDiv a b = sdivide tdiv a b"
| "s_arith p OpRem a b = sdivide trem a b"

fun u_arith :: "profile \<Rightarrow> arith_op \<Rightarrow> 'a::len word \<Rightarrow> 'a word \<Rightarrow> 'a word outcome" where
  "u_arith p OpAdd a b = ures p (uint a + uint b)"
| "u_arith p OpSub a b = ures p (uint a - uint b)"
| "u_arith p OpMul a b = ures p (uint a * uint b)"
| "u_arith p OpDiv a b = udivide (div) a b"
| "u_arith p OpRem a b = udivide (mod) a b"

fun f32_arith :: "arith_op \<Rightarrow> f32 \<Rightarrow> f32 \<Rightarrow> f32" where
  "f32_arith OpAdd a b = f32_add a b"
| "f32_arith OpSub a b = f32_sub a b"
| "f32_arith OpMul a b = f32_mul a b"
| "f32_arith OpDiv a b = f32_div a b"
| "f32_arith OpRem a b = f32_rem a b"

fun f64_arith :: "arith_op \<Rightarrow> f64 \<Rightarrow> f64 \<Rightarrow> f64" where
  "f64_arith OpAdd a b = f64_add a b"
| "f64_arith OpSub a b = f64_sub a b"
| "f64_arith OpMul a b = f64_mul a b"
| "f64_arith OpDiv a b = f64_div a b"
| "f64_arith OpRem a b = f64_rem a b"

text \<open>The macro \<^verbatim>\<open>hal_binop!\<close> at its five operators; mismatched types and containers give \<^verbatim>\<open>S32(0)\<close>.\<close>

definition hal_binop :: "profile \<Rightarrow> arith_op \<Rightarrow> hal_value \<Rightarrow> hal_value \<Rightarrow> hal_value outcome" where
  "hal_binop p op x y =
     (case x of
        VS8 a \<Rightarrow> (case y of VS8 b \<Rightarrow> mapo VS8 (s_arith p op a b) | _ \<Rightarrow> Ok (VS32 0))
      | VU8 a \<Rightarrow> (case y of VU8 b \<Rightarrow> mapo VU8 (u_arith p op a b) | _ \<Rightarrow> Ok (VS32 0))
      | VS16 a \<Rightarrow> (case y of VS16 b \<Rightarrow> mapo VS16 (s_arith p op a b) | _ \<Rightarrow> Ok (VS32 0))
      | VU16 a \<Rightarrow> (case y of VU16 b \<Rightarrow> mapo VU16 (u_arith p op a b) | _ \<Rightarrow> Ok (VS32 0))
      | VS32 a \<Rightarrow> (case y of VS32 b \<Rightarrow> mapo VS32 (s_arith p op a b) | _ \<Rightarrow> Ok (VS32 0))
      | VU32 a \<Rightarrow> (case y of VU32 b \<Rightarrow> mapo VU32 (u_arith p op a b) | _ \<Rightarrow> Ok (VS32 0))
      | VS64 a \<Rightarrow> (case y of VS64 b \<Rightarrow> mapo VS64 (s_arith p op a b) | _ \<Rightarrow> Ok (VS32 0))
      | VU64 a \<Rightarrow> (case y of VU64 b \<Rightarrow> mapo VU64 (u_arith p op a b) | _ \<Rightarrow> Ok (VS32 0))
      | VF32 a \<Rightarrow> (case y of VF32 b \<Rightarrow> Ok (VF32 (f32_arith op a b)) | _ \<Rightarrow> Ok (VS32 0))
      | VF64 a \<Rightarrow> (case y of VF64 b \<Rightarrow> Ok (VF64 (f64_arith op a b)) | _ \<Rightarrow> Ok (VS32 0))
      | _ \<Rightarrow> Ok (VS32 0))"

datatype bit_op = OpAnd | OpOr | OpXor

fun bool_bitop :: "bit_op \<Rightarrow> bool \<Rightarrow> bool \<Rightarrow> bool" where
  "bool_bitop OpAnd a b = (a \<and> b)"
| "bool_bitop OpOr a b = (a \<or> b)"
| "bool_bitop OpXor a b = (a \<noteq> b)"

fun word_bitop :: "bit_op \<Rightarrow> 'a::len word \<Rightarrow> 'a word \<Rightarrow> 'a word" where
  "word_bitop OpAnd a b = a AND b"
| "word_bitop OpOr a b = a OR b"
| "word_bitop OpXor a b = a XOR b"

definition hal_bitop :: "bit_op \<Rightarrow> hal_value \<Rightarrow> hal_value \<Rightarrow> hal_value" where
  "hal_bitop op x y =
     (case x of
        VBool a \<Rightarrow> (case y of VBool b \<Rightarrow> VBool (bool_bitop op a b) | _ \<Rightarrow> VS32 0)
      | VS8 a \<Rightarrow> (case y of VS8 b \<Rightarrow> VS8 (word_bitop op a b) | _ \<Rightarrow> VS32 0)
      | VU8 a \<Rightarrow> (case y of VU8 b \<Rightarrow> VU8 (word_bitop op a b) | _ \<Rightarrow> VS32 0)
      | VS16 a \<Rightarrow> (case y of VS16 b \<Rightarrow> VS16 (word_bitop op a b) | _ \<Rightarrow> VS32 0)
      | VU16 a \<Rightarrow> (case y of VU16 b \<Rightarrow> VU16 (word_bitop op a b) | _ \<Rightarrow> VS32 0)
      | VS32 a \<Rightarrow> (case y of VS32 b \<Rightarrow> VS32 (word_bitop op a b) | _ \<Rightarrow> VS32 0)
      | VU32 a \<Rightarrow> (case y of VU32 b \<Rightarrow> VU32 (word_bitop op a b) | _ \<Rightarrow> VS32 0)
      | VS64 a \<Rightarrow> (case y of VS64 b \<Rightarrow> VS64 (word_bitop op a b) | _ \<Rightarrow> VS32 0)
      | VU64 a \<Rightarrow> (case y of VU64 b \<Rightarrow> VU64 (word_bitop op a b) | _ \<Rightarrow> VS32 0)
      | _ \<Rightarrow> VS32 0)"

fun hal_neg :: "profile \<Rightarrow> hal_value \<Rightarrow> hal_value outcome" where
  "hal_neg p (VS8 v) = mapo VS8 (sres p (- sint v))"
| "hal_neg p (VS16 v) = mapo VS16 (sres p (- sint v))"
| "hal_neg p (VS32 v) = mapo VS32 (sres p (- sint v))"
| "hal_neg p (VS64 v) = mapo VS64 (sres p (- sint v))"
| "hal_neg p (VF32 v) = Ok (VF32 (f32_neg v))"
| "hal_neg p (VF64 v) = Ok (VF64 (f64_neg v))"
| "hal_neg p _ = Ok (VS32 0)"

fun hal_not :: "hal_value \<Rightarrow> hal_value" where
  "hal_not (VBool v) = VBool (\<not> v)"
| "hal_not (VS8 v) = VS8 (NOT v)"
| "hal_not (VU8 v) = VU8 (NOT v)"
| "hal_not (VS16 v) = VS16 (NOT v)"
| "hal_not (VU16 v) = VU16 (NOT v)"
| "hal_not (VS32 v) = VS32 (NOT v)"
| "hal_not (VU32 v) = VU32 (NOT v)"
| "hal_not (VS64 v) = VS64 (NOT v)"
| "hal_not (VU64 v) = VU64 (NOT v)"
| "hal_not _ = VS32 0"

text \<open>The derived \<^verbatim>\<open>PartialEq\<close> (floating point payloads compare as numbers) and \<^verbatim>\<open>PartialOrd\<close>.\<close>

definition hal_eq :: "hal_value \<Rightarrow> hal_value \<Rightarrow> bool" where
  "hal_eq x y =
     (case x of
        VF32 a \<Rightarrow> (case y of VF32 b \<Rightarrow> f32_cmp a b = Some Equal | _ \<Rightarrow> False)
      | VF64 a \<Rightarrow> (case y of VF64 b \<Rightarrow> f64_cmp a b = Some Equal | _ \<Rightarrow> False)
      | _ \<Rightarrow> x = y)"

definition hal_cmp :: "hal_value \<Rightarrow> hal_value \<Rightarrow> ordering option" where
  "hal_cmp x y =
     (case x of
        VS8 a \<Rightarrow> (case y of VS8 b \<Rightarrow> Some (int_cmp (sint a) (sint b)) | _ \<Rightarrow> None)
      | VU8 a \<Rightarrow> (case y of VU8 b \<Rightarrow> Some (int_cmp (uint a) (uint b)) | _ \<Rightarrow> None)
      | VS16 a \<Rightarrow> (case y of VS16 b \<Rightarrow> Some (int_cmp (sint a) (sint b)) | _ \<Rightarrow> None)
      | VU16 a \<Rightarrow> (case y of VU16 b \<Rightarrow> Some (int_cmp (uint a) (uint b)) | _ \<Rightarrow> None)
      | VS32 a \<Rightarrow> (case y of VS32 b \<Rightarrow> Some (int_cmp (sint a) (sint b)) | _ \<Rightarrow> None)
      | VU32 a \<Rightarrow> (case y of VU32 b \<Rightarrow> Some (int_cmp (uint a) (uint b)) | _ \<Rightarrow> None)
      | VS64 a \<Rightarrow> (case y of VS64 b \<Rightarrow> Some (int_cmp (sint a) (sint b)) | _ \<Rightarrow> None)
      | VU64 a \<Rightarrow> (case y of VU64 b \<Rightarrow> Some (int_cmp (uint a) (uint b)) | _ \<Rightarrow> None)
      | VF32 a \<Rightarrow> (case y of VF32 b \<Rightarrow> f32_cmp a b | _ \<Rightarrow> None)
      | VF64 a \<Rightarrow> (case y of VF64 b \<Rightarrow> f64_cmp a b | _ \<Rightarrow> None)
      | _ \<Rightarrow> None)"

subsection \<open>Laws of the array access\<close>

fun is_scalar :: "hal_value \<Rightarrow> bool" where
  "is_scalar (VBlob _) = False"
| "is_scalar (VString _) = False"
| "is_scalar (VArray _ _) = False"
| "is_scalar _ = True"

lemma byte_size_pos [simp]: "0 < byte_size t"
  by (cases t) simp_all

lemma length_to_bytes [simp]: "is_scalar v \<Longrightarrow> length (to_bytes v) = byte_size (pin_type v)"
  by (cases v) (simp_all add: byte_size.simps)

lemma take_le_word [simp]:
  "LENGTH('a::len) = 8 * n \<Longrightarrow> take_le n (word_le (w :: 'a word)) = Ok w"
  by (simp add: take_le_def le_word_word_le)

lemma from_bytes_to_bytes: "is_scalar v \<Longrightarrow> from_bytes (pin_type v) (to_bytes v) = Ok v"
proof (cases v)
  case (VBool b)
  then show ?thesis by (cases b) (simp_all add: take_le_def le_word_def)
qed simp_all

lemma elem_range_in_bounds:
  assumes "(unat idx + 1) * byte_size t < 2 ^ 64"
  shows "elem_range p t idx = Ok (unat idx * byte_size t, unat idx * byte_size t + byte_size t)"
proof -
  define n where "n = unat idx * byte_size t"
  define m where "m = n + byte_size t"
  have m: "m < 2 ^ 64" and n: "n < 2 ^ 64" using assms by (simp_all add: m_def n_def)
  have un: "uint (word_of_nat n :: u64) = int n" "unat (word_of_nat n :: u64) = n"
    and um: "unat (word_of_nat m :: u64) = m"
    using m n by (simp_all add: unsigned_of_nat take_bit_nat_eq_self)
  have 1: "uint idx * int (byte_size t) = int n" by (simp add: n_def)
  have 2: "uint (word_of_nat n :: u64) + int (byte_size t) = int m" unfolding un by (simp add: m_def)
  have "elem_range p t idx = Ok (n, m)"
    unfolding elem_range_def 1 using m n un um 2 by (simp add: ures_of_nat)
  then show ?thesis by (simp add: n_def m_def)
qed

lemma elem_slots_apart:
  fixes i j :: nat
  assumes "i \<noteq> j"
  shows "i * s + s \<le> j * s \<or> j * s + s \<le> i * s"
proof (cases "i < j")
  case True
  then have "(i + 1) * s \<le> j * s" by (intro mult_le_mono1) simp
  then show ?thesis by simp
next
  case False
  then have "(j + 1) * s \<le> i * s" using assms by (intro mult_le_mono1) simp
  then show ?thesis by simp
qed

lemma set_index_in_bounds:
  assumes "is_scalar v" and "(unat idx + 1) * byte_size (pin_type v) \<le> length d"
    and "length d < 2 ^ 64"
  shows "set_index p (VArray (pin_type v) d) idx v
    = Ok (VArray (pin_type v) (splice d (unat idx * byte_size (pin_type v)) (to_bytes v)))"
proof -
  let ?t = "pin_type v"
  have "elem_range p ?t idx = Ok (unat idx * byte_size ?t, unat idx * byte_size ?t + byte_size ?t)"
    using assms by (intro elem_range_in_bounds) linarith
  moreover have "unat idx * byte_size ?t + byte_size ?t \<le> length d" using assms(2) by simp
  ultimately show ?thesis using assms(1) by (simp add: slice_def)
qed

text \<open>
  Writing a scalar into an element of an array of its type keeps the length of the array,
  reading the element back gives the scalar, and every other element reads as before.
\<close>

theorem array_write_read:
  assumes "is_scalar v" and "pin_type v = t"
    and "(unat idx + 1) * byte_size t \<le> length d" and "length d < 2 ^ 64"
    and "j \<noteq> idx" and "(unat j + 1) * byte_size t < 2 ^ 64"
  shows "\<exists>d'. set_index p (VArray t d) idx v = Ok (VArray t d')
    \<and> length d' = length d
    \<and> index p (VArray t d') idx = Ok v
    \<and> index p (VArray t d') j = index p (VArray t d) j"
proof -
  let ?s = "byte_size t"
  let ?d = "splice d (unat idx * ?s) (to_bytes v)"
  have len: "length (to_bytes v) = ?s" using assms(1,2) by simp
  have fit: "unat idx * ?s + length (to_bytes v) \<le> length d" using assms(3) len by simp
  have same: "slice ?d (unat idx * ?s) (unat idx * ?s + ?s) = Ok (to_bytes v)"
    using slice_splice_same [OF fit] len by simp
  have "unat idx \<noteq> unat j" using assms(5) by (simp add: word_unat_eq_iff)
  then have other: "slice ?d (unat j * ?s) (unat j * ?s + ?s)
      = slice d (unat j * ?s) (unat j * ?s + ?s)"
    using elem_slots_apart [of "unat j" "unat idx" ?s] len
    by (intro slice_splice_other [OF fit]) auto
  have "set_index p (VArray t d) idx v = Ok (VArray t ?d)"
    using set_index_in_bounds [of v idx d p] assms by simp
  moreover have "length ?d = length d" using fit by (rule length_splice)
  moreover have "index p (VArray t ?d) idx = Ok v"
    using same fit len assms from_bytes_to_bytes [OF assms(1)]
    by (simp add: elem_range_in_bounds length_splice)
  moreover have "index p (VArray t ?d) j = index p (VArray t d) j"
    using other assms(6) fit by (simp add: elem_range_in_bounds length_splice)
  ultimately show ?thesis by blast
qed

theorem array_write_read_witness:
  "is_scalar (VU16 4660)
   \<and> set_index DevBuild (VArray TU16 [1, 0, 2, 0]) 1 (VU16 4660) = Ok (VArray TU16 [1, 0, 52, 18])
   \<and> (\<exists>d'. set_index DevBuild (VArray TU16 [1, 0, 2, 0]) 1 (VU16 4660) = Ok (VArray TU16 d')
      \<and> length d' = length [1, 0, 2, 0 :: byte]
      \<and> index DevBuild (VArray TU16 d') 1 = Ok (VU16 4660)
      \<and> index DevBuild (VArray TU16 d') 0 = index DevBuild (VArray TU16 [1, 0, 2, 0]) 0)"
proof (intro conjI)
  show "set_index DevBuild (VArray TU16 [1, 0, 2, 0]) 1 (VU16 4660) = Ok (VArray TU16 [1, 0, 52, 18])"
    by code_simp
qed (use array_write_read [of "VU16 4660" TU16 1 "[1, 0, 2, 0]" 0 DevBuild] in simp_all)

text \<open>
  An index outside the array never reaches the buffer: reading gives the zero of the element
  type and writing leaves the array unchanged, as long as the byte offset fits in a machine word.
\<close>

theorem array_out_of_range:
  assumes "length d < (unat idx + 1) * byte_size t" and "(unat idx + 1) * byte_size t < 2 ^ 64"
  shows "index p (VArray t d) idx = Ok (zero t)
    \<and> set_index p (VArray t d) idx v = Ok (VArray t d)"
  using assms by (simp add: elem_range_in_bounds)

theorem array_out_of_range_witness:
  "index DevBuild (VArray TU32 [1, 2, 3, 4]) 1 = Ok (zero TU32)
   \<and> set_index DevBuild (VArray TU32 [1, 2, 3, 4]) 1 (VU32 7) = Ok (VArray TU32 [1, 2, 3, 4])"
  using array_out_of_range [of "[1, 2, 3, 4]" 1 TU32 DevBuild "VU32 7"] by simp

text \<open>
  The element access is not free of panics. Index \<^verbatim>\<open>usize::MAX\<close>, which is what the register
  machine passes for the index register \<^verbatim>\<open>S32(-1)\<close>, panics in both build profiles.
\<close>

theorem array_index_max_panics:
  "index DevBuild (VArray TS32 d) (- 1) = Panic ArithmeticOverflow
   \<and> index ReleaseBuild (VArray TS32 d) (- 1) = Panic IndexOutOfBounds"
  by (simp add: elem_range_def ures_def Let_def slice_def)

subsection \<open>Laws of the operators\<close>

text \<open>The types for which the arithmetic operators compute.\<close>

fun is_numeric :: "hal_pin_type \<Rightarrow> bool" where
  "is_numeric TBool = False"
| "is_numeric TBlob = False"
| "is_numeric TString = False"
| "is_numeric _ = True"

fun is_array :: "hal_value \<Rightarrow> bool" where
  "is_array (VArray _ _) = True"
| "is_array _ = False"

lemma hal_binop_type:
  "is_numeric (pin_type x) \<Longrightarrow> pin_type y = pin_type x \<Longrightarrow> \<not> is_array x \<Longrightarrow> \<not> is_array y
   \<Longrightarrow> hal_binop p op x y = Ok z \<Longrightarrow> pin_type z = pin_type x"
  by (cases x; cases y) (auto simp: hal_binop_def outcome_simps)

lemma hal_binop_mismatch:
  "pin_type x \<noteq> pin_type y \<or> \<not> is_numeric (pin_type x) \<or> is_array x \<or> is_array y
   \<Longrightarrow> hal_binop p op x y = Ok (VS32 0)"
  by (cases x; cases y) (auto simp: hal_binop_def)

end
