(* ===== verification/Hal_Ir.thy ===== *)
theory Hal_Ir
  imports Hal_Value
begin

text \<open>
  The data of \<^verbatim>\<open>audesys-hal-ir\<close>: operands and bindings (\<^verbatim>\<open>types.rs\<close>), instructions and their
  convenience constructors (\<^verbatim>\<open>instruction.rs\<close>), programs (\<^verbatim>\<open>program.rs\<close>) and the register machine
  with its timers, counters, flip-flops and edge detectors (\<^verbatim>\<open>vm.rs\<close>). An instruction pointer is
  a natural number: the executor asserts that it is below the length of the program before it
  advances it, so \<^verbatim>\<open>usize\<close> arithmetic on it never wraps.
\<close>

subsection \<open>Bindings and operands\<close>

datatype direction = Read | Write | ReadWrite

record signal_binding =
  hal_signal_name :: string
  program_var :: string
  sb_direction :: direction
  hal_pin_type :: hal_pin_type

record channel_binding =
  channel_name :: string
  cb_direction :: direction

datatype operand = Register u8 | Immediate hal_value | SignalName string

subsection \<open>Instructions\<close>

datatype opcode =
    Nop | Load | Store
  | Add | Sub | Mul | Div | Mod | Neg
  | Eq | Neq | Gt | Lt | Gte | Lte
  | And | Or | Xor | NotOp
  | Jump | JumpIf | Call | Ret
  | LoadIndex | StoreIndex
  | TimerRun | ReadTimer
  | CounterRun | ReadCounter
  | SrRun | ReadSr
  | EdgeRun | ReadEdge
  | Halt

record instruction =
  opcode :: opcode
  operands :: "operand list"

definition inst :: "opcode \<Rightarrow> operand list \<Rightarrow> instruction" where
  "inst oc ops = \<lparr>opcode = oc, operands = ops\<rparr>"

lemma inst_sel [simp]: "opcode (inst oc ops) = oc" "operands (inst oc ops) = ops"
  by (simp_all add: inst_def)

abbreviation imm_u32 :: "u32 \<Rightarrow> operand" where
  "imm_u32 n \<equiv> Immediate (VU32 n)"

abbreviation u8_as_u32 :: "u8 \<Rightarrow> u32" where
  "u8_as_u32 n \<equiv> ucast n"

definition nop :: instruction where
  "nop = inst Nop []"

definition halt :: instruction where
  "halt = inst Halt []"

definition load_imm :: "u8 \<Rightarrow> hal_value \<Rightarrow> instruction" where
  "load_imm reg val = inst Load [Register reg, Immediate val]"

definition arith :: "opcode \<Rightarrow> u8 \<Rightarrow> u8 \<Rightarrow> u8 \<Rightarrow> instruction" where
  "arith oc a b out = inst oc [Register a, Register b, Register out]"

definition cmp :: "opcode \<Rightarrow> u8 \<Rightarrow> u8 \<Rightarrow> instruction" where
  "cmp oc a b = inst oc [Register a, Register b]"

definition jump :: "u32 \<Rightarrow> instruction" where
  "jump target = inst Jump [imm_u32 target]"

definition jump_if :: "u32 \<Rightarrow> instruction" where
  "jump_if target = inst JumpIf [imm_u32 target]"

definition call :: "u32 \<Rightarrow> instruction" where
  "call target = inst Call [imm_u32 target]"

definition ret :: "u8 option \<Rightarrow> instruction" where
  "ret result_reg = inst Ret (case result_reg of None \<Rightarrow> [] | Some r \<Rightarrow> [Register r])"

definition load_index :: "u8 \<Rightarrow> u8 \<Rightarrow> u8 \<Rightarrow> instruction" where
  "load_index dest array idx = inst LoadIndex [Register dest, Register array, Register idx]"

definition store_index :: "u8 \<Rightarrow> u8 \<Rightarrow> u8 \<Rightarrow> instruction" where
  "store_index array idx val = inst StoreIndex [Register array, Register idx, Register val]"

definition timer_run :: "u8 \<Rightarrow> u8 \<Rightarrow> u32 \<Rightarrow> u8 \<Rightarrow> instruction" where
  "timer_run timer_idx in_reg pt_ms kind =
     inst TimerRun [imm_u32 (u8_as_u32 timer_idx), Register in_reg, imm_u32 pt_ms,
       imm_u32 (u8_as_u32 kind)]"

definition read_timer :: "u8 \<Rightarrow> u8 \<Rightarrow> u8 \<Rightarrow> instruction" where
  "read_timer timer_idx q_dest et_dest =
     inst ReadTimer [imm_u32 (u8_as_u32 timer_idx), Register q_dest, Register et_dest]"

definition counter_run :: "u8 \<Rightarrow> u8 \<Rightarrow> u8 \<Rightarrow> u32 \<Rightarrow> u8 \<Rightarrow> instruction" where
  "counter_run counter_idx cu_reg cd_reg pv kind =
     inst CounterRun [imm_u32 (u8_as_u32 counter_idx), Register cu_reg, Register cd_reg,
       imm_u32 pv, imm_u32 (u8_as_u32 kind)]"

definition read_counter :: "u8 \<Rightarrow> u8 \<Rightarrow> u8 \<Rightarrow> instruction" where
  "read_counter counter_idx q_dest cv_dest =
     inst ReadCounter [imm_u32 (u8_as_u32 counter_idx), Register q_dest, Register cv_dest]"

definition sr_run :: "u8 \<Rightarrow> u8 \<Rightarrow> u8 \<Rightarrow> u8 \<Rightarrow> instruction" where
  "sr_run idx s1_reg r_reg kind =
     inst SrRun [imm_u32 (u8_as_u32 idx), Register s1_reg, Register r_reg,
       imm_u32 (u8_as_u32 kind)]"

definition read_sr :: "u8 \<Rightarrow> u8 \<Rightarrow> u8 \<Rightarrow> instruction" where
  "read_sr idx q1_dest q2_dest =
     inst ReadSr [imm_u32 (u8_as_u32 idx), Register q1_dest, Register q2_dest]"

definition edge_run :: "u8 \<Rightarrow> u8 \<Rightarrow> u8 \<Rightarrow> instruction" where
  "edge_run idx clk_reg kind =
     inst EdgeRun [imm_u32 (u8_as_u32 idx), Register clk_reg, imm_u32 (u8_as_u32 kind)]"

definition read_edge :: "u8 \<Rightarrow> u8 \<Rightarrow> instruction" where
  "read_edge idx q_dest = inst ReadEdge [imm_u32 (u8_as_u32 idx), Register q_dest]"

subsection \<open>Programs\<close>

record function_entry =
  fn_name :: string
  entry_point :: u32
  reg_count :: u8

record hal_program =
  prog_name :: string
  prog_signals :: "signal_binding list"
  prog_channels :: "channel_binding list"
  instructions :: "instruction list"
  function_table :: "function_entry list"

definition hal_program_new :: "string \<Rightarrow> instruction list \<Rightarrow> hal_program" where
  "hal_program_new nm is = \<lparr>prog_name = nm, prog_signals = [], prog_channels = [],
     instructions = is, function_table = []\<rparr>"

definition instruction_count :: "hal_program \<Rightarrow> nat" where
  "instruction_count pr = length (instructions pr)"

definition is_well_formed :: "hal_program \<Rightarrow> bool" where
  "is_well_formed pr = list_ex (\<lambda>i. opcode i = Halt) (instructions pr)"

definition add_function :: "hal_program \<Rightarrow> function_entry \<Rightarrow> hal_program" where
  "add_function pr e = pr\<lparr>function_table := function_table pr @ [e]\<rparr>"

subsection \<open>The register machine\<close>

datatype timer_kind = Ton | Tof | Tp

record timer_state =
  t_kind :: timer_kind
  in_val :: bool
  elapsed_ms :: u64
  t_q :: bool
  preset_ms :: u64

datatype counter_kind = Ctu | Ctd | Ctud

record counter_state =
  c_kind :: counter_kind
  cu_val :: bool
  cd_val :: bool
  cv :: u32
  pv :: u32
  c_q :: bool
  qu :: bool
  qd :: bool

datatype sr_kind = Sr | Rs

record sr_state =
  sr_kind :: sr_kind
  s1 :: bool
  sr_r :: bool
  q1 :: bool
  q2 :: bool

record edge_state =
  e_kind :: u8
  last_clk :: bool
  e_q :: bool

definition REGISTER_COUNT :: nat where
  "REGISTER_COUNT = 16"

record vm =
  registers :: "hal_value list"
  flags_zero :: bool
  ip :: nat
  signals :: "(string, hal_value) hmap"
  call_stack :: "nat list"
  timers :: "timer_state list"
  counters :: "counter_state list"
  srs :: "sr_state list"
  edges :: "edge_state list"
  cycle_time_ms :: u64

definition vm_new :: vm where
  "vm_new = \<lparr>registers = replicate REGISTER_COUNT (VS32 0), flags_zero = False, ip = 0,
     signals = [], call_stack = [], timers = [], counters = [], srs = [], edges = [],
     cycle_time_ms = 0\<rparr>"

definition read_register :: "vm \<Rightarrow> u8 \<Rightarrow> hal_value outcome" where
  "read_register m idx =
     (if unat idx < REGISTER_COUNT then Ok (registers m ! unat idx) else Panic AssertionFailed)"

definition write_register :: "vm \<Rightarrow> u8 \<Rightarrow> hal_value \<Rightarrow> vm outcome" where
  "write_register m idx v =
     (if unat idx < REGISTER_COUNT then Ok (m\<lparr>registers := (registers m)[unat idx := v]\<rparr>)
      else Panic AssertionFailed)"

definition set_flags_zero :: "vm \<Rightarrow> bool \<Rightarrow> vm" where
  "set_flags_zero m b = m\<lparr>flags_zero := b\<rparr>"

definition set_ip :: "vm \<Rightarrow> nat \<Rightarrow> vm" where
  "set_ip m n = m\<lparr>ip := n\<rparr>"

definition advance_ip :: "vm \<Rightarrow> vm" where
  "advance_ip m = m\<lparr>ip := ip m + 1\<rparr>"

definition reset_ip :: "vm \<Rightarrow> vm" where
  "reset_ip m = m\<lparr>ip := 0\<rparr>"

definition vm_reset :: "vm \<Rightarrow> vm" where
  "vm_reset m = m\<lparr>registers := map (\<lambda>_. VS32 0) (registers m), flags_zero := False, ip := 0,
     signals := [], call_stack := []\<rparr>"

text \<open>The call stack keeps its top at the end of the list, as the \<^verbatim>\<open>Vec\<close> does.\<close>

definition push_call_ip :: "vm \<Rightarrow> nat \<Rightarrow> vm" where
  "push_call_ip m return_ip = m\<lparr>call_stack := call_stack m @ [return_ip]\<rparr>"

definition pop_call_ip :: "vm \<Rightarrow> vm \<times> nat option" where
  "pop_call_ip m = (if call_stack m = [] then (m, None)
     else (m\<lparr>call_stack := butlast (call_stack m)\<rparr>, Some (last (call_stack m))))"

definition call_depth :: "vm \<Rightarrow> nat" where
  "call_depth m = length (call_stack m)"

definition write_signal :: "vm \<Rightarrow> string \<Rightarrow> hal_value \<Rightarrow> vm" where
  "write_signal m nm v = m\<lparr>signals := hm_insert nm v (signals m)\<rparr>"

definition read_signal :: "vm \<Rightarrow> string \<Rightarrow> hal_value option" where
  "read_signal m nm = hm_get (signals m) nm"

definition signal_names :: "vm \<Rightarrow> string list" where
  "signal_names m = hm_keys (signals m)"

definition set_cycle_time :: "vm \<Rightarrow> u64 \<Rightarrow> vm" where
  "set_cycle_time m ms = m\<lparr>cycle_time_ms := ms\<rparr>"

definition add_timer :: "vm \<Rightarrow> timer_kind \<Rightarrow> u64 \<Rightarrow> vm" where
  "add_timer m k preset = m\<lparr>timers := timers m @
     [\<lparr>t_kind = k, in_val = False, elapsed_ms = 0, t_q = False, preset_ms = preset\<rparr>]\<rparr>"

definition add_counter :: "vm \<Rightarrow> counter_kind \<Rightarrow> u32 \<Rightarrow> vm" where
  "add_counter m k p = m\<lparr>counters := counters m @
     [\<lparr>c_kind = k, cu_val = False, cd_val = False, cv = 0, pv = p, c_q = False, qu = False,
       qd = False\<rparr>]\<rparr>"

definition add_sr :: "vm \<Rightarrow> sr_kind \<Rightarrow> vm" where
  "add_sr m k = m\<lparr>srs := srs m @ [\<lparr>sr_kind = k, s1 = False, sr_r = False, q1 = False, q2 = False\<rparr>]\<rparr>"

definition add_edge :: "vm \<Rightarrow> vm" where
  "add_edge m = m\<lparr>edges := edges m @ [\<lparr>e_kind = 0, last_clk = False, e_q = False\<rparr>]\<rparr>"

subsection \<open>Invariant\<close>

text \<open>The register file has its sixteen registers and the signal table one entry per name.\<close>

definition vm_wf :: "vm \<Rightarrow> bool" where
  "vm_wf m \<longleftrightarrow> length (registers m) = REGISTER_COUNT \<and> hm_wf (signals m)"

named_theorems vm_defs \<open>definitions of the register machine operations\<close>

lemmas vm_ops [vm_defs] = read_register_def write_register_def set_flags_zero_def set_ip_def
  advance_ip_def reset_ip_def push_call_ip_def pop_call_ip_def write_signal_def read_signal_def
  set_cycle_time_def add_timer_def add_counter_def add_sr_def add_edge_def

lemma vm_wf_new [simp]: "vm_wf vm_new"
  by (simp add: vm_wf_def vm_new_def)

lemma vm_wf_reset [simp]: "vm_wf m \<Longrightarrow> vm_wf (vm_reset m)"
  by (simp add: vm_wf_def vm_reset_def)

lemma vm_wf_write_register: "write_register m r v = Ok m' \<Longrightarrow> vm_wf m \<Longrightarrow> vm_wf m'"
  by (auto simp: write_register_def vm_wf_def split: if_splits)

lemma vm_wf_simps [simp]:
  "vm_wf (m\<lparr>flags_zero := b\<rparr>) = vm_wf m"
  "vm_wf (m\<lparr>ip := n\<rparr>) = vm_wf m"
  "vm_wf (m\<lparr>call_stack := cs\<rparr>) = vm_wf m"
  "vm_wf (m\<lparr>timers := ts\<rparr>) = vm_wf m"
  "vm_wf (m\<lparr>counters := ctrs\<rparr>) = vm_wf m"
  "vm_wf (m\<lparr>srs := ss\<rparr>) = vm_wf m"
  "vm_wf (m\<lparr>edges := es\<rparr>) = vm_wf m"
  "vm_wf (m\<lparr>cycle_time_ms := ms\<rparr>) = vm_wf m"
  by (simp_all add: vm_wf_def)

lemma vm_wf_write_signal [simp]: "vm_wf m \<Longrightarrow> vm_wf (write_signal m nm v)"
  by (simp add: vm_wf_def write_signal_def)

lemma read_write_register:
  "vm_wf m \<Longrightarrow> unat r < REGISTER_COUNT \<Longrightarrow>
   \<exists>m'. write_register m r v = Ok m'
     \<and> read_register m' s = (if s = r then Ok v else read_register m s)"
  by (auto simp: vm_wf_def read_register_def write_register_def nth_list_update word_unat_eq_iff)

end
