(* ===== verification/Hal_Executor.thy ===== *)
theory Hal_Executor
  imports Hal_Ir
begin

text \<open>
  The instruction interpreter of \<^verbatim>\<open>audesys-hal-ir/src/executor.rs\<close>: one definition per
  \<^verbatim>\<open>exec_*\<close> handler, the dispatcher, the single step with breakpoints and trace, the run loop and
  the debugging interface. A handler maps the machine to the machine after it and an executor
  result, or panics. The run loop may never return; it is a partial function and \<open>None\<close> is its
  value then.
\<close>

datatype executor_result = Continue | Halted | Breaked

type_synonym exec = "(vm \<times> executor_result) outcome"

abbreviation cont :: "vm \<Rightarrow> exec" where
  "cont m \<equiv> Ok (m, Continue)"

record trace_entry =
  te_ip :: nat
  te_opcode :: opcode
  r0 :: hal_value

record debug_state =
  debug_mode :: bool
  breakpoints :: "nat set"
  trace_buffer :: "trace_entry list"

definition debug_state_new :: debug_state where
  "debug_state_new = \<lparr>debug_mode = False, breakpoints = {}, trace_buffer = []\<rparr>"

record executor =
  ex_vm :: vm
  ex_program :: hal_program
  ex_debug :: debug_state

definition executor_new :: "hal_program \<Rightarrow> executor" where
  "executor_new pr = \<lparr>ex_vm = vm_new, ex_program = pr, ex_debug = debug_state_new\<rparr>"

subsection \<open>Operand access\<close>

fun read_reg :: "vm \<Rightarrow> operand \<Rightarrow> hal_value outcome" where
  "read_reg m (Register r) = read_register m r"
| "read_reg m _ = Ok (VS32 0)"

fun dest_reg :: "operand \<Rightarrow> u8" where
  "dest_reg (Register r) = r"
| "dest_reg _ = 0"

fun read_u32_operand :: "operand list \<Rightarrow> u32" where
  "read_u32_operand (Immediate (VU32 v) # _) = v"
| "read_u32_operand (Immediate (VS32 v) # _) = v"
| "read_u32_operand _ = 0"

fun value_as_usize :: "hal_value \<Rightarrow> u64" where
  "value_as_usize (VS32 n) = scast n"
| "value_as_usize (VS16 n) = scast n"
| "value_as_usize (VS8 n) = scast n"
| "value_as_usize (VU32 n) = ucast n"
| "value_as_usize (VU16 n) = ucast n"
| "value_as_usize (VU8 n) = ucast n"
| "value_as_usize (VS64 n) = n"
| "value_as_usize (VU64 n) = n"
| "value_as_usize _ = 0"

text \<open>The match \<^verbatim>\<open>HalValue::Bool(b) => b, _ => false\<close> on a register read.\<close>

definition read_bool :: "vm \<Rightarrow> u8 \<Rightarrow> bool outcome" where
  "read_bool m r = mapo (\<lambda>v. case v of VBool b \<Rightarrow> b | _ \<Rightarrow> False) (read_register m r)"

fun read_bool_operand :: "vm \<Rightarrow> operand \<Rightarrow> bool outcome" where
  "read_bool_operand m (Register r) = read_bool m r"
| "read_bool_operand m _ = Ok False"

fun imm_u32_or_zero :: "operand \<Rightarrow> u32" where
  "imm_u32_or_zero (Immediate (VU32 k)) = k"
| "imm_u32_or_zero _ = 0"

subsection \<open>Data movement, arithmetic and control flow\<close>

fun load_value :: "vm \<Rightarrow> operand \<Rightarrow> hal_value outcome" where
  "load_value m (Immediate v) = Ok v"
| "load_value m (Register r) = read_register m r"
| "load_value m (SignalName nm) =
     Ok (case read_signal m nm of Some v \<Rightarrow> v | None \<Rightarrow> VBool False)"

definition exec_load :: "vm \<Rightarrow> operand list \<Rightarrow> exec" where
  "exec_load m ops =
     (case ops of
        Register dest # src # _ \<Rightarrow>
          bindo (load_value m src) (\<lambda>v. bindo (write_register m dest v) cont)
      | _ \<Rightarrow> cont m)"

definition exec_load_index :: "profile \<Rightarrow> vm \<Rightarrow> operand list \<Rightarrow> exec" where
  "exec_load_index p m ops =
     (case ops of
        Register dest # Register array_reg # Register idx_reg # _ \<Rightarrow>
          bindo (read_register m array_reg) (\<lambda>array.
          bindo (read_register m idx_reg) (\<lambda>idx.
          bindo (index p array (value_as_usize idx)) (\<lambda>elem.
          bindo (write_register m dest elem) cont)))
      | _ \<Rightarrow> cont m)"

definition exec_store_index :: "profile \<Rightarrow> vm \<Rightarrow> operand list \<Rightarrow> exec" where
  "exec_store_index p m ops =
     (case ops of
        Register array_reg # Register idx_reg # Register value_reg # _ \<Rightarrow>
          bindo (read_register m array_reg) (\<lambda>array.
          bindo (read_register m idx_reg) (\<lambda>idx.
          bindo (read_register m value_reg) (\<lambda>v.
          bindo (set_index p array (value_as_usize idx) v) (\<lambda>updated.
          bindo (write_register m array_reg updated) cont))))
      | _ \<Rightarrow> cont m)"

definition exec_arith_binop ::
    "vm \<Rightarrow> operand list \<Rightarrow> (hal_value \<Rightarrow> hal_value \<Rightarrow> hal_value outcome) \<Rightarrow> exec" where
  "exec_arith_binop m ops f =
     (case ops of
        x # y # out # _ \<Rightarrow>
          bindo (read_reg m x) (\<lambda>a. bindo (read_reg m y) (\<lambda>b. bindo (f a b) (\<lambda>v.
          bindo (write_register m (dest_reg out) v) cont)))
      | _ \<Rightarrow> cont m)"

definition exec_unary :: "vm \<Rightarrow> operand list \<Rightarrow> (hal_value \<Rightarrow> hal_value outcome) \<Rightarrow> exec" where
  "exec_unary m ops f =
     (case ops of
        x # out # _ \<Rightarrow>
          bindo (read_reg m x) (\<lambda>a. bindo (f a) (\<lambda>v.
          bindo (write_register m (dest_reg out) v) cont))
      | _ \<Rightarrow> cont m)"

definition exec_compare :: "vm \<Rightarrow> operand list \<Rightarrow> (hal_value \<Rightarrow> hal_value \<Rightarrow> bool) \<Rightarrow> exec" where
  "exec_compare m ops f =
     (case ops of
        x # y # _ \<Rightarrow>
          bindo (read_reg m x) (\<lambda>a. bindo (read_reg m y) (\<lambda>b. cont (set_flags_zero m (f a b))))
      | _ \<Rightarrow> cont m)"

definition exec_bitwise_not :: "vm \<Rightarrow> operand list \<Rightarrow> exec" where
  "exec_bitwise_not m ops = exec_unary m ops (\<lambda>a. Ok (hal_not a))"

definition exec_jump :: "vm \<Rightarrow> operand list \<Rightarrow> exec" where
  "exec_jump m ops =
     (case ops of Immediate (VU32 target) # _ \<Rightarrow> cont (set_ip m (unat target)) | _ \<Rightarrow> cont m)"

definition exec_jump_if :: "vm \<Rightarrow> operand list \<Rightarrow> exec" where
  "exec_jump_if m ops =
     (case ops of
        Immediate (VU32 target) # _ \<Rightarrow>
          if flags_zero m then cont (set_ip m (unat target)) else cont (advance_ip m)
      | _ \<Rightarrow> cont (advance_ip m))"

definition exec_store :: "vm \<Rightarrow> operand list \<Rightarrow> exec" where
  "exec_store m ops =
     (case ops of
        SignalName nm # src # _ \<Rightarrow> bindo (read_reg m src) (\<lambda>v. cont (write_signal m nm v))
      | _ \<Rightarrow> cont m)"

definition exec_call :: "vm \<Rightarrow> operand list \<Rightarrow> exec" where
  "exec_call m ops =
     (let target = read_u32_operand ops; return_ip = ip m + 1 in
      cont (set_ip (push_call_ip m return_ip) (unat target)))"

definition exec_ret :: "vm \<Rightarrow> operand list \<Rightarrow> exec" where
  "exec_ret m ops =
     (case pop_call_ip m of
        (m1, Some return_ip) \<Rightarrow>
          bindo (case ops of
                   Register r # _ \<Rightarrow> bindo (read_register m1 r) (write_register m1 0)
                 | _ \<Rightarrow> Ok m1)
            (\<lambda>m2. cont (set_ip m2 return_ip))
      | (m1, None) \<Rightarrow> Ok (m1, Halted))"

text \<open>The closures of the \<^verbatim>\<open>Div\<close> and \<^verbatim>\<open>Mod\<close> arms: a zero divisor of three of the types is caught.\<close>

definition caught_zero :: "hal_value \<Rightarrow> bool" where
  "caught_zero b \<longleftrightarrow> hal_eq b (VS32 0) \<or> hal_eq b (VF32 0) \<or> hal_eq b (VF64 0)"

definition guarded_div :: "profile \<Rightarrow> arith_op \<Rightarrow> hal_value \<Rightarrow> hal_value \<Rightarrow> hal_value outcome" where
  "guarded_div p op a b = (if caught_zero b then Ok (VS32 0) else hal_binop p op a b)"

subsection \<open>Timers\<close>

text \<open>The auto-grow loop \<^verbatim>\<open>while count <= idx { push(new) }\<close>.\<close>

function grow :: "'a list \<Rightarrow> nat \<Rightarrow> 'a \<Rightarrow> 'a list" where
  "grow xs idx new = (if length xs \<le> idx then grow (xs @ [new]) idx new else xs)"
  by pat_completeness auto

termination grow
  by (relation "measure (\<lambda>(xs, idx, new). Suc idx - length xs)") auto

definition new_timer :: "timer_kind \<Rightarrow> timer_state" where
  "new_timer k = \<lparr>t_kind = k, in_val = False, elapsed_ms = 0, t_q = False, preset_ms = 0\<rparr>"

fun timer_kind_of :: "operand list \<Rightarrow> timer_kind" where
  "timer_kind_of (Immediate (VU32 k) # _) = (if k = 1 then Tof else if k = 2 then Tp else Ton)"
| "timer_kind_of _ = Ton"

text \<open>Advancing a running timer: \<open>q'\<close> is the output once the preset is reached.\<close>

definition timer_advance :: "u64 \<Rightarrow> bool \<Rightarrow> timer_state \<Rightarrow> timer_state" where
  "timer_advance cyc q' t =
     (let elapsed = saturating_add_u64 (elapsed_ms t) cyc in
      if preset_ms t \<le> elapsed then t\<lparr>elapsed_ms := preset_ms t, t_q := q'\<rparr>
      else t\<lparr>elapsed_ms := elapsed\<rparr>)"

definition ton_tick :: "u64 \<Rightarrow> bool \<Rightarrow> timer_state \<Rightarrow> timer_state" where
  "ton_tick cyc in_bool t =
     (if \<not> in_bool then t\<lparr>t_q := False, elapsed_ms := 0\<rparr>
      else if preset_ms t \<le> elapsed_ms t then t\<lparr>t_q := True\<rparr>
      else timer_advance cyc True t)"

definition tof_tick :: "u64 \<Rightarrow> bool \<Rightarrow> timer_state \<Rightarrow> timer_state" where
  "tof_tick cyc in_bool t =
     (if in_bool then t\<lparr>t_q := True, elapsed_ms := 0\<rparr>
      else if t_q t then timer_advance cyc False t
      else t)"

definition tp_tick :: "u64 \<Rightarrow> bool \<Rightarrow> timer_state \<Rightarrow> timer_state" where
  "tp_tick cyc in_bool t =
     (let t1 = (if in_bool \<and> \<not> in_val t then t\<lparr>t_q := True, elapsed_ms := 0\<rparr> else t) in
      if t_q t1
      then (let t2 = timer_advance cyc False t1 in if \<not> in_bool then t2\<lparr>t_q := False\<rparr> else t2)
      else t1)"

definition timer_tick :: "timer_kind \<Rightarrow> u64 \<Rightarrow> u64 \<Rightarrow> bool \<Rightarrow> timer_state \<Rightarrow> timer_state" where
  "timer_tick k pt cyc in_bool t =
     (let t1 = t\<lparr>preset_ms := pt, t_kind := k\<rparr>;
          t2 = (case k of Ton \<Rightarrow> ton_tick cyc in_bool t1
                        | Tof \<Rightarrow> tof_tick cyc in_bool t1
                        | Tp \<Rightarrow> tp_tick cyc in_bool t1)
      in t2\<lparr>in_val := in_bool\<rparr>)"

fun preset_operand :: "operand \<Rightarrow> u64 option" where
  "preset_operand (Immediate (VU32 n)) = Some (ucast n)"
| "preset_operand (Immediate (VS32 n)) = Some (scast n)"
| "preset_operand _ = None"

definition exec_timer_run :: "vm \<Rightarrow> operand list \<Rightarrow> exec" where
  "exec_timer_run m ops =
     (case ops of
        Immediate (VU32 i) # inop # ptop # rest \<Rightarrow>
          (let idx = unat i;
               k = timer_kind_of rest;
               m1 = m\<lparr>timers := grow (timers m) idx (new_timer k)\<rparr>
           in (case (inop, preset_operand ptop) of
                 (Register in_reg, Some pt) \<Rightarrow>
                   bindo (read_register m1 in_reg) (\<lambda>v.
                   cont (m1\<lparr>timers := (timers m1)[idx :=
                     timer_tick k pt (cycle_time_ms m1) (hal_eq v (VBool True)) (timers m1 ! idx)]\<rparr>))
               | _ \<Rightarrow> cont m1))
      | _ \<Rightarrow> cont m)"

definition exec_read_timer :: "vm \<Rightarrow> operand list \<Rightarrow> exec" where
  "exec_read_timer m ops =
     (case ops of
        Immediate (VU32 i) # qop # etop # _ \<Rightarrow>
          (let idx = unat i; m1 = m\<lparr>timers := grow (timers m) idx (new_timer Ton)\<rparr> in
           (case (qop, etop) of
              (Register q_dest, Register et_dest) \<Rightarrow>
                (let t = timers m1 ! idx in
                 bindo (write_register m1 q_dest (VBool (t_q t))) (\<lambda>m2.
                 bindo (write_register m2 et_dest (VU32 (ucast (elapsed_ms t)))) cont))
            | _ \<Rightarrow> cont m1))
      | _ \<Rightarrow> cont m)"

subsection \<open>Counters\<close>

definition new_counter :: counter_state where
  "new_counter = \<lparr>c_kind = Ctu, cu_val = False, cd_val = False, cv = 0, pv = 0, c_q = False,
     qu = False, qd = False\<rparr>"

definition counter_kind_of :: "u32 \<Rightarrow> counter_kind" where
  "counter_kind_of k = (if k = 0 then Ctu else if k = 1 then Ctd else Ctud)"

text \<open>\<^verbatim>\<open>(cv + 1).min(pv)\<close> on a rising edge; the addition is checked in a development build.\<close>

definition count_up :: "profile \<Rightarrow> bool \<Rightarrow> counter_state \<Rightarrow> u32 outcome" where
  "count_up p rise c =
     (if rise then mapo (\<lambda>n. min n (pv c)) (ures p (uint (cv c) + 1)) else Ok (cv c))"

definition count_down :: "bool \<Rightarrow> u32 \<Rightarrow> u32" where
  "count_down rise n = (if rise then saturating_sub_u32 n 1 else n)"

definition counter_tick ::
    "profile \<Rightarrow> counter_kind \<Rightarrow> u32 \<Rightarrow> bool \<Rightarrow> bool \<Rightarrow> counter_state \<Rightarrow> counter_state outcome" where
  "counter_tick p k pvalue cu_bool cd_bool c =
     (let cu_rise = cu_bool \<and> \<not> cu_val c;
          cd_rise = cd_bool \<and> \<not> cd_val c;
          c1 = c\<lparr>pv := pvalue, c_kind := k, cu_val := cu_bool, cd_val := cd_bool\<rparr>
      in case k of
           Ctu \<Rightarrow> mapo (\<lambda>n. c1\<lparr>cv := n, c_q := pvalue \<le> n\<rparr>) (count_up p cu_rise c1)
         | Ctd \<Rightarrow> (let n = count_down cd_rise (cv c1) in Ok (c1\<lparr>cv := n, c_q := n \<le> 0\<rparr>))
         | Ctud \<Rightarrow> mapo (\<lambda>u. let n = count_down cd_rise u in
                     c1\<lparr>cv := n, qu := pvalue \<le> n, qd := n \<le> 0, c_q := pvalue \<le> n\<rparr>)
                   (count_up p cu_rise c1))"

definition exec_counter_run :: "profile \<Rightarrow> vm \<Rightarrow> operand list \<Rightarrow> exec" where
  "exec_counter_run p m ops =
     (case ops of
        Immediate (VU32 i) # cuop # cdop # pvop # kindop # _ \<Rightarrow>
          (let idx = unat i; m1 = m\<lparr>counters := grow (counters m) idx new_counter\<rparr> in
           (case (cuop, cdop, pvop) of
              (Register cu_reg, Register cd_reg, Immediate (VU32 pvalue)) \<Rightarrow>
                bindo (read_bool m1 cu_reg) (\<lambda>cu_bool.
                bindo (read_bool m1 cd_reg) (\<lambda>cd_bool.
                bindo (counter_tick p (counter_kind_of (imm_u32_or_zero kindop)) pvalue cu_bool
                         cd_bool (counters m1 ! idx)) (\<lambda>c.
                cont (m1\<lparr>counters := (counters m1)[idx := c]\<rparr>))))
            | _ \<Rightarrow> cont m1))
      | _ \<Rightarrow> cont m)"

definition exec_read_counter :: "vm \<Rightarrow> operand list \<Rightarrow> exec" where
  "exec_read_counter m ops =
     (case ops of
        Immediate (VU32 i) # qop # cvop # _ \<Rightarrow>
          (let idx = unat i; m1 = m\<lparr>counters := grow (counters m) idx new_counter\<rparr> in
           (case (qop, cvop) of
              (Register q_dest, Register cv_dest) \<Rightarrow>
                (let c = counters m1 ! idx in
                 bindo (write_register m1 q_dest (VBool (c_q c))) (\<lambda>m2.
                 bindo (write_register m2 cv_dest (VU32 (cv c))) cont))
            | _ \<Rightarrow> cont m1))
      | _ \<Rightarrow> cont m)"

subsection \<open>Flip-flops and edge detectors\<close>

definition new_sr :: "sr_kind \<Rightarrow> sr_state" where
  "new_sr k = \<lparr>sr_kind = k, s1 = False, sr_r = False, q1 = False, q2 = False\<rparr>"

definition sr_kind_of :: "u32 \<Rightarrow> sr_kind" where
  "sr_kind_of k = (if k = 1 then Rs else Sr)"

definition sr_tick :: "sr_kind \<Rightarrow> bool \<Rightarrow> bool \<Rightarrow> sr_state \<Rightarrow> sr_state" where
  "sr_tick k s r st =
     (let st1 = st\<lparr>sr_kind := k\<rparr>;
          set_q = st1\<lparr>q1 := True, q2 := False\<rparr>;
          reset_q = st1\<lparr>q1 := False, q2 := True\<rparr>;
          st2 = (case k of
                   Sr \<Rightarrow> if s then set_q else if r then reset_q else st1
                 | Rs \<Rightarrow> if r then reset_q else if s then set_q else st1)
      in st2\<lparr>s1 := s, sr_r := r\<rparr>)"

definition exec_sr_run :: "vm \<Rightarrow> operand list \<Rightarrow> exec" where
  "exec_sr_run m ops =
     (case ops of
        Immediate (VU32 i) # sop # rop # kindop # _ \<Rightarrow>
          bindo (read_bool_operand m sop) (\<lambda>s.
          bindo (read_bool_operand m rop) (\<lambda>r.
          let idx = unat i; k = sr_kind_of (imm_u32_or_zero kindop);
              ss = grow (srs m) idx (new_sr k)
          in cont (m\<lparr>srs := ss[idx := sr_tick k s r (ss ! idx)]\<rparr>)))
      | _ \<Rightarrow> cont m)"

definition exec_read_sr :: "vm \<Rightarrow> operand list \<Rightarrow> exec" where
  "exec_read_sr m ops =
     (case ops of
        Immediate (VU32 i) # q1op # q2op # _ \<Rightarrow>
          (let idx = unat i; m1 = m\<lparr>srs := grow (srs m) idx (new_sr Sr)\<rparr> in
           (case (q1op, q2op) of
              (Register q1_dest, Register q2_dest) \<Rightarrow>
                (let st = srs m1 ! idx in
                 bindo (write_register m1 q1_dest (VBool (q1 st))) (\<lambda>m2.
                 bindo (write_register m2 q2_dest (VBool (q2 st))) cont))
            | _ \<Rightarrow> cont m1))
      | _ \<Rightarrow> cont m)"

definition new_edge :: edge_state where
  "new_edge = \<lparr>e_kind = 0, last_clk = False, e_q = False\<rparr>"

definition edge_tick :: "u8 \<Rightarrow> bool \<Rightarrow> edge_state \<Rightarrow> edge_state" where
  "edge_tick k clk st = st\<lparr>e_kind := k,
     e_q := (if k = 0 then clk \<and> \<not> last_clk st else if k = 1 then \<not> clk \<and> last_clk st else False),
     last_clk := clk\<rparr>"

definition exec_edge_run :: "vm \<Rightarrow> operand list \<Rightarrow> exec" where
  "exec_edge_run m ops =
     (case ops of
        Immediate (VU32 i) # clkop # kindop # _ \<Rightarrow>
          bindo (read_bool_operand m clkop) (\<lambda>clk.
          let idx = unat i; k = ucast (imm_u32_or_zero kindop); es = grow (edges m) idx new_edge
          in cont (m\<lparr>edges := es[idx := edge_tick k clk (es ! idx)]\<rparr>))
      | _ \<Rightarrow> cont m)"

definition exec_read_edge :: "vm \<Rightarrow> operand list \<Rightarrow> exec" where
  "exec_read_edge m ops =
     (case ops of
        Immediate (VU32 i) # qop # _ \<Rightarrow>
          (let idx = unat i; m1 = m\<lparr>edges := grow (edges m) idx new_edge\<rparr> in
           (case qop of
              Register q_dest \<Rightarrow> bindo (write_register m1 q_dest (VBool (e_q (edges m1 ! idx)))) cont
            | _ \<Rightarrow> cont m1))
      | _ \<Rightarrow> cont m)"

subsection \<open>Dispatch, step and run\<close>

definition execute_instruction :: "profile \<Rightarrow> vm \<Rightarrow> instruction \<Rightarrow> exec" where
  "execute_instruction p m i =
     (let ops = operands i in
      case opcode i of
        Nop \<Rightarrow> cont m
      | Store \<Rightarrow> exec_store m ops
      | LoadIndex \<Rightarrow> exec_load_index p m ops
      | StoreIndex \<Rightarrow> exec_store_index p m ops
      | Load \<Rightarrow> exec_load m ops
      | Add \<Rightarrow> exec_arith_binop m ops (hal_binop p OpAdd)
      | Sub \<Rightarrow> exec_arith_binop m ops (hal_binop p OpSub)
      | Mul \<Rightarrow> exec_arith_binop m ops (hal_binop p OpMul)
      | Div \<Rightarrow> exec_arith_binop m ops (guarded_div p OpDiv)
      | Mod \<Rightarrow> exec_arith_binop m ops (guarded_div p OpRem)
      | Neg \<Rightarrow> exec_unary m ops (hal_neg p)
      | Eq \<Rightarrow> exec_compare m ops hal_eq
      | Neq \<Rightarrow> exec_compare m ops (\<lambda>a b. \<not> hal_eq a b)
      | Gt \<Rightarrow> exec_compare m ops (\<lambda>a b. hal_cmp a b = Some Greater)
      | Lt \<Rightarrow> exec_compare m ops (\<lambda>a b. hal_cmp a b = Some Less)
      | Gte \<Rightarrow> exec_compare m ops (\<lambda>a b. hal_cmp a b = Some Greater \<or> hal_cmp a b = Some Equal)
      | Lte \<Rightarrow> exec_compare m ops (\<lambda>a b. hal_cmp a b = Some Less \<or> hal_cmp a b = Some Equal)
      | And \<Rightarrow> exec_arith_binop m ops (\<lambda>a b. Ok (hal_bitop OpAnd a b))
      | Or \<Rightarrow> exec_arith_binop m ops (\<lambda>a b. Ok (hal_bitop OpOr a b))
      | Xor \<Rightarrow> exec_arith_binop m ops (\<lambda>a b. Ok (hal_bitop OpXor a b))
      | NotOp \<Rightarrow> exec_bitwise_not m ops
      | Jump \<Rightarrow> exec_jump m ops
      | JumpIf \<Rightarrow> exec_jump_if m ops
      | Call \<Rightarrow> exec_call m ops
      | Ret \<Rightarrow> exec_ret m ops
      | TimerRun \<Rightarrow> exec_timer_run m ops
      | ReadTimer \<Rightarrow> exec_read_timer m ops
      | CounterRun \<Rightarrow> exec_counter_run p m ops
      | ReadCounter \<Rightarrow> exec_read_counter m ops
      | SrRun \<Rightarrow> exec_sr_run m ops
      | ReadSr \<Rightarrow> exec_read_sr m ops
      | EdgeRun \<Rightarrow> exec_edge_run m ops
      | ReadEdge \<Rightarrow> exec_read_edge m ops
      | Halt \<Rightarrow> Ok (m, Halted))"

definition is_jump :: "opcode \<Rightarrow> bool" where
  "is_jump oc \<longleftrightarrow> oc = Jump \<or> oc = JumpIf \<or> oc = Call"

definition record_trace :: "executor \<Rightarrow> nat \<Rightarrow> opcode \<Rightarrow> debug_state outcome" where
  "record_trace ex n oc =
     (if debug_mode (ex_debug ex)
      then mapo (\<lambda>v. (ex_debug ex)\<lparr>trace_buffer := trace_buffer (ex_debug ex)
                        @ [\<lparr>te_ip = n, te_opcode = oc, r0 = v\<rparr>]\<rparr>) (read_register (ex_vm ex) 0)
      else Ok (ex_debug ex))"

definition step :: "profile \<Rightarrow> executor \<Rightarrow> (executor \<times> executor_result) outcome" where
  "step p ex =
     (let n = ip (ex_vm ex); is = instructions (ex_program ex) in
      if \<not> n < length is then Panic AssertionFailed
      else if debug_mode (ex_debug ex) \<and> n \<in> breakpoints (ex_debug ex) then Ok (ex, Breaked)
      else bindo (execute_instruction p (ex_vm ex) (is ! n)) (\<lambda>(m, res).
           bindo (record_trace (ex\<lparr>ex_vm := m\<rparr>) n (opcode (is ! n))) (\<lambda>d.
           Ok (ex\<lparr>ex_vm := (if is_jump (opcode (is ! n)) then m else advance_ip m),
                  ex_debug := d\<rparr>, res))))"

definition executor_reset :: "executor \<Rightarrow> executor" where
  "executor_reset ex = ex\<lparr>ex_vm := vm_reset (ex_vm ex)\<rparr>"

partial_function (option) run_loop ::
    "profile \<Rightarrow> nat \<Rightarrow> executor \<Rightarrow> (executor \<times> nat) outcome option" where
  "run_loop p steps ex =
     (case step p ex of
        Panic e \<Rightarrow> Some (Panic e)
      | Ok (ex', res) \<Rightarrow>
          (case res of
             Halted \<Rightarrow> Some (Ok (ex', steps + 1))
           | Continue \<Rightarrow> run_loop p (steps + 1) ex'
           | Breaked \<Rightarrow> Some (Ok (ex', steps + 1))))"

definition run_to_halt :: "profile \<Rightarrow> executor \<Rightarrow> (executor \<times> nat) outcome option" where
  "run_to_halt p ex = run_loop p 0 ex"

subsection \<open>Debugging interface\<close>

abbreviation upd_debug :: "(debug_state \<Rightarrow> debug_state) \<Rightarrow> executor \<Rightarrow> executor" where
  "upd_debug f ex \<equiv> ex\<lparr>ex_debug := f (ex_debug ex)\<rparr>"

definition enable_debug :: "executor \<Rightarrow> executor" where
  "enable_debug = upd_debug (\<lambda>d. d\<lparr>debug_mode := True\<rparr>)"

definition disable_debug :: "executor \<Rightarrow> executor" where
  "disable_debug = upd_debug (\<lambda>d. d\<lparr>debug_mode := False\<rparr>)"

definition is_debug_enabled :: "executor \<Rightarrow> bool" where
  "is_debug_enabled ex = debug_mode (ex_debug ex)"

definition add_breakpoint :: "executor \<Rightarrow> nat \<Rightarrow> executor \<times> bool" where
  "add_breakpoint ex n =
     (upd_debug (\<lambda>d. d\<lparr>breakpoints := insert n (breakpoints d)\<rparr>) ex,
      n \<notin> breakpoints (ex_debug ex))"

definition remove_breakpoint :: "executor \<Rightarrow> nat \<Rightarrow> executor \<times> bool" where
  "remove_breakpoint ex n =
     (upd_debug (\<lambda>d. d\<lparr>breakpoints := breakpoints d - {n}\<rparr>) ex,
      n \<in> breakpoints (ex_debug ex))"

definition list_breakpoints :: "executor \<Rightarrow> nat list" where
  "list_breakpoints ex = sorted_list_of_set (breakpoints (ex_debug ex))"

definition clear_breakpoints :: "executor \<Rightarrow> executor" where
  "clear_breakpoints = upd_debug (\<lambda>d. d\<lparr>breakpoints := {}\<rparr>)"

definition clear_trace :: "executor \<Rightarrow> executor" where
  "clear_trace = upd_debug (\<lambda>d. d\<lparr>trace_buffer := []\<rparr>)"

definition resume :: "profile \<Rightarrow> executor \<Rightarrow> (executor \<times> executor_result) outcome" where
  "resume p ex = mapo (\<lambda>(ex', res). (enable_debug ex', res)) (step p (disable_debug ex))"

subsection \<open>What every handler keeps\<close>

declare grow.simps [simp del]

lemma grow_eq: "grow xs idx new = xs @ replicate (Suc idx - length xs) new"
proof (induction xs idx new rule: grow.induct)
  case (1 xs idx new)
  show ?case
  proof (cases "length xs \<le> idx")
    case True
    then have "Suc idx - length xs = Suc (Suc idx - length (xs @ [new]))" by simp
    then show ?thesis using 1 True by (subst grow.simps) simp
  next
    case False
    then show ?thesis by (subst grow.simps) simp
  qed
qed

lemma length_grow: "length (grow xs idx new) = max (length xs) (Suc idx)"
  by (simp add: grow_eq max_def)

text \<open>
  The part of the machine the data handlers never touch, together with the invariant.
\<close>

definition frame :: "vm \<Rightarrow> vm \<Rightarrow> bool" where
  "frame m m' \<longleftrightarrow> ip m' = ip m \<and> call_stack m' = call_stack m
     \<and> cycle_time_ms m' = cycle_time_ms m \<and> (vm_wf m \<longrightarrow> vm_wf m')"

lemma frame_refl [simp]: "frame m m"
  by (simp add: frame_def)

lemma frame_trans [trans]: "frame a b \<Longrightarrow> frame b c \<Longrightarrow> frame a c"
  by (simp add: frame_def)

lemma frame_upd [simp]:
  "frame m (m'\<lparr>timers := ts\<rparr>) = frame m m'"
  "frame m (m'\<lparr>counters := cs\<rparr>) = frame m m'"
  "frame m (m'\<lparr>srs := ss\<rparr>) = frame m m'"
  "frame m (m'\<lparr>edges := es\<rparr>) = frame m m'"
  "frame (m\<lparr>timers := ts\<rparr>) m' = frame m m'"
  "frame (m\<lparr>counters := cs\<rparr>) m' = frame m m'"
  "frame (m\<lparr>srs := ss\<rparr>) m' = frame m m'"
  "frame (m\<lparr>edges := es\<rparr>) m' = frame m m'"
  by (simp_all add: frame_def)

lemma frame_write_register: "write_register m r v = Ok m' \<Longrightarrow> frame m m'"
  by (auto simp: frame_def write_register_def vm_wf_def split: if_splits)

lemma frame_write_signal: "frame m (write_signal m nm v)"
  by (simp add: frame_def) (simp add: write_signal_def)

lemma frame_flags: "frame m (set_flags_zero m b)"
  by (simp add: frame_def set_flags_zero_def)

definition data_exec :: "vm \<Rightarrow> exec \<Rightarrow> bool" where
  "data_exec m r \<longleftrightarrow> (\<forall>m' res. r = Ok (m', res) \<longrightarrow> frame m m' \<and> res = Continue)"

lemma data_exec_Panic [simp]: "data_exec m (Panic e)"
  by (simp add: data_exec_def)

lemma data_exec_cont [simp]: "data_exec m (cont m') = frame m m'"
  by (simp add: data_exec_def)

lemma data_exec_bindo: "(\<And>x. a = Ok x \<Longrightarrow> data_exec m (f x)) \<Longrightarrow> data_exec m (bindo a f)"
  by (cases a) simp_all

lemmas data_intros = data_exec_bindo frame_write_signal frame_flags

lemma data_exec_load: "data_exec m (exec_load m ops)"
  unfolding exec_load_def by (auto intro!: data_intros dest!: frame_write_register intro: frame_trans split: list.split operand.split)

lemma data_exec_load_index: "data_exec m (exec_load_index p m ops)"
  unfolding exec_load_index_def by (auto intro!: data_intros dest!: frame_write_register intro: frame_trans split: list.split operand.split)

lemma data_exec_store_index: "data_exec m (exec_store_index p m ops)"
  unfolding exec_store_index_def by (auto intro!: data_intros dest!: frame_write_register intro: frame_trans split: list.split operand.split)

lemma data_exec_arith_binop: "data_exec m (exec_arith_binop m ops f)"
  unfolding exec_arith_binop_def by (auto intro!: data_intros dest!: frame_write_register intro: frame_trans split: list.split)

lemma data_exec_unary: "data_exec m (exec_unary m ops f)"
  unfolding exec_unary_def by (auto intro!: data_intros dest!: frame_write_register intro: frame_trans split: list.split)

lemma data_exec_compare: "data_exec m (exec_compare m ops f)"
  unfolding exec_compare_def by (auto intro!: data_intros dest!: frame_write_register intro: frame_trans split: list.split)

lemma data_exec_store: "data_exec m (exec_store m ops)"
  unfolding exec_store_def by (auto intro!: data_intros dest!: frame_write_register intro: frame_trans split: list.split operand.split)

lemma data_exec_timer_run: "data_exec m (exec_timer_run m ops)"
  unfolding exec_timer_run_def Let_def
  by (auto intro!: data_intros dest!: frame_write_register intro: frame_trans split: list.split operand.split hal_value.split option.split)

lemma data_exec_read_timer: "data_exec m (exec_read_timer m ops)"
  unfolding exec_read_timer_def Let_def
  by (auto intro!: data_intros dest!: frame_write_register intro: frame_trans split: list.split operand.split hal_value.split)

lemma data_exec_counter_run: "data_exec m (exec_counter_run p m ops)"
  unfolding exec_counter_run_def Let_def
  by (auto intro!: data_intros dest!: frame_write_register intro: frame_trans split: list.split operand.split hal_value.split)

lemma data_exec_read_counter: "data_exec m (exec_read_counter m ops)"
  unfolding exec_read_counter_def Let_def
  by (auto intro!: data_intros dest!: frame_write_register intro: frame_trans split: list.split operand.split hal_value.split)

lemma data_exec_sr_run: "data_exec m (exec_sr_run m ops)"
  unfolding exec_sr_run_def Let_def
  by (auto intro!: data_intros dest!: frame_write_register intro: frame_trans split: list.split operand.split hal_value.split)

lemma data_exec_read_sr: "data_exec m (exec_read_sr m ops)"
  unfolding exec_read_sr_def Let_def
  by (auto intro!: data_intros dest!: frame_write_register intro: frame_trans split: list.split operand.split hal_value.split)

lemma data_exec_edge_run: "data_exec m (exec_edge_run m ops)"
  unfolding exec_edge_run_def Let_def
  by (auto intro!: data_intros dest!: frame_write_register intro: frame_trans split: list.split operand.split hal_value.split)

lemma data_exec_read_edge: "data_exec m (exec_read_edge m ops)"
  unfolding exec_read_edge_def Let_def
  by (auto intro!: data_intros dest!: frame_write_register intro: frame_trans split: list.split operand.split hal_value.split)

lemmas data_execs = data_exec_load data_exec_load_index data_exec_store_index
  data_exec_arith_binop data_exec_unary data_exec_compare data_exec_store data_exec_timer_run
  data_exec_read_timer data_exec_counter_run data_exec_read_counter data_exec_sr_run
  data_exec_read_sr data_exec_edge_run data_exec_read_edge

definition is_control :: "opcode \<Rightarrow> bool" where
  "is_control oc \<longleftrightarrow> oc \<in> {Jump, JumpIf, Call, Ret, Halt}"

lemma data_instruction:
  "\<not> is_control (opcode i) \<Longrightarrow> data_exec m (execute_instruction p m i)"
  unfolding execute_instruction_def Let_def exec_bitwise_not_def
  by (cases "opcode i") (simp_all add: is_control_def data_execs)

lemma wf_exec_ret:
  assumes "exec_ret m ops = Ok (m', res)" and "vm_wf m"
  shows "vm_wf m'"
proof -
  have *: "vm_wf m2" if "(case ops of Register r # _ \<Rightarrow> bindo (read_register m1 r) (write_register m1 0)
      | _ \<Rightarrow> Ok m1) = Ok m2" "vm_wf m1" for m1 m2
    using that by (auto simp: outcome_simps dest: vm_wf_write_register split: list.splits operand.splits)
  show ?thesis using assms
    by (auto simp: exec_ret_def pop_call_ip_def outcome_simps set_ip_def split: if_splits dest: *)
qed

lemma execute_instruction_wf:
  assumes "execute_instruction p m i = Ok (m', res)" and "vm_wf m"
  shows "vm_wf m'"
proof (cases "is_control (opcode i)")
  case False
  then show ?thesis using data_instruction [of i m p] assms by (simp add: data_exec_def frame_def)
next
  case True
  then consider "opcode i = Jump" | "opcode i = JumpIf" | "opcode i = Call" | "opcode i = Ret"
    | "opcode i = Halt" by (auto simp: is_control_def)
  then show ?thesis using assms
    by cases (auto simp: execute_instruction_def exec_jump_def exec_jump_if_def exec_call_def
        set_ip_def advance_ip_def push_call_ip_def Let_def dest: wf_exec_ret
        split: list.splits operand.splits hal_value.splits if_splits)
qed

end
