(* ===== verification/Executor_Safety.thy ===== *)
theory Executor_Safety
  imports Hal_Executor
begin

text \<open>
  Safety and termination of scan programs. The executor has no static check of its own beyond
  \<^verbatim>\<open>is_well_formed\<close>; the checker defined here is the condition under which a program can neither
  panic nor run forever. It is an executable predicate on the instruction list.
\<close>

subsection \<open>A static check\<close>

fun reg_ok :: "operand \<Rightarrow> bool" where
  "reg_ok (Register r) = (unat r < REGISTER_COUNT)"
| "reg_ok _ = True"

text \<open>
  Opcodes whose handler cannot panic on any register contents. In a development build the
  operations checked for overflow are not among them.
\<close>

fun panic_free_opcode :: "profile \<Rightarrow> opcode \<Rightarrow> bool" where
  "panic_free_opcode p Div = False"
| "panic_free_opcode p Mod = False"
| "panic_free_opcode p LoadIndex = False"
| "panic_free_opcode p StoreIndex = False"
| "panic_free_opcode p Add = (p = ReleaseBuild)"
| "panic_free_opcode p Sub = (p = ReleaseBuild)"
| "panic_free_opcode p Mul = (p = ReleaseBuild)"
| "panic_free_opcode p Neg = (p = ReleaseBuild)"
| "panic_free_opcode p CounterRun = (p = ReleaseBuild)"
| "panic_free_opcode p _ = True"

text \<open>The successors of instruction \<open>k\<close> of a program of \<open>n\<close> instructions, calls excluded.\<close>

definition jump_target :: "operand list \<Rightarrow> nat option" where
  "jump_target ops = (case ops of Immediate (VU32 t) # _ \<Rightarrow> Some (unat t) | _ \<Rightarrow> None)"

definition successors :: "nat \<Rightarrow> instruction \<Rightarrow> nat list" where
  "successors k i =
     (case opcode i of
        Halt \<Rightarrow> []
      | Jump \<Rightarrow> (case jump_target (operands i) of Some t \<Rightarrow> [t] | None \<Rightarrow> [k])
      | JumpIf \<Rightarrow> (case jump_target (operands i) of Some t \<Rightarrow> [t, k + 1] | None \<Rightarrow> [k + 1])
      | _ \<Rightarrow> [k + 1])"

definition safe_instruction :: "profile \<Rightarrow> nat \<Rightarrow> nat \<Rightarrow> instruction \<Rightarrow> bool" where
  "safe_instruction p n k i \<longleftrightarrow>
     panic_free_opcode p (opcode i) \<and> opcode i \<noteq> Call \<and> opcode i \<noteq> Ret
     \<and> list_all reg_ok (operands i) \<and> list_all (\<lambda>s. s < n) (successors k i)"

definition safe_program :: "profile \<Rightarrow> hal_program \<Rightarrow> bool" where
  "safe_program p pr \<longleftrightarrow>
     list_all (\<lambda>k. safe_instruction p (instruction_count pr) k (instructions pr ! k))
       [0..<instruction_count pr]"

definition forward_program :: "hal_program \<Rightarrow> bool" where
  "forward_program pr \<longleftrightarrow>
     list_all (\<lambda>k. list_all (\<lambda>s. k < s) (successors k (instructions pr ! k)))
       [0..<instruction_count pr]"

lemma safe_programD:
  "safe_program p pr \<Longrightarrow> k < instruction_count pr
   \<Longrightarrow> safe_instruction p (instruction_count pr) k (instructions pr ! k)"
  by (simp add: safe_program_def list_all_iff)

lemma forward_programD:
  "forward_program pr \<Longrightarrow> k < instruction_count pr
   \<Longrightarrow> s \<in> set (successors k (instructions pr ! k)) \<Longrightarrow> k < s"
  by (simp add: forward_program_def list_all_iff)

subsection \<open>No handler panics\<close>

lemma read_register_ok [simp]:
  "unat r < REGISTER_COUNT \<Longrightarrow> read_register m r = Ok (registers m ! unat r)"
  by (simp add: read_register_def)

lemma write_register_ok [simp]:
  "unat r < REGISTER_COUNT
   \<Longrightarrow> write_register m r v = Ok (m\<lparr>registers := (registers m)[unat r := v]\<rparr>)"
  by (simp add: write_register_def)

lemma dest_reg_ok [simp]: "reg_ok op \<Longrightarrow> unat (dest_reg op) < REGISTER_COUNT"
  by (cases op) (simp_all add: REGISTER_COUNT_def)

lemma is_ok_read_reg [simp]: "reg_ok op \<Longrightarrow> is_ok (read_reg m op)"
  by (cases op) simp_all

lemma is_ok_load_value [simp]: "reg_ok op \<Longrightarrow> is_ok (load_value m op)"
  by (cases op) simp_all

lemma is_ok_read_bool [simp]: "unat r < REGISTER_COUNT \<Longrightarrow> is_ok (read_bool m r)"
  by (simp add: read_bool_def)

lemma is_ok_read_bool_operand [simp]: "reg_ok op \<Longrightarrow> is_ok (read_bool_operand m op)"
  by (cases op) simp_all

lemma is_ok_bindo: "is_ok a \<Longrightarrow> (\<And>x. is_ok (f x)) \<Longrightarrow> is_ok (bindo a f)"
  by (cases a) simp_all

lemma is_ok_mapo [simp]: "is_ok (mapo f a) = is_ok a"
  by (cases a) simp_all

lemma is_ok_arith_release [simp]:
  "op \<in> {OpAdd, OpSub, OpMul} \<Longrightarrow> is_ok (hal_binop ReleaseBuild op a b)"
  by (cases a) (auto simp: hal_binop_def split: hal_value.split)

lemma is_ok_neg_release [simp]: "is_ok (hal_neg ReleaseBuild a)"
  by (cases a) simp_all

lemma is_ok_counter_tick_release [simp]:
  "is_ok (counter_tick ReleaseBuild k pvalue cu cd c)"
  by (simp add: counter_tick_def count_up_def Let_def split: counter_kind.split)

lemmas exec_ok_simps = exec_load_def exec_arith_binop_def exec_unary_def exec_compare_def
  exec_bitwise_not_def exec_jump_def exec_jump_if_def exec_store_def

lemma is_ok_exec_arith:
  "list_all reg_ok ops \<Longrightarrow> (\<And>a b. is_ok (f a b)) \<Longrightarrow> is_ok (exec_arith_binop m ops f)"
  by (auto simp: exec_arith_binop_def intro!: is_ok_bindo split: list.split)

lemma is_ok_exec_unary:
  "list_all reg_ok ops \<Longrightarrow> (\<And>a. is_ok (f a)) \<Longrightarrow> is_ok (exec_unary m ops f)"
  by (auto simp: exec_unary_def intro!: is_ok_bindo split: list.split)

lemma is_ok_exec_compare: "list_all reg_ok ops \<Longrightarrow> is_ok (exec_compare m ops f)"
  by (auto simp: exec_compare_def intro!: is_ok_bindo split: list.split)

lemma is_ok_exec_load: "list_all reg_ok ops \<Longrightarrow> is_ok (exec_load m ops)"
  by (auto simp: exec_load_def intro!: is_ok_bindo split: list.split operand.split)

lemma is_ok_exec_store: "list_all reg_ok ops \<Longrightarrow> is_ok (exec_store m ops)"
  by (auto simp: exec_store_def intro!: is_ok_bindo split: list.split operand.split)

lemma is_ok_exec_jump: "is_ok (exec_jump m ops)" "is_ok (exec_jump_if m ops)"
  by (auto simp: exec_jump_def exec_jump_if_def split: list.split operand.split hal_value.split)

lemma is_ok_exec_timer: "list_all reg_ok ops \<Longrightarrow> is_ok (exec_timer_run m ops)"
  "list_all reg_ok ops \<Longrightarrow> is_ok (exec_read_timer m ops)"
  by (auto simp: exec_timer_run_def exec_read_timer_def Let_def
      split: list.split operand.split hal_value.split option.split)

lemma is_ok_exec_read_counter: "list_all reg_ok ops \<Longrightarrow> is_ok (exec_read_counter m ops)"
  by (auto simp: exec_read_counter_def Let_def split: list.split operand.split hal_value.split)

lemma is_ok_exec_counter_run:
  "list_all reg_ok ops \<Longrightarrow> is_ok (exec_counter_run ReleaseBuild m ops)"
  by (auto simp: exec_counter_run_def Let_def intro!: is_ok_bindo
      split: list.split operand.split hal_value.split)

lemma is_ok_exec_sr: "list_all reg_ok ops \<Longrightarrow> is_ok (exec_sr_run m ops)"
  "list_all reg_ok ops \<Longrightarrow> is_ok (exec_read_sr m ops)"
  by (auto simp: exec_sr_run_def exec_read_sr_def Let_def intro!: is_ok_bindo
      split: list.split operand.split hal_value.split)

lemma is_ok_exec_edge: "list_all reg_ok ops \<Longrightarrow> is_ok (exec_edge_run m ops)"
  "list_all reg_ok ops \<Longrightarrow> is_ok (exec_read_edge m ops)"
  by (auto simp: exec_edge_run_def exec_read_edge_def Let_def intro!: is_ok_bindo
      split: list.split operand.split hal_value.split)

lemmas is_ok_execs = is_ok_exec_arith is_ok_exec_unary is_ok_exec_compare is_ok_exec_load
  is_ok_exec_store is_ok_exec_jump is_ok_exec_timer is_ok_exec_read_counter
  is_ok_exec_counter_run is_ok_exec_sr is_ok_exec_edge

lemma is_ok_execute_instruction:
  assumes "panic_free_opcode p (opcode i)" and "opcode i \<noteq> Call" and "opcode i \<noteq> Ret"
    and "list_all reg_ok (operands i)"
  shows "is_ok (execute_instruction p m i)"
  using assms unfolding execute_instruction_def Let_def exec_bitwise_not_def
  by (cases "opcode i") (simp_all add: is_ok_execs)

subsection \<open>One step of a safe program\<close>

text \<open>The state of an executor that is about to run a safe program.\<close>

definition ready :: "profile \<Rightarrow> executor \<Rightarrow> bool" where
  "ready p ex \<longleftrightarrow> safe_program p (ex_program ex) \<and> vm_wf (ex_vm ex)
     \<and> ip (ex_vm ex) < instruction_count (ex_program ex)"

lemma control_successor:
  assumes "execute_instruction p m i = Ok (m', Continue)" and "opcode i \<noteq> Call"
    and "opcode i \<noteq> Ret"
  shows "(if is_jump (opcode i) then ip m' else ip m' + 1) \<in> set (successors (ip m) i)"
proof (cases "is_control (opcode i)")
  case False
  then have "ip m' = ip m"
    using data_instruction [of i m p] assms(1) by (simp add: data_exec_def frame_def)
  then show ?thesis using False
    by (cases "opcode i") (simp_all add: is_control_def is_jump_def successors_def)
next
  case True
  then consider "opcode i = Jump" | "opcode i = JumpIf" | "opcode i = Halt"
    using assms by (auto simp: is_control_def)
  then show ?thesis using assms
    by cases (auto simp: execute_instruction_def exec_jump_def exec_jump_if_def is_jump_def
        successors_def jump_target_def set_ip_def advance_ip_def
        split: list.splits operand.splits hal_value.splits if_splits)
qed

lemma halted_only_at_halt:
  assumes "execute_instruction p m i = Ok (m', res)" and "opcode i \<noteq> Ret"
  shows "res \<noteq> Breaked" and "res = Halted \<Longrightarrow> opcode i = Halt"
proof -
  have "res = Continue" if nh: "opcode i \<noteq> Halt"
  proof (cases "is_control (opcode i)")
    case False
    then show ?thesis using data_instruction [of i m p] assms(1) by (simp add: data_exec_def)
  next
    case True
    then consider "opcode i = Jump" | "opcode i = JumpIf" | "opcode i = Call"
      using nh assms(2) by (auto simp: is_control_def)
    then show ?thesis using assms(1)
      by cases (auto simp: execute_instruction_def exec_jump_def exec_jump_if_def exec_call_def Let_def
          split: list.splits operand.splits hal_value.splits if_splits)
  qed
  then show "res \<noteq> Breaked" and "res = Halted \<Longrightarrow> opcode i = Halt"
    using assms(1) by (cases "opcode i = Halt"; auto simp: execute_instruction_def)+
qed

lemma is_ok_record_trace: "is_ok (record_trace ex n oc)"
  by (simp add: record_trace_def REGISTER_COUNT_def)

lemma step_ready:
  assumes "ready p ex"
  obtains ex' res where "step p ex = Ok (ex', res)"
    and "ex_program ex' = ex_program ex"
    and "res = Continue \<Longrightarrow> ready p ex' \<and> ip (ex_vm ex') \<in>
      set (successors (ip (ex_vm ex)) (instructions (ex_program ex) ! ip (ex_vm ex)))"
    and "vm_wf (ex_vm ex')"
proof -
  let ?i = "instructions (ex_program ex) ! ip (ex_vm ex)"
  let ?n = "instruction_count (ex_program ex)"
  have safe: "safe_instruction p ?n (ip (ex_vm ex)) ?i" and wf: "vm_wf (ex_vm ex)"
    and lt: "ip (ex_vm ex) < length (instructions (ex_program ex))"
    using assms safe_programD [of p "ex_program ex" "ip (ex_vm ex)"]
    by (simp_all add: ready_def instruction_count_def)
  show thesis
  proof (cases "debug_mode (ex_debug ex) \<and> ip (ex_vm ex) \<in> breakpoints (ex_debug ex)")
    case True
    then have "step p ex = Ok (ex, Breaked)" using lt by (simp add: step_def Let_def)
    then show thesis using wf by (intro that [of ex Breaked]) simp_all
  next
    case False
    obtain m res where x: "execute_instruction p (ex_vm ex) ?i = Ok (m, res)"
      using is_ok_execute_instruction [of p ?i] safe
      by (fastforce simp: safe_instruction_def is_ok_iff)
    obtain d where d: "record_trace (ex\<lparr>ex_vm := m\<rparr>) (ip (ex_vm ex)) (opcode ?i) = Ok d"
      using is_ok_record_trace [unfolded is_ok_iff] by blast
    let ?ex = "ex\<lparr>ex_vm := (if is_jump (opcode ?i) then m else advance_ip m), ex_debug := d\<rparr>"
    have s: "step p ex = Ok (?ex, res)" using False lt x d by (auto simp: step_def Let_def)
    have w: "vm_wf (ex_vm ?ex)" using execute_instruction_wf [OF x wf] by (simp add: advance_ip_def)
    have "ip (ex_vm ?ex) \<in> set (successors (ip (ex_vm ex)) ?i)" if "res = Continue"
      using control_successor [of p "ex_vm ex" ?i m] x safe that
      by (auto simp: safe_instruction_def advance_ip_def)
    then show thesis using s w safe assms
      by (intro that [of ?ex res]) (auto simp: ready_def safe_instruction_def list_all_iff)
  qed
qed

subsection \<open>Runs\<close>

inductive steps :: "profile \<Rightarrow> executor \<Rightarrow> executor \<Rightarrow> bool" for p where
  steps_refl: "steps p ex ex"
| steps_step: "steps p ex ex1 \<Longrightarrow> step p ex1 = Ok (ex2, Continue) \<Longrightarrow> steps p ex ex2"

lemma ready_steps: "steps p ex ex' \<Longrightarrow> ready p ex \<Longrightarrow> ready p ex'"
proof (induction rule: steps.induct)
  case (steps_step ex ex1 ex2)
  then have "ready p ex1" by blast
  then obtain ex' res where "step p ex1 = Ok (ex', res)" and "res = Continue \<Longrightarrow> ready p ex'"
    by (rule step_ready) blast
  then show ?case using steps_step.hyps(2) by simp
qed

text \<open>
  The registers and the signal table stay well formed: whatever program is loaded, an executor
  that starts with sixteen registers and distinct signal names keeps both through any number of
  instructions.
\<close>

theorem vm_invariant:
  assumes "steps p ex ex'" and "vm_wf (ex_vm ex)"
  shows "vm_wf (ex_vm ex')"
  using assms
proof (induction rule: steps.induct)
  case (steps_step ex ex1 ex2)
  let ?i = "instructions (ex_program ex1) ! ip (ex_vm ex1)"
  obtain m where "execute_instruction p (ex_vm ex1) ?i = Ok (m, Continue)"
    and "ex_vm ex2 = m \<or> ex_vm ex2 = advance_ip m"
    using steps_step.hyps(2)
    by (auto simp: step_def Let_def outcome_simps split: if_splits)
  then show ?case using execute_instruction_wf [of p "ex_vm ex1" ?i m] steps_step
    by (auto simp: advance_ip_def)
qed

theorem vm_invariant_witness:
  "vm_wf (ex_vm (executor_new (hal_program_new ''p'' [nop, halt])))
   \<and> (\<exists>ex'. steps DevBuild (executor_new (hal_program_new ''p'' [nop, halt])) ex'
        \<and> ip (ex_vm ex') = 1 \<and> vm_wf (ex_vm ex'))"
proof -
  let ?ex = "executor_new (hal_program_new ''p'' [nop, halt])"
  have wf: "vm_wf (ex_vm ?ex)" by (simp add: executor_new_def)
  have "step DevBuild ?ex = Ok (?ex\<lparr>ex_vm := (ex_vm ?ex)\<lparr>ip := 1\<rparr>\<rparr>, Continue)"
    by (simp add: step_def executor_new_def hal_program_new_def nop_def inst_def vm_new_def
        execute_instruction_def record_trace_def debug_state_new_def is_jump_def advance_ip_def)
  then have "steps DevBuild ?ex (?ex\<lparr>ex_vm := (ex_vm ?ex)\<lparr>ip := 1\<rparr>\<rparr>)"
    by (rule steps_step [OF steps_refl])
  then show ?thesis using wf vm_invariant [OF _ wf] by fastforce
qed

text \<open>
  C27: a program that passes the static check never panics: at every state reachable from a ready
  executor the next step returns, and the instruction pointer is inside the program.
\<close>

theorem safe_program_never_panics:
  assumes "ready p ex" and "steps p ex ex'"
  shows "ip (ex_vm ex') < instruction_count (ex_program ex') \<and> (\<exists>r. step p ex' = Ok r)"
proof -
  have r: "ready p ex'" using assms(2,1) by (rule ready_steps)
  then obtain ex'' res where "step p ex' = Ok (ex'', res)" by (rule step_ready) blast
  then show ?thesis using r by (auto simp: ready_def)
qed

lemma run_loop_Continue:
  "step p ex = Ok (ex', Continue) \<Longrightarrow> run_loop p k ex = run_loop p (k + 1) ex'"
  by (simp add: run_loop.simps)

lemma run_loop_stop:
  "step p ex = Ok (ex', res) \<Longrightarrow> res \<noteq> Continue \<Longrightarrow> run_loop p k ex = Some (Ok (ex', k + 1))"
  by (cases res) (simp_all add: run_loop.simps)

text \<open>A step that changes nothing is repeated forever.\<close>

lemma run_loop_Some: "run_loop p k ex = Some r \<Longrightarrow> step p ex \<noteq> Ok (ex, Continue)"
  by (erule run_loop.raw_induct [where P = "\<lambda>p k ex r. step p ex \<noteq> Ok (ex, Continue)", rotated])
     fastforce

lemma run_loop_stuck: "step p ex = Ok (ex, Continue) \<Longrightarrow> run_loop p k ex = None"
  using run_loop_Some [of p k ex] by (cases "run_loop p k ex") blast+

lemma run_loop_forward:
  assumes "ready p ex" and "forward_program (ex_program ex)"
  shows "\<exists>ex' n. run_loop p k ex = Some (Ok (ex', k + n)) \<and> vm_wf (ex_vm ex') \<and> 0 < n
    \<and> n + ip (ex_vm ex) \<le> instruction_count (ex_program ex)"
  using assms
proof (induction "instruction_count (ex_program ex) - ip (ex_vm ex)" arbitrary: ex k rule: less_induct)
  case less
  obtain ex1 res where s: "step p ex = Ok (ex1, res)" "ex_program ex1 = ex_program ex"
    and c: "res = Continue \<Longrightarrow> ready p ex1 \<and> ip (ex_vm ex1) \<in>
      set (successors (ip (ex_vm ex)) (instructions (ex_program ex) ! ip (ex_vm ex)))"
    and w: "vm_wf (ex_vm ex1)"
    using less.prems(1) by (rule step_ready) blast
  have lt: "ip (ex_vm ex) < instruction_count (ex_program ex)" using less.prems(1) by (simp add: ready_def)
  show ?case
  proof (cases "res = Continue")
    case True
    then have r1: "ready p ex1" and "ip (ex_vm ex) < ip (ex_vm ex1)"
      using c forward_programD [OF less.prems(2) lt] by simp_all
    moreover have "instruction_count (ex_program ex1) - ip (ex_vm ex1)
        < instruction_count (ex_program ex) - ip (ex_vm ex)"
      using calculation(2) lt s(2) by simp
    ultimately obtain ex' n where "run_loop p (k + 1) ex1 = Some (Ok (ex', k + 1 + n))"
      "vm_wf (ex_vm ex')" "n + ip (ex_vm ex1) \<le> instruction_count (ex_program ex1)"
      using less.hyps [of ex1 "k + 1"] less.prems(2) s(2) lt by auto
    then show ?thesis using run_loop_Continue [of p ex ex1 k] s True \<open>ip (ex_vm ex) < ip (ex_vm ex1)\<close>
      by (intro exI [of _ ex'] exI [of _ "n + 1"]) simp
  next
    case False
    then show ?thesis using run_loop_stop [OF s(1) False, of k] w lt
      by (intro exI [of _ ex1] exI [of _ 1]) simp
  qed
qed

text \<open>
  C25: one scan of a safe program whose jumps all go forward ends: the run loop returns without a
  panic, with a well-formed machine, after at most as many steps as the program has instructions.
\<close>

theorem forward_program_halts:
  assumes "ready p ex" and "forward_program (ex_program ex)" and "ip (ex_vm ex) = 0"
  shows "\<exists>ex' n. run_to_halt p ex = Some (Ok (ex', n)) \<and> vm_wf (ex_vm ex')
    \<and> n \<le> instruction_count (ex_program ex)"
  using run_loop_forward [OF assms(1,2), of 0] assms(3) by (auto simp: run_to_halt_def)

definition latch_program :: hal_program where
  "latch_program = hal_program_new ''latch''
     [inst Load [Register 0, SignalName ''start''], inst Load [Register 1, Immediate (VBool True)],
      cmp Eq 0 1, jump_if 5, halt,
      inst Store [SignalName ''motor'', Register 1], halt]"

lemma latch_program_ready: "ready DevBuild (executor_new latch_program)"
proof -
  have "safe_program DevBuild latch_program" by code_simp
  then show ?thesis
    by (simp add: ready_def executor_new_def vm_new_def vm_wf_def instruction_count_def
        latch_program_def hal_program_new_def)
qed

theorem safe_program_never_panics_witness:
  "steps DevBuild (executor_new latch_program) (executor_new latch_program)
   \<and> (\<exists>r. step DevBuild (executor_new latch_program) = Ok r)"
  using safe_program_never_panics [OF latch_program_ready steps_refl] steps_refl by blast

theorem forward_program_halts_witness:
  "forward_program latch_program \<and>
   (\<exists>ex' n. run_to_halt DevBuild (executor_new latch_program) = Some (Ok (ex', n)) \<and> vm_wf (ex_vm ex')
      \<and> n \<le> instruction_count latch_program)"
proof -
  have "forward_program latch_program" by code_simp
  then show ?thesis using forward_program_halts [OF latch_program_ready]
    by (simp add: executor_new_def vm_new_def)
qed

text \<open>
  The check \<^verbatim>\<open>is_well_formed\<close> of the engine accepts programs whose scan never ends: a jump to
  itself in front of the halt instruction is well formed and the run loop does not return.
\<close>

theorem well_formed_may_diverge:
  "is_well_formed (hal_program_new ''spin'' [jump 0, halt])
   \<and> run_to_halt p (executor_new (hal_program_new ''spin'' [jump 0, halt])) = None"
proof -
  let ?ex = "executor_new (hal_program_new ''spin'' [jump 0, halt])"
  have "step p ?ex = Ok (?ex, Continue)"
    by (simp add: step_def executor_new_def hal_program_new_def jump_def inst_def vm_new_def
        execute_instruction_def exec_jump_def set_ip_def record_trace_def debug_state_new_def is_jump_def)
  then show ?thesis
    by (simp add: run_loop_stuck run_to_halt_def is_well_formed_def hal_program_new_def halt_def)
qed

end
