(* ===== verification/Executor_Debug.thy ===== *)
theory Executor_Debug
  imports Executor_Safety
begin

text \<open>
  The debugging interface of the executor: a breakpoint pauses without touching the machine,
  tracing does not change what a program computes, and \<^verbatim>\<open>resume\<close> executes the instruction under the
  breakpoint. The last section is about the call and return instructions.
\<close>

subsection \<open>Breakpoints and tracing\<close>

definition at_breakpoint :: "executor \<Rightarrow> bool" where
  "at_breakpoint ex \<longleftrightarrow> debug_mode (ex_debug ex) \<and> ip (ex_vm ex) \<in> breakpoints (ex_debug ex)"

text \<open>The executor without its debug state.\<close>

definition strip :: "executor \<Rightarrow> executor" where
  "strip ex = ex\<lparr>ex_debug := debug_state_new\<rparr>"

lemma strip_sel [simp]:
  "ex_vm (strip ex) = ex_vm ex" "ex_program (strip ex) = ex_program ex"
  "ex_debug (strip ex) = debug_state_new"
  by (simp_all add: strip_def)

lemma strip_upd [simp]: "strip (ex\<lparr>ex_vm := m, ex_debug := d\<rparr>) = (strip ex)\<lparr>ex_vm := m\<rparr>"
  by (simp add: strip_def)

abbreviation strip_fst :: "(executor \<times> 'a) outcome \<Rightarrow> (executor \<times> 'a) outcome" where
  "strip_fst \<equiv> mapo (\<lambda>(e, r). (strip e, r))"

lemma record_trace_off [simp]: "\<not> debug_mode (ex_debug ex) \<Longrightarrow> record_trace ex n oc = Ok (ex_debug ex)"
  by (simp add: record_trace_def)

lemma record_trace_breakpoints:
  "record_trace ex n oc = Ok d \<Longrightarrow> breakpoints d = breakpoints (ex_debug ex)"
  by (auto simp: record_trace_def outcome_simps split: if_splits)

lemma step_strip:
  assumes "\<not> at_breakpoint ex"
  shows "step p (strip ex) = strip_fst (step p ex)"
proof -
  let ?n = "ip (ex_vm ex)" and ?is = "instructions (ex_program ex)"
  consider "\<not> ?n < length ?is"
    | e where "?n < length ?is" "execute_instruction p (ex_vm ex) (?is ! ?n) = Panic e"
    | m res where "?n < length ?is" "execute_instruction p (ex_vm ex) (?is ! ?n) = Ok (m, res)"
    by (cases "execute_instruction p (ex_vm ex) (?is ! ?n)") auto
  then show ?thesis
  proof cases
    case (3 m res)
    obtain d where d: "record_trace (ex\<lparr>ex_vm := m\<rparr>) ?n (opcode (?is ! ?n)) = Ok d"
      using is_ok_record_trace [unfolded is_ok_iff] by blast
    have "\<not> debug_mode debug_state_new" by (simp add: debug_state_new_def)
    then show ?thesis using 3 d assms
      by (auto simp: step_def Let_def at_breakpoint_def strip_def)
  qed (use assms in \<open>auto simp: step_def Let_def at_breakpoint_def debug_state_new_def\<close>)
qed

lemma step_breakpoints:
  "step p ex = Ok (ex', res) \<Longrightarrow> breakpoints (ex_debug ex') = breakpoints (ex_debug ex)"
  by (auto simp: step_def Let_def outcome_simps split: if_splits dest: record_trace_breakpoints)

lemma run_loop_strip_Some:
  assumes "run_loop p k ex = Some r"
  shows "breakpoints (ex_debug ex) = {} \<longrightarrow> run_loop p k (strip ex) = Some (strip_fst r)"
  using assms
proof (rule run_loop.raw_induct [rotated])
  fix loop p k ex r
  assume IH: "\<And>p k ex r. loop p k ex = Some r
      \<Longrightarrow> breakpoints (ex_debug ex) = {} \<longrightarrow> run_loop p k (strip ex) = Some (strip_fst r)"
    and body: "(case step p ex of Panic e \<Rightarrow> Some (Panic e)
      | Ok (ex', Continue) \<Rightarrow> loop p (k + 1) ex'
      | Ok (ex', Halted) \<Rightarrow> Some (Ok (ex', k + 1))
      | Ok (ex', Breaked) \<Rightarrow> Some (Ok (ex', k + 1))) = Some r"
  show "breakpoints (ex_debug ex) = {} \<longrightarrow> run_loop p k (strip ex) = Some (strip_fst r)"
  proof
    assume b: "breakpoints (ex_debug ex) = {}"
    then have s: "step p (strip ex) = strip_fst (step p ex)"
      by (intro step_strip) (simp add: at_breakpoint_def)
    show "run_loop p k (strip ex) = Some (strip_fst r)"
    proof (cases "step p ex")
      case (Panic e)
      then show ?thesis using body s by (auto simp: run_loop.simps)
    next
      case (Ok er)
      obtain ex' res where er: "er = (ex', res)" by (cases er)
      have "breakpoints (ex_debug ex') = {}" using step_breakpoints Ok er b by blast
      then show ?thesis using body s Ok er IH [of p "k + 1" ex' r]
        by (cases res) (auto simp: run_loop.simps [of p k "strip ex"])
    qed
  qed
qed

lemma run_loop_strip_None:
  assumes "run_loop p k ex0 = Some r"
  shows "\<forall>ex. ex0 = strip ex \<and> breakpoints (ex_debug ex) = {} \<longrightarrow> (\<exists>r'. run_loop p k ex = Some r')"
  using assms
proof (rule run_loop.raw_induct [rotated])
  fix loop p k ex0 r
  assume IH: "\<And>p k ex0 r. loop p k ex0 = Some r
      \<Longrightarrow> \<forall>ex. ex0 = strip ex \<and> breakpoints (ex_debug ex) = {} \<longrightarrow> (\<exists>r'. run_loop p k ex = Some r')"
    and body: "(case step p ex0 of Panic e \<Rightarrow> Some (Panic e)
      | Ok (ex', Continue) \<Rightarrow> loop p (k + 1) ex'
      | Ok (ex', Halted) \<Rightarrow> Some (Ok (ex', k + 1))
      | Ok (ex', Breaked) \<Rightarrow> Some (Ok (ex', k + 1))) = Some r"
  show "\<forall>ex. ex0 = strip ex \<and> breakpoints (ex_debug ex) = {} \<longrightarrow> (\<exists>r'. run_loop p k ex = Some r')"
  proof (intro allI impI, elim conjE)
    fix ex assume e0: "ex0 = strip ex" and b: "breakpoints (ex_debug ex) = {}"
    then have s: "step p ex0 = strip_fst (step p ex)"
      using step_strip [of ex p] by (simp add: at_breakpoint_def)
    show "\<exists>r'. run_loop p k ex = Some r'"
    proof (cases "step p ex")
      case (Panic e)
      then show ?thesis by (simp add: run_loop.simps)
    next
      case (Ok er)
      obtain ex' res where er: "er = (ex', res)" by (cases er)
      have "breakpoints (ex_debug ex') = {}" using step_breakpoints Ok er b by blast
      then show ?thesis using body s Ok er IH [of p "k + 1" "strip ex'" r]
        by (cases res) (auto simp: run_loop.simps [of p k ex])
    qed
  qed
qed

text \<open>
  C38: debugging is transparent. With no breakpoint set, a scan in debug mode returns exactly when
  the scan without debugging does, with the same machine and the same number of steps.
\<close>

theorem debug_transparent:
  assumes "breakpoints (ex_debug ex) = {}"
  shows "run_to_halt p (strip ex) = map_option strip_fst (run_to_halt p ex)"
proof (cases "run_loop p 0 ex")
  case None
  then have "run_loop p 0 (strip ex) = None"
    using run_loop_strip_None [of p 0 "strip ex"] assms by (cases "run_loop p 0 (strip ex)") auto
  then show ?thesis using None by (simp add: run_to_halt_def)
next
  case (Some r)
  then show ?thesis using run_loop_strip_Some [OF Some] assms by (simp add: run_to_halt_def)
qed

theorem debug_transparent_witness:
  "breakpoints (ex_debug (enable_debug (executor_new latch_program))) = {}
   \<and> run_to_halt DevBuild (strip (enable_debug (executor_new latch_program)))
     = map_option strip_fst (run_to_halt DevBuild (enable_debug (executor_new latch_program)))"
proof -
  have "breakpoints (ex_debug (enable_debug (executor_new latch_program))) = {}"
    by (simp add: enable_debug_def executor_new_def debug_state_new_def)
  then show ?thesis using debug_transparent by blast
qed

text \<open>
  At a breakpoint inside the program a step reports the break and changes nothing, and
  \<^verbatim>\<open>resume\<close> executes the instruction there exactly as an executor without breakpoints would, leaving
  debug mode on.
\<close>

theorem breakpoint_and_resume:
  assumes "at_breakpoint ex" and "ip (ex_vm ex) < instruction_count (ex_program ex)"
  shows "step p ex = Ok (ex, Breaked)
    \<and> strip_fst (resume p ex) = step p (strip ex)
    \<and> (\<forall>ex' res. resume p ex = Ok (ex', res) \<longrightarrow> is_debug_enabled ex'
        \<and> breakpoints (ex_debug ex') = breakpoints (ex_debug ex))"
proof (intro conjI allI impI)
  show "step p ex = Ok (ex, Breaked)"
    using assms by (simp add: step_def at_breakpoint_def instruction_count_def)
  have "\<not> at_breakpoint (disable_debug ex)" by (simp add: at_breakpoint_def disable_debug_def)
  then have "step p (strip (disable_debug ex)) = strip_fst (step p (disable_debug ex))"
    by (rule step_strip)
  moreover have "strip (disable_debug ex) = strip ex" "strip (enable_debug e) = strip e" for e
    by (simp_all add: strip_def disable_debug_def enable_debug_def)
  ultimately show "strip_fst (resume p ex) = step p (strip ex)"
    by (cases "step p (disable_debug ex)") (auto simp: resume_def)
next
  fix ex' res assume r: "resume p ex = Ok (ex', res)"
  then show "is_debug_enabled ex'"
    by (auto simp: resume_def outcome_simps is_debug_enabled_def enable_debug_def)
  obtain ex1 where "step p (disable_debug ex) = Ok (ex1, res)" "ex' = enable_debug ex1"
    using r by (auto simp: resume_def outcome_simps)
  then show "breakpoints (ex_debug ex') = breakpoints (ex_debug ex)"
    using step_breakpoints [of p "disable_debug ex" ex1 res]
    by (simp add: enable_debug_def disable_debug_def)
qed

definition paused_executor :: executor where
  "paused_executor = fst (add_breakpoint (enable_debug (executor_new latch_program)) 0)"

theorem breakpoint_and_resume_witness:
  "step DevBuild paused_executor = Ok (paused_executor, Breaked)
   \<and> strip_fst (resume DevBuild paused_executor) = step DevBuild (strip paused_executor)"
proof -
  have "at_breakpoint paused_executor"
    and "ip (ex_vm paused_executor) < instruction_count (ex_program paused_executor)"
    by (simp_all add: paused_executor_def at_breakpoint_def add_breakpoint_def enable_debug_def
        executor_new_def vm_new_def instruction_count_def latch_program_def hal_program_new_def)
  then show ?thesis using breakpoint_and_resume by blast
qed

subsection \<open>Calls\<close>

text \<open>
  A call that returns at once does not come back to the instruction after it. \<^verbatim>\<open>Ret\<close> restores the
  saved address and the step then advances it, so the instruction after the call is skipped.
\<close>

theorem return_skips_instruction:
  assumes "\<not> debug_mode (ex_debug ex)" and "k = ip (ex_vm ex)"
    and "k < instruction_count (ex_program ex)" and "instructions (ex_program ex) ! k = call t"
    and "unat t < instruction_count (ex_program ex)"
    and "instructions (ex_program ex) ! unat t = ret None"
  shows "\<exists>ex1 ex2. step p ex = Ok (ex1, Continue) \<and> step p ex1 = Ok (ex2, Continue)
    \<and> ip (ex_vm ex2) = k + 2 \<and> call_stack (ex_vm ex2) = call_stack (ex_vm ex)"
proof -
  let ?m1 = "set_ip (push_call_ip (ex_vm ex) (k + 1)) (unat t)"
  have 1: "step p ex = Ok (ex\<lparr>ex_vm := ?m1\<rparr>, Continue)"
    using assms by (simp add: step_def instruction_count_def call_def execute_instruction_def
        exec_call_def record_trace_def is_jump_def Let_def)
  have "step p (ex\<lparr>ex_vm := ?m1\<rparr>) = Ok (ex\<lparr>ex_vm := (ex_vm ex)\<lparr>ip := k + 2\<rparr>\<rparr>, Continue)"
    using assms by (simp add: step_def instruction_count_def ret_def execute_instruction_def
        exec_ret_def record_trace_def is_jump_def pop_call_ip_def set_ip_def push_call_ip_def
        advance_ip_def Let_def)
  then show ?thesis using 1 by fastforce
qed

definition call_program :: hal_program where
  "call_program = hal_program_new ''call'' [call 3, inst Store [SignalName ''done'', Register 0], halt, ret None]"

theorem return_skips_instruction_witness:
  "\<exists>ex1 ex2. step DevBuild (executor_new call_program) = Ok (ex1, Continue)
    \<and> step DevBuild ex1 = Ok (ex2, Continue) \<and> ip (ex_vm ex2) = 0 + 2
    \<and> call_stack (ex_vm ex2) = call_stack (ex_vm (executor_new call_program))"
  by (rule return_skips_instruction [of _ _ 3])
     (simp_all add: executor_new_def debug_state_new_def vm_new_def instruction_count_def
        call_program_def hal_program_new_def)

end
