(* ===== verification/Function_Blocks.thy ===== *)
theory Function_Blocks
  imports Executor_Safety
begin

text \<open>
  The standard function blocks of the register machine (timers TON, TOF, TP, counters, SR/RS
  flip-flops and edge detectors) over a history of scans. Each is compared with the timing or
  Boolean equation its block stands for.
\<close>

subsection \<open>Timers over a history of scans\<close>

primrec scan_timer ::
    "timer_kind \<Rightarrow> u64 \<Rightarrow> u64 \<Rightarrow> bool list \<Rightarrow> timer_state \<Rightarrow> timer_state" where
  "scan_timer k pt cyc [] t = t"
| "scan_timer k pt cyc (b # bs) t = scan_timer k pt cyc bs (timer_tick k pt cyc b t)"

lemma scan_timer_append:
  "scan_timer k pt cyc (xs @ ys) t = scan_timer k pt cyc ys (scan_timer k pt cyc xs t)"
  by (induction xs arbitrary: t) simp_all

lemma scan_timer_replicate_Suc:
  "scan_timer k pt cyc (replicate (Suc n) b) t
   = timer_tick k pt cyc b (scan_timer k pt cyc (replicate n b) t)"
proof -
  have "replicate (Suc n) b = replicate n b @ [b]" by (simp add: replicate_append_same)
  then show ?thesis by (simp only: scan_timer_append scan_timer.simps)
qed

lemma le_saturating:
  "(pt \<le> saturating_add_u64 a b) = (unat pt \<le> unat a + unat b)"
proof -
  have "unat pt \<le> 2 ^ 64 - 1" using unat_bound [of pt] by simp
  then show ?thesis by (simp add: word_le_nat_alt unat_saturating_add)
qed

lemma unat_saturating_lt:
  "\<not> unat (pt :: u64) \<le> unat a + unat b \<Longrightarrow> unat (saturating_add_u64 a b) = unat a + unat b"
proof -
  assume "\<not> unat pt \<le> unat a + unat b"
  moreover have "unat pt \<le> 2 ^ 64 - 1" using unat_bound [of pt] by simp
  ultimately have "unat a + unat b \<le> 2 ^ 64 - 1" by linarith
  then show ?thesis by (simp add: unat_saturating_add)
qed

text \<open>\<open>timed n\<close>: a timer that has been running for \<open>n\<close> scans, up to its preset.\<close>

definition timed :: "nat \<Rightarrow> u64 \<Rightarrow> u64 \<Rightarrow> timer_state \<Rightarrow> bool" where
  "timed n pt cyc t \<longleftrightarrow> unat (elapsed_ms t) = min (n * unat cyc) (unat pt)"

lemma timed_advance:
  assumes "timed n pt cyc t" and "preset_ms t = pt"
  shows "timed (Suc n) pt cyc (timer_advance cyc q' t)"
    and "t_q (timer_advance cyc q' t) = (if unat pt \<le> Suc n * unat cyc then q' else t_q t)"
    and "in_val (timer_advance cyc q' t) = in_val t"
proof -
  have e: "unat (elapsed_ms t) = min (n * unat cyc) (unat pt)" using assms(1) by (simp add: timed_def)
  have c: "(unat pt \<le> unat (elapsed_ms t) + unat cyc) = (unat pt \<le> Suc n * unat cyc)"
    unfolding e by (auto simp: min_def)
  show "timed (Suc n) pt cyc (timer_advance cyc q' t)"
  proof (cases "unat pt \<le> Suc n * unat cyc")
    case True
    then show ?thesis using assms c by (simp add: timed_def timer_advance_def le_saturating)
  next
    case False
    then have "unat (saturating_add_u64 (elapsed_ms t) cyc) = unat (elapsed_ms t) + unat cyc"
      using c unat_saturating_lt by blast
    then show ?thesis using assms c False e
      by (auto simp: timed_def timer_advance_def le_saturating Let_def min_def)
  qed
  show "t_q (timer_advance cyc q' t) = (if unat pt \<le> Suc n * unat cyc then q' else t_q t)"
    using assms c by (auto simp: timer_advance_def le_saturating Let_def)
  show "in_val (timer_advance cyc q' t) = in_val t"
    by (simp add: timer_advance_def Let_def)
qed

lemma timed_conf [simp]:
  "timed n pt cyc (t\<lparr>preset_ms := p, t_kind := k\<rparr>) = timed n pt cyc t"
  "timed n pt cyc (t\<lparr>in_val := b\<rparr>) = timed n pt cyc t"
  "timed n pt cyc (t\<lparr>t_q := b\<rparr>) = timed n pt cyc t"
  by (simp_all add: timed_def)

lemma timed_zero: "elapsed_ms t = 0 \<Longrightarrow> timed 0 pt cyc t"
  by (simp add: timed_def)

lemma ton_tick_timed:
  assumes "timed n pt cyc t" and "t_q t = (0 < n \<and> unat pt \<le> n * unat cyc)"
  shows "timed (Suc n) pt cyc (timer_tick Ton pt cyc True t)
    \<and> t_q (timer_tick Ton pt cyc True t) = (unat pt \<le> Suc n * unat cyc)"
proof -
  let ?t = "t\<lparr>preset_ms := pt, t_kind := Ton\<rparr>"
  have "(pt \<le> elapsed_ms t) = (unat pt \<le> n * unat cyc)"
    using assms(1) by (simp add: timed_def word_le_nat_alt)
  moreover have "timed (Suc n) pt cyc t" if "unat pt \<le> n * unat cyc"
    using assms(1) that by (simp add: timed_def)
  ultimately show ?thesis
    using assms timed_advance [of n pt cyc ?t True]
    by (simp add: timer_tick_def ton_tick_def Let_def)
qed

lemma tof_tick_timed:
  assumes "timed n pt cyc t" and "t_q t = (n = 0 \<or> n * unat cyc < unat pt)"
  shows "timed (Suc n) pt cyc (timer_tick Tof pt cyc False t)
    \<and> t_q (timer_tick Tof pt cyc False t) = (Suc n * unat cyc < unat pt)"
proof -
  let ?t = "t\<lparr>preset_ms := pt, t_kind := Tof\<rparr>"
  have "timed (Suc n) pt cyc t" if "unat pt \<le> n * unat cyc"
    using assms(1) that by (simp add: timed_def)
  then show ?thesis
    using assms timed_advance [of n pt cyc ?t False]
    by (auto simp: timer_tick_def tof_tick_def Let_def)
qed

lemma tp_tick_timed:
  assumes "timed n pt cyc t" and "in_val t" and "t_q t = (n * unat cyc < unat pt)"
  shows "timed (Suc n) pt cyc (timer_tick Tp pt cyc True t)
    \<and> in_val (timer_tick Tp pt cyc True t)
    \<and> t_q (timer_tick Tp pt cyc True t) = (Suc n * unat cyc < unat pt)"
proof -
  let ?t = "t\<lparr>preset_ms := pt, t_kind := Tp\<rparr>"
  have "timed (Suc n) pt cyc t" if "unat pt \<le> n * unat cyc"
    using assms(1) that by (simp add: timed_def)
  then show ?thesis
    using assms timed_advance [of n pt cyc ?t False]
    by (auto simp: timer_tick_def tp_tick_def Let_def)
qed

lemma tp_rising_edge:
  assumes "\<not> in_val t"
  shows "timed 1 pt cyc (timer_tick Tp pt cyc True t)
    \<and> in_val (timer_tick Tp pt cyc True t)
    \<and> t_q (timer_tick Tp pt cyc True t) = (unat cyc < unat pt)"
proof -
  let ?t = "t\<lparr>preset_ms := pt, t_kind := Tp, t_q := True, elapsed_ms := 0\<rparr>"
  have "timed 0 pt cyc ?t" by (simp add: timed_zero)
  then show ?thesis
    using assms timed_advance [of 0 pt cyc ?t False]
    by (auto simp: timer_tick_def tp_tick_def Let_def)
qed

text \<open>
  C33: TON is an on-delay. After any history, when the input has been low and then high for \<open>n\<close>
  scans, the elapsed time is \<open>n\<close> cycle times capped at the preset, and the output is on exactly
  when that time has reached the preset. Saturating addition makes this hold for every width.
\<close>

theorem ton_on_delay:
  "let u = scan_timer Ton pt cyc (hist @ [False] @ replicate n True) t in
    unat (elapsed_ms u) = min (n * unat cyc) (unat pt)
    \<and> t_q u = (0 < n \<and> unat pt \<le> n * unat cyc)"
proof -
  define t' where "t' = (\<lambda>n. scan_timer Ton pt cyc (hist @ [False] @ replicate n True) t)"
  have "timed n pt cyc (t' n) \<and> t_q (t' n) = (0 < n \<and> unat pt \<le> n * unat cyc)"
  proof (induction n)
    case 0
    show ?case
      by (simp add: t'_def scan_timer_append timer_tick_def ton_tick_def timed_zero)
  next
    case (Suc n)
    have "t' (Suc n) = timer_tick Ton pt cyc True (t' n)"
      unfolding t'_def by (simp only: scan_timer_append scan_timer_replicate_Suc)
    then show ?case using Suc ton_tick_timed [of n pt cyc "t' n"] by simp
  qed
  then show ?thesis by (simp add: timed_def t'_def)
qed

text \<open>
  TOF is an off-delay. When the input has been high and then low for \<open>n\<close> scans, the output
  stays on exactly as long as \<open>n\<close> cycle times are below the preset.
\<close>

theorem tof_off_delay:
  "let u = scan_timer Tof pt cyc (hist @ [True] @ replicate n False) t in
    unat (elapsed_ms u) = min (n * unat cyc) (unat pt)
    \<and> t_q u = (n = 0 \<or> n * unat cyc < unat pt)"
proof -
  define t' where "t' = (\<lambda>n. scan_timer Tof pt cyc (hist @ [True] @ replicate n False) t)"
  have "timed n pt cyc (t' n) \<and> t_q (t' n) = (n = 0 \<or> n * unat cyc < unat pt)"
  proof (induction n)
    case 0
    show ?case
      by (simp add: t'_def scan_timer_append timer_tick_def tof_tick_def timed_zero)
  next
    case (Suc n)
    have "t' (Suc n) = timer_tick Tof pt cyc False (t' n)"
      unfolding t'_def by (simp only: scan_timer_append scan_timer_replicate_Suc)
    then show ?case using Suc tof_tick_timed [of n pt cyc "t' n"] by simp
  qed
  then show ?thesis by (simp add: timed_def t'_def)
qed

text \<open>
  TP is a pulse that ends with its input. After a rising edge held for \<open>n\<close> further scans the
  output is on exactly while \<open>n + 1\<close> cycle times are below the preset, and the first low scan cuts
  the pulse off whatever its remaining time.
\<close>

theorem tp_pulse:
  "let u = scan_timer Tp pt cyc (hist @ [False] @ replicate (Suc n) True) t in
    t_q u = (Suc n * unat cyc < unat pt)
    \<and> \<not> t_q (timer_tick Tp pt cyc False u)"
proof -
  define t' where "t' = (\<lambda>n. scan_timer Tp pt cyc (hist @ [False] @ replicate (Suc n) True) t)"
  have "timed (Suc n) pt cyc (t' n) \<and> in_val (t' n) \<and> t_q (t' n) = (Suc n * unat cyc < unat pt)"
  proof (induction n)
    case 0
    have "\<not> in_val (scan_timer Tp pt cyc (hist @ [False]) t)"
      by (simp add: scan_timer_append timer_tick_def)
    then show ?case
      using tp_rising_edge [of "scan_timer Tp pt cyc (hist @ [False]) t" pt cyc]
      by (simp add: t'_def scan_timer_append)
  next
    case (Suc n)
    have "t' (Suc n) = timer_tick Tp pt cyc True (t' n)"
      unfolding t'_def by (simp only: scan_timer_append scan_timer_replicate_Suc)
    then show ?case using Suc tp_tick_timed [of "Suc n" pt cyc "t' n"] by simp
  qed
  then show ?thesis by (simp add: t'_def timer_tick_def tp_tick_def Let_def)
qed

subsection \<open>Counters over a history of scans\<close>

primrec rises :: "bool \<Rightarrow> bool list \<Rightarrow> nat" where
  "rises prev [] = 0"
| "rises prev (x # xs) = (if x \<and> \<not> prev then 1 else 0) + rises x xs"

primrec scan_counter ::
    "profile \<Rightarrow> counter_kind \<Rightarrow> u32 \<Rightarrow> (bool \<times> bool) list \<Rightarrow> counter_state \<Rightarrow> counter_state outcome" where
  "scan_counter p k pvalue [] c = Ok c"
| "scan_counter p k pvalue (x # xs) c =
     bindo (counter_tick p k pvalue (fst x) (snd x) c) (scan_counter p k pvalue xs)"

lemma count_up_ok:
  assumes "unat (cv c) \<le> unat (pv c)" and "unat (pv c) < 2 ^ 32 - 1"
  shows "\<exists>n. count_up p rise c = Ok n
    \<and> unat n = min (unat (cv c) + (if rise then 1 else 0)) (unat (pv c))"
proof (cases rise)
  case True
  have lt: "unat (cv c) + 1 < 2 ^ 32" using assms by simp
  have e: "uint (cv c) + 1 = int (unat (cv c) + 1)" by simp
  have "unat (word_of_nat (unat (cv c) + 1) :: u32) = unat (cv c) + 1"
    using lt by (intro unat_of_nat_small) simp
  then show ?thesis using True lt
    unfolding count_up_def e by (simp add: ures_of_nat min_def word_le_nat_alt del: of_nat_Suc of_nat_add)
next
  case False
  then show ?thesis using assms by (simp add: count_up_def)
qed

lemma counter_tick_ctu:
  assumes "unat (cv c) \<le> unat pvalue" and "unat pvalue < 2 ^ 32 - 1"
  shows "\<exists>c'. counter_tick p Ctu pvalue cu cd c = Ok c' \<and> cu_val c' = cu
    \<and> unat (cv c') = min (unat (cv c) + (if cu \<and> \<not> cu_val c then 1 else 0)) (unat pvalue)
    \<and> c_q c' = (unat pvalue \<le> unat (cv c'))"
proof -
  let ?c = "c\<lparr>pv := pvalue, c_kind := Ctu, cu_val := cu, cd_val := cd\<rparr>"
  obtain n where "count_up p (cu \<and> \<not> cu_val c) ?c = Ok n"
    "unat n = min (unat (cv c) + (if cu \<and> \<not> cu_val c then 1 else 0)) (unat pvalue)"
    using count_up_ok [of ?c p "cu \<and> \<not> cu_val c"] assms by auto
  then show ?thesis by (simp add: counter_tick_def Let_def word_le_nat_alt)
qed

lemma scan_ctu:
  assumes "unat (cv c) \<le> unat pvalue" and "unat pvalue < 2 ^ 32 - 1"
  shows "\<exists>c'. scan_counter p Ctu pvalue xs c = Ok c'
    \<and> unat (cv c') = min (unat (cv c) + rises (cu_val c) (map fst xs)) (unat pvalue)
    \<and> (xs \<noteq> [] \<longrightarrow> c_q c' = (unat pvalue \<le> unat (cv c')))"
  using assms
proof (induction xs arbitrary: c)
  case Nil
  then show ?case by simp
next
  case (Cons x xs)
  obtain c1 where c1: "counter_tick p Ctu pvalue (fst x) (snd x) c = Ok c1" "cu_val c1 = fst x"
    "unat (cv c1) = min (unat (cv c) + (if fst x \<and> \<not> cu_val c then 1 else 0)) (unat pvalue)"
    "c_q c1 = (unat pvalue \<le> unat (cv c1))"
    using counter_tick_ctu [OF Cons.prems, of p "fst x" "snd x"] by blast
  obtain c2 where c2: "scan_counter p Ctu pvalue xs c1 = Ok c2"
    "unat (cv c2) = min (unat (cv c1) + rises (fst x) (map fst xs)) (unat pvalue)"
    "xs \<noteq> [] \<longrightarrow> c_q c2 = (unat pvalue \<le> unat (cv c2))"
    using Cons.IH [of c1] Cons.prems c1 by auto
  have "unat (cv c2) = min (unat (cv c) + rises (cu_val c) (map fst (x # xs))) (unat pvalue)"
    using c1(3) c2(2) by (auto simp: min_def)
  moreover have "c_q c2 = (unat pvalue \<le> unat (cv c2))"
    using c1(4) c2 by (cases "xs = []") auto
  ultimately show ?case using c1(1) c2(1) by simp
qed

text \<open>
  CTU counts rising edges. From a fresh counter, after any sequence of inputs, the count is
  the number of rising edges of CU capped at the preset, and the output is on exactly when the
  preset has been reached; no addition overflows as long as the preset is below \<^verbatim>\<open>u32::MAX\<close>.
\<close>

theorem ctu_counts_rising_edges:
  assumes "unat pvalue < 2 ^ 32 - 1" and "xs \<noteq> []"
  shows "\<exists>c. scan_counter p Ctu pvalue xs new_counter = Ok c
    \<and> unat (cv c) = min (rises False (map fst xs)) (unat pvalue)
    \<and> c_q c = (unat pvalue \<le> rises False (map fst xs))"
  using scan_ctu [of new_counter pvalue p xs] assms by (auto simp: new_counter_def min_def split: if_splits)

theorem ctu_counts_rising_edges_witness:
  "\<exists>c. scan_counter DevBuild Ctu 2 [(True, False), (False, False), (True, False), (True, False)]
         new_counter = Ok c
    \<and> unat (cv c) = min (rises False [True, False, True, True]) (unat (2 :: u32))
    \<and> c_q c = (unat (2 :: u32) \<le> rises False [True, False, True, True])"
  using ctu_counts_rising_edges [of 2 "[(True, False), (False, False), (True, False), (True, False)]" DevBuild]
  by simp

text \<open>
  At the largest preset the counter is not capped: a rising edge at \<^verbatim>\<open>u32::MAX\<close> panics in a
  development build and restarts the count from zero in a release build.
\<close>

theorem ctu_overflow_at_max:
  "counter_tick DevBuild Ctu (- 1) True cd (new_counter\<lparr>cv := - 1\<rparr>) = Panic ArithmeticOverflow
   \<and> mapo cv (counter_tick ReleaseBuild Ctu (- 1) True cd (new_counter\<lparr>cv := - 1\<rparr>)) = Ok 0"
  by (simp add: counter_tick_def count_up_def new_counter_def ures_def Let_def
      unsigned_minus_1_eq_mask mask_eq_exp_minus_1)

subsection \<open>Flip-flops and edge detectors over a history of scans\<close>

primrec scan_sr :: "sr_kind \<Rightarrow> (bool \<times> bool) list \<Rightarrow> sr_state \<Rightarrow> sr_state" where
  "scan_sr k [] st = st"
| "scan_sr k (x # xs) st = scan_sr k xs (sr_tick k (fst x) (snd x) st)"

text \<open>The Boolean equations of the two blocks: \<open>Q1 := S1 \<or> (Q1 \<and> \<not> R)\<close> and \<open>Q1 := \<not> R \<and> (S1 \<or> Q1)\<close>.\<close>

fun latch :: "sr_kind \<Rightarrow> (bool \<times> bool) list \<Rightarrow> bool \<Rightarrow> bool" where
  "latch k [] q = q"
| "latch Sr ((s, r) # xs) q = latch Sr xs (s \<or> (q \<and> \<not> r))"
| "latch Rs ((s, r) # xs) q = latch Rs xs (\<not> r \<and> (s \<or> q))"

text \<open>
  The flip-flops compute their Boolean equations over every history of set and reset inputs;
  the set input dominates in SR and the reset input in RS.
\<close>

theorem sr_latches: "q1 (scan_sr k xs st) = latch k xs (q1 st)"
proof (induction k xs "q1 st" arbitrary: st rule: latch.induct)
  case (2 s r xs)
  then show ?case using 2 [of "sr_tick Sr s r st"] by (simp add: sr_tick_def Let_def)
next
  case (3 s r xs)
  then show ?case using 3 [of "sr_tick Rs s r st"] by (simp add: sr_tick_def Let_def)
qed simp

primrec scan_edge :: "u8 \<Rightarrow> bool list \<Rightarrow> edge_state \<Rightarrow> edge_state" where
  "scan_edge k [] st = st"
| "scan_edge k (x # xs) st = scan_edge k xs (edge_tick k x st)"

lemma scan_edge_append: "scan_edge k (xs @ ys) st = scan_edge k ys (scan_edge k xs st)"
  by (induction xs arbitrary: st) simp_all

text \<open>
  R\_TRIG is on for exactly the scan in which its clock has risen and F\_TRIG for exactly the
  scan in which it has fallen, after any history.
\<close>

theorem edge_detects_transitions:
  "e_q (scan_edge 0 (hist @ [a, b]) st) = (\<not> a \<and> b)
   \<and> e_q (scan_edge 1 (hist @ [a, b]) st) = (a \<and> \<not> b)"
  by (auto simp: scan_edge_append edge_tick_def)

subsection \<open>The blocks as instructions\<close>

lemma unat_u8_as_u32 [simp]: "unat (u8_as_u32 i) = unat i"
proof -
  have "unat i < 2 ^ 32" by (rule order_less_le_trans [OF unat_bound]) simp
  then show ?thesis by (simp add: unsigned_ucast_eq take_bit_nat_eq_self)
qed

lemma hal_eq_VBool [simp]: "hal_eq v (VBool b) = (v = VBool b)"
  by (cases v) (simp_all add: hal_eq_def)

text \<open>
  The instruction \<^verbatim>\<open>TimerRun\<close> ticks the timer it names with the Boolean in its input register
  and leaves registers, signals, instruction pointer and every other timer as they are; a timer
  that does not exist yet is created.
\<close>

theorem timer_instruction:
  assumes "unat r < REGISTER_COUNT"
  shows "\<exists>m'. execute_instruction p m (timer_run i r pt k) = Ok (m', Continue)
    \<and> registers m' = registers m \<and> signals m' = signals m \<and> ip m' = ip m
    \<and> timers m' ! unat i = timer_tick (timer_kind_of [imm_u32 (u8_as_u32 k)]) (ucast pt)
        (cycle_time_ms m) (registers m ! unat r = VBool True)
        (if unat i < length (timers m) then timers m ! unat i
         else new_timer (timer_kind_of [imm_u32 (u8_as_u32 k)]))
    \<and> (\<forall>j < length (timers m). j \<noteq> unat i \<longrightarrow> timers m' ! j = timers m ! j)"
proof -
  let ?k = "timer_kind_of [imm_u32 (u8_as_u32 k)]"
  let ?ts = "grow (timers m) (unat i) (new_timer ?k)"
  let ?t = "timer_tick ?k (ucast pt) (cycle_time_ms m) (registers m ! unat r = VBool True) (?ts ! unat i)"
  have "execute_instruction p m (timer_run i r pt k) = Ok (m\<lparr>timers := ?ts[unat i := ?t]\<rparr>, Continue)"
    using assms
    by (simp add: execute_instruction_def timer_run_def exec_timer_run_def unat_u8_as_u32 hal_eq_VBool Let_def)
  moreover have "?ts ! unat i = (if unat i < length (timers m) then timers m ! unat i else new_timer ?k)"
    by (simp add: grow_eq nth_append)
  moreover have "?ts ! j = timers m ! j" if "j < length (timers m)" for j
    using that by (simp add: grow_eq nth_append)
  moreover have "unat i < length ?ts" by (simp add: length_grow)
  ultimately show ?thesis by (intro exI [of _ "m\<lparr>timers := ?ts[unat i := ?t]\<rparr>"]) simp
qed

theorem timer_instruction_witness:
  "\<exists>m'. execute_instruction DevBuild (vm_new\<lparr>cycle_time_ms := 10\<rparr>) (timer_run 0 1 100 0)
      = Ok (m', Continue)
    \<and> timers m' ! 0 = timer_tick Ton 100 10 False (new_timer Ton)"
proof -
  have "unat (1 :: u8) < REGISTER_COUNT" by (simp add: REGISTER_COUNT_def)
  then show ?thesis
    using timer_instruction [of 1 DevBuild "vm_new\<lparr>cycle_time_ms := 10\<rparr>" 0 100 0]
    by (auto simp: vm_new_def REGISTER_COUNT_def)
qed

end
