(* ===== verification/Hal_Encoding.thy ===== *)
theory Hal_Encoding
  imports Hal_Value
begin

text \<open>
  The tagged binary format of \<^verbatim>\<open>audesys-hal-core/src/encoding.rs\<close>: the type tags, the encoder and
  the decoder with all of its error returns. The decoder indexes its buffer, so it is an
  \<open>outcome\<close>; that no index is out of range is a theorem. The validity test of
  \<^verbatim>\<open>String::from_utf8\<close> is written out from the table of well-formed byte sequences.
\<close>

subsection \<open>UTF-8\<close>

definition byte_in :: "byte \<Rightarrow> byte \<Rightarrow> byte \<Rightarrow> bool" where
  "byte_in lo hi b \<longleftrightarrow> lo \<le> b \<and> b \<le> hi"

text \<open>The admissible range of the second byte and the number of continuation bytes after it.\<close>

definition utf8_lead :: "byte \<Rightarrow> (byte \<times> byte \<times> nat) option" where
  "utf8_lead b =
     (if byte_in 0xC2 0xDF b then Some (0x80, 0xBF, 0)
      else if b = 0xE0 then Some (0xA0, 0xBF, 1)
      else if b = 0xED then Some (0x80, 0x9F, 1)
      else if byte_in 0xE1 0xEF b then Some (0x80, 0xBF, 1)
      else if b = 0xF0 then Some (0x90, 0xBF, 2)
      else if byte_in 0xF1 0xF3 b then Some (0x80, 0xBF, 2)
      else if b = 0xF4 then Some (0x80, 0x8F, 2)
      else None)"

text \<open>\<open>utf8_scan need bs\<close>: the ranges of the continuation bytes still due, then new characters.\<close>

fun utf8_scan :: "(byte \<times> byte) list \<Rightarrow> byte list \<Rightarrow> bool" where
  "utf8_scan need [] = (need = [])"
| "utf8_scan ((lo, hi) # need) (b # bs) = (byte_in lo hi b \<and> utf8_scan need bs)"
| "utf8_scan [] (b # bs) =
     (if b < 0x80 then utf8_scan [] bs
      else (case utf8_lead b of
              None \<Rightarrow> False
            | Some (lo, hi, n) \<Rightarrow> utf8_scan ((lo, hi) # replicate n (0x80, 0xBF)) bs))"

definition utf8_valid :: "byte list \<Rightarrow> bool" where
  "utf8_valid bs = utf8_scan [] bs"

definition from_utf8 :: "byte list \<Rightarrow> string option" where
  "from_utf8 bs = (if utf8_valid bs then Some (bytes_string bs) else None)"

subsection \<open>Tags\<close>

abbreviation TAG_BLOB :: u8 where "TAG_BLOB \<equiv> 11"
abbreviation TAG_STRING :: u8 where "TAG_STRING \<equiv> 12"
abbreviation TAG_ARRAY :: u8 where "TAG_ARRAY \<equiv> 13"

fun pin_type_to_tag :: "hal_pin_type \<Rightarrow> u8" where
  "pin_type_to_tag TBool = 0"
| "pin_type_to_tag TS8 = 1"
| "pin_type_to_tag TU8 = 2"
| "pin_type_to_tag TS16 = 3"
| "pin_type_to_tag TU16 = 4"
| "pin_type_to_tag TS32 = 5"
| "pin_type_to_tag TU32 = 6"
| "pin_type_to_tag TS64 = 7"
| "pin_type_to_tag TU64 = 8"
| "pin_type_to_tag TF32 = 9"
| "pin_type_to_tag TF64 = 10"
| "pin_type_to_tag TBlob = TAG_BLOB"
| "pin_type_to_tag TString = TAG_STRING"

definition tag_to_pin_type :: "u8 \<Rightarrow> hal_pin_type option" where
  "tag_to_pin_type tag =
     (if tag = 0 then Some TBool
      else if tag = 1 then Some TS8
      else if tag = 2 then Some TU8
      else if tag = 3 then Some TS16
      else if tag = 4 then Some TU16
      else if tag = 5 then Some TS32
      else if tag = 6 then Some TU32
      else if tag = 7 then Some TS64
      else if tag = 8 then Some TU64
      else if tag = 9 then Some TF32
      else if tag = 10 then Some TF64
      else if tag = TAG_BLOB then Some TBlob
      else if tag = TAG_STRING then Some TString
      else None)"

lemma tag_to_pin_type_of_tag [simp]: "tag_to_pin_type (pin_type_to_tag t) = Some t"
  by (cases t) (simp_all add: tag_to_pin_type_def)

lemma tag_to_pin_type_Some: "tag_to_pin_type tag = Some t \<Longrightarrow> pin_type_to_tag t = tag"
  by (auto simp: tag_to_pin_type_def split: if_splits)

subsection \<open>Encoder and decoder\<close>

abbreviation len_prefix :: "'a list \<Rightarrow> byte list" where
  "len_prefix xs \<equiv> word_le (word_of_nat (length xs) :: u32)"

fun encode_halvalue :: "hal_value \<Rightarrow> byte list" where
  "encode_halvalue (VBool b) = 0 # [if b then 1 else 0]"
| "encode_halvalue (VS8 n) = 1 # word_le n"
| "encode_halvalue (VU8 n) = 2 # word_le n"
| "encode_halvalue (VS16 n) = 3 # word_le n"
| "encode_halvalue (VU16 n) = 4 # word_le n"
| "encode_halvalue (VS32 n) = 5 # word_le n"
| "encode_halvalue (VU32 n) = 6 # word_le n"
| "encode_halvalue (VS64 n) = 7 # word_le n"
| "encode_halvalue (VU64 n) = 8 # word_le n"
| "encode_halvalue (VF32 n) = 9 # word_le n"
| "encode_halvalue (VF64 n) = 10 # word_le n"
| "encode_halvalue (VBlob d) = TAG_BLOB # len_prefix d @ d"
| "encode_halvalue (VString s) = TAG_STRING # len_prefix (string_bytes s) @ string_bytes s"
| "encode_halvalue (VArray t d) = TAG_ARRAY # pin_type_to_tag t # len_prefix d @ d"

definition decode_fixed ::
    "string \<Rightarrow> nat \<Rightarrow> ('a::len word \<Rightarrow> hal_value) \<Rightarrow> byte list \<Rightarrow> hal_value hal_result outcome" where
  "decode_fixed msg n mk payload =
     (if length payload < n then Ok (Inl (Internal msg))
      else mapo (\<lambda>w. Inr (mk w)) (take_le n payload))"

definition decode_blob :: "byte list \<Rightarrow> hal_value hal_result outcome" where
  "decode_blob payload =
     (if length payload < 4 then Ok (Inl (Internal ''Blob: missing length prefix''))
      else bindo (take_le 4 payload) (\<lambda>declared :: u32.
        let actual = length payload - 4 in
        if unat declared \<noteq> actual
        then Ok (Inl (InvalidBlobLength declared (word_of_nat actual)))
        else mapo (\<lambda>d. Inr (VBlob d)) (slice payload 4 (length payload))))"

definition decode_string :: "byte list \<Rightarrow> hal_value hal_result outcome" where
  "decode_string payload =
     (if length payload < 4 then Ok (Inl (Internal ''String: missing length prefix''))
      else bindo (take_le 4 payload) (\<lambda>len :: u32.
        let actual = length payload - 4 in
        if unat len \<noteq> actual then Ok (Inl (Internal ''String: length mismatch''))
        else mapo (\<lambda>d. case from_utf8 d of None \<Rightarrow> Inl InvalidUtf8 | Some s \<Rightarrow> Inr (VString s))
               (slice payload 4 (length payload))))"

definition decode_array :: "byte list \<Rightarrow> hal_value hal_result outcome" where
  "decode_array payload =
     (if length payload < 6 then Ok (Inl (Internal ''Array: insufficient header''))
      else bindo (take_le 1 payload) (\<lambda>elem_tag :: u8.
           bindo (take_le 4 (drop 1 payload)) (\<lambda>data_len :: u32.
           if length payload < 5 + unat data_len then Ok (Inl (Internal ''Array: data truncated''))
           else case tag_to_pin_type elem_tag of
             None \<Rightarrow> Ok (Inl (TypeMismatch TS32 TS32))
           | Some element_type \<Rightarrow>
               mapo (\<lambda>d. Inr (VArray element_type d)) (slice payload 5 (5 + unat data_len)))))"

definition decode_halvalue :: "byte list \<Rightarrow> hal_value hal_result outcome" where
  "decode_halvalue buf =
     (case buf of
        [] \<Rightarrow> Ok (Inl (Internal ''empty buffer''))
      | tag # payload \<Rightarrow>
          if tag = 0 then
            decode_fixed ''bool: missing value byte'' 1 (\<lambda>w :: u8. VBool (w \<noteq> 0)) payload
          else if tag = 1 then decode_fixed ''S8: insufficient bytes'' 1 VS8 payload
          else if tag = 2 then decode_fixed ''U8: insufficient bytes'' 1 VU8 payload
          else if tag = 3 then decode_fixed ''S16: insufficient bytes'' 2 VS16 payload
          else if tag = 4 then decode_fixed ''U16: insufficient bytes'' 2 VU16 payload
          else if tag = 5 then decode_fixed ''S32: insufficient bytes'' 4 VS32 payload
          else if tag = 6 then decode_fixed ''U32: insufficient bytes'' 4 VU32 payload
          else if tag = 7 then decode_fixed ''S64: insufficient bytes'' 8 VS64 payload
          else if tag = 8 then decode_fixed ''U64: insufficient bytes'' 8 VU64 payload
          else if tag = 9 then decode_fixed ''F32: insufficient bytes'' 4 VF32 payload
          else if tag = 10 then decode_fixed ''F64: insufficient bytes'' 8 VF64 payload
          else if tag = TAG_BLOB then decode_blob payload
          else if tag = TAG_STRING then decode_string payload
          else if tag = TAG_ARRAY then decode_array payload
          else Ok (Inl (UnknownHalType tag)))"

subsection \<open>Lemmas\<close>

lemma decode_fixed_append:
  "LENGTH('a::len) = 8 * n \<Longrightarrow> decode_fixed msg n mk (word_le (w :: 'a word) @ ys) = Ok (Inr (mk w))"
  by (simp add: decode_fixed_def take_le_def le_word_word_le)

lemma decode_fixed_word:
  "LENGTH('a::len) = 8 * n \<Longrightarrow> decode_fixed msg n mk (word_le (w :: 'a word)) = Ok (Inr (mk w))"
  using decode_fixed_append [of n msg mk w "[]"] by simp

lemma unat_len32: "length xs < 2 ^ 32 \<Longrightarrow> unat (word_of_nat (length xs) :: u32) = length xs"
  by (simp add: unsigned_of_nat take_bit_nat_eq_self)

lemma take_le_prefix: "take_le 4 (word_le (w :: u32) @ ys) = Ok w"
  by (simp add: take_le_def le_word_word_le)

lemma take_le_tag: "take_le (Suc 0) (b # bs) = Ok (b :: u8)"
  by (simp add: take_le_def le_word_def)

lemma decode_blob_enc: "length d < 2 ^ 32 \<Longrightarrow> decode_blob (len_prefix d @ d) = Ok (Inr (VBlob d))"
  by (simp add: decode_blob_def take_le_prefix unat_len32 slice_def Let_def)

lemma decode_string_enc:
  "length s < 2 ^ 32 \<Longrightarrow> utf8_valid (string_bytes s)
   \<Longrightarrow> decode_string (len_prefix s @ string_bytes s) = Ok (Inr (VString s))"
  by (simp add: decode_string_def take_le_prefix unat_len32 slice_def Let_def from_utf8_def)

lemma decode_array_enc:
  assumes "d \<noteq> []" and "length d < 2 ^ 32"
  shows "decode_array (pin_type_to_tag t # len_prefix d @ d) = Ok (Inr (VArray t d))"
proof -
  have "0 < length d" using assms(1) by simp
  then show ?thesis using assms(2)
    by (simp add: decode_array_def take_le_prefix take_le_tag unat_len32 slice_def)
qed

lemma decode_fixed_ok: "is_ok (decode_fixed msg n mk payload)"
  by (simp add: decode_fixed_def take_le_def)

lemma decode_blob_ok: "is_ok (decode_blob payload)"
  by (simp add: decode_blob_def take_le_def slice_def Let_def)

lemma decode_string_ok: "is_ok (decode_string payload)"
  by (simp add: decode_string_def take_le_def slice_def Let_def)

lemma decode_array_ok: "is_ok (decode_array payload)"
  by (auto simp: decode_array_def take_le_def slice_def split: option.split)

text \<open>Every payload length of the wire format is an unsigned 32-bit prefix.\<close>

fun encodable :: "hal_value \<Rightarrow> bool" where
  "encodable (VBlob d) = (length d < 2 ^ 32)"
| "encodable (VString s) = (length s < 2 ^ 32 \<and> utf8_valid (string_bytes s))"
| "encodable (VArray t d) = (length d < 2 ^ 32 \<and> d \<noteq> [])"
| "encodable _ = True"



text \<open>
  The decoder is total on arbitrary bytes, it returns a value or an error and never indexes
  outside its buffer.
\<close>

theorem decode_never_panics: "\<exists>r. decode_halvalue buf = Ok r"
proof -
  have "is_ok (decode_halvalue buf)"
    by (simp add: decode_halvalue_def decode_fixed_ok decode_blob_ok decode_string_ok
          decode_array_ok split: list.split)
  then show ?thesis by (simp add: outcome_simps)
qed

lemma string_bytes_inverse [simp]: "string_bytes (bytes_string bs) = bs"
proof -
  have "word_of_nat (of_char (char_of (unat b) :: char)) = b" for b :: byte
    using unat_bound [of b] by simp
  then show ?thesis by (simp add: string_bytes_def bytes_string_def comp_def)
qed

lemma decode_fixed_sound:
  assumes "decode_fixed msg n mk payload = Ok (Inr v)" and "LENGTH('a::len) = 8 * n"
  shows "\<exists>w :: 'a word. v = mk w \<and> (\<exists>rest. payload = word_le w @ rest)"
proof -
  have len: "n \<le> length payload" and v: "v = mk (le_word (take n payload))"
    using assms(1) by (auto simp: decode_fixed_def take_le_def split: if_splits)
  have "word_le (le_word (take n payload) :: 'a word) = take n payload"
    using len assms(2) by (intro word_le_le_word) simp_all
  then show ?thesis using v append_take_drop_id [of n payload] by metis
qed

lemmas decode_fixed_sound8 = decode_fixed_sound [where 'a = 8 and n = 1, simplified]
lemmas decode_fixed_sound16 = decode_fixed_sound [where 'a = 16 and n = 2, simplified]
lemmas decode_fixed_sound32 = decode_fixed_sound [where 'a = 32 and n = 4, simplified]
lemmas decode_fixed_sound64 = decode_fixed_sound [where 'a = 64 and n = 8, simplified]

lemma word_of_nat_unat: "word_of_nat (unat w) = w"
  by simp

lemma length_bytes_string [simp]: "length (bytes_string bs) = length bs"
  by (simp add: bytes_string_def)

lemma take_le_split:
  fixes w :: "'a::len word"
  assumes "take_le n bs = Ok w" and "LENGTH('a) = 8 * n"
  shows "bs = word_le w @ drop n bs"
proof -
  have "n \<le> length bs" and w: "w = le_word (take n bs)"
    using assms(1) by (auto simp: take_le_def split: if_splits)
  then have "word_le w = take n bs"
    unfolding w using assms(2) by (intro word_le_le_word) simp_all
  then show ?thesis by simp
qed

lemma take_le_split_u32: "take_le 4 bs = Ok (w :: u32) \<Longrightarrow> bs = word_le w @ drop 4 bs"
  by (rule take_le_split) simp_all

lemma take_le_head: "take_le 1 bs = Ok (w :: u8) \<Longrightarrow> bs = w # drop 1 bs"
  by (cases bs) (auto simp: take_le_def le_word_def)

lemma decode_blob_sound:
  assumes "decode_blob payload = Ok (Inr v)"
  shows "\<exists>d. v = VBlob d \<and> payload = len_prefix d @ d"
proof -
  obtain n :: u32 where n: "take_le 4 payload = Ok n" "unat n = length payload - 4"
    "v = VBlob (drop 4 payload)"
    using assms by (auto simp: decode_blob_def outcome_simps slice_def Let_def split: if_splits)
  then have "n = word_of_nat (length (drop 4 payload))"
    using word_of_nat_unat [of n] by simp
  then show ?thesis using take_le_split_u32 [OF n(1)] n(3) by auto
qed

lemma decode_string_sound:
  assumes "decode_string payload = Ok (Inr v)"
  shows "\<exists>s. v = VString s \<and> payload = len_prefix s @ string_bytes s"
proof -
  obtain n :: u32 where n: "take_le 4 payload = Ok n" "unat n = length payload - 4"
    "v = VString (bytes_string (drop 4 payload))"
    using assms by (auto simp: decode_string_def outcome_simps slice_def Let_def from_utf8_def
        split: if_splits)
  then have "n = word_of_nat (length (drop 4 payload))"
    using word_of_nat_unat [of n] by simp
  then show ?thesis using take_le_split_u32 [OF n(1)] n(3)
    by (intro exI [of _ "bytes_string (drop 4 payload)"]) simp
qed

lemma decode_array_sound:
  assumes "decode_array payload = Ok (Inr v)"
  shows "\<exists>t d rest. v = VArray t d \<and> payload = pin_type_to_tag t # len_prefix d @ d @ rest"
proof -
  obtain tag :: u8 and n :: u32 and t where n: "take_le 1 payload = Ok tag"
    "take_le 4 (drop 1 payload) = Ok n" "5 + unat n \<le> length payload"
    "tag_to_pin_type tag = Some t" "v = VArray t (take (unat n) (drop 5 payload))"
    using assms
    by (auto simp: decode_array_def outcome_simps slice_def split: if_splits option.splits)
  let ?d = "take (unat n) (drop 5 payload)"
  have "length ?d = unat n" using n(3) by simp
  then have "n = word_of_nat (length ?d)" using word_of_nat_unat [of n] by simp
  moreover have "payload = tag # word_le n @ drop 5 payload"
    using take_le_head [OF n(1)] take_le_split_u32 [OF n(2)] by simp
  ultimately have "payload = pin_type_to_tag t # len_prefix ?d @ ?d @ drop (unat n) (drop 5 payload)"
    using tag_to_pin_type_Some [OF n(4)] by (metis append_take_drop_id)
  then show ?thesis using n(5) by blast
qed

text \<open>
  The decoder accepts only what the encoder writes: a decoded value other than a Boolean is
  followed by nothing the decoder has interpreted, so the buffer starts with its encoding.
\<close>

theorem decode_sound:
  assumes "decode_halvalue buf = Ok (Inr v)" and "pin_type v \<noteq> TBool \<or> is_array v"
  shows "\<exists>rest. buf = encode_halvalue v @ rest"
proof -
  obtain tag payload where buf: "buf = tag # payload"
    using assms(1) by (cases buf) (auto simp: decode_halvalue_def)
  show ?thesis using assms unfolding buf
    by (auto simp: decode_halvalue_def split: if_splits
        dest!: decode_fixed_sound8 decode_fixed_sound16 decode_fixed_sound32 decode_fixed_sound64
          decode_blob_sound decode_string_sound decode_array_sound)
qed

theorem decode_sound_witness:
  "decode_halvalue [4, 52, 18, 99] = Ok (Inr (VU16 4660))
   \<and> (\<exists>rest. [4, 52, 18, 99] = encode_halvalue (VU16 4660) @ rest)"
proof -
  have "decode_halvalue [4, 52, 18, 99] = Ok (Inr (VU16 4660))" by code_simp
  then show ?thesis using decode_sound [of "[4, 52, 18, 99]" "VU16 4660"] by simp
qed

text \<open>
  The guard on the array header asks for one payload byte too many, so an empty array is
  encoded but its encoding is rejected.
\<close>

theorem empty_array_rejected:
  "decode_halvalue (encode_halvalue (VArray t [])) = Ok (Inl (Internal ''Array: insufficient header''))"
  by (simp add: decode_halvalue_def decode_array_def)

end
