(* ===== verification/Inproc_Transport.thy ===== *)
theory Inproc_Transport
  imports Hal_Value "HOL-Library.Sublist"
begin

text \<open>
  The in-process transport of \<^verbatim>\<open>audesys-amw-inproc/src/transport.rs\<close> and the contract of the trait
  \<^verbatim>\<open>HalTransport\<close> as a locale. A callback is a value of a type \<open>'cb\<close>; calling it is recorded in the
  list of deliveries an operation returns. An RPC handler is a function on bytes; whether its
  thread answers in time is an argument of the call. Locks are never poisoned: no code path of
  the module panics while it holds one.
\<close>

type_synonym sample = "hal_value \<times> timestamp"
type_synonym rpc_handler = "byte list \<Rightarrow> byte list hal_result"
type_synonym 'cb delivery = "'cb \<times> hal_value \<times> timestamp"

record 'cb inproc_transport =
  tr_signals :: "(string, sample) hmap"
  tr_callbacks :: "(string, (u64 \<times> 'cb) list) hmap"
  rpc_handlers :: "(string, rpc_handler) hmap"
  signals_published :: u64
  signals_read :: u64
  rpc_calls :: u64
  rpc_timeouts :: u64
  rpc_rejected :: u64
  next_sub_id :: u64

definition transport_new :: "'cb inproc_transport" where
  "transport_new = \<lparr>tr_signals = [], tr_callbacks = [], rpc_handlers = [], signals_published = 0,
     signals_read = 0, rpc_calls = 0, rpc_timeouts = 0, rpc_rejected = 0, next_sub_id = 1\<rparr>"

definition unsubscribe_signal :: "'cb inproc_transport \<Rightarrow> string \<Rightarrow> u64 \<Rightarrow> 'cb inproc_transport" where
  "unsubscribe_signal t nm sub_id =
     (case hm_get (tr_callbacks t) nm of
        None \<Rightarrow> t
      | Some subs \<Rightarrow> t\<lparr>tr_callbacks :=
          hm_insert nm (filter (\<lambda>(i, _). i \<noteq> sub_id) subs) (tr_callbacks t)\<rparr>)"

text \<open>\<^verbatim>\<open>trim_end_matches('*')\<close> and \<^verbatim>\<open>starts_with\<close>.\<close>

definition trim_stars :: "string \<Rightarrow> string" where
  "trim_stars pat = rev (dropWhile (\<lambda>c. c = CHR ''*'') (rev pat))"

definition matches_pattern :: "string \<Rightarrow> string \<Rightarrow> bool" where
  "matches_pattern nm pat = prefix (trim_stars pat) nm"

definition publish_signal ::
    "'cb inproc_transport \<Rightarrow> string \<Rightarrow> hal_value \<Rightarrow> timestamp
     \<Rightarrow> 'cb inproc_transport \<times> 'cb delivery list" where
  "publish_signal t nm v ts =
     (let t1 = t\<lparr>tr_signals := hm_insert nm (v, ts) (tr_signals t),
                 signals_published := signals_published t + 1\<rparr>
      in (t1, case hm_get (tr_callbacks t1) nm of
                None \<Rightarrow> []
              | Some subs \<Rightarrow> map (\<lambda>(_, cb). (cb, v, ts)) subs))"

definition tr_read_signal ::
    "'cb inproc_transport \<Rightarrow> string \<Rightarrow> 'cb inproc_transport \<times> sample option" where
  "tr_read_signal t nm =
     (let t1 = t\<lparr>signals_read := signals_read t + 1\<rparr> in (t1, hm_get (tr_signals t1) nm))"

definition subscribe_signal :: "'cb inproc_transport \<Rightarrow> string \<Rightarrow> 'cb \<Rightarrow> 'cb inproc_transport" where
  "subscribe_signal t nm cb =
     (let subs = (case hm_get (tr_callbacks t) nm of None \<Rightarrow> [] | Some s \<Rightarrow> s) in
      t\<lparr>tr_callbacks := hm_insert nm (subs @ [(next_sub_id t, cb)]) (tr_callbacks t),
        next_sub_id := next_sub_id t + 1\<rparr>)"

definition snapshot_signals ::
    "'cb inproc_transport \<Rightarrow> string \<Rightarrow> (string \<times> hal_value \<times> timestamp) list" where
  "snapshot_signals t pat =
     map (\<lambda>(nm, v, ts). (nm, v, ts)) (filter (\<lambda>(nm, _). matches_pattern nm pat) (tr_signals t))"

text \<open>What the wait on the handler's thread ends with.\<close>

datatype rpc_wait = Answered | TimedOut | Disconnected

definition rpc_call ::
    "'cb inproc_transport \<Rightarrow> string \<Rightarrow> byte list \<Rightarrow> u64 \<Rightarrow> rpc_wait
     \<Rightarrow> 'cb inproc_transport \<times> byte list hal_result" where
  "rpc_call t method params timeout_ms w =
     (let t1 = t\<lparr>rpc_calls := rpc_calls t + 1\<rparr> in
      case hm_get (rpc_handlers t1) method of
        None \<Rightarrow> (t1\<lparr>rpc_rejected := rpc_rejected t1 + 1\<rparr>, Inl (NotFound method))
      | Some handler \<Rightarrow>
          (case w of
             Answered \<Rightarrow> (t1, handler params)
           | TimedOut \<Rightarrow> (t1\<lparr>rpc_timeouts := rpc_timeouts t1 + 1\<rparr>, Inl (Timeout method timeout_ms))
           | Disconnected \<Rightarrow> (t1\<lparr>rpc_rejected := rpc_rejected t1 + 1\<rparr>,
               Inl (Execution method ''RPC handler thread disconnected''))))"

definition register_rpc_handler ::
    "'cb inproc_transport \<Rightarrow> string \<Rightarrow> rpc_handler \<Rightarrow> 'cb inproc_transport" where
  "register_rpc_handler t method handler =
     t\<lparr>rpc_handlers := hm_insert method handler (rpc_handlers t)\<rparr>"

definition transport_shutdown :: "'cb inproc_transport \<Rightarrow> 'cb inproc_transport" where
  "transport_shutdown t = t\<lparr>tr_signals := [], tr_callbacks := [], rpc_handlers := []\<rparr>"

subsection \<open>The contract of a transport\<close>

text \<open>Publishing a batch in order, as the write phase of a scan does.\<close>

definition publish_batch ::
    "('t \<Rightarrow> string \<Rightarrow> hal_value \<Rightarrow> timestamp \<Rightarrow> 't \<times> 'd) \<Rightarrow> 't \<Rightarrow> (string \<times> sample) list \<Rightarrow> 't" where
  "publish_batch pub = foldl (\<lambda>t (nm, v, ts). fst (pub t nm v ts))"

text \<open>
  A signal is a latest-value cell: \<^verbatim>\<open>read_signal\<close> returns what was published last under the name,
  a read changes no cell, and a snapshot lists exactly the cells that match the pattern.
\<close>

locale hal_transport =
  fixes publish :: "'t \<Rightarrow> string \<Rightarrow> hal_value \<Rightarrow> timestamp \<Rightarrow> 't \<times> 'd list"
    and read :: "'t \<Rightarrow> string \<Rightarrow> 't \<times> sample option"
    and snapshot :: "'t \<Rightarrow> string \<Rightarrow> (string \<times> hal_value \<times> timestamp) list"
    and shutdown :: "'t \<Rightarrow> 't"
    and inv :: "'t \<Rightarrow> bool"
  assumes inv_publish: "inv t \<Longrightarrow> inv (fst (publish t nm v ts))"
    and inv_read: "inv t \<Longrightarrow> inv (fst (read t nm))"
    and inv_shutdown: "inv t \<Longrightarrow> inv (shutdown t)"
    and read_publish: "snd (read (fst (publish t nm v ts)) nm') =
      (if nm' = nm then Some (v, ts) else snd (read t nm'))"
    and read_read: "snd (read (fst (read t nm)) nm') = snd (read t nm')"
    and read_shutdown: "snd (read (shutdown t) nm) = None"
    and snapshot_read: "inv t \<Longrightarrow> (nm, v, ts) \<in> set (snapshot t pat) \<longleftrightarrow>
      snd (read t nm) = Some (v, ts) \<and> matches_pattern nm pat"
begin

lemma publish_batch_snoc:
  "publish_batch publish t (xs @ [(nm, v, ts)]) = fst (publish (publish_batch publish t xs) nm v ts)"
  by (simp add: publish_batch_def)

lemma inv_publish_batch: "inv t \<Longrightarrow> inv (publish_batch publish t xs)"
proof (induction xs rule: rev_induct)
  case (snoc x xs)
  then show ?case by (cases x) (simp add: publish_batch_snoc inv_publish)
qed (simp add: publish_batch_def)

lemma read_publish_batch:
  "snd (read (publish_batch publish t xs) nm) =
     (case map_of (rev xs) nm of None \<Rightarrow> snd (read t nm) | Some s \<Rightarrow> Some s)"
proof (induction xs rule: rev_induct)
  case (snoc x xs)
  then show ?case by (cases x) (simp add: publish_batch_snoc read_publish)
qed (simp add: publish_batch_def)

lemma snapshot_after_batch:
  assumes "inv t"
  shows "(nm, v, ts) \<in> set (snapshot (publish_batch publish t xs) pat) \<longleftrightarrow>
     (case map_of (rev xs) nm of None \<Rightarrow> snd (read t nm) | Some s \<Rightarrow> Some s) = Some (v, ts)
     \<and> matches_pattern nm pat"
  using snapshot_read [OF inv_publish_batch [OF assms]] by (simp add: read_publish_batch)

end

subsection \<open>The in-process transport meets it\<close>

definition transport_wf :: "'cb inproc_transport \<Rightarrow> bool" where
  "transport_wf t \<longleftrightarrow> hm_wf (tr_signals t) \<and> hm_wf (tr_callbacks t) \<and> hm_wf (rpc_handlers t)"

lemma transport_wf_new [simp]: "transport_wf transport_new"
  by (simp add: transport_wf_def transport_new_def)

lemma transport_wf_ops:
  assumes "transport_wf t"
  shows "transport_wf (fst (publish_signal t nm v ts))"
    and "transport_wf (fst (tr_read_signal t nm))"
    and "transport_wf (subscribe_signal t nm cb)"
    and "transport_wf (unsubscribe_signal t nm i)"
    and "transport_wf (register_rpc_handler t nm h)"
    and "transport_wf (fst (rpc_call t nm ps ms w))"
    and "transport_wf (transport_shutdown t)"
  using assms
  by (auto simp: transport_wf_def publish_signal_def tr_read_signal_def subscribe_signal_def
      unsubscribe_signal_def register_rpc_handler_def rpc_call_def transport_shutdown_def Let_def
      split: option.split rpc_wait.split)

interpretation inproc: hal_transport publish_signal tr_read_signal snapshot_signals
  transport_shutdown transport_wf
proof unfold_locales
  fix t :: "'cb inproc_transport" and nm v ts pat
  show "transport_wf t \<Longrightarrow> transport_wf (fst (publish_signal t nm v ts))"
    and "transport_wf t \<Longrightarrow> transport_wf (fst (tr_read_signal t nm))"
    and "transport_wf t \<Longrightarrow> transport_wf (transport_shutdown t)"
    by (simp_all add: transport_wf_ops)
  assume "transport_wf t"
  then have "hm_wf (tr_signals t)" by (simp add: transport_wf_def)
  then show "(nm, v, ts) \<in> set (snapshot_signals t pat) \<longleftrightarrow>
      snd (tr_read_signal t nm) = Some (v, ts) \<and> matches_pattern nm pat"
    by (auto simp: snapshot_signals_def tr_read_signal_def Let_def hm_in_set split: prod.splits)
qed (auto simp: publish_signal_def tr_read_signal_def transport_shutdown_def Let_def)

text \<open>
  C29: a signal is a latest-value cell. After any batch of publications to the in-process
  transport a read of a name returns the last value published under it, and the value before the
  batch when the batch does not mention it; a snapshot lists exactly the matching cells.
\<close>

theorem latest_value:
  assumes "transport_wf t"
  shows "snd (tr_read_signal (publish_batch publish_signal t xs) nm) =
      (case map_of (rev xs) nm of None \<Rightarrow> snd (tr_read_signal t nm) | Some s \<Rightarrow> Some s)
    \<and> ((nm, v, ts) \<in> set (snapshot_signals (publish_batch publish_signal t xs) pat) \<longleftrightarrow>
      (case map_of (rev xs) nm of None \<Rightarrow> snd (tr_read_signal t nm) | Some s \<Rightarrow> Some s) = Some (v, ts)
      \<and> matches_pattern nm pat)"
  using inproc.read_publish_batch inproc.snapshot_after_batch [OF assms] by blast

theorem latest_value_witness:
  "snd (tr_read_signal (publish_batch publish_signal (transport_new :: nat inproc_transport)
     [(''a'', VBool True, \<lparr>ts_secs = 1, ts_micros = 0\<rparr>), (''a'', VBool False, \<lparr>ts_secs = 2, ts_micros = 0\<rparr>)])
     ''a'') = Some (VBool False, \<lparr>ts_secs = 2, ts_micros = 0\<rparr>)"
  using latest_value [of "transport_new :: nat inproc_transport"
    "[(''a'', VBool True, \<lparr>ts_secs = 1, ts_micros = 0\<rparr>), (''a'', VBool False, \<lparr>ts_secs = 2, ts_micros = 0\<rparr>)]" "''a''"]
  by simp

text \<open>The identifiers handed out so far, of which every subscription has its own.\<close>

definition subs_of :: "'cb inproc_transport \<Rightarrow> string \<Rightarrow> (u64 \<times> 'cb) list" where
  "subs_of t nm = (case hm_get (tr_callbacks t) nm of None \<Rightarrow> [] | Some s \<Rightarrow> s)"

definition subs_wf :: "'cb inproc_transport \<Rightarrow> bool" where
  "subs_wf t \<longleftrightarrow> (\<forall>nm. distinct (map fst (subs_of t nm))
     \<and> (\<forall>i \<in> set (map fst (subs_of t nm)). i < next_sub_id t))"

lemma subs_of_subscribe:
  "subs_of (subscribe_signal t nm cb) nm' =
     (if nm' = nm then subs_of t nm @ [(next_sub_id t, cb)] else subs_of t nm')"
  by (simp add: subs_of_def subscribe_signal_def Let_def)

lemma subs_of_unsubscribe:
  "subs_of (unsubscribe_signal t nm i) nm' =
     (if nm' = nm then filter (\<lambda>(j, _). j \<noteq> i) (subs_of t nm) else subs_of t nm')"
  by (auto simp: subs_of_def unsubscribe_signal_def split: option.split)

lemma deliveries: "snd (publish_signal t nm v ts) = map (\<lambda>(_, cb). (cb, v, ts)) (subs_of t nm)"
  by (simp add: publish_signal_def subs_of_def Let_def split: option.split)

text \<open>
  Push delivery. While fewer than \<^verbatim>\<open>u64::MAX\<close> subscriptions have been made, a new subscriber of a
  name is called exactly once, last, with the published sample on every publication under that
  name; after it unsubscribes by its identifier the deliveries are those from before it
  subscribed, and other names are never affected.
\<close>

theorem subscribe_delivers:
  assumes "subs_wf t" and "next_sub_id t \<noteq> - 1"
  shows "snd (publish_signal (subscribe_signal t nm cb) nm v ts)
      = snd (publish_signal t nm v ts) @ [(cb, v, ts)]
    \<and> subs_wf (subscribe_signal t nm cb)
    \<and> snd (publish_signal (unsubscribe_signal (subscribe_signal t nm cb) nm (next_sub_id t)) nm v ts)
      = snd (publish_signal t nm v ts)
    \<and> (nm' \<noteq> nm \<longrightarrow> snd (publish_signal (subscribe_signal t nm cb) nm' v ts)
      = snd (publish_signal t nm' v ts))"
proof -
  have lt: "i < next_sub_id t" if "(i, c) \<in> set (subs_of t n)" for i c n
    using assms(1) that by (force simp: subs_wf_def)
  have "1 + next_sub_id t \<noteq> 0" using assms(2) by (metis add.commute eq_neg_iff_add_eq_0)
  then have "unat (1 + next_sub_id t) = Suc (unat (next_sub_id t))" by (rule unatSuc)
  then have step: "next_sub_id t < next_sub_id (subscribe_signal t nm cb)"
    by (simp add: word_less_nat_alt add.commute subscribe_signal_def Let_def)
  have "subs_wf (subscribe_signal t nm cb)"
    using assms(1) step lt less_trans [OF lt step]
    by (fastforce simp: subs_wf_def subs_of_subscribe)
  moreover have "filter (\<lambda>(j, _). j \<noteq> next_sub_id t) (subs_of t nm) = subs_of t nm"
    using lt by (fastforce intro!: filter_True)
  ultimately show ?thesis by (simp add: deliveries subs_of_subscribe subs_of_unsubscribe)
qed

lemma subs_wf_new [simp]: "subs_wf transport_new"
  by (simp add: subs_wf_def subs_of_def transport_new_def)

theorem subscribe_delivers_witness:
  "snd (publish_signal (subscribe_signal (transport_new :: nat inproc_transport) ''a'' 7) ''a''
      (VBool True) \<lparr>ts_secs = 0, ts_micros = 0\<rparr>) = [(7, VBool True, \<lparr>ts_secs = 0, ts_micros = 0\<rparr>)]"
proof -
  have "next_sub_id (transport_new :: nat inproc_transport) \<noteq> - 1" by (simp add: transport_new_def)
  moreover have "snd (publish_signal (transport_new :: nat inproc_transport) ''a'' v ts) = []" for v ts
    by (simp add: deliveries subs_of_def transport_new_def)
  ultimately show ?thesis
    using subscribe_delivers [of "transport_new :: nat inproc_transport" "''a''" 7] by simp
qed

text \<open>
  An RPC to a method without a handler is rejected with \<^verbatim>\<open>NotFound\<close>; with a handler the caller
  gets the handler's answer, a timeout or an execution error according to how the wait ends, and
  the counters record exactly the call and its failure.
\<close>

theorem rpc_outcomes:
  "snd (rpc_call t method params ms w) =
     (case hm_get (rpc_handlers t) method of
        None \<Rightarrow> Inl (NotFound method)
      | Some h \<Rightarrow> (case w of Answered \<Rightarrow> h params | TimedOut \<Rightarrow> Inl (Timeout method ms)
          | Disconnected \<Rightarrow> Inl (Execution method ''RPC handler thread disconnected'')))
   \<and> rpc_calls (fst (rpc_call t method params ms w)) = rpc_calls t + 1
   \<and> rpc_timeouts (fst (rpc_call t method params ms w)) = rpc_timeouts t
       + (if hm_get (rpc_handlers t) method \<noteq> None \<and> w = TimedOut then 1 else 0)
   \<and> rpc_rejected (fst (rpc_call t method params ms w)) = rpc_rejected t
       + (if hm_get (rpc_handlers t) method = None \<or> w = Disconnected then 1 else 0)
   \<and> tr_signals (fst (rpc_call t method params ms w)) = tr_signals t"
  by (cases "hm_get (rpc_handlers t) method"; cases w) (simp_all add: rpc_call_def Let_def)

end
