(* ===== verification/Inproc_Stream.thy ===== *)
theory Inproc_Stream
  imports Inproc_Transport
begin

text \<open>
  The in-process stream channel of \<^verbatim>\<open>audesys-amw-inproc/src/stream.rs\<close>: a queue shared by writers
  and readers with three overflow policies. The contract of an ordered lossy queue is a locale;
  its client lemma says what a consumer may rely on.
\<close>

datatype queue_policy = DropOldest | Backpressure | DropNewest

datatype consumer_error_policy = Block | Drop | Notify

datatype circuit_breaker_action = CbNotify | CbPanic | CbIgnore

record circuit_breaker_config =
  max_consecutive_failures :: u32
  cooldown_ms :: u64
  on_open :: circuit_breaker_action

record stream_config =
  queue_depth :: u32
  queue_policy :: queue_policy
  error_policy :: consumer_error_policy
  circuit_breaker :: "circuit_breaker_config option"
  shm_threshold_bytes :: u32

record 'cb stream_channel =
  queue :: "sample list"
  subscribers :: "'cb list"
  config :: stream_config

abbreviation BACKPRESSURE_MAX_RETRIES :: nat where
  "BACKPRESSURE_MAX_RETRIES \<equiv> 10"

definition stream_channel_new :: "stream_config \<Rightarrow> 'cb stream_channel" where
  "stream_channel_new cfg = \<lparr>queue = [], subscribers = [], config = cfg\<rparr>"

text \<open>
  The retry loop sleeps and looks again. It runs inside \<^verbatim>\<open>push(&mut self)\<close>, with the channel locked
  by the writer, so between two looks nothing but the loop itself can change the queue.
\<close>

primrec backpressure_wait ::
    "nat \<Rightarrow> 'cb stream_channel \<Rightarrow> sample \<Rightarrow> 'cb stream_channel \<times> unit hal_result" where
  "backpressure_wait 0 c x = (c, Inl (Internal ''stream backpressure timeout''))"
| "backpressure_wait (Suc n) c x =
     (if length (queue c) < unat (queue_depth (config c))
      then (c\<lparr>queue := queue c @ [x]\<rparr>, Inr ())
      else backpressure_wait n c x)"

definition push :: "'cb stream_channel \<Rightarrow> sample \<Rightarrow> 'cb stream_channel \<times> unit hal_result" where
  "push c x =
     (if unat (queue_depth (config c)) \<le> length (queue c)
      then (case queue_policy (config c) of
              DropOldest \<Rightarrow> (c\<lparr>queue := tl (queue c) @ [x]\<rparr>, Inr ())
            | DropNewest \<Rightarrow> (c, Inr ())
            | Backpressure \<Rightarrow> backpressure_wait BACKPRESSURE_MAX_RETRIES c x)
      else (c\<lparr>queue := queue c @ [x]\<rparr>, Inr ()))"

definition pop :: "'cb stream_channel \<Rightarrow> 'cb stream_channel \<times> sample option" where
  "pop c = (case queue c of [] \<Rightarrow> (c, None) | x # xs \<Rightarrow> (c\<lparr>queue := xs\<rparr>, Some x))"

definition notify_subscribers :: "'cb stream_channel \<Rightarrow> sample \<Rightarrow> 'cb delivery list" where
  "notify_subscribers c x = map (\<lambda>cb. (cb, fst x, snd x)) (subscribers c)"

definition stream_write ::
    "'cb stream_channel \<Rightarrow> sample \<Rightarrow> 'cb stream_channel \<times> 'cb delivery list \<times> unit hal_result" where
  "stream_write c x =
     (case push c x of
        (c1, Inl e) \<Rightarrow> (c1, [], Inl e)
      | (c1, Inr u) \<Rightarrow> (c1, notify_subscribers c1 x, Inr ()))"

definition stream_flush :: "'cb stream_channel \<Rightarrow> 'cb stream_channel \<times> unit hal_result" where
  "stream_flush c = (c, Inr ())"

definition stream_read :: "'cb stream_channel \<Rightarrow> 'cb stream_channel \<times> sample option" where
  "stream_read c = pop c"

definition stream_subscribe :: "'cb stream_channel \<Rightarrow> 'cb \<Rightarrow> 'cb stream_channel" where
  "stream_subscribe c cb = c\<lparr>subscribers := subscribers c @ [cb]\<rparr>"

definition reader_drop :: "'cb stream_channel \<Rightarrow> 'cb stream_channel" where
  "reader_drop c = c\<lparr>subscribers := []\<rparr>"

definition create_stream_channel :: "stream_config \<Rightarrow> 'cb stream_channel hal_result" where
  "create_stream_channel cfg = Inr (stream_channel_new cfg)"

lemma config_new [simp]: "config (stream_channel_new cfg) = cfg"
  by (simp add: stream_channel_new_def)

subsection \<open>The contract of an ordered queue\<close>

datatype 'a qop = Enq 'a | Deq

primrec run_queue ::
    "('q \<Rightarrow> 'a \<Rightarrow> 'q) \<Rightarrow> ('q \<Rightarrow> 'q \<times> 'a option) \<Rightarrow> 'a qop list \<Rightarrow> 'q \<Rightarrow> 'q \<times> 'a list" where
  "run_queue enq deq [] q = (q, [])"
| "run_queue enq deq (op # ops) q =
     (case op of
        Enq x \<Rightarrow> run_queue enq deq ops (enq q x)
      | Deq \<Rightarrow> (case deq q of
                 (q1, None) \<Rightarrow> run_queue enq deq ops q1
               | (q1, Some x) \<Rightarrow>
                   (case run_queue enq deq ops q1 of (q2, xs) \<Rightarrow> (q2, x # xs))))"

primrec enqueued :: "'a qop list \<Rightarrow> 'a list" where
  "enqueued [] = []"
| "enqueued (op # ops) = (case op of Enq x \<Rightarrow> x # enqueued ops | Deq \<Rightarrow> enqueued ops)"

text \<open>
  A queue that may drop values but neither reorders nor invents them: enqueueing leaves a
  subsequence of the contents followed by the new value, dequeueing takes the head.
\<close>

locale ordered_queue =
  fixes enq :: "'q \<Rightarrow> 'a \<Rightarrow> 'q" and deq :: "'q \<Rightarrow> 'q \<times> 'a option" and contents :: "'q \<Rightarrow> 'a list"
  assumes enq_subseq: "subseq (contents (enq q x)) (contents q @ [x])"
    and deq_empty: "contents q = [] \<Longrightarrow> snd (deq q) = None \<and> contents (fst (deq q)) = []"
    and deq_head: "contents q = x # xs \<Longrightarrow> snd (deq q) = Some x \<and> contents (fst (deq q)) = xs"
begin

lemma run_subseq:
  "subseq (snd (run_queue enq deq ops q) @ contents (fst (run_queue enq deq ops q)))
     (contents q @ enqueued ops)"
proof (induction ops arbitrary: q)
  case (Cons op ops)
  show ?case
  proof (cases op)
    case (Enq x)
    have "subseq (contents (enq q x) @ enqueued ops) (contents q @ [x] @ enqueued ops)"
      using list_emb_append_mono [OF enq_subseq subseq_order.refl] by simp
    then show ?thesis using Enq Cons [of "enq q x"] by (auto intro: subseq_order.trans)
  next
    case Deq
    show ?thesis
    proof (cases "contents q")
      case Nil
      then show ?thesis using Deq Cons [of "fst (deq q)"] deq_empty [OF Nil]
        by (cases "deq q") auto
    next
      case (Cons x xs)
      then show ?thesis using Deq Cons.IH [of "fst (deq q)"] deq_head [OF Cons]
        by (cases "deq q"; cases "run_queue enq deq ops (fst (deq q))") auto
    qed
  qed
qed simp

end

abbreviation stream_enq :: "'cb stream_channel \<Rightarrow> sample \<Rightarrow> 'cb stream_channel" where
  "stream_enq c x \<equiv> fst (stream_write c x)"

lemma backpressure_full:
  "unat (queue_depth (config c)) \<le> length (queue c)
   \<Longrightarrow> backpressure_wait n c x = (c, Inl (Internal ''stream backpressure timeout''))"
  by (induction n) simp_all

lemma queue_push: "queue (fst (push c x)) =
   (if unat (queue_depth (config c)) \<le> length (queue c)
    then (case queue_policy (config c) of DropOldest \<Rightarrow> tl (queue c) @ [x] | _ \<Rightarrow> queue c)
    else queue c @ [x])"
  by (simp add: push_def backpressure_full split: queue_policy.split)

lemma push_keeps [simp]:
  "config (fst (push c x)) = config c" "subscribers (fst (push c x)) = subscribers c"
  by (simp_all add: push_def backpressure_full split: queue_policy.split)

lemma fst_stream_write [simp]: "fst (stream_write c x) = fst (push c x)"
  by (simp add: stream_write_def split: prod.split sum.split)

interpretation stream: ordered_queue stream_enq stream_read queue
proof unfold_locales
  fix c :: "'cb stream_channel" and x
  have "subseq (tl (queue c) @ [x]) (queue c @ [x])"
    by (cases "queue c") (auto intro: list_emb_append_mono)
  moreover have "subseq (queue c) (queue c @ [x])" by (simp add: prefix_imp_subseq)
  ultimately show "subseq (queue (fst (stream_write c x))) (queue c @ [x])"
    by (simp add: queue_push split: queue_policy.split)
qed (auto simp: stream_read_def pop_def)

text \<open>
  C31: a stream keeps order. Whatever the overflow policy and however writes and reads are
  interleaved, the values read so far followed by the values still queued are a subsequence of
  the initial contents followed by the values written: nothing is reordered, duplicated or made
  up.
\<close>

theorem stream_fifo:
  "subseq (snd (run_queue stream_enq stream_read ops c)
      @ queue (fst (run_queue stream_enq stream_read ops c)))
     (queue c @ enqueued ops)"
  by (rule stream.run_subseq)

primrec write_all :: "sample list \<Rightarrow> 'cb stream_channel \<Rightarrow> 'cb stream_channel" where
  "write_all [] c = c"
| "write_all (x # xs) c = write_all xs (fst (stream_write c x))"

lemma write_all_config [simp]: "config (write_all xs c) = config c"
  by (induction xs arbitrary: c) simp_all

lemma write_all_snoc: "write_all (xs @ [x]) c = fst (push (write_all xs c) x)"
  by (induction xs arbitrary: c) simp_all

text \<open>
  C32: the overflow policies. Writing \<open>xs\<close> to an empty channel of depth \<open>d > 0\<close> without reading
  leaves the last \<open>d\<close> values under DropOldest and the first \<open>d\<close> under DropNewest and Backpressure.
\<close>

theorem overflow_policies:
  assumes "d = unat (queue_depth cfg)" and "0 < d"
  shows "queue (write_all xs (stream_channel_new cfg)) =
    (case queue_policy cfg of DropOldest \<Rightarrow> drop (length xs - d) xs | _ \<Rightarrow> take d xs)"
proof (induction xs rule: rev_induct)
  case Nil
  then show ?case by (simp add: stream_channel_new_def split: queue_policy.split)
next
  case (snoc x xs)
  let ?c = "write_all xs (stream_channel_new cfg)"
  show ?case
  proof (cases "length xs < d")
    case True
    then show ?thesis using snoc assms
      by (simp add: write_all_snoc queue_push split: queue_policy.splits)
  next
    case False
    then have "tl (drop (length xs - d) xs) = drop (Suc (length xs) - d) xs"
      by (simp add: tl_drop Suc_diff_le flip: drop_Suc)
    then show ?thesis using snoc assms False
      by (simp add: write_all_snoc queue_push split: queue_policy.splits)
  qed
qed

text \<open>
  A backpressure write to a full channel never succeeds: the writer holds the lock while it
  retries, so no reader can make room; it returns the timeout error, leaves the queue alone and
  calls no subscriber. A DropNewest write to a full channel, in contrast, discards the value and
  still delivers it to the subscribers.
\<close>

theorem full_channel_writes:
  assumes "unat (queue_depth (config c)) \<le> length (queue c)"
  shows "(queue_policy (config c) = Backpressure \<longrightarrow>
      stream_write c x = (c, [], Inl (Internal ''stream backpressure timeout'')))
    \<and> (queue_policy (config c) = DropNewest \<longrightarrow>
      stream_write c x = (c, map (\<lambda>cb. (cb, fst x, snd x)) (subscribers c), Inr ()))"
  using assms by (simp add: stream_write_def push_def backpressure_full notify_subscribers_def)

definition small_config :: "queue_policy \<Rightarrow> stream_config" where
  "small_config pol = \<lparr>queue_depth = 2, queue_policy = pol, error_policy = Block,
     circuit_breaker = None, shm_threshold_bytes = 0\<rparr>"

abbreviation stamp :: "u64 \<Rightarrow> timestamp" where
  "stamp n \<equiv> \<lparr>ts_secs = n, ts_micros = 0\<rparr>"

theorem overflow_policies_witness:
  "queue (write_all [(VU8 1, stamp 1), (VU8 2, stamp 2), (VU8 3, stamp 3)]
     (stream_channel_new (small_config DropOldest) :: nat stream_channel))
   = [(VU8 2, stamp 2), (VU8 3, stamp 3)]"
  using overflow_policies [of 2 "small_config DropOldest" "[(VU8 1, stamp 1), (VU8 2, stamp 2), (VU8 3, stamp 3)]"]
  by (simp add: small_config_def)

theorem full_channel_writes_witness:
  "stream_write (\<lparr>queue = [(VU8 1, stamp 1), (VU8 2, stamp 2)], subscribers = [7 :: nat],
      config = small_config DropNewest\<rparr>) (VU8 3, stamp 3)
   = (\<lparr>queue = [(VU8 1, stamp 1), (VU8 2, stamp 2)], subscribers = [7], config = small_config DropNewest\<rparr>,
      [(7, VU8 3, stamp 3)], Inr ())"
  using full_channel_writes [of "\<lparr>queue = [(VU8 1, stamp 1), (VU8 2, stamp 2)], subscribers = [7 :: nat],
      config = small_config DropNewest\<rparr>" "(VU8 3, stamp 3)"]
  by (simp add: small_config_def)

end
