(* ===== verification/Inproc_Qos.thy ===== *)
theory Inproc_Qos
  imports Inproc_Transport
begin

text \<open>
  Lock levels and the config barrier: the types of \<^verbatim>\<open>audesys-hal-core/src/qos.rs\<close> and the controller of
  \<^verbatim>\<open>audesys-amw-inproc/src/qos.rs\<close>. The rule that a level only grows is a locale. The level is an
  atomic cell that is read and written by two separate operations; the last section runs two
  setters concurrently. Method names are taken to be ASCII, where \<^verbatim>\<open>to_lowercase\<close> changes letters
  only.
\<close>

subsection \<open>Levels and commands\<close>

datatype lock_level = LNone | LLoad | LConfig | LParams | LRun | LAll

fun level_u8 :: "lock_level \<Rightarrow> u8" where
  "level_u8 LNone = 0"
| "level_u8 LLoad = 1"
| "level_u8 LConfig = 2"
| "level_u8 LParams = 3"
| "level_u8 LRun = 4"
| "level_u8 LAll = 5"

lemma level_u8_inj: "level_u8 a = level_u8 b \<longleftrightarrow> a = b"
  by (cases a; cases b) simp_all

text \<open>The derived order follows the order of the variants.\<close>

instantiation lock_level :: linorder
begin

definition less_eq_lock_level :: "lock_level \<Rightarrow> lock_level \<Rightarrow> bool" where
  "less_eq_lock_level a b = (level_u8 a \<le> level_u8 b)"

definition less_lock_level :: "lock_level \<Rightarrow> lock_level \<Rightarrow> bool" where
  "less_lock_level a b = (level_u8 a < level_u8 b)"

instance
  by standard (auto simp: less_eq_lock_level_def less_lock_level_def order.strict_iff_order level_u8_inj)

end

datatype config_status =
    Queued
  | Applied
  | RejectedStatus string
  | FailedStatus string

record config_command =
  cmd_id :: u64
  cmd_method :: string
  cmd_params :: "byte list"
  queued_at :: nat

datatype liveliness_status = Alive | Missing | Unknown

subsection \<open>Text\<close>

definition to_lower :: "string \<Rightarrow> string" where
  "to_lower s = map (\<lambda>c. if c \<in> set ''ABCDEFGHIJKLMNOPQRSTUVWXYZ''
     then char_of ((of_char c :: nat) + 32) else c) s"

definition contains_str :: "string \<Rightarrow> string \<Rightarrow> bool" where
  "contains_str s pat = list_ex (prefix pat) (suffixes s)"

fun show_level :: "lock_level \<Rightarrow> string" where
  "show_level LNone = ''None''"
| "show_level LLoad = ''Load''"
| "show_level LConfig = ''Config''"
| "show_level LParams = ''Params''"
| "show_level LRun = ''Run''"
| "show_level LAll = ''All''"

definition arrow :: string where
  "arrow = map char_of [32, 0xE2, 0x86, 0x92, 32 :: nat]"

text \<open>The \<^verbatim>\<open>Debug\<close> form of a string of printable ASCII: quoted, with quotes and backslashes escaped.\<close>

definition debug_str :: "string \<Rightarrow> string" where
  "debug_str s =
     [CHR 0x22] @ concat (map (\<lambda>c. if c = CHR 0x22 \<or> c = CHR 0x5C then [CHR 0x5C, c] else [c]) s)
     @ [CHR 0x22]"

definition decrease_reason :: "lock_level \<Rightarrow> lock_level \<Rightarrow> string" where
  "decrease_reason current level = ''Cannot decrease lock level: '' @ show_level current @ arrow
     @ show_level level @ '' (monotonic-increasing constraint)''"

definition prohibit_reason :: "lock_level \<Rightarrow> string \<Rightarrow> lock_level \<Rightarrow> string" where
  "prohibit_reason current method required = ''LockLevel '' @ show_level current
     @ '' prohibits command '' @ debug_str method @ '' (requires '' @ show_level required @ '')''"

subsection \<open>The controller\<close>

definition required_lock_level :: "string \<Rightarrow> lock_level" where
  "required_lock_level method =
     (let lower = to_lower method in
      if contains_str lower ''load'' \<or> contains_str lower ''unload'' \<or> contains_str lower ''component''
      then LLoad
      else if contains_str lower ''param'' then LParams
      else LConfig)"

definition can_queue :: "lock_level \<Rightarrow> lock_level \<Rightarrow> bool" where
  "can_queue current required =
     (case current of
        LNone \<Rightarrow> True
      | LLoad \<Rightarrow> True
      | LConfig \<Rightarrow> LConfig \<le> required
      | LParams \<Rightarrow> LParams \<le> required
      | LRun \<Rightarrow> False
      | LAll \<Rightarrow> False)"

record inproc_qos =
  lock_cell :: u8
  config_queue :: "config_command list"
  liveliness :: "(string, liveliness_status) hmap"
  security_domains :: "(string, string) hmap"

definition qos_new :: inproc_qos where
  "qos_new = \<lparr>lock_cell = level_u8 LNone, config_queue = [], liveliness = [], security_domains = []\<rparr>"

definition level_of_u8 :: "u8 \<Rightarrow> lock_level" where
  "level_of_u8 raw =
     (if raw = 0 then LNone else if raw = 1 then LLoad else if raw = 2 then LConfig
      else if raw = 3 then LParams else if raw = 4 then LRun else if raw = 5 then LAll else LAll)"

definition load_level :: "inproc_qos \<Rightarrow> lock_level" where
  "load_level q = level_of_u8 (lock_cell q)"

definition set_lock_level :: "inproc_qos \<Rightarrow> lock_level \<Rightarrow> inproc_qos \<times> config_status" where
  "set_lock_level q level =
     (let current = load_level q in
      if level < current then (q, RejectedStatus (decrease_reason current level))
      else (q\<lparr>lock_cell := level_u8 level\<rparr>, Applied))"

definition queue_config :: "inproc_qos \<Rightarrow> config_command \<Rightarrow> inproc_qos \<times> config_status" where
  "queue_config q cmd =
     (let current = load_level q; required = required_lock_level (cmd_method cmd) in
      if \<not> can_queue current required
      then (q, RejectedStatus (prohibit_reason current (cmd_method cmd) required))
      else (q\<lparr>config_queue := config_queue q @ [cmd]\<rparr>, Queued))"

definition apply_queued :: "inproc_qos \<Rightarrow> inproc_qos \<times> config_status list" where
  "apply_queued q = (q\<lparr>config_queue := []\<rparr>, map (\<lambda>_. Applied) (config_queue q))"

definition register_entity :: "inproc_qos \<Rightarrow> string \<Rightarrow> inproc_qos" where
  "register_entity q entity_id = q\<lparr>liveliness := hm_insert entity_id Alive (liveliness q)\<rparr>"

definition check_liveliness :: "inproc_qos \<Rightarrow> string \<Rightarrow> liveliness_status" where
  "check_liveliness q entity_id =
     (case hm_get (liveliness q) entity_id of Some s \<Rightarrow> s | None \<Rightarrow> Unknown)"

definition tag_security_domain :: "inproc_qos \<Rightarrow> string \<Rightarrow> string \<Rightarrow> inproc_qos" where
  "tag_security_domain q nm domain = q\<lparr>security_domains := hm_insert nm domain (security_domains q)\<rparr>"

definition get_security_domain :: "inproc_qos \<Rightarrow> string \<Rightarrow> string option" where
  "get_security_domain q nm = hm_get (security_domains q) nm"

subsection \<open>A level only grows\<close>

primrec set_levels :: "('s \<Rightarrow> lock_level \<Rightarrow> 's \<times> 'r) \<Rightarrow> lock_level list \<Rightarrow> 's \<Rightarrow> 's" where
  "set_levels set_level [] s = s"
| "set_levels set_level (l # ls) s = set_levels set_level ls (fst (set_level s l))"

locale monotone_lock =
  fixes level :: "'s \<Rightarrow> lock_level"
    and set_level :: "'s \<Rightarrow> lock_level \<Rightarrow> 's \<times> 'r"
    and accepted :: "'r \<Rightarrow> bool"
  assumes raised: "level s \<le> l \<Longrightarrow> level (fst (set_level s l)) = l \<and> accepted (snd (set_level s l))"
    and rejected: "l < level s \<Longrightarrow> fst (set_level s l) = s \<and> \<not> accepted (snd (set_level s l))"
begin

lemma accepted_iff: "accepted (snd (set_level s l)) \<longleftrightarrow> level s \<le> l"
  using raised [of s l] rejected [of l s] by (cases "level s \<le> l") (auto simp: not_le)

lemma level_set: "level (fst (set_level s l)) = max (level s) l"
  using raised [of s l] rejected [of l s] by (auto simp: max_def not_le)

lemma level_set_levels: "level (set_levels set_level ls s) = foldl max (level s) ls"
  by (induction ls arbitrary: s) (simp_all add: level_set)

lemma foldl_max_ge: "(m :: lock_level) \<le> foldl max m ls"
  by (induction ls arbitrary: m) (auto intro: order_trans [OF max.cobounded1])

lemma level_never_decreases: "level s \<le> level (set_levels set_level ls s)"
  by (simp add: level_set_levels foldl_max_ge)

end

lemma level_of_u8_inverse [simp]: "level_of_u8 (level_u8 l) = l"
  by (cases l) (simp_all add: level_of_u8_def)

interpretation qos: monotone_lock load_level set_lock_level "\<lambda>s. s = Applied"
  by unfold_locales (auto simp: set_lock_level_def load_level_def Let_def)

text \<open>
  The lock level only grows. After any sequence of requests, one at a time, the level is the
  maximum of the initial level and the requested ones; a request above the level is applied and a
  lower one is rejected.
\<close>

theorem lock_level_monotone:
  "load_level (set_levels set_lock_level ls q) = foldl max (load_level q) ls
   \<and> load_level q \<le> load_level (set_levels set_lock_level ls q)
   \<and> (snd (set_lock_level q l) = Applied \<longleftrightarrow> load_level q \<le> l)"
  using qos.level_set_levels qos.level_never_decreases qos.accepted_iff by blast

text \<open>
  The config barrier. A command enters the queue exactly when the current level admits the level
  its method needs; at Run and above none does, and a rejected command leaves the controller
  unchanged. Applying drains the queue and reports one result per command.
\<close>

theorem config_barrier:
  "(snd (queue_config q cmd) = Queued \<longleftrightarrow>
      load_level q < LRun \<and> can_queue (load_level q) (required_lock_level (cmd_method cmd)))
   \<and> (if snd (queue_config q cmd) = Queued
      then config_queue (fst (queue_config q cmd)) = config_queue q @ [cmd]
      else fst (queue_config q cmd) = q)
   \<and> config_queue (fst (apply_queued q)) = []
   \<and> length (snd (apply_queued q)) = length (config_queue q)"
proof -
  have "can_queue l r \<longleftrightarrow> l < LRun \<and> can_queue l r" for l r
    by (cases l) (simp_all add: can_queue_def less_lock_level_def word_less_nat_alt)
  then show ?thesis by (auto simp: queue_config_def apply_queued_def Let_def)
qed

subsection \<open>Concurrent setters\<close>

text \<open>
  \<^verbatim>\<open>set_lock_level\<close> is an atomic load followed by an atomic store. A setter is before its load,
  between the two, or done; the cell is shared.
\<close>

datatype setter = Requested lock_level | Loaded lock_level lock_level | Finished config_status

inductive setter_step :: "u8 \<times> setter list \<Rightarrow> u8 \<times> setter list \<Rightarrow> bool" where
  load: "i < length ss \<Longrightarrow> ss ! i = Requested l
    \<Longrightarrow> setter_step (c, ss) (c, ss[i := Loaded l (level_of_u8 c)])"
| reject: "i < length ss \<Longrightarrow> ss ! i = Loaded l cur \<Longrightarrow> l < cur
    \<Longrightarrow> setter_step (c, ss) (c, ss[i := Finished (RejectedStatus (decrease_reason cur l))])"
| store: "i < length ss \<Longrightarrow> ss ! i = Loaded l cur \<Longrightarrow> \<not> l < cur
    \<Longrightarrow> setter_step (c, ss) (level_u8 l, ss[i := Finished Applied])"

text \<open>
  A setter that runs without interference behaves as the sequential operation, but two
  concurrent setters can lower the level: from None, a request for Run and a request for Config
  can both be applied with the level ending at Config after it had been Run.
\<close>

theorem concurrent_setters_decrease:
  "setter_step\<^sup>*\<^sup>* (level_u8 LNone, [Requested LRun, Requested LConfig])
     (level_u8 LRun, [Finished Applied, Loaded LConfig LNone])
   \<and> setter_step\<^sup>*\<^sup>* (level_u8 LRun, [Finished Applied, Loaded LConfig LNone])
     (level_u8 LConfig, [Finished Applied, Finished Applied])"
proof -
  have le: "\<not> LRun < LNone" "\<not> LConfig < LNone" by (simp_all add: less_lock_level_def)
  have "setter_step (level_u8 LNone, [Requested LRun, Requested LConfig])
      (level_u8 LNone, [Loaded LRun LNone, Requested LConfig])"
    using load [of 0 "[Requested LRun, Requested LConfig]" LRun "level_u8 LNone"] by (simp del: level_u8.simps)
  moreover have "setter_step (level_u8 LNone, [Loaded LRun LNone, Requested LConfig])
      (level_u8 LNone, [Loaded LRun LNone, Loaded LConfig LNone])"
    using load [of 1 "[Loaded LRun LNone, Requested LConfig]" LConfig "level_u8 LNone"]
    by (simp del: level_u8.simps)
  moreover have "setter_step (level_u8 LNone, [Loaded LRun LNone, Loaded LConfig LNone])
      (level_u8 LRun, [Finished Applied, Loaded LConfig LNone])"
    using store [of 0 "[Loaded LRun LNone, Loaded LConfig LNone]" LRun LNone "level_u8 LNone"] le
    by (simp del: level_u8.simps)
  ultimately have 1: "setter_step\<^sup>*\<^sup>* (level_u8 LNone, [Requested LRun, Requested LConfig])
      (level_u8 LRun, [Finished Applied, Loaded LConfig LNone])"
    by (meson converse_rtranclp_into_rtranclp r_into_rtranclp)
  have "setter_step (level_u8 LRun, [Finished Applied, Loaded LConfig LNone])
      (level_u8 LConfig, [Finished Applied, Finished Applied])"
    using store [of 1 "[Finished Applied, Loaded LConfig LNone]" LConfig LNone "level_u8 LRun"] le
    by (simp del: level_u8.simps)
  then show ?thesis using 1 by blast
qed

end
