(* ===== verification/Inproc_Middleware.thy ===== *)
theory Inproc_Middleware
  imports Inproc_Qos
begin

text \<open>
  The assembled in-process middleware: static discovery (\<^verbatim>\<open>discovery.rs\<close>), the audit log, the
  delegating middleware and its factory (\<^verbatim>\<open>middleware.rs\<close>). Discovery shares the transport's
  signal table through an \<^verbatim>\<open>Arc\<close>, so its operations take that table as an argument. Instants are
  seconds since an arbitrary origin.
\<close>

subsection \<open>Discovery\<close>

record metadata =
  md_entries :: "(string \<times> string) list"

record discovery_entry =
  de_name :: string
  de_description :: string
  de_metadata :: metadata
  created_at :: timestamp

datatype discovery_event =
    Added discovery_entry
  | Removed string
  | Modified discovery_entry

record 'w static_discovery =
  watchers :: "(u64, 'w) hmap"
  next_watch_id :: u64

definition discovery_new :: "'w static_discovery" where
  "discovery_new = \<lparr>watchers = [], next_watch_id = 1\<rparr>"

definition unwatch :: "'w static_discovery \<Rightarrow> u64 \<Rightarrow> 'w static_discovery" where
  "unwatch d watch_id = d\<lparr>watchers := hm_remove watch_id (watchers d)\<rparr>"

definition notify_watchers :: "'w static_discovery \<Rightarrow> discovery_event \<Rightarrow> ('w \<times> discovery_event) list" where
  "notify_watchers d event = map (\<lambda>(_, cb). (cb, event)) (watchers d)"

definition signal_to_entry :: "string \<Rightarrow> hal_value \<Rightarrow> timestamp \<Rightarrow> discovery_entry" where
  "signal_to_entry nm v ts =
     \<lparr>de_name = nm, de_description = [], de_metadata = \<lparr>md_entries = []\<rparr>, created_at = ts\<rparr>"

definition list_all_entries :: "(string, sample) hmap \<Rightarrow> discovery_entry list" where
  "list_all_entries sigs = map (\<lambda>(nm, v, ts). signal_to_entry nm v ts) sigs"

definition find_by_name :: "(string, sample) hmap \<Rightarrow> string \<Rightarrow> discovery_entry option" where
  "find_by_name sigs nm = map_option (\<lambda>(v, ts). signal_to_entry nm v ts) (hm_get sigs nm)"

definition find_by_pattern :: "(string, sample) hmap \<Rightarrow> string \<Rightarrow> discovery_entry list" where
  "find_by_pattern sigs pat =
     map (\<lambda>(nm, v, ts). signal_to_entry nm v ts) (filter (\<lambda>(nm, _). matches_pattern nm pat) sigs)"

definition watch :: "'w static_discovery \<Rightarrow> 'w \<Rightarrow> 'w static_discovery" where
  "watch d cb = d\<lparr>watchers := hm_insert (next_watch_id d) cb (watchers d),
     next_watch_id := next_watch_id d + 1\<rparr>"

subsection \<open>Audit log\<close>

datatype audit_result = Success | Denied | FailedResult

record audit_event =
  ae_timestamp :: nat
  user_id :: string
  ae_action :: string
  ae_target :: string
  ae_result :: audit_result
  ae_detail :: "string option"

type_synonym inproc_audit_log = "audit_event list"

definition audit_log_append :: "inproc_audit_log \<Rightarrow> audit_event \<Rightarrow> inproc_audit_log" where
  "audit_log_append events event = events @ [event]"

definition audit_query :: "inproc_audit_log \<Rightarrow> nat \<Rightarrow> audit_event list" where
  "audit_query events since = filter (\<lambda>e. since \<le> ae_timestamp e) events"

subsection \<open>Middleware\<close>

record ('cb, 'w) inproc_middleware =
  mw_transport :: "'cb inproc_transport"
  mw_discovery :: "'w static_discovery"
  mw_qos :: inproc_qos
  mw_audit :: inproc_audit_log
  start_time :: nat

record amw_config =
  backend :: string
  audit_enabled :: bool
  security_domain_enabled :: bool

record amw_metrics =
  am_signals_published :: u64
  am_signals_read :: u64
  stream_messages_written :: u64
  stream_messages_dropped :: u64
  am_rpc_calls :: u64
  am_rpc_timeouts :: u64
  am_rpc_rejected :: u64
  uptime_secs :: nat

definition amw_config_default :: amw_config where
  "amw_config_default =
     \<lparr>backend = ''amw_inproc'', audit_enabled = True, security_domain_enabled = False\<rparr>"

abbreviation upd_transport ::
    "('cb, 'w) inproc_middleware \<Rightarrow> 'cb inproc_transport \<Rightarrow> ('cb, 'w) inproc_middleware" where
  "upd_transport w t \<equiv> w\<lparr>mw_transport := t\<rparr>"

definition mw_publish_signal ::
    "('cb, 'w) inproc_middleware \<Rightarrow> string \<Rightarrow> hal_value \<Rightarrow> timestamp
     \<Rightarrow> ('cb, 'w) inproc_middleware \<times> 'cb delivery list" where
  "mw_publish_signal w nm v ts =
     (case publish_signal (mw_transport w) nm v ts of (t, ds) \<Rightarrow> (upd_transport w t, ds))"

definition mw_read_signal ::
    "('cb, 'w) inproc_middleware \<Rightarrow> string \<Rightarrow> ('cb, 'w) inproc_middleware \<times> sample option" where
  "mw_read_signal w nm =
     (case tr_read_signal (mw_transport w) nm of (t, r) \<Rightarrow> (upd_transport w t, r))"

definition mw_subscribe_signal ::
    "('cb, 'w) inproc_middleware \<Rightarrow> string \<Rightarrow> 'cb \<Rightarrow> ('cb, 'w) inproc_middleware" where
  "mw_subscribe_signal w nm cb = upd_transport w (subscribe_signal (mw_transport w) nm cb)"

definition mw_snapshot_signals ::
    "('cb, 'w) inproc_middleware \<Rightarrow> string \<Rightarrow> (string \<times> hal_value \<times> timestamp) list" where
  "mw_snapshot_signals w pat = snapshot_signals (mw_transport w) pat"

definition mw_rpc_call ::
    "('cb, 'w) inproc_middleware \<Rightarrow> string \<Rightarrow> byte list \<Rightarrow> u64 \<Rightarrow> rpc_wait
     \<Rightarrow> ('cb, 'w) inproc_middleware \<times> byte list hal_result" where
  "mw_rpc_call w method params ms wait =
     (case rpc_call (mw_transport w) method params ms wait of (t, r) \<Rightarrow> (upd_transport w t, r))"

definition mw_register_rpc_handler ::
    "('cb, 'w) inproc_middleware \<Rightarrow> string \<Rightarrow> rpc_handler \<Rightarrow> ('cb, 'w) inproc_middleware" where
  "mw_register_rpc_handler w method h =
     upd_transport w (register_rpc_handler (mw_transport w) method h)"

definition mw_shutdown :: "('cb, 'w) inproc_middleware \<Rightarrow> ('cb, 'w) inproc_middleware" where
  "mw_shutdown w = upd_transport w (transport_shutdown (mw_transport w))"

definition mw_list_all :: "('cb, 'w) inproc_middleware \<Rightarrow> discovery_entry list" where
  "mw_list_all w = list_all_entries (tr_signals (mw_transport w))"

definition mw_find_by_name :: "('cb, 'w) inproc_middleware \<Rightarrow> string \<Rightarrow> discovery_entry option" where
  "mw_find_by_name w nm = find_by_name (tr_signals (mw_transport w)) nm"

definition mw_find_by_pattern :: "('cb, 'w) inproc_middleware \<Rightarrow> string \<Rightarrow> discovery_entry list" where
  "mw_find_by_pattern w pat = find_by_pattern (tr_signals (mw_transport w)) pat"

definition mw_watch :: "('cb, 'w) inproc_middleware \<Rightarrow> 'w \<Rightarrow> ('cb, 'w) inproc_middleware" where
  "mw_watch w cb = w\<lparr>mw_discovery := watch (mw_discovery w) cb\<rparr>"

definition mw_lock_level :: "('cb, 'w) inproc_middleware \<Rightarrow> lock_level" where
  "mw_lock_level w = load_level (mw_qos w)"

definition mw_set_lock_level ::
    "('cb, 'w) inproc_middleware \<Rightarrow> lock_level \<Rightarrow> ('cb, 'w) inproc_middleware \<times> config_status" where
  "mw_set_lock_level w l =
     (case set_lock_level (mw_qos w) l of (q, s) \<Rightarrow> (w\<lparr>mw_qos := q\<rparr>, s))"

definition mw_queue_config ::
    "('cb, 'w) inproc_middleware \<Rightarrow> config_command \<Rightarrow> ('cb, 'w) inproc_middleware \<times> config_status" where
  "mw_queue_config w cmd =
     (case queue_config (mw_qos w) cmd of (q, s) \<Rightarrow> (w\<lparr>mw_qos := q\<rparr>, s))"

definition mw_apply_queued ::
    "('cb, 'w) inproc_middleware \<Rightarrow> ('cb, 'w) inproc_middleware \<times> config_status list" where
  "mw_apply_queued w = (case apply_queued (mw_qos w) of (q, s) \<Rightarrow> (w\<lparr>mw_qos := q\<rparr>, s))"

definition mw_register_entity :: "('cb, 'w) inproc_middleware \<Rightarrow> string \<Rightarrow> ('cb, 'w) inproc_middleware" where
  "mw_register_entity w e = w\<lparr>mw_qos := register_entity (mw_qos w) e\<rparr>"

definition mw_check_liveliness :: "('cb, 'w) inproc_middleware \<Rightarrow> string \<Rightarrow> liveliness_status" where
  "mw_check_liveliness w e = check_liveliness (mw_qos w) e"

definition mw_tag_security_domain ::
    "('cb, 'w) inproc_middleware \<Rightarrow> string \<Rightarrow> string \<Rightarrow> ('cb, 'w) inproc_middleware" where
  "mw_tag_security_domain w nm domain = w\<lparr>mw_qos := tag_security_domain (mw_qos w) nm domain\<rparr>"

definition mw_get_security_domain :: "('cb, 'w) inproc_middleware \<Rightarrow> string \<Rightarrow> string option" where
  "mw_get_security_domain w nm = get_security_domain (mw_qos w) nm"

definition mw_metrics :: "('cb, 'w) inproc_middleware \<Rightarrow> nat \<Rightarrow> amw_metrics" where
  "mw_metrics w now =
     (let t = mw_transport w in
      \<lparr>am_signals_published = signals_published t, am_signals_read = signals_read t,
       stream_messages_written = 0, stream_messages_dropped = 0,
       am_rpc_calls = rpc_calls t, am_rpc_timeouts = rpc_timeouts t, am_rpc_rejected = rpc_rejected t,
       uptime_secs = now - start_time w\<rparr>)"

definition factory_reason :: "string \<Rightarrow> string" where
  "factory_reason b = ''InprocFactory only supports backend '' @ [CHR 0x27] @ ''amw_inproc''
     @ [CHR 0x27] @ '', got '' @ [CHR 0x27] @ b @ [CHR 0x27]"

definition factory_create :: "amw_config \<Rightarrow> nat \<Rightarrow> ('cb, 'w) inproc_middleware hal_result" where
  "factory_create cfg now =
     (if backend cfg \<noteq> ''amw_inproc'' then Inl (Rejected 400 (factory_reason (backend cfg)))
      else Inr \<lparr>mw_transport = transport_new, mw_discovery = discovery_new, mw_qos = qos_new,
                mw_audit = [], start_time = now\<rparr>)"

subsection \<open>The middleware meets the contracts of its parts\<close>

definition mw_wf :: "('cb, 'w) inproc_middleware \<Rightarrow> bool" where
  "mw_wf w \<longleftrightarrow> transport_wf (mw_transport w)"

interpretation mw: hal_transport mw_publish_signal mw_read_signal mw_snapshot_signals
  mw_shutdown mw_wf
  by unfold_locales
    (auto simp: mw_publish_signal_def mw_read_signal_def mw_snapshot_signals_def mw_shutdown_def
      mw_wf_def inproc.inv_publish inproc.inv_read inproc.inv_shutdown inproc.read_publish
      inproc.read_read inproc.read_shutdown inproc.snapshot_read case_prod_unfold)

interpretation mwq: monotone_lock mw_lock_level mw_set_lock_level "\<lambda>s. s = Applied"
  by unfold_locales
    (auto simp: mw_lock_level_def mw_set_lock_level_def set_lock_level_def load_level_def Let_def)

text \<open>
  Discovery agrees with the transport. A name is discovered exactly when a read of it returns a
  value, with the time stamp of that value, and the entries found by a pattern are those of the
  signals in the snapshot of the pattern.
\<close>

theorem discovery_agrees:
  "mw_find_by_name w nm =
     map_option (\<lambda>(v, ts). signal_to_entry nm v ts) (snd (mw_read_signal w nm))
   \<and> mw_find_by_pattern w pat =
     map (\<lambda>(nm, v, ts). signal_to_entry nm v ts) (mw_snapshot_signals w pat)
   \<and> mw_list_all w = mw_find_by_pattern w ''*''"
  by (simp add: mw_find_by_name_def find_by_name_def mw_read_signal_def tr_read_signal_def
      mw_find_by_pattern_def find_by_pattern_def mw_snapshot_signals_def snapshot_signals_def
      mw_list_all_def list_all_entries_def matches_pattern_def trim_stars_def Let_def comp_def
      case_prod_unfold)

end
