(* ===== verification/Signal_Registry.thy ===== *)
theory Signal_Registry
  imports Hal_Value
begin

text \<open>
  The controller's signal table of \<^verbatim>\<open>audesys-runtime/src/signals.rs\<close>. A compute function is a closure
  that may look at the outside world: it maps the moment of the call to a value. Cloning one
  gives the constant zero function, as its \<^verbatim>\<open>Clone\<close> implementation does.
\<close>

type_synonym compute_fn = "nat \<Rightarrow> hal_value"

datatype write_strategy = Own | Monitored | Computed compute_fn

definition clone_compute :: "compute_fn \<Rightarrow> compute_fn" where
  "clone_compute f = (\<lambda>_. VF32 0)"

fun clone_strategy :: "write_strategy \<Rightarrow> write_strategy" where
  "clone_strategy Own = Own"
| "clone_strategy Monitored = Monitored"
| "clone_strategy (Computed f) = Computed (clone_compute f)"

record signal_def =
  sd_name :: string
  sd_pin_type :: hal_pin_type
  sd_value :: hal_value
  sd_strategy :: write_strategy

definition signal_def_new ::
    "string \<Rightarrow> hal_pin_type \<Rightarrow> hal_value \<Rightarrow> write_strategy \<Rightarrow> signal_def" where
  "signal_def_new nm t v s = \<lparr>sd_name = nm, sd_pin_type = t, sd_value = v, sd_strategy = s\<rparr>"

definition clone_def :: "signal_def \<Rightarrow> signal_def" where
  "clone_def d = d\<lparr>sd_strategy := clone_strategy (sd_strategy d)\<rparr>"

record signal_snapshot =
  snap_name :: string
  snap_pin_type :: hal_pin_type
  snap_value :: hal_value
  snap_strategy :: write_strategy

datatype strategy_filter = FOwn | FMonitored | FComputed | FAll

type_synonym signal_registry = "(string, signal_def) hmap"

definition registry_new :: signal_registry where
  "registry_new = []"

definition register :: "signal_registry \<Rightarrow> signal_def \<Rightarrow> signal_registry \<times> (string + unit)" where
  "register r d =
     (case hm_get r (sd_name d) of
        Some _ \<Rightarrow> (r, Inl (''already registered: '' @ sd_name d))
      | None \<Rightarrow> (hm_insert (sd_name d) d r, Inr ()))"

definition reg_get :: "signal_registry \<Rightarrow> string \<Rightarrow> signal_def option" where
  "reg_get r nm = map_option clone_def (hm_get r nm)"

definition reg_list :: "signal_registry \<Rightarrow> signal_def list" where
  "reg_list r = map (clone_def \<circ> snd) r"

definition update_value :: "signal_registry \<Rightarrow> string \<Rightarrow> hal_value \<Rightarrow> signal_registry \<times> (string + unit)" where
  "update_value r nm v =
     (case hm_get r nm of
        Some d \<Rightarrow> (hm_insert nm (d\<lparr>sd_value := v\<rparr>) r, Inr ())
      | None \<Rightarrow> (r, Inl (''not found: '' @ nm)))"

definition same_strategy :: "write_strategy \<Rightarrow> write_strategy \<Rightarrow> bool" where
  "same_strategy a b =
     (case (a, b) of (Own, Own) \<Rightarrow> True | (Monitored, Monitored) \<Rightarrow> True
      | (Computed _, Computed _) \<Rightarrow> True | _ \<Rightarrow> False)"

definition filter_by_strategy :: "signal_registry \<Rightarrow> write_strategy \<Rightarrow> signal_def list" where
  "filter_by_strategy r s = map clone_def (filter (\<lambda>d. same_strategy (sd_strategy d) s) (map snd r))"

definition is_computed :: "write_strategy \<Rightarrow> bool" where
  "is_computed s = (case s of Computed _ \<Rightarrow> True | _ \<Rightarrow> False)"

definition computed_signal_names :: "signal_registry \<Rightarrow> string list" where
  "computed_signal_names r =
     map sd_name (filter (\<lambda>d. is_computed (sd_strategy d)) (map snd r))"

definition filter_admits :: "strategy_filter \<Rightarrow> write_strategy \<Rightarrow> bool" where
  "filter_admits f s =
     (case f of FOwn \<Rightarrow> s = Own | FMonitored \<Rightarrow> s = Monitored | FComputed \<Rightarrow> is_computed s | FAll \<Rightarrow> True)"

definition snapshot_of :: "signal_def \<Rightarrow> signal_snapshot" where
  "snapshot_of d = \<lparr>snap_name = sd_name d, snap_pin_type = sd_pin_type d, snap_value = sd_value d,
     snap_strategy = clone_strategy (sd_strategy d)\<rparr>"

definition snapshots_by_strategy :: "signal_registry \<Rightarrow> strategy_filter \<Rightarrow> signal_snapshot list" where
  "snapshots_by_strategy r f =
     map snapshot_of (filter (\<lambda>d. filter_admits f (sd_strategy d)) (map snd r))"

definition list_names :: "signal_registry \<Rightarrow> string list" where
  "list_names r = hm_keys r"

definition compute_signal :: "signal_registry \<Rightarrow> string \<Rightarrow> nat \<Rightarrow> string + hal_value" where
  "compute_signal r nm now =
     (case hm_get r nm of
        None \<Rightarrow> Inl (''not found: '' @ nm)
      | Some d \<Rightarrow> (case sd_strategy d of Computed f \<Rightarrow> Inr (f now) | _ \<Rightarrow> Inr (sd_value d)))"

definition list_snapshots :: "signal_registry \<Rightarrow> signal_snapshot list" where
  "list_snapshots r = snapshots_by_strategy r FAll"

subsection \<open>Invariant and laws\<close>

text \<open>Keys are distinct and every definition is stored under its own name.\<close>

definition registry_wf :: "signal_registry \<Rightarrow> bool" where
  "registry_wf r \<longleftrightarrow> hm_wf r \<and> (\<forall>nm d. hm_get r nm = Some d \<longrightarrow> sd_name d = nm)"

lemma registry_wf_new [simp]: "registry_wf registry_new"
  by (simp add: registry_wf_def registry_new_def)

lemma registry_wf_register [simp]: "registry_wf r \<Longrightarrow> registry_wf (fst (register r d))"
  by (auto simp: registry_wf_def register_def split: option.split)

lemma registry_wf_update [simp]: "registry_wf r \<Longrightarrow> registry_wf (fst (update_value r nm v))"
  by (auto simp: registry_wf_def update_value_def split: option.split)

text \<open>Static part of a definition: what an update of its value never changes.\<close>

abbreviation strategy_at :: "signal_registry \<Rightarrow> string \<Rightarrow> write_strategy option" where
  "strategy_at r nm \<equiv> map_option sd_strategy (hm_get r nm)"

abbreviation value_at :: "signal_registry \<Rightarrow> string \<Rightarrow> hal_value option" where
  "value_at r nm \<equiv> map_option sd_value (hm_get r nm)"

lemma value_at_update:
  "value_at (fst (update_value r nm v)) nm' =
     (if nm' = nm \<and> hm_get r nm \<noteq> None then Some v else value_at r nm')"
  by (auto simp: update_value_def split: option.split)

lemma strategy_at_update: "strategy_at (fst (update_value r nm v)) nm' = strategy_at r nm'"
  by (auto simp: update_value_def split: option.split)

lemma defined_update: "(hm_get (fst (update_value r nm v)) nm' = None) = (hm_get r nm' = None)"
  by (auto simp: update_value_def split: option.split)

lemma snapshot_in:
  assumes "registry_wf r"
  shows "(\<exists>s \<in> set (snapshots_by_strategy r f). snap_name s = nm \<and> snap_value s = v) \<longleftrightarrow>
    (\<exists>d. hm_get r nm = Some d \<and> filter_admits f (sd_strategy d) \<and> sd_value d = v)"
proof
  assume "\<exists>s \<in> set (snapshots_by_strategy r f). snap_name s = nm \<and> snap_value s = v"
  then obtain k d where kd: "(k, d) \<in> set r" "filter_admits f (sd_strategy d)" "sd_name d = nm"
    "sd_value d = v" by (auto simp: snapshots_by_strategy_def snapshot_of_def)
  then have "hm_get r k = Some d" using assms by (simp add: registry_wf_def hm_in_set)
  moreover have "k = nm" using calculation kd(3) assms by (auto simp: registry_wf_def)
  ultimately show "\<exists>d. hm_get r nm = Some d \<and> filter_admits f (sd_strategy d) \<and> sd_value d = v"
    using kd by blast
next
  assume "\<exists>d. hm_get r nm = Some d \<and> filter_admits f (sd_strategy d) \<and> sd_value d = v"
  then obtain d where d: "hm_get r nm = Some d" "filter_admits f (sd_strategy d)" "sd_value d = v"
    by blast
  then have "(nm, d) \<in> set r" "sd_name d = nm" using assms by (auto simp: registry_wf_def hm_in_set)
  then have "snapshot_of d \<in> set (snapshots_by_strategy r f)"
    using d(2) by (force simp: snapshots_by_strategy_def)
  then show "\<exists>s \<in> set (snapshots_by_strategy r f). snap_name s = nm \<and> snap_value s = v"
    using d(3) \<open>sd_name d = nm\<close> by (intro bexI) (simp_all add: snapshot_of_def)
qed

lemma snapshot_names_distinct:
  assumes "registry_wf r"
  shows "distinct (map snap_name (snapshots_by_strategy r f))"
proof -
  have n: "(k, d) \<in> set r \<Longrightarrow> sd_name d = k" for k d
    using assms by (auto simp: registry_wf_def hm_in_set)
  then have "map sd_name (map snd r) = hm_keys r" by auto
  moreover have "distinct (hm_keys r)" using assms by (simp add: registry_wf_def hm_wf_def)
  ultimately have "distinct (map sd_name (map snd r))" by (simp only:)
  then have "distinct (map sd_name (filter (\<lambda>d. filter_admits f (sd_strategy d)) (map snd r)))"
    by (rule distinct_map_filter)
  then show ?thesis by (simp add: snapshots_by_strategy_def snapshot_of_def comp_def)
qed

end
