(* ===== verification/Runtime_Metrics.thy ===== *)
theory Runtime_Metrics
  imports Hal_Value
begin

text \<open>
  The runtime's counters and its ring buffer of cycle times (\<^verbatim>\<open>audesys-runtime/src/metrics.rs\<close>). The
  capacity \<^verbatim>\<open>N\<close> of the buffer is the length of its array; the cursor is a \<^verbatim>\<open>usize\<close> that wraps.
\<close>

record ring_buffer =
  rb_buf :: "u64 list"
  rb_cursor :: u64

definition ring_new :: "nat \<Rightarrow> ring_buffer" where
  "ring_new n = \<lparr>rb_buf = replicate n 0, rb_cursor = 0\<rparr>"

definition ring_push :: "ring_buffer \<Rightarrow> u64 \<Rightarrow> ring_buffer" where
  "ring_push r v =
     (let idx = unat (rb_cursor r) mod length (rb_buf r) in
      r\<lparr>rb_cursor := rb_cursor r + 1, rb_buf := (rb_buf r)[idx := v]\<rparr>)"

definition ring_read :: "ring_buffer \<Rightarrow> u64 list" where
  "ring_read r =
     (let n = length (rb_buf r); cursor = unat (rb_cursor r);
          start = (if cursor < n then 0 else cursor mod n)
      in map (\<lambda>i. rb_buf r ! ((start + i) mod n)) [0..<n])"

definition ring_reset :: "ring_buffer \<Rightarrow> ring_buffer" where
  "ring_reset r = \<lparr>rb_buf = map (\<lambda>_. 0) (rb_buf r), rb_cursor = 0\<rparr>"

record runtime_metrics =
  cycles_completed :: u64
  rm_signals_published :: u64
  config_changes_applied :: u64
  child_restarts :: u64
  health_check_failures :: u64
  cycle_jitter_us :: ring_buffer

definition metrics_new :: runtime_metrics where
  "metrics_new = \<lparr>cycles_completed = 0, rm_signals_published = 0, config_changes_applied = 0,
     child_restarts = 0, health_check_failures = 0, cycle_jitter_us = ring_new 1024\<rparr>"

definition record_cycle :: "runtime_metrics \<Rightarrow> runtime_metrics" where
  "record_cycle m = m\<lparr>cycles_completed := cycles_completed m + 1\<rparr>"

definition record_cycle_jitter :: "runtime_metrics \<Rightarrow> u64 \<Rightarrow> runtime_metrics" where
  "record_cycle_jitter m us = m\<lparr>cycle_jitter_us := ring_push (cycle_jitter_us m) us\<rparr>"

definition record_signal_published :: "runtime_metrics \<Rightarrow> runtime_metrics" where
  "record_signal_published m = m\<lparr>rm_signals_published := rm_signals_published m + 1\<rparr>"

definition record_config_applied :: "runtime_metrics \<Rightarrow> runtime_metrics" where
  "record_config_applied m = m\<lparr>config_changes_applied := config_changes_applied m + 1\<rparr>"

definition record_child_restart :: "runtime_metrics \<Rightarrow> runtime_metrics" where
  "record_child_restart m = m\<lparr>child_restarts := child_restarts m + 1\<rparr>"

definition record_health_failure :: "runtime_metrics \<Rightarrow> runtime_metrics" where
  "record_health_failure m = m\<lparr>health_check_failures := health_check_failures m + 1\<rparr>"

definition metrics_reset :: "runtime_metrics \<Rightarrow> runtime_metrics" where
  "metrics_reset m = m\<lparr>cycles_completed := 0, rm_signals_published := 0, config_changes_applied := 0,
     child_restarts := 0, health_check_failures := 0,
     cycle_jitter_us := ring_reset (cycle_jitter_us m)\<rparr>"

subsection \<open>The ring buffer keeps the latest values\<close>

definition ring_fill :: "nat \<Rightarrow> u64 list \<Rightarrow> ring_buffer" where
  "ring_fill n xs = foldl ring_push (ring_new n) xs"

lemma ring_fill_snoc: "ring_fill n (xs @ [x]) = ring_push (ring_fill n xs) x"
  by (simp add: ring_fill_def)

lemma ring_fill_inv:
  assumes "0 < n" and "length xs < 2 ^ 64"
  shows "length (rb_buf (ring_fill n xs)) = n \<and> unat (rb_cursor (ring_fill n xs)) = length xs
    \<and> (\<forall>j < n. rb_buf (ring_fill n xs) ! j =
        (let cands = filter (\<lambda>k. k mod n = j) [0..<length xs] in if cands = [] then 0 else xs ! last cands))"
  using assms(2)
proof (induction xs rule: rev_induct)
  case Nil
  then show ?case by (simp add: ring_fill_def ring_new_def)
next
  case (snoc x xs)
  let ?r = "ring_fill n xs"
  have len: "length (rb_buf ?r) = n" and cur: "unat (rb_cursor ?r) = length xs"
    using snoc by simp_all
  have "unat (rb_cursor ?r + 1) = length xs + 1"
    using cur snoc.prems by (simp add: unat_word_ariths)
  moreover have "rb_buf (ring_fill n (xs @ [x])) ! j =
      (let cands = filter (\<lambda>k. k mod n = j) [0..<length (xs @ [x])]
       in if cands = [] then 0 else (xs @ [x]) ! last cands)" if "j < n" for j
  proof (cases "j = length xs mod n")
    case True
    then show ?thesis using len cur that
      by (simp add: ring_fill_snoc ring_push_def Let_def nth_append)
  next
    case False
    let ?c = "filter (\<lambda>k. k mod n = j) [0..<length xs]"
    have "last ?c < length xs" if "?c \<noteq> []"
      using last_in_set [OF that] by simp
    then show ?thesis using snoc that False len cur
      by (auto simp: ring_fill_snoc ring_push_def Let_def nth_append)
  qed
  ultimately show ?case using len cur by (simp add: ring_fill_snoc ring_push_def Let_def)
qed

lemma last_residue:
  assumes "k < l" and "l \<le> k + n" and "0 < n"
  shows "filter (\<lambda>m. m mod n = k mod n) [0..<l] \<noteq> [] \<and> last (filter (\<lambda>m. m mod n = k mod n) [0..<l]) = k"
proof -
  have "m mod n \<noteq> k mod n" if "m \<in> set [Suc k..<l]" for m
  proof
    assume "m mod n = k mod n"
    then have "n dvd m - k" using that by (simp add: mod_eq_dvd_iff_nat)
    moreover have "0 < m - k" "m - k < n" using that assms by auto
    ultimately show False by (auto dest: nat_dvd_not_less)
  qed
  then have "filter (\<lambda>m. m mod n = k mod n) [Suc k..<l] = []" by (simp add: filter_empty_conv)
  moreover have "[0..<l] = [0..<k] @ k # [Suc k..<l]"
    using assms(1) by (metis less_imp_add_positive upt_add_eq_append upt_conv_Cons zero_le)
  ultimately show ?thesis by simp
qed

text \<open>
  The jitter buffer holds the most recent cycle times: once at least as many values have been
  pushed as it has slots, reading it gives the last of them in the order they were pushed.
\<close>

theorem ring_keeps_latest:
  assumes "0 < n" and "n \<le> length xs" and "length xs < 2 ^ 64"
  shows "ring_read (ring_fill n xs) = drop (length xs - n) xs"
proof (rule nth_equalityI)
  let ?r = "ring_fill n xs"
  have inv: "length (rb_buf ?r) = n" "unat (rb_cursor ?r) = length xs"
    "\<And>j. j < n \<Longrightarrow> rb_buf ?r ! j = (let cands = filter (\<lambda>k. k mod n = j) [0..<length xs]
       in if cands = [] then 0 else xs ! last cands)"
    using ring_fill_inv [OF assms(1,3)] by auto
  show "length (ring_read ?r) = length (drop (length xs - n) xs)"
    using inv(1) assms(2) by (simp add: ring_read_def Let_def)
  fix i assume "i < length (ring_read ?r)"
  then have i: "i < n" using inv(1) by (simp add: ring_read_def Let_def)
  let ?k = "length xs - n + i"
  have "(length xs mod n + i) mod n = (length xs + i) mod n" by (simp add: mod_simps)
  also have "length xs + i = ?k + n" using assms(2) by simp
  also have "(?k + n) mod n = ?k mod n" by simp
  finally have pos: "(length xs mod n + i) mod n = ?k mod n" .
  have "ring_read ?r ! i = rb_buf ?r ! (?k mod n)"
    using i inv(1,2) assms(2) pos by (simp add: ring_read_def Let_def)
  also have "\<dots> = xs ! ?k"
    using inv(3) [of "?k mod n"] last_residue [of ?k "length xs" n] i assms by (simp add: Let_def)
  finally show "ring_read ?r ! i = drop (length xs - n) xs ! i" using assms(2) i by simp
qed

theorem ring_keeps_latest_witness:
  "ring_read (ring_fill 2 [1, 2, 3]) = [2, 3]"
  using ring_keeps_latest [of 2 "[1, 2, 3]"] by simp

end
