(* ===== verification/Lifecycle.thy ===== *)
theory Lifecycle
  imports Hal_Value
begin

text \<open>
  Supervision of child processes (\<^verbatim>\<open>audesys-runtime/src/lifecycle.rs\<close>). The operating system is an
  argument: what \<^verbatim>\<open>try_wait\<close> and \<^verbatim>\<open>spawn\<close> answer for each child and the clock, in milliseconds since
  an arbitrary origin.
\<close>

abbreviation MAX_RETRIES :: u32 where "MAX_RETRIES \<equiv> 3"
abbreviation BACKOFF_BASE_MS :: nat where "BACKOFF_BASE_MS \<equiv> 1000"
abbreviation RESTART_WINDOW_MS :: nat where "RESTART_WINDOW_MS \<equiv> 30000"

datatype process_state =
    Running
  | Exited "i32 option"
  | Restarting u32 nat
  | Failed "i32 option" string
  | Stopped

record child_health =
  ch_name :: string
  ch_state :: process_state
  ch_exit_code :: "i32 option"
  ch_restart_count :: u32

record managed_child =
  mc_name :: string
  process :: u32
  restart_count :: u32
  last_start :: nat
  exit_code :: "i32 option"
  mc_program :: string
  mc_args :: "string list"

type_synonym lifecycle_manager = "managed_child list"

text \<open>What the operating system reports for a child: its \<^verbatim>\<open>try_wait\<close> and the next \<^verbatim>\<open>spawn\<close>.\<close>

datatype wait_result = StillRunning | HasExited "i32 option" | WaitError

type_synonym os_answer = "wait_result \<times> (string + u32)"

definition lifecycle_new :: lifecycle_manager where
  "lifecycle_new = []"

definition spawn ::
    "lifecycle_manager \<Rightarrow> string \<Rightarrow> string \<Rightarrow> string list \<Rightarrow> (string + u32) \<Rightarrow> nat
     \<Rightarrow> lifecycle_manager \<times> (string + u32)" where
  "spawn cs nm program args os now =
     (case os of
        Inl e \<Rightarrow> (cs, Inl (''Failed to spawn '' @ nm @ '': '' @ e))
      | Inr pid \<Rightarrow> (cs @ [\<lparr>mc_name = nm, process = pid, restart_count = 0, last_start = now,
          exit_code = None, mc_program = program, mc_args = args\<rparr>], Inr pid))"

definition health_of :: "managed_child \<Rightarrow> process_state \<Rightarrow> i32 option \<Rightarrow> child_health" where
  "health_of c st ec = \<lparr>ch_name = mc_name c, ch_state = st, ch_exit_code = ec,
     ch_restart_count = restart_count c\<rparr>"

text \<open>\<^verbatim>\<open>BACKOFF_BASE_MS * (1u64 << (attempt - 1))\<close>; the attempt is at most \<open>MAX_RETRIES\<close>.\<close>

definition next_attempt_at :: "nat \<Rightarrow> u32 \<Rightarrow> nat" where
  "next_attempt_at now attempt = now + BACKOFF_BASE_MS * 2 ^ (unat attempt - 1)"

definition check_child :: "nat \<Rightarrow> os_answer \<Rightarrow> managed_child \<Rightarrow> managed_child \<times> child_health" where
  "check_child now os c =
     (case fst os of
        HasExited code \<Rightarrow>
          (let c1 = c\<lparr>exit_code := code\<rparr>;
               c2 = (if RESTART_WINDOW_MS \<le> now - last_start c1 then c1\<lparr>restart_count := 0\<rparr> else c1)
           in if restart_count c2 < MAX_RETRIES
              then (let attempt = restart_count c2 + 1 in
                    case snd os of
                      Inr pid \<Rightarrow>
                        (let c3 = c2\<lparr>process := pid, restart_count := attempt, last_start := now,
                                     exit_code := None\<rparr>
                         in (c3, health_of c3 (Restarting attempt (next_attempt_at now attempt)) code))
                    | Inl e \<Rightarrow> (c2, health_of c2 (Failed code (''Restart spawn failed: '' @ e)) code))
              else (c2, health_of c2 (Failed code ''Exceeded max retries (3)'') code))
      | StillRunning \<Rightarrow> (c, health_of c Running None)
      | WaitError \<Rightarrow> (c, health_of c (Failed None ''try_wait() returned an error'') None))"

text \<open>The loop over the children; \<open>os i\<close> is what the system answers for child \<open>i\<close>.\<close>

primrec check_children ::
    "nat \<Rightarrow> (nat \<Rightarrow> os_answer) \<Rightarrow> nat \<Rightarrow> managed_child list \<Rightarrow> managed_child list \<times> child_health list" where
  "check_children now os i [] = ([], [])"
| "check_children now os i (c # cs) =
     (case check_child now (os i) c of (c', h) \<Rightarrow>
        (case check_children now os (i + 1) cs of (cs', hs) \<Rightarrow> (c' # cs', h # hs)))"

definition health_check ::
    "lifecycle_manager \<Rightarrow> nat \<Rightarrow> (nat \<Rightarrow> os_answer) \<Rightarrow> lifecycle_manager \<times> child_health list" where
  "health_check cs now os = check_children now os 0 cs"

definition child_count :: "lifecycle_manager \<Rightarrow> nat" where
  "child_count cs = length cs"

text \<open>
  The shutdown loop always looks at the first child. Round \<open>k\<close> sees \<open>obs k\<close>, the answer of
  \<^verbatim>\<open>try_wait\<close> and the time; a child that is still running is asked again until the deadline.
\<close>

partial_function (option) shutdown_loop ::
    "nat \<Rightarrow> (nat \<Rightarrow> wait_result \<times> nat) \<Rightarrow> nat \<Rightarrow> managed_child list \<Rightarrow> string list
     \<Rightarrow> (managed_child list \<times> string list) option" where
  "shutdown_loop deadline obs k cs failed =
     (case cs of
        [] \<Rightarrow> Some (cs, failed)
      | c # rest \<Rightarrow>
          (case fst (obs k) of
             HasExited _ \<Rightarrow> shutdown_loop deadline obs (k + 1) rest failed
           | StillRunning \<Rightarrow>
               if deadline \<le> snd (obs k)
               then shutdown_loop deadline obs (k + 1) rest (failed @ [mc_name c])
               else shutdown_loop deadline obs (k + 1) cs failed
           | WaitError \<Rightarrow> shutdown_loop deadline obs (k + 1) rest (failed @ [mc_name c])))"

definition shutdown_all ::
    "lifecycle_manager \<Rightarrow> nat \<Rightarrow> nat \<Rightarrow> (nat \<Rightarrow> wait_result \<times> nat)
     \<Rightarrow> (lifecycle_manager \<times> string list) option" where
  "shutdown_all cs now timeout_ms obs = shutdown_loop (now + timeout_ms) obs 0 cs []"

subsection \<open>Restart limit\<close>

definition supervised :: "managed_child \<Rightarrow> bool" where
  "supervised c \<longleftrightarrow> restart_count c \<le> MAX_RETRIES"

lemma check_child_supervised:
  assumes "supervised c"
  shows "supervised (fst (check_child now os c))"
proof -
  have "n + 1 \<le> MAX_RETRIES" if "n < MAX_RETRIES" for n :: u32
    using that by (rule inc_le)
  then show ?thesis using assms
    by (auto simp: check_child_def supervised_def Let_def split: wait_result.split sum.split)
qed

lemma check_children_length:
  "length (fst (check_children now os i cs)) = length cs \<and> length (snd (check_children now os i cs)) = length cs"
  by (induction cs arbitrary: i) (simp_all add: case_prod_unfold)

lemma check_children_supervised:
  "list_all supervised cs \<Longrightarrow> list_all supervised (fst (check_children now os i cs))"
proof (induction cs arbitrary: i)
  case (Cons c cs)
  then show ?case using check_child_supervised [of c now "os i"] Cons.IH [of "i + 1"]
    by (simp add: case_prod_unfold)
qed simp


definition crashed_child :: managed_child where
  "crashed_child = \<lparr>mc_name = ''hmi'', process = 10, restart_count = 3, last_start = 0, exit_code = None,
     mc_program = ''hmi'', mc_args = []\<rparr>"


subsection \<open>Shutdown\<close>

lemma shutdown_loop_deadline:
  assumes "\<And>j. k \<le> j \<Longrightarrow> deadline \<le> snd (obs j)"
  shows "\<exists>names. shutdown_loop deadline obs k cs failed = Some ([], failed @ names)
    \<and> set names \<subseteq> mc_name ` set cs"
  using assms
proof (induction cs arbitrary: k failed)
  case Nil
  then show ?case by (simp add: shutdown_loop.simps)
next
  case (Cons c cs)
  have d: "deadline \<le> snd (obs k)" and d': "\<And>j. k + 1 \<le> j \<Longrightarrow> deadline \<le> snd (obs j)"
    using Cons.prems by simp_all
  obtain n1 where n1: "shutdown_loop deadline obs (k + 1) cs failed = Some ([], failed @ n1)"
    "set n1 \<subseteq> mc_name ` set cs" using Cons.IH [OF d'] by blast
  obtain n2 where n2: "shutdown_loop deadline obs (k + 1) cs (failed @ [mc_name c])
      = Some ([], failed @ [mc_name c] @ n2)" "set n2 \<subseteq> mc_name ` set cs"
    using Cons.IH [of "k + 1" "failed @ [mc_name c]"] d' by auto
  show ?case
  proof (cases "fst (obs k)")
    case (HasExited code)
    then show ?thesis using n1 by (auto simp: shutdown_loop.simps [of _ _ k])
  next
    case StillRunning
    then show ?thesis using n2 d
      by (intro exI [of _ "mc_name c # n2"]) (auto simp: shutdown_loop.simps [of _ _ k])
  next
    case WaitError
    then show ?thesis using n2
      by (intro exI [of _ "mc_name c # n2"]) (auto simp: shutdown_loop.simps [of _ _ k])
  qed
qed

lemma shutdown_loop_returns:
  assumes "\<And>j. k + n \<le> j \<Longrightarrow> deadline \<le> snd (obs j)"
  shows "\<exists>names. shutdown_loop deadline obs k cs failed = Some ([], failed @ names)
    \<and> set names \<subseteq> mc_name ` set cs"
  using assms
proof (induction n arbitrary: k cs failed)
  case 0
  then show ?case using shutdown_loop_deadline [of k deadline obs] by simp
next
  case (Suc n)
  have IH: "\<exists>names. shutdown_loop deadline obs (k + 1) cs' f = Some ([], f @ names)
      \<and> set names \<subseteq> mc_name ` set cs'" for cs' f
    using Suc.IH [of "k + 1" cs' f] Suc.prems by simp
  show ?case
  proof (cases cs)
    case Nil
    then show ?thesis by (simp add: shutdown_loop.simps)
  next
    case (Cons c rest)
    consider (drop) "shutdown_loop deadline obs k cs failed = shutdown_loop deadline obs (k + 1) rest failed"
      | (fail) "shutdown_loop deadline obs k cs failed
          = shutdown_loop deadline obs (k + 1) rest (failed @ [mc_name c])"
      | (wait) "shutdown_loop deadline obs k cs failed = shutdown_loop deadline obs (k + 1) cs failed"
      using Cons by (cases "fst (obs k)"; cases "deadline \<le> snd (obs k)")
        (simp_all add: shutdown_loop.simps [of _ _ k])
    then show ?thesis
    proof cases
      case drop
      then show ?thesis using IH [of rest failed] Cons by auto
    next
      case fail
      then obtain names where "shutdown_loop deadline obs k cs failed = Some ([], failed @ [mc_name c] @ names)"
        "set names \<subseteq> mc_name ` set rest" using IH [of rest "failed @ [mc_name c]"] by auto
      then show ?thesis using Cons by (intro exI [of _ "mc_name c # names"]) auto
    next
      case wait
      then show ?thesis using IH [of cs failed] by simp
    qed
  qed
qed



end
