(* ===== verification/Engine.thy ===== *)
theory Engine
  imports Hal_Executor Inproc_Middleware Signal_Registry Runtime_Metrics Lifecycle Hal_Encoding
begin

text \<open>
  The execution engine of \<^verbatim>\<open>audesys-runtime/src/engine.rs\<close>: its shared state, the operations other
  threads call and the phases of a cycle, each a definition of its own. The middleware is the
  in-process one that \<^verbatim>\<open>main.rs\<close> creates. The decoder of programs (\<^verbatim>\<open>bincode\<close>) and the YAML parser
  (\<^verbatim>\<open>serde_yaml\<close>) are parameters; the clock, the file system and the operating system's answers are
  arguments of the phases that ask them. The push of frames to sockets reads the
  subscriptions of the IPC server and is in \<open>Signal_Push\<close>.
\<close>

record ('cb, 'w) engine =
  eng_middleware :: "('cb, 'w) inproc_middleware"
  eng_running :: bool
  eng_lock_level :: lock_level
  eng_config_queue :: "config_command list"
  cycle_count :: u64
  eng_signals :: signal_registry
  eng_metrics :: runtime_metrics
  eng_lifecycle :: lifecycle_manager
  paused :: bool
  step_requested :: bool
  eng_program :: "hal_program option"
  eng_executor :: "executor option"
  pending_swap :: "hal_program option"
  swap_committed :: bool
  pending_hmi_layout :: "(byte list \<times> u64) option"
  hmi_layout_generation :: u64
  hmi_layout :: "(byte list \<times> u64) option"

definition engine_new :: "('cb, 'w) inproc_middleware \<Rightarrow> lifecycle_manager \<Rightarrow> ('cb, 'w) engine" where
  "engine_new mw lc = \<lparr>eng_middleware = mw, eng_running = False, eng_lock_level = LNone,
     eng_config_queue = [], cycle_count = 0, eng_signals = registry_new, eng_metrics = metrics_new,
     eng_lifecycle = lc, paused = False, step_requested = False, eng_program = None,
     eng_executor = None, pending_swap = None, swap_committed = False, pending_hmi_layout = None,
     hmi_layout_generation = 0, hmi_layout = None\<rparr>"

subsection \<open>Operations of other threads\<close>

definition engine_stop :: "('cb, 'w) engine \<Rightarrow> ('cb, 'w) engine" where
  "engine_stop e = e\<lparr>eng_running := False\<rparr>"

definition engine_start :: "('cb, 'w) engine \<Rightarrow> ('cb, 'w) engine" where
  "engine_start e = e\<lparr>eng_running := True\<rparr>"

definition engine_pause :: "('cb, 'w) engine \<Rightarrow> ('cb, 'w) engine" where
  "engine_pause e = e\<lparr>paused := True\<rparr>"

definition engine_resume :: "('cb, 'w) engine \<Rightarrow> ('cb, 'w) engine" where
  "engine_resume e = e\<lparr>paused := False\<rparr>"

definition step_cycle :: "('cb, 'w) engine \<Rightarrow> ('cb, 'w) engine" where
  "step_cycle e = e\<lparr>paused := True, step_requested := True\<rparr>"

definition engine_set_lock_level ::
    "('cb, 'w) engine \<Rightarrow> lock_level \<Rightarrow> ('cb, 'w) engine \<times> (string + unit)" where
  "engine_set_lock_level e new_level =
     (if new_level < eng_lock_level e
      then (e, Inl (''Cannot decrease lock level from '' @ show_level (eng_lock_level e) @ '' to ''
              @ show_level new_level))
      else (e\<lparr>eng_lock_level := new_level\<rparr>, Inr ()))"

definition engine_queue_config ::
    "('cb, 'w) engine \<Rightarrow> config_command \<Rightarrow> ('cb, 'w) engine \<times> (string + unit)" where
  "engine_queue_config e cmd =
     (if LRun \<le> eng_lock_level e
      then (e, Inl (''Configuration locked: engine is at '' @ show_level (eng_lock_level e) @ '' level''))
      else (e\<lparr>eng_config_queue := eng_config_queue e @ [cmd]\<rparr>, Inr ()))"

text \<open>Handing a queue of commands to the middleware, collecting its answers.\<close>

primrec submit_all ::
    "config_command list \<Rightarrow> ('cb, 'w) inproc_middleware
     \<Rightarrow> ('cb, 'w) inproc_middleware \<times> config_status list" where
  "submit_all [] mw = (mw, [])"
| "submit_all (c # cs) mw =
     (case mw_queue_config mw c of (mw1, s) \<Rightarrow>
        (case submit_all cs mw1 of (mw2, ss) \<Rightarrow> (mw2, s # ss)))"

definition apply_config_now :: "('cb, 'w) engine \<Rightarrow> ('cb, 'w) engine \<times> config_status list" where
  "apply_config_now e =
     (if eng_config_queue e = [] then (e, [])
      else (case submit_all (eng_config_queue e) (eng_middleware e) of (mw1, ss) \<Rightarrow>
        (e\<lparr>eng_middleware := fst (mw_apply_queued mw1), eng_config_queue := []\<rparr>, ss)))"

text \<open>The signals a program may write are registered as own signals, all with value \<^verbatim>\<open>S32(0)\<close>.\<close>

definition writes :: "signal_binding \<Rightarrow> bool" where
  "writes b \<longleftrightarrow> sb_direction b = Write \<or> sb_direction b = ReadWrite"

definition binding_def :: "signal_binding \<Rightarrow> signal_def" where
  "binding_def b = signal_def_new (hal_signal_name b) (hal_pin_type b) (VS32 0) Own"

definition register_bindings :: "signal_registry \<Rightarrow> hal_program \<Rightarrow> signal_registry" where
  "register_bindings r pr =
     foldl (\<lambda>r b. if writes b then fst (register r (binding_def b)) else r) r (prog_signals pr)"

definition install_program :: "('cb, 'w) engine \<Rightarrow> hal_program \<Rightarrow> ('cb, 'w) engine" where
  "install_program e pr = e\<lparr>eng_signals := register_bindings (eng_signals e) pr,
     eng_program := Some pr, eng_executor := Some (executor_new pr)\<rparr>"

type_synonym decoder = "byte list \<Rightarrow> string + hal_program"

definition load_hal_program ::
    "decoder \<Rightarrow> ('cb, 'w) engine \<Rightarrow> byte list \<Rightarrow> ('cb, 'w) engine \<times> (string + unit)" where
  "load_hal_program deser e bytes =
     (case deser bytes of
        Inl err \<Rightarrow> (e, Inl (''Failed to deserialize HAL program: '' @ err))
      | Inr pr \<Rightarrow>
          if \<not> is_well_formed pr then (e, Inl ''Program is not well-formed'')
          else (install_program e pr, Inr ()))"

definition register_signal ::
    "('cb, 'w) engine \<Rightarrow> signal_def \<Rightarrow> ('cb, 'w) engine \<times> (string + unit)" where
  "register_signal e d =
     (case register (eng_signals e) d of (r, res) \<Rightarrow> (e\<lparr>eng_signals := r\<rparr>, res))"

definition signal_snapshot :: "('cb, 'w) engine \<Rightarrow> (string \<times> hal_value) list" where
  "signal_snapshot e = map (\<lambda>s. (snap_name s, snap_value s)) (list_snapshots (eng_signals e))"

definition prepare_swap ::
    "decoder \<Rightarrow> ('cb, 'w) engine \<Rightarrow> byte list \<Rightarrow> ('cb, 'w) engine \<times> (string + unit)" where
  "prepare_swap deser e bytes =
     (case deser bytes of
        Inl err \<Rightarrow> (e, Inl (''deserialize: '' @ err))
      | Inr pr \<Rightarrow>
          if \<not> is_well_formed pr then (e, Inl ''Program is not well-formed'')
          else (e\<lparr>pending_swap := Some pr\<rparr>, Inr ()))"

definition commit_swap :: "('cb, 'w) engine \<Rightarrow> ('cb, 'w) engine \<times> (string + unit)" where
  "commit_swap e =
     (if pending_swap e = None then (e, Inl ''No pending swap prepared'')
      else (e\<lparr>swap_committed := True\<rparr>, Inr ()))"

definition rollback_swap :: "('cb, 'w) engine \<Rightarrow> ('cb, 'w) engine" where
  "rollback_swap e = e\<lparr>pending_swap := None, swap_committed := False\<rparr>"

text \<open>
  The YAML parser answers with an error message or accepts; \<open>utf8_error\<close> is the text of the
  standard library's decoding error.
\<close>

definition deploy_hmi_layout ::
    "(byte list \<Rightarrow> string) \<Rightarrow> (string \<Rightarrow> string option) \<Rightarrow> ('cb, 'w) engine \<Rightarrow> byte list
     \<Rightarrow> ('cb, 'w) engine \<times> (string + u64)" where
  "deploy_hmi_layout utf8_error yaml_error e bytes =
     (case from_utf8 bytes of
        None \<Rightarrow> (e, Inl (''invalid UTF-8: '' @ utf8_error bytes))
      | Some s \<Rightarrow>
          (case yaml_error s of
             Some err \<Rightarrow> (e, Inl (''invalid YAML: '' @ err))
           | None \<Rightarrow>
               (let g = hmi_layout_generation e + 1 in
                (e\<lparr>hmi_layout_generation := g, pending_hmi_layout := Some (bytes, g)\<rparr>, Inr g))))"

subsection \<open>The phases of a cycle\<close>

definition config_phase :: "('cb, 'w) engine \<Rightarrow> ('cb, 'w) engine" where
  "config_phase e =
     (if eng_config_queue e = [] then e
      else (case submit_all (eng_config_queue e) (eng_middleware e) of (mw1, _) \<Rightarrow>
        e\<lparr>eng_middleware := fst (mw_apply_queued mw1), eng_config_queue := []\<rparr>))"

definition swap_phase :: "('cb, 'w) engine \<Rightarrow> ('cb, 'w) engine" where
  "swap_phase e =
     (if swap_committed e
      then (case pending_swap e of
              None \<Rightarrow> e\<lparr>swap_committed := False\<rparr>
            | Some pr \<Rightarrow> (install_program e pr)\<lparr>pending_swap := None, swap_committed := False\<rparr>)
      else e)"

definition hmi_phase :: "bool \<Rightarrow> ('cb, 'w) engine \<Rightarrow> ('cb, 'w) engine" where
  "hmi_phase write_ok e =
     (case pending_hmi_layout e of
        None \<Rightarrow> e
      | Some lay \<Rightarrow> (let e1 = e\<lparr>pending_hmi_layout := None\<rparr> in
          if write_ok then e1\<lparr>hmi_layout := Some lay\<rparr> else e1))"

definition read_one ::
    "('cb, 'w) inproc_middleware \<times> signal_registry \<Rightarrow> string
     \<Rightarrow> ('cb, 'w) inproc_middleware \<times> signal_registry" where
  "read_one s nm =
     (case mw_read_signal (fst s) nm of
        (mw, None) \<Rightarrow> (mw, snd s)
      | (mw, Some (v, _)) \<Rightarrow> (mw, fst (update_value (snd s) nm v)))"

definition read_barrier :: "('cb, 'w) engine \<Rightarrow> ('cb, 'w) engine" where
  "read_barrier e =
     (let monitored = map snap_name (snapshots_by_strategy (eng_signals e) FMonitored);
          s = foldl read_one (eng_middleware e, eng_signals e) monitored
      in e\<lparr>eng_middleware := fst s, eng_signals := snd s\<rparr>)"

definition compute_one :: "nat \<Rightarrow> signal_registry \<Rightarrow> string \<Rightarrow> signal_registry" where
  "compute_one now r nm =
     (case compute_signal r nm now of Inl _ \<Rightarrow> r | Inr v \<Rightarrow> fst (update_value r nm v))"

definition compute_phase :: "nat \<Rightarrow> ('cb, 'w) engine \<Rightarrow> ('cb, 'w) engine" where
  "compute_phase now e =
     e\<lparr>eng_signals := foldl (compute_one now) (eng_signals e) (computed_signal_names (eng_signals e))\<rparr>"

text \<open>The machine before a scan: reset, cycle time set, the signal table filled from the registry.\<close>

definition scan_input :: "u64 \<Rightarrow> signal_registry \<Rightarrow> executor \<Rightarrow> executor" where
  "scan_input cycle_ms r ex =
     (let ex1 = executor_reset ex;
          m = foldl (\<lambda>m s. write_signal m (snap_name s) (snap_value s))
                (set_cycle_time (ex_vm ex1) cycle_ms) (list_snapshots r)
      in ex1\<lparr>ex_vm := m\<rparr>)"

definition scan_output :: "vm \<Rightarrow> signal_registry \<Rightarrow> signal_registry" where
  "scan_output m r =
     foldl (\<lambda>r nm. case read_signal m nm of Some v \<Rightarrow> fst (update_value r nm v) | None \<Rightarrow> r)
       r (signal_names m)"

definition hal_phase :: "profile \<Rightarrow> u64 \<Rightarrow> ('cb, 'w) engine \<Rightarrow> ('cb, 'w) engine outcome option" where
  "hal_phase p cycle_ms e =
     (case eng_executor e of
        None \<Rightarrow> Some (Ok e)
      | Some ex \<Rightarrow>
          map_option (mapo (\<lambda>(ex1, _). e\<lparr>eng_signals := scan_output (ex_vm ex1) (eng_signals e),
              eng_executor := Some (executor_reset ex1)\<rparr>))
            (run_to_halt p (scan_input cycle_ms (eng_signals e) ex)))"

abbreviation now_ts :: timestamp where
  "now_ts \<equiv> \<lparr>ts_secs = 0, ts_micros = 0\<rparr>"

definition own_batch :: "signal_registry \<Rightarrow> (string \<times> sample) list" where
  "own_batch r = map (\<lambda>s. (snap_name s, snap_value s, now_ts)) (snapshots_by_strategy r FOwn)"

definition write_barrier :: "('cb, 'w) engine \<Rightarrow> ('cb, 'w) engine" where
  "write_barrier e =
     (let batch = own_batch (eng_signals e) in
      e\<lparr>eng_middleware := publish_batch mw_publish_signal (eng_middleware e) batch,
        eng_metrics := (record_signal_published ^^ length batch) (eng_metrics e)\<rparr>)"

definition end_phase :: "u64 \<Rightarrow> nat \<Rightarrow> (nat \<Rightarrow> os_answer) \<Rightarrow> ('cb, 'w) engine \<Rightarrow> ('cb, 'w) engine" where
  "end_phase elapsed_us now os e =
     (case health_check (eng_lifecycle e) now os of (lc, dead) \<Rightarrow>
        let m1 = record_cycle_jitter (record_cycle (eng_metrics e)) elapsed_us;
            m2 = (record_child_restart ^^ length dead) m1;
            m3 = (if dead \<noteq> [] then record_health_failure m2 else m2)
        in e\<lparr>cycle_count := cycle_count e + 1, eng_metrics := m3, eng_lifecycle := lc\<rparr>)"

end
