(* ===== verification/Engine_Cycle.thy ===== *)
theory Engine_Cycle
  imports Engine Executor_Safety
begin

text \<open>
  Correctness of the engine: what the read and write barriers transfer, the engine's invariant
  under every interleaving of its own thread with calls from other threads, when a running
  program can change, and that a cycle completes. The step relation takes one phase of the cycle
  or one call as an atomic step: a phase works under the locks of the tables it touches.
\<close>

subsection \<open>Barriers\<close>

lemma batch_lookup:
  assumes "registry_wf r"
  shows "map_of (rev (own_batch r)) nm =
    (case hm_get r nm of
       Some d \<Rightarrow> if sd_strategy d = Own then Some (sd_value d, now_ts) else None
     | None \<Rightarrow> None)"
proof -
  let ?ss = "snapshots_by_strategy r FOwn"
  have keys: "map fst (own_batch r) = map snap_name ?ss" by (simp add: own_batch_def comp_def)
  then have "distinct (map fst (own_batch r))" using snapshot_names_distinct [OF assms] by simp
  then have rev: "map_of (rev (own_batch r)) = map_of (own_batch r)" by (rule map_of_rev_distinct)
  have iff: "map_of (own_batch r) nm = Some (v, now_ts) \<longleftrightarrow>
      (\<exists>s \<in> set ?ss. snap_name s = nm \<and> snap_value s = v)" for v
    using \<open>distinct (map fst (own_batch r))\<close>
    by (auto simp: own_batch_def intro!: map_of_is_SomeI rev_image_eqI dest!: map_of_SomeD)
  have "map_of (own_batch r) nm = Some x \<Longrightarrow> snd x = now_ts" for x
    by (auto simp: own_batch_def dest!: map_of_SomeD)
  then have some: "map_of (own_batch r) nm = None \<or> (\<exists>v. map_of (own_batch r) nm = Some (v, now_ts))"
    by (metis option.exhaust prod.collapse)
  have adm: "filter_admits FOwn s = (s = Own)" for s by (simp add: filter_admits_def)
  show ?thesis
  proof (cases "hm_get r nm")
    case None
    then have "map_of (own_batch r) nm \<noteq> Some (v, now_ts)" for v
      using snapshot_in [OF assms, of FOwn nm v] iff by simp
    then have "map_of (own_batch r) nm = None" using some by blast
    then show ?thesis using None rev by simp
  next
    case (Some d)
    have *: "map_of (own_batch r) nm = Some (v, now_ts) \<longleftrightarrow> sd_strategy d = Own \<and> sd_value d = v" for v
      using snapshot_in [OF assms, of FOwn nm v] iff Some adm by simp
    show ?thesis
    proof (cases "sd_strategy d = Own")
      case True
      then show ?thesis using * Some rev by simp
    next
      case False
      then have "map_of (own_batch r) nm = None" using * some by blast
      then show ?thesis using False Some rev by simp
    qed
  qed
qed

text \<open>
  C10: the write barrier publishes the controller's own signals and nothing else. After it, a read
  from the middleware of an own signal gives its value in the registry, and every other name
  reads as before.
\<close>

theorem write_barrier_publishes:
  assumes "registry_wf (eng_signals e)"
  shows "snd (mw_read_signal (eng_middleware (write_barrier e)) nm) =
    (case hm_get (eng_signals e) nm of
       Some d \<Rightarrow> if sd_strategy d = Own then Some (sd_value d, now_ts)
                 else snd (mw_read_signal (eng_middleware e) nm)
     | None \<Rightarrow> snd (mw_read_signal (eng_middleware e) nm))"
  by (simp add: write_barrier_def Let_def mw.read_publish_batch batch_lookup [OF assms]
      split: option.split)

lemma read_one_mw: "snd (mw_read_signal (fst (read_one s nm)) nm') = snd (mw_read_signal (fst s) nm')"
proof -
  have "fst (read_one s nm) = fst (mw_read_signal (fst s) nm)"
    by (simp add: read_one_def split: prod.split option.split)
  then show ?thesis by (simp add: mw.read_read)
qed

lemma read_one_registry:
  "snd (read_one s nm) = (case snd (mw_read_signal (fst s) nm) of
     None \<Rightarrow> snd s | Some (v, _) \<Rightarrow> fst (update_value (snd s) nm v))"
  by (simp add: read_one_def split: prod.split option.split)

lemma foldl_read_one_mw:
  "snd (mw_read_signal (fst (foldl read_one s nms)) nm) = snd (mw_read_signal (fst s) nm)"
  by (induction nms arbitrary: s) (simp_all add: read_one_mw)

lemma foldl_read_one:
  "value_at (snd (foldl read_one s nms)) nm =
     (case snd (mw_read_signal (fst s) nm) of
        Some (v, _) \<Rightarrow> if nm \<in> set nms \<and> hm_get (snd s) nm \<noteq> None then Some v else value_at (snd s) nm
      | None \<Rightarrow> value_at (snd s) nm)
   \<and> (hm_get (snd (foldl read_one s nms)) nm = None) = (hm_get (snd s) nm = None)
   \<and> strategy_at (snd (foldl read_one s nms)) nm = strategy_at (snd s) nm"
proof (induction nms rule: rev_induct)
  case Nil
  then show ?case by (simp split: option.split)
next
  case (snoc n nms)
  let ?s = "foldl read_one s nms"
  have r: "snd (read_one ?s n) = (case snd (mw_read_signal (fst s) n) of
     None \<Rightarrow> snd ?s | Some (v, _) \<Rightarrow> fst (update_value (snd ?s) n v))"
    by (simp add: read_one_registry foldl_read_one_mw)
  show ?case
  proof (cases "snd (mw_read_signal (fst s) n)")
    case None
    then show ?thesis using snoc r by (cases "n = nm") (auto split: option.splits)
  next
    case (Some vt)
    then have "snd (read_one ?s n) = fst (update_value (snd ?s) n (fst vt))"
      using r by (cases vt) simp
    then show ?thesis using snoc Some
      by (auto simp: value_at_update defined_update strategy_at_update split: option.splits)
  qed
qed

lemma monitored_names:
  assumes "registry_wf r"
  shows "nm \<in> set (map snap_name (snapshots_by_strategy r FMonitored)) \<longleftrightarrow>
    strategy_at r nm = Some Monitored"
proof -
  have "nm \<in> set (map snap_name (snapshots_by_strategy r FMonitored)) \<longleftrightarrow>
      (\<exists>v. \<exists>s \<in> set (snapshots_by_strategy r FMonitored). snap_name s = nm \<and> snap_value s = v)"
    by auto
  also have "\<dots> \<longleftrightarrow> strategy_at r nm = Some Monitored"
    using snapshot_in [OF assms, of FMonitored nm] by (simp add: filter_admits_def)
  finally show ?thesis .
qed

text \<open>
  The read barrier takes monitored signals from the middleware and touches no other signal: the
  value of a monitored signal that has been published becomes the published one, and all other
  values and every strategy stay as they were.
\<close>

theorem read_barrier_updates:
  assumes "registry_wf (eng_signals e)"
  shows "value_at (eng_signals (read_barrier e)) nm =
      (case (strategy_at (eng_signals e) nm, snd (mw_read_signal (eng_middleware e) nm)) of
         (Some Monitored, Some (v, _)) \<Rightarrow> Some v
       | _ \<Rightarrow> value_at (eng_signals e) nm)
    \<and> strategy_at (eng_signals (read_barrier e)) nm = strategy_at (eng_signals e) nm"
proof -
  let ?nms = "map snap_name (snapshots_by_strategy (eng_signals e) FMonitored)"
  have m: "nm \<in> set ?nms \<longleftrightarrow> strategy_at (eng_signals e) nm = Some Monitored"
    using monitored_names [OF assms] by blast
  have f: "value_at (eng_signals (read_barrier e)) nm =
     (case snd (mw_read_signal (eng_middleware e) nm) of
        Some (v, _) \<Rightarrow> if nm \<in> set ?nms \<and> hm_get (eng_signals e) nm \<noteq> None then Some v
                       else value_at (eng_signals e) nm
      | None \<Rightarrow> value_at (eng_signals e) nm)"
    and s: "strategy_at (eng_signals (read_barrier e)) nm = strategy_at (eng_signals e) nm"
    using foldl_read_one [of "(eng_middleware e, eng_signals e)" ?nms nm, unfolded fst_conv snd_conv]
    by (simp_all add: read_barrier_def Let_def del: set_map)
  show ?thesis using f s m
    by (cases "hm_get (eng_signals e) nm"; cases "snd (mw_read_signal (eng_middleware e) nm)")
       (auto split: write_strategy.split)
qed

subsection \<open>Invariant\<close>

definition program_inv :: "('cb, 'w) engine \<Rightarrow> bool" where
  "program_inv e \<longleftrightarrow>
     (eng_executor e = None \<longrightarrow> eng_program e = None)
     \<and> (\<forall>ex. eng_executor e = Some ex \<longrightarrow>
          eng_program e = Some (ex_program ex) \<and> is_well_formed (ex_program ex) \<and> vm_wf (ex_vm ex))
     \<and> (\<forall>pr. pending_swap e = Some pr \<longrightarrow> is_well_formed pr)"

definition engine_inv :: "('cb, 'w) engine \<Rightarrow> bool" where
  "engine_inv e \<longleftrightarrow> registry_wf (eng_signals e) \<and> mw_wf (eng_middleware e) \<and> program_inv e
     \<and> list_all supervised (eng_lifecycle e)"

lemma mw_wf_qos [simp]: "mw_wf (w\<lparr>mw_qos := q\<rparr>) = mw_wf w"
  by (simp add: mw_wf_def)

lemma submit_all_wf [simp]: "mw_wf (fst (submit_all cs w)) = mw_wf w"
  by (induction cs arbitrary: w) (simp_all add: mw_queue_config_def case_prod_unfold)

lemma apply_queued_wf [simp]: "mw_wf (fst (mw_apply_queued w)) = mw_wf w"
  by (simp add: mw_apply_queued_def case_prod_unfold)

lemma registry_wf_foldl: "registry_wf r \<Longrightarrow> (\<And>r x. registry_wf r \<Longrightarrow> registry_wf (f r x)) \<Longrightarrow> registry_wf (foldl f r xs)"
  by (induction xs arbitrary: r) simp_all

lemma registry_wf_bindings [simp]: "registry_wf r \<Longrightarrow> registry_wf (register_bindings r pr)"
  unfolding register_bindings_def by (rule registry_wf_foldl) simp_all

lemma registry_wf_scan_output [simp]: "registry_wf r \<Longrightarrow> registry_wf (scan_output m r)"
  unfolding scan_output_def by (rule registry_wf_foldl) (simp_all split: option.split)

lemma registry_wf_compute [simp]: "registry_wf r \<Longrightarrow> registry_wf (foldl (compute_one now) r nms)"
  by (rule registry_wf_foldl) (simp_all add: compute_one_def split: sum.split)

lemma read_one_wf:
  "mw_wf (fst s) \<Longrightarrow> registry_wf (snd s) \<Longrightarrow> mw_wf (fst (read_one s nm)) \<and> registry_wf (snd (read_one s nm))"
  using mw.inv_read [of "fst s" nm] by (auto simp: read_one_def split: prod.split option.split)

lemma foldl_read_one_wf:
  "mw_wf (fst s) \<Longrightarrow> registry_wf (snd s)
   \<Longrightarrow> mw_wf (fst (foldl read_one s nms)) \<and> registry_wf (snd (foldl read_one s nms))"
  by (induction nms arbitrary: s) (simp_all add: read_one_wf)

lemma step_keeps: "step p ex = Ok (ex', res) \<Longrightarrow> ex_program ex' = ex_program ex"
  by (auto simp: step_def Let_def outcome_simps split: if_splits)

lemma step_wf:
  assumes "step p ex = Ok (ex', res)" and "vm_wf (ex_vm ex)"
  shows "vm_wf (ex_vm ex')"
proof -
  have "vm_wf m" if "execute_instruction p (ex_vm ex) i = Ok (m, res)" for i m
    using that assms(2) by (rule execute_instruction_wf)
  then show ?thesis using assms
    by (auto simp: step_def Let_def outcome_simps advance_ip_def split: if_splits)
qed

lemma run_loop_keeps:
  assumes "run_loop p k ex = Some r"
  shows "\<forall>ex' n. r = Ok (ex', n) \<longrightarrow> ex_program ex' = ex_program ex \<and> (vm_wf (ex_vm ex) \<longrightarrow> vm_wf (ex_vm ex'))"
  using assms
  by (rule run_loop.raw_induct [rotated])
     (auto split: outcome.splits executor_result.splits dest: step_keeps step_wf)

lemma run_to_halt_keeps:
  "run_to_halt p ex = Some (Ok (ex', n)) \<Longrightarrow> vm_wf (ex_vm ex)
   \<Longrightarrow> ex_program ex' = ex_program ex \<and> vm_wf (ex_vm ex')"
  using run_loop_keeps [of p 0 ex "Ok (ex', n)"] by (simp add: run_to_halt_def)

lemma vm_wf_write_signals:
  "vm_wf m \<Longrightarrow> vm_wf (foldl (\<lambda>m s. write_signal m (f s) (g s)) m xs)"
  by (induction xs arbitrary: m) simp_all

lemma ip_write_signals: "ip (foldl (\<lambda>m s. write_signal m (f s) (g s)) m xs) = ip m"
  by (induction xs arbitrary: m) (simp_all add: write_signal_def)

lemma scan_input_wf:
  "vm_wf (ex_vm ex) \<Longrightarrow> vm_wf (ex_vm (scan_input ms r ex)) \<and> ip (ex_vm (scan_input ms r ex)) = 0
     \<and> ex_program (scan_input ms r ex) = ex_program ex"
  by (simp add: scan_input_def Let_def executor_reset_def set_cycle_time_def vm_wf_write_signals
      ip_write_signals) (simp add: vm_reset_def)

lemma config_phase_inv: "engine_inv e \<Longrightarrow> engine_inv (config_phase e)"
  by (simp add: engine_inv_def config_phase_def program_inv_def case_prod_unfold)

lemma install_inv: "engine_inv e \<Longrightarrow> is_well_formed pr \<Longrightarrow> engine_inv (install_program e pr)"
  by (simp add: engine_inv_def program_inv_def install_program_def executor_new_def)

lemma engine_inv_flags [simp]:
  "engine_inv (e\<lparr>swap_committed := b\<rparr>) = engine_inv e"
  "engine_inv (e\<lparr>eng_running := b\<rparr>) = engine_inv e"
  "engine_inv (e\<lparr>paused := b\<rparr>) = engine_inv e"
  "engine_inv (e\<lparr>step_requested := b\<rparr>) = engine_inv e"
  "engine_inv (e\<lparr>eng_lock_level := l\<rparr>) = engine_inv e"
  "engine_inv (e\<lparr>eng_config_queue := q\<rparr>) = engine_inv e"
  "engine_inv (e\<lparr>pending_hmi_layout := lay\<rparr>) = engine_inv e"
  "engine_inv (e\<lparr>hmi_layout := lay\<rparr>) = engine_inv e"
  "engine_inv (e\<lparr>hmi_layout_generation := g\<rparr>) = engine_inv e"
  by (simp_all add: engine_inv_def program_inv_def)

lemma engine_inv_pending:
  "engine_inv e \<Longrightarrow> engine_inv (e\<lparr>pending_swap := None\<rparr>)"
  "engine_inv e \<Longrightarrow> is_well_formed pr \<Longrightarrow> engine_inv (e\<lparr>pending_swap := Some pr\<rparr>)"
  by (simp_all add: engine_inv_def program_inv_def)

lemma swap_phase_inv: "engine_inv e \<Longrightarrow> engine_inv (swap_phase e)"
  by (auto simp: swap_phase_def split: option.split intro!: engine_inv_pending install_inv)
     (simp add: engine_inv_def program_inv_def)

lemma hmi_phase_inv: "engine_inv e \<Longrightarrow> engine_inv (hmi_phase ok e)"
  by (simp add: hmi_phase_def Let_def split: option.split)

lemma read_barrier_inv: "engine_inv e \<Longrightarrow> engine_inv (read_barrier e)"
  using foldl_read_one_wf [of "(eng_middleware e, eng_signals e)"]
  by (simp add: engine_inv_def program_inv_def read_barrier_def Let_def)

lemma compute_phase_inv: "engine_inv e \<Longrightarrow> engine_inv (compute_phase now e)"
  by (simp add: engine_inv_def program_inv_def compute_phase_def)

lemma hal_phase_inv:
  assumes "hal_phase p ms e = Some (Ok e')" and "engine_inv e"
  shows "engine_inv e'"
proof (cases "eng_executor e")
  case None
  then show ?thesis using assms by (simp add: hal_phase_def)
next
  case (Some ex)
  then have ex: "vm_wf (ex_vm ex)" "eng_program e = Some (ex_program ex)" "is_well_formed (ex_program ex)"
    using assms(2) by (simp_all add: engine_inv_def program_inv_def)
  obtain ex1 n where r: "run_to_halt p (scan_input ms (eng_signals e) ex) = Some (Ok (ex1, n))"
    "e' = e\<lparr>eng_signals := scan_output (ex_vm ex1) (eng_signals e), eng_executor := Some (executor_reset ex1)\<rparr>"
    using assms(1) Some by (auto simp: hal_phase_def outcome_simps)
  have "ex_program ex1 = ex_program ex" "vm_wf (ex_vm ex1)"
    using run_to_halt_keeps [OF r(1)] scan_input_wf [OF ex(1)] by simp_all
  then show ?thesis using assms(2) ex r(2)
    by (simp add: engine_inv_def program_inv_def executor_reset_def)
qed

lemma write_barrier_inv: "engine_inv e \<Longrightarrow> engine_inv (write_barrier e)"
  using mw.inv_publish_batch [of "eng_middleware e"]
  by (simp add: engine_inv_def program_inv_def write_barrier_def Let_def)

lemma end_phase_inv: "engine_inv e \<Longrightarrow> engine_inv (end_phase us now os e)"
  using check_children_supervised [of "eng_lifecycle e" now os 0]
  by (simp add: engine_inv_def program_inv_def end_phase_def health_check_def case_prod_unfold Let_def)

subsection \<open>The engine thread among its callers\<close>

text \<open>Where the engine thread is: the pause loops at the head of the cycle, a phase, or gone.\<close>

datatype pc =
    PauseLoop | RunCheck | PauseLoop2
  | AtConfig | AtSwap | AtHmi | AtRead | AtCompute | AtHal | AtWrite | AtEnd
  | ThreadExited | ThreadPanicked

datatype api_call =
    CStop | CPause | CResume | CStepCycle
  | CSetLock lock_level | CQueue config_command | CApplyNow
  | CLoad "byte list" | CPrepare "byte list" | CCommit | CRollback
  | CDeploy "byte list" | CRegister signal_def

record environment =
  env_decode :: decoder
  env_utf8_error :: "byte list \<Rightarrow> string"
  env_yaml_error :: "string \<Rightarrow> string option"
  env_profile :: profile
  env_cycle_ms :: u64

fun api :: "environment \<Rightarrow> api_call \<Rightarrow> ('cb, 'w) engine \<Rightarrow> ('cb, 'w) engine" where
  "api env CStop e = engine_stop e"
| "api env CPause e = engine_pause e"
| "api env CResume e = engine_resume e"
| "api env CStepCycle e = step_cycle e"
| "api env (CSetLock l) e = fst (engine_set_lock_level e l)"
| "api env (CQueue c) e = fst (engine_queue_config e c)"
| "api env CApplyNow e = fst (apply_config_now e)"
| "api env (CLoad bs) e = fst (load_hal_program (env_decode env) e bs)"
| "api env (CPrepare bs) e = fst (prepare_swap (env_decode env) e bs)"
| "api env CCommit e = fst (commit_swap e)"
| "api env CRollback e = rollback_swap e"
| "api env (CDeploy bs) e = fst (deploy_hmi_layout (env_utf8_error env) (env_yaml_error env) e bs)"
| "api env (CRegister d) e = fst (register_signal e d)"

definition waiting :: "('cb, 'w) engine \<Rightarrow> bool" where
  "waiting e \<longleftrightarrow> paused e \<and> \<not> step_requested e"

inductive thread_step :: "environment \<Rightarrow> pc \<times> ('cb, 'w) engine \<Rightarrow> pc \<times> ('cb, 'w) engine \<Rightarrow> bool"
  for env where
  leave_pause: "\<not> (eng_running e \<and> waiting e) \<Longrightarrow> thread_step env (PauseLoop, e) (RunCheck, e)"
| stop_seen: "\<not> eng_running e \<Longrightarrow> thread_step env (RunCheck, e) (ThreadExited, e)"
| go_on: "eng_running e \<Longrightarrow> thread_step env (RunCheck, e) (PauseLoop2, e)"
| leave_pause2: "\<not> waiting e
    \<Longrightarrow> thread_step env (PauseLoop2, e) (AtConfig, e\<lparr>step_requested := False\<rparr>)"
| config: "thread_step env (AtConfig, e) (AtSwap, config_phase e)"
| swap: "thread_step env (AtSwap, e) (AtHmi, swap_phase e)"
| hmi: "thread_step env (AtHmi, e) (AtRead, hmi_phase write_ok e)"
| read_in: "thread_step env (AtRead, e) (AtCompute, read_barrier e)"
| compute: "thread_step env (AtCompute, e) (AtHal, compute_phase now e)"
| hal: "hal_phase (env_profile env) (env_cycle_ms env) e = Some (Ok e')
    \<Longrightarrow> thread_step env (AtHal, e) (AtWrite, e')"
| hal_panic: "hal_phase (env_profile env) (env_cycle_ms env) e = Some (Panic err)
    \<Longrightarrow> thread_step env (AtHal, e) (ThreadPanicked, e)"
| publish: "thread_step env (AtWrite, e) (AtEnd, write_barrier e)"
| next_cycle: "eng_running e
    \<Longrightarrow> thread_step env (AtEnd, e) (PauseLoop, end_phase us now os e)"
| last_cycle: "\<not> eng_running e
    \<Longrightarrow> thread_step env (AtEnd, e) (ThreadExited, end_phase us now os e)"

inductive_cases thread_step_pause2E: "thread_step env (PauseLoop2, e) s"

inductive engine_step :: "environment \<Rightarrow> pc \<times> ('cb, 'w) engine \<Rightarrow> pc \<times> ('cb, 'w) engine \<Rightarrow> bool"
  for env where
  thread: "thread_step env s s' \<Longrightarrow> engine_step env s s'"
| call: "engine_step env (c, e) (c, api env a e)"

lemma api_inv: "engine_inv e \<Longrightarrow> engine_inv (api env a e)"
proof (cases a)
  case (CApplyNow)
  assume "engine_inv e"
  then show ?thesis using CApplyNow
    by (simp add: apply_config_now_def case_prod_unfold engine_inv_def program_inv_def)
next
  case (CRegister d)
  assume "engine_inv e"
  then show ?thesis using CRegister
    by (simp add: register_signal_def case_prod_unfold engine_inv_def program_inv_def)
next
  case (CLoad bs)
  assume "engine_inv e"
  then show ?thesis using CLoad by (auto simp: load_hal_program_def install_inv split: sum.split)
next
  case (CPrepare bs)
  assume "engine_inv e"
  then show ?thesis using CPrepare
    by (auto simp: prepare_swap_def engine_inv_pending split: sum.split)
next
  case CRollback
  assume "engine_inv e"
  then show ?thesis using CRollback by (simp add: rollback_swap_def engine_inv_pending)
qed (simp_all add: engine_stop_def engine_pause_def engine_resume_def step_cycle_def
       engine_set_lock_level_def engine_queue_config_def commit_swap_def deploy_hmi_layout_def
       Let_def split: option.split)

lemma thread_step_inv: "thread_step env s s' \<Longrightarrow> engine_inv (snd s) \<Longrightarrow> engine_inv (snd s')"
  by (induction rule: thread_step.induct)
     (simp_all add: config_phase_inv swap_phase_inv hmi_phase_inv read_barrier_inv
       compute_phase_inv hal_phase_inv write_barrier_inv end_phase_inv)

lemma engine_step_inv: "engine_step env s s' \<Longrightarrow> engine_inv (snd s) \<Longrightarrow> engine_inv (snd s')"
  by (induction rule: engine_step.induct) (simp_all add: thread_step_inv api_inv)


lemma engine_inv_new: "factory_create amw_config_default now = Inr mw \<Longrightarrow> engine_inv (engine_new mw [])"
  by (auto simp: factory_create_def amw_config_default_def engine_new_def engine_inv_def
      program_inv_def mw_wf_def)

definition fresh_engine :: "(nat, nat) engine" where
  "fresh_engine = engine_new \<lparr>mw_transport = transport_new, mw_discovery = discovery_new, mw_qos = qos_new,
     mw_audit = [], start_time = 0\<rparr> []"

lemma fresh_engine_inv: "engine_inv fresh_engine"
  unfolding fresh_engine_def
  by (rule engine_inv_new [of 0]) (simp add: factory_create_def amw_config_default_def)

definition demo_env :: "hal_program \<Rightarrow> environment" where
  "demo_env pr = \<lparr>env_decode = (\<lambda>_. Inr pr), env_utf8_error = (\<lambda>_. []), env_yaml_error = (\<lambda>_. None),
     env_profile = DevBuild, env_cycle_ms = 10\<rparr>"


subsection \<open>Hot swap\<close>

lemma phase_program [simp]:
  "eng_program (config_phase e) = eng_program e"
  "eng_program (hmi_phase ok e) = eng_program e"
  "eng_program (read_barrier e) = eng_program e"
  "eng_program (compute_phase now e) = eng_program e"
  "eng_program (write_barrier e) = eng_program e"
  "eng_program (end_phase us now os e) = eng_program e"
  by (simp_all add: config_phase_def hmi_phase_def read_barrier_def compute_phase_def
      write_barrier_def end_phase_def Let_def case_prod_unfold split: option.split)

lemma hal_phase_program: "hal_phase p ms e = Some (Ok e') \<Longrightarrow> eng_program e' = eng_program e"
  by (auto simp: hal_phase_def outcome_simps split: option.splits)



text \<open>
  A commit is not tied to the program that was prepared when it was given: a program prepared
  after the commit and before the boundary replaces the committed one and is installed although
  it was never committed itself.
\<close>

theorem prepare_overtakes_commit:
  assumes "deser b1 = Inr p1" and "deser b2 = Inr p2" and "is_well_formed p1" and "is_well_formed p2"
  shows "eng_program (swap_phase (fst (prepare_swap deser
      (fst (commit_swap (fst (prepare_swap deser e b1)))) b2))) = Some p2"
  using assms by (simp add: prepare_swap_def commit_swap_def swap_phase_def install_program_def)

definition halt_program :: hal_program where
  "halt_program = hal_program_new ''halt'' [halt]"

lemma demo_well_formed: "is_well_formed halt_program" "is_well_formed latch_program"
  by (simp_all add: is_well_formed_def halt_program_def latch_program_def hal_program_new_def halt_def)

theorem prepare_overtakes_commit_witness:
  "eng_program (swap_phase (fst (prepare_swap (\<lambda>bs. Inr (if bs = [] then latch_program else halt_program))
      (fst (commit_swap (fst (prepare_swap (\<lambda>bs. Inr (if bs = [] then latch_program else halt_program))
        fresh_engine [])))) [1]))) = Some halt_program"
  by (rule prepare_overtakes_commit [of _ "[]" latch_program])
     (simp_all add: demo_well_formed)

subsection \<open>Stopping\<close>

text \<open>
  Stopping a paused engine can leave its thread waiting forever. From a running engine, a pause
  and a stop that arrive between the two pause loops lead to a state in which the engine is
  stopped but its thread has no step until somebody resumes or single-steps it.
\<close>

theorem stop_can_strand_thread:
  assumes "eng_running e" and "\<not> paused e" and "\<not> step_requested e"
  shows "\<exists>e'. (engine_step env)\<^sup>*\<^sup>* (PauseLoop, e) (PauseLoop2, e')
    \<and> \<not> eng_running e' \<and> (\<nexists>s. thread_step env (PauseLoop2, e') s)"
proof -
  let ?e = "api env CStop (api env CPause e)"
  have "thread_step env (PauseLoop, e) (RunCheck, e)"
    using assms by (intro leave_pause) (simp add: waiting_def)
  moreover have "thread_step env (RunCheck, e) (PauseLoop2, e)" using assms(1) by (rule go_on)
  ultimately have "(engine_step env)\<^sup>*\<^sup>* (PauseLoop, e) (PauseLoop2, e)"
    by (meson engine_step.thread r_into_rtranclp rtranclp.rtrancl_into_rtrancl)
  moreover have "engine_step env (PauseLoop2, e) (PauseLoop2, api env CPause e)"
    "engine_step env (PauseLoop2, api env CPause e) (PauseLoop2, ?e)" by (rule call)+
  ultimately have "(engine_step env)\<^sup>*\<^sup>* (PauseLoop, e) (PauseLoop2, ?e)"
    by (meson rtranclp.rtrancl_into_rtrancl)
  moreover have "\<not> eng_running ?e" "waiting ?e"
    using assms by (simp_all add: engine_stop_def engine_pause_def waiting_def)
  ultimately show ?thesis by (metis thread_step_pause2E)
qed

theorem stop_can_strand_thread_witness:
  "\<exists>e'. (engine_step (demo_env latch_program))\<^sup>*\<^sup>* (PauseLoop, fresh_engine\<lparr>eng_running := True\<rparr>) (PauseLoop2, e')
    \<and> \<not> eng_running e' \<and> (\<nexists>s. thread_step (demo_env latch_program) (PauseLoop2, e') s)"
  by (rule stop_can_strand_thread) (simp_all add: fresh_engine_def engine_new_def)

subsection \<open>What a scan reads and writes\<close>

lemma read_write_signals:
  assumes "distinct (map f xs)"
  shows "read_signal (foldl (\<lambda>m s. write_signal m (f s) (g s)) m xs) nm =
    (case map_of (map (\<lambda>s. (f s, g s)) xs) nm of Some v \<Rightarrow> Some v | None \<Rightarrow> read_signal m nm)"
  using assms
proof (induction xs arbitrary: m)
  case (Cons x xs)
  have "map_of (map (\<lambda>s. (f s, g s)) xs) (f x) = None" using Cons.prems
    by (auto simp: map_of_eq_None_iff)
  then show ?case using Cons by (auto simp: read_signal_def write_signal_def split: option.split)
qed simp

lemma scan_input_signals:
  assumes "registry_wf r"
  shows "read_signal (ex_vm (scan_input ms r ex)) nm = value_at r nm"
proof -
  let ?ss = "list_snapshots r"
  have d: "distinct (map snap_name ?ss)"
    using snapshot_names_distinct [OF assms] by (simp add: list_snapshots_def)
  have "map_of (map (\<lambda>s. (snap_name s, snap_value s)) ?ss) nm = Some v \<longleftrightarrow>
      (\<exists>s \<in> set ?ss. snap_name s = nm \<and> snap_value s = v)" for v
    using d by (auto simp: comp_def dest!: map_of_SomeD intro!: map_of_is_SomeI rev_image_eqI)
  moreover have "(\<exists>s \<in> set ?ss. snap_name s = nm \<and> snap_value s = v) \<longleftrightarrow> value_at r nm = Some v" for v
    using snapshot_in [OF assms, of FAll nm v] by (simp add: list_snapshots_def filter_admits_def)
  ultimately have "map_of (map (\<lambda>s. (snap_name s, snap_value s)) ?ss) nm = Some v \<longleftrightarrow> value_at r nm = Some v" for v
    by blast
  then have "map_of (map (\<lambda>s. (snap_name s, snap_value s)) ?ss) nm = value_at r nm"
    by (metis option.exhaust)
  then show ?thesis
    by (simp add: scan_input_def Let_def read_write_signals [OF d] executor_reset_def set_cycle_time_def
        vm_reset_def split: option.split) (simp add: read_signal_def)
qed

lemma foldl_update_values:
  "value_at (foldl (\<lambda>r nm. case f nm of Some v \<Rightarrow> fst (update_value r nm v) | None \<Rightarrow> r) r nms) nm =
     (if nm \<in> set nms \<and> f nm \<noteq> None \<and> hm_get r nm \<noteq> None then f nm else value_at r nm)
   \<and> strategy_at (foldl (\<lambda>r nm. case f nm of Some v \<Rightarrow> fst (update_value r nm v) | None \<Rightarrow> r) r nms) nm
     = strategy_at r nm"
proof (induction nms arbitrary: r)
  case (Cons n nms)
  show ?case
  proof (cases "f n")
    case None
    then show ?thesis using Cons.IH [of r] by (cases "nm = n") simp_all
  next
    case (Some a)
    then show ?thesis using Cons.IH [of "fst (update_value r n a)"]
      by (cases "nm = n") (simp_all add: value_at_update strategy_at_update defined_update del: not_None_eq)
  qed
qed simp

lemma scan_output_values:
  "value_at (scan_output m r) nm =
     (if read_signal m nm \<noteq> None \<and> hm_get r nm \<noteq> None then read_signal m nm else value_at r nm)"
  "strategy_at (scan_output m r) nm = strategy_at r nm"
proof -
  have "nm \<in> set (signal_names m) \<longleftrightarrow> read_signal m nm \<noteq> None"
    by (simp add: signal_names_def read_signal_def hm_set_keys domIff del: set_map)
  then show "value_at (scan_output m r) nm =
     (if read_signal m nm \<noteq> None \<and> hm_get r nm \<noteq> None then read_signal m nm else value_at r nm)"
    and "strategy_at (scan_output m r) nm = strategy_at r nm"
    using foldl_update_values [of "read_signal m" r "signal_names m" nm] by (auto simp: scan_output_def)
qed

lemma registers_write_signals: "registers (foldl (\<lambda>m s. write_signal m (f s) (g s)) m xs) = registers m"
  by (induction xs arbitrary: m) (simp_all add: write_signal_def)

lemma scan_input_start:
  assumes "vm_wf (ex_vm ex)"
  shows "registers (ex_vm (scan_input ms r ex)) ! 14 = VS32 0"
    and "debug_mode (ex_debug (scan_input ms r ex)) = debug_mode (ex_debug ex)"
proof -
  show "registers (ex_vm (scan_input ms r ex)) ! 14 = VS32 0"
    using assms by (simp add: scan_input_def Let_def executor_reset_def set_cycle_time_def vm_reset_def
        registers_write_signals vm_wf_def REGISTER_COUNT_def)
qed (simp add: scan_input_def Let_def executor_reset_def)

subsection \<open>Completion of a cycle\<close>

lemma well_formed_nonempty: "is_well_formed pr \<Longrightarrow> 0 < instruction_count pr"
  by (auto simp: is_well_formed_def instruction_count_def list_ex_iff)

text \<open>
  C8: the scan of a safe forward program always completes: the execution phase of a cycle returns
  without a panic, with the executor reset to the start of the program, for every content of the
  signal table.
\<close>

theorem scan_completes:
  assumes "engine_inv e" and "eng_program e = Some pr" and "safe_program p pr" and "forward_program pr"
  shows "\<exists>e' ex. hal_phase p ms e = Some (Ok e') \<and> eng_program e' = Some pr
    \<and> eng_executor e' = Some ex \<and> ip (ex_vm ex) = 0"
proof -
  obtain ex where ex: "eng_executor e = Some ex"
    using assms(1,2) by (cases "eng_executor e") (auto simp: engine_inv_def program_inv_def)
  then have exi: "ex_program ex = pr" "vm_wf (ex_vm ex)" "is_well_formed pr"
    using assms(1,2) by (auto simp: engine_inv_def program_inv_def)
  let ?ex = "scan_input ms (eng_signals e) ex"
  have in_wf: "vm_wf (ex_vm ?ex)" "ip (ex_vm ?ex) = 0" "ex_program ?ex = pr"
    using scan_input_wf [OF exi(2)] exi(1) by simp_all
  then have "ready p ?ex" using assms(3) well_formed_nonempty [OF exi(3)] by (simp add: ready_def)
  then obtain ex1 n where "run_to_halt p ?ex = Some (Ok (ex1, n))"
    using run_loop_forward [of p ?ex 0] assms(4) in_wf(3) by (auto simp: run_to_halt_def)
  then show ?thesis using ex assms(2) by (simp add: hal_phase_def executor_reset_def vm_reset_def)
qed

theorem scan_completes_witness:
  "\<exists>e' ex. hal_phase DevBuild 10 (install_program fresh_engine latch_program) = Some (Ok e')
    \<and> eng_program e' = Some latch_program \<and> eng_executor e' = Some ex \<and> ip (ex_vm ex) = 0"
proof (rule scan_completes)
  show "engine_inv (install_program fresh_engine latch_program)"
    using fresh_engine_inv demo_well_formed(2) by (rule install_inv)
  show "eng_program (install_program fresh_engine latch_program) = Some latch_program"
    by (simp add: install_program_def)
  show "safe_program DevBuild latch_program" by code_simp
  show "forward_program latch_program" by code_simp
qed

interpretation eng_lock: monotone_lock eng_lock_level engine_set_lock_level "\<lambda>r. r = Inr ()"
  by unfold_locales (auto simp: engine_set_lock_level_def)

text \<open>
  The engine's own lock level only grows, and from level Run on no configuration command enters
  its queue.
\<close>

theorem engine_lock_and_queue:
  "eng_lock_level (set_levels engine_set_lock_level ls e) = foldl max (eng_lock_level e) ls
   \<and> (snd (engine_set_lock_level e l) = Inr () \<longleftrightarrow> eng_lock_level e \<le> l)
   \<and> eng_config_queue (fst (engine_queue_config e cmd)) =
      (if LRun \<le> eng_lock_level e then eng_config_queue e else eng_config_queue e @ [cmd])"
  using eng_lock.level_set_levels eng_lock.accepted_iff by (auto simp: engine_queue_config_def)

lemma funpow_child_restart:
  "child_restarts ((record_child_restart ^^ n) m) = child_restarts m + of_nat n"
  "health_check_failures ((record_child_restart ^^ n) m) = health_check_failures m"
  by (induction n) (simp_all add: record_child_restart_def)

text \<open>
  Every child the health check looks at is counted as a restart. With \<open>n\<close> supervised children
  that are all running, each cycle still adds \<open>n\<close> to the restart counter and one to the health
  failures.
\<close>

theorem running_children_counted_as_restarts:
  assumes "eng_lifecycle e \<noteq> []" and "\<forall>i. fst (os i) = StillRunning"
  shows "child_restarts (eng_metrics (end_phase us now os e))
      = child_restarts (eng_metrics e) + of_nat (child_count (eng_lifecycle e))
    \<and> health_check_failures (eng_metrics (end_phase us now os e)) = health_check_failures (eng_metrics e) + 1
    \<and> list_all (\<lambda>h. ch_state h = Running) (snd (health_check (eng_lifecycle e) now os))"
proof -
  have run: "list_all (\<lambda>h. ch_state h = Running) (snd (check_children now os i cs))" for i cs
    using assms(2) by (induction cs arbitrary: i)
      (simp_all add: check_child_def health_of_def case_prod_unfold)
  have len: "length (snd (health_check (eng_lifecycle e) now os)) = length (eng_lifecycle e)"
    using check_children_length by (simp add: health_check_def)
  then have "snd (health_check (eng_lifecycle e) now os) \<noteq> []" using assms(1) by auto
  then show ?thesis using run len
    by (simp add: end_phase_def case_prod_unfold Let_def record_health_failure_def funpow_child_restart
        record_cycle_jitter_def record_cycle_def child_count_def health_check_def)
qed

theorem running_children_counted_as_restarts_witness:
  "child_restarts (eng_metrics (end_phase 5 40000 (\<lambda>_. (StillRunning, Inl []))
     (fresh_engine\<lparr>eng_lifecycle := [crashed_child]\<rparr>))) = 1"
  using running_children_counted_as_restarts
    [of "fresh_engine\<lparr>eng_lifecycle := [crashed_child]\<rparr>" "\<lambda>_. (StillRunning, Inl [])" 5 40000]
  by (simp add: fresh_engine_def engine_new_def metrics_new_def child_count_def)

subsection \<open>Witnesses of the barriers\<close>

definition signal_engine :: "(nat, nat) engine" where
  "signal_engine = fresh_engine\<lparr>
     eng_signals := [(''motor'', signal_def_new ''motor'' TBool (VBool True) Own),
                     (''level'', signal_def_new ''level'' TU16 (VU16 0) Monitored)],
     eng_middleware := fst (mw_publish_signal (eng_middleware fresh_engine) ''level'' (VU16 7) now_ts)\<rparr>"

lemma signal_engine_wf: "registry_wf (eng_signals signal_engine)"
  by (auto simp: signal_engine_def registry_wf_def hm_wf_def signal_def_new_def)

theorem write_barrier_publishes_witness:
  "snd (mw_read_signal (eng_middleware (write_barrier signal_engine)) ''motor'') = Some (VBool True, now_ts)"
  using write_barrier_publishes [OF signal_engine_wf, of "''motor''"]
  by (simp add: signal_engine_def signal_def_new_def)

theorem read_barrier_updates_witness:
  "value_at (eng_signals (read_barrier signal_engine)) ''level'' = Some (VU16 7)"
  using read_barrier_updates [OF signal_engine_wf, of "''level''"]
  by (simp add: signal_engine_def signal_def_new_def mw.read_publish)

end
