(* ===== verification/Rust_Str.thy ===== *)
theory Rust_Str
  imports Prelude
begin

text \<open>
  The string functions of the Rust standard library the compilers call, on ASCII text: white space
  is the six ASCII blanks and \<^verbatim>\<open>to_uppercase\<close> changes letters only. Nothing here models a line of
  the repository.
\<close>

subsection \<open>Trimming, splitting, searching\<close>

definition is_ws :: "char \<Rightarrow> bool" where
  "is_ws c \<longleftrightarrow> c \<in> set (map char_of [9, 10, 11, 12, 13, 32 :: nat])"

definition trim :: "string \<Rightarrow> string" where
  "trim s = rev (dropWhile is_ws (rev (dropWhile is_ws s)))"

definition to_upper :: "string \<Rightarrow> string" where
  "to_upper s = map (\<lambda>c. if c \<in> set ''abcdefghijklmnopqrstuvwxyz''
     then char_of ((of_char c :: nat) - 32) else c) s"

fun words_from :: "string \<Rightarrow> string \<Rightarrow> string list" where
  "words_from acc [] = (if acc = [] then [] else [rev acc])"
| "words_from acc (c # cs) =
     (if is_ws c then (if acc = [] then words_from [] cs else rev acc # words_from [] cs)
      else words_from (c # acc) cs)"

definition split_whitespace :: "string \<Rightarrow> string list" where
  "split_whitespace s = words_from [] s"

definition strip_cr :: "string \<Rightarrow> string" where
  "strip_cr s = (if s \<noteq> [] \<and> last s = CHR 0x0D then butlast s else s)"

fun lines_from :: "string \<Rightarrow> string \<Rightarrow> string list" where
  "lines_from acc [] = (if acc = [] then [] else [rev acc])"
| "lines_from acc (c # cs) =
     (if c = CHR 0x0A then strip_cr (rev acc) # lines_from [] cs else lines_from (c # acc) cs)"

definition str_lines :: "string \<Rightarrow> string list" where
  "str_lines s = lines_from [] s"

definition starts_with :: "string \<Rightarrow> string \<Rightarrow> bool" where
  "starts_with s p \<longleftrightarrow> take (length p) s = p"

definition strip_prefix :: "string \<Rightarrow> string \<Rightarrow> string option" where
  "strip_prefix s p = (if starts_with s p then Some (drop (length p) s) else None)"

fun find_str :: "string \<Rightarrow> string \<Rightarrow> nat option" where
  "find_str p [] = (if p = [] then Some 0 else None)"
| "find_str p (c # cs) = (if starts_with (c # cs) p then Some 0 else map_option Suc (find_str p cs))"

definition rfind_char :: "char \<Rightarrow> string \<Rightarrow> nat option" where
  "rfind_char c s = map_option (\<lambda>k. length s - 1 - k) (find_str [c] (rev s))"

definition split_once :: "string \<Rightarrow> string \<Rightarrow> (string \<times> string) option" where
  "split_once p s = map_option (\<lambda>k. (take k s, drop (k + length p) s)) (find_str p s)"

definition trim_end :: "string \<Rightarrow> string" where
  "trim_end s = rev (dropWhile is_ws (rev s))"

definition trim_end_char :: "char \<Rightarrow> string \<Rightarrow> string" where
  "trim_end_char c s = rev (dropWhile (\<lambda>x. x = c) (rev s))"

definition is_digit :: "char \<Rightarrow> bool" where
  "is_digit c \<longleftrightarrow> c \<in> set ''0123456789''"

definition is_alpha :: "char \<Rightarrow> bool" where
  "is_alpha c \<longleftrightarrow> c \<in> set ''ABCDEFGHIJKLMNOPQRSTUVWXYZabcdefghijklmnopqrstuvwxyz''"

abbreviation newline :: string where
  "newline \<equiv> [CHR 0x0A]"

primrec join_lines :: "string list \<Rightarrow> string" where
  "join_lines [] = []"
| "join_lines (l # ls) = (if ls = [] then l else l @ newline @ join_lines ls)"

text \<open>A number in decimal, as \<^verbatim>\<open>format!\<close> prints it.\<close>

fun dec_string :: "nat \<Rightarrow> string" where
  "dec_string n = (if n < 10 then [char_of (48 + n)] else dec_string (n div 10) @ [char_of (48 + n mod 10)])"

declare dec_string.simps [simp del]

subsection \<open>Words and lines\<close>

definition word_ok :: "string \<Rightarrow> bool" where
  "word_ok w \<longleftrightarrow> w \<noteq> [] \<and> list_all (\<lambda>c. \<not> is_ws c) w"

lemma words_from_word:
  "list_all (\<lambda>c. \<not> is_ws c) w \<Longrightarrow> words_from acc (w @ s) = words_from (rev w @ acc) s"
  by (induction w arbitrary: acc) simp_all

lemma split_two:
  assumes "word_ok m" and "word_ok v"
  shows "split_whitespace (m @ '' '' @ v) = [m, v]"
proof -
  have "is_ws CHR '' ''" by code_simp
  then show ?thesis using assms words_from_word [of v "[]" "[]"]
    by (simp add: split_whitespace_def word_ok_def words_from_word)
qed

lemma words_ok:
  assumes "list_all (\<lambda>c. \<not> is_ws c) acc" and "w \<in> set (words_from acc s)"
  shows "word_ok w"
  using assms
proof (induction acc s rule: words_from.induct)
  case (1 acc)
  then show ?case by (cases "acc = []") (simp_all add: word_ok_def list_all_iff)
next
  case (2 acc c cs)
  show ?case
  proof (cases "is_ws c")
    case True
    then show ?thesis using 2 by (cases "acc = []") (auto simp: word_ok_def)
  next
    case False
    then show ?thesis using 2 by simp
  qed
qed

lemma split_words_ok: "w \<in> set (split_whitespace s) \<Longrightarrow> word_ok w"
  using words_ok [of "[]"] by (simp add: split_whitespace_def)

lemma trim_two:
  assumes "word_ok m" and "word_ok v"
  shows "trim (m @ '' '' @ v) = m @ '' '' @ v"
proof -
  have 1: "dropWhile is_ws (m @ xs) = m @ xs" for xs
    using assms(1) by (cases m) (simp_all add: word_ok_def)
  have 2: "dropWhile is_ws (rev (xs @ v)) = rev (xs @ v)" for xs
    using assms(2) by (cases v rule: rev_cases) (simp_all add: word_ok_def)
  show ?thesis unfolding trim_def using 1 2 [of "m @ '' ''"] by simp
qed

lemma lines_from_line:
  "CHR 0x0A \<notin> set l \<Longrightarrow> lines_from acc (l @ s) = lines_from (rev l @ acc) s"
  by (induction l arbitrary: acc) auto

definition line_ok :: "string \<Rightarrow> bool" where
  "line_ok l \<longleftrightarrow> l \<noteq> [] \<and> CHR 0x0A \<notin> set l \<and> last l \<noteq> CHR 0x0D"

lemma str_lines_join: "list_all line_ok ls \<Longrightarrow> str_lines (join_lines ls) = ls"
proof (induction ls)
  case (Cons l ls)
  then have l: "l \<noteq> []" "CHR 0x0A \<notin> set l" "last l \<noteq> CHR 0x0D" by (simp_all add: line_ok_def)
  then show ?case using Cons lines_from_line [of l "[]" "[]"]
    by (auto simp: str_lines_def lines_from_line strip_cr_def)
qed (simp add: str_lines_def)

subsection \<open>Decimal numbers\<close>

lemma is_digit_char: "d < 10 \<Longrightarrow> is_digit (char_of (48 + d))" for d :: nat
proof -
  have "\<forall>d \<in> set [0..<10]. is_digit (char_of (48 + d :: nat))" by code_simp
  then show "d < 10 \<Longrightarrow> is_digit (char_of (48 + d))" by simp
qed

lemma dec_string_digits: "list_all is_digit (dec_string n)"
  by (induction n rule: dec_string.induct) (subst dec_string.simps, auto simp: is_digit_char)

text \<open>
  Reading a decimal number, as \<^verbatim>\<open>parse\<close> does for the integer types: an optional sign and at least
  one digit. The bounds of the type are checked by the callers.
\<close>

definition decimal_value :: "string \<Rightarrow> nat" where
  "decimal_value s = foldl (\<lambda>n c. n * 10 + (of_char c - 48)) 0 s"

definition parse_decimal :: "string \<Rightarrow> nat option" where
  "parse_decimal s = (if s \<noteq> [] \<and> list_all is_digit s then Some (decimal_value s) else None)"

definition parse_unsigned :: "string \<Rightarrow> nat option" where
  "parse_unsigned s = parse_decimal (if s \<noteq> [] \<and> hd s = CHR ''+'' then tl s else s)"

definition parse_signed :: "string \<Rightarrow> int option" where
  "parse_signed s =
     (if s \<noteq> [] \<and> hd s = CHR ''-'' then map_option (\<lambda>n. - int n) (parse_decimal (tl s))
      else map_option int (parse_unsigned s))"

lemma decimal_value_dec: "decimal_value (dec_string n) = n"
proof (induction n rule: dec_string.induct)
  case (1 n)
  then show ?case by (cases "n < 10") (simp_all add: dec_string.simps [of n] decimal_value_def)
qed

lemma dec_string_nonempty [simp]: "dec_string n \<noteq> []"
  by (subst dec_string.simps) simp

lemma parse_decimal_dec: "parse_decimal (dec_string n) = Some n"
  by (simp add: parse_decimal_def dec_string_digits decimal_value_dec)

lemma dec_string_sign: "\<exists>c cs. dec_string n = c # cs \<and> c \<noteq> CHR ''+'' \<and> c \<noteq> CHR ''-''"
proof -
  obtain c cs where "dec_string n = c # cs" "is_digit c"
    using dec_string_digits [of n] dec_string_nonempty [of n] by (cases "dec_string n") auto
  then show ?thesis by (auto simp: is_digit_def)
qed

lemma parse_unsigned_dec: "parse_unsigned (dec_string n) = Some n"
  using dec_string_sign [of n] parse_decimal_dec [of n] by (auto simp: parse_unsigned_def)

lemma parse_signed_dec: "parse_signed (dec_string n) = Some (int n)" "parse_signed (CHR ''-'' # dec_string n) = Some (- int n)"
  using dec_string_sign [of n] parse_decimal_dec [of n] parse_unsigned_dec [of n] by (auto simp: parse_signed_def)

end
