(* ===== verification/Il_Compiler.thy ===== *)
theory Il_Compiler
  imports Hal_Ir Rust_Str
begin

text \<open>
  The instruction list compiler \<^verbatim>\<open>audesys-il-compiler\<close>: lexer, parser, code generator and
  \<^verbatim>\<open>il_compile\<close>. Sources are taken to be ASCII, where white space is the six ASCII blanks and
  \<^verbatim>\<open>to_uppercase\<close> changes letters only. Instruction indices are natural numbers, cut to 32 bits where
  the code casts them.
\<close>

subsection \<open>Lexer\<close>

datatype token =
    TkLd | TkLdn | TkSt | TkAnd | TkAndn | TkOr | TkOrn | TkXor
  | TkAdd | TkSub | TkMul | TkDiv | TkMod
  | TkGt | TkGe | TkEq | TkNe | TkLe | TkLt
  | TkJmp | TkJmpc | TkJmpcn | TkCal | TkRet | TkS | TkR | TkNot
  | TkTon | TkTof | TkTp | TkCtu | TkCtd | TkRTrig | TkFTrig | TkSr | TkRs
  | TkIdent string
  | TkLabel string

fun remove_comments :: "bool \<Rightarrow> string \<Rightarrow> string" where
  "remove_comments c [] = []"
| "remove_comments c [x] = (if c then [] else [x])"
| "remove_comments c (x # y # xs) =
     (if x = CHR ''('' \<and> y = CHR ''*'' then remove_comments True xs
      else if c \<and> x = CHR ''*'' \<and> y = CHR '')'' then remove_comments False xs
      else if c then remove_comments c (y # xs)
      else x # remove_comments c (y # xs))"

definition remove_inline_comments :: "string \<Rightarrow> string" where
  "remove_inline_comments line = remove_comments False line"

definition mnemonics :: "(string \<times> token) list" where
  "mnemonics =
     [(''LD'', TkLd), (''LDN'', TkLdn), (''ST'', TkSt), (''AND'', TkAnd), (''ANDN'', TkAndn),
      (''OR'', TkOr), (''ORN'', TkOrn), (''XOR'', TkXor), (''ADD'', TkAdd), (''SUB'', TkSub),
      (''MUL'', TkMul), (''DIV'', TkDiv), (''MOD'', TkMod), (''GT'', TkGt), (''GE'', TkGe),
      (''EQ'', TkEq), (''NE'', TkNe), (''LE'', TkLe), (''LT'', TkLt), (''JMP'', TkJmp),
      (''JMPC'', TkJmpc), (''JMPCN'', TkJmpcn), (''CAL'', TkCal), (''RET'', TkRet), (''S'', TkS),
      (''R'', TkR), (''NOT'', TkNot), (''TON'', TkTon), (''TOF'', TkTof), (''TP'', TkTp),
      (''CTU'', TkCtu), (''CTD'', TkCtd), (''R_TRIG'', TkRTrig), (''F_TRIG'', TkFTrig),
      (''SR'', TkSr), (''RS'', TkRs)]"

definition parse_mnemonic :: "string \<Rightarrow> token option" where
  "parse_mnemonic s = map_of mnemonics s"

definition word_token :: "string \<Rightarrow> token" where
  "word_token part = (case parse_mnemonic (to_upper part) of Some t \<Rightarrow> t | None \<Rightarrow> TkIdent part)"

definition line_tokens :: "string \<Rightarrow> token list" where
  "line_tokens line =
     (let trimmed = trim line in
      if trimmed = [] \<or> take 2 trimmed = ''(*'' then []
      else
        (case split_whitespace (remove_inline_comments trimmed) of
           [] \<Rightarrow> []
         | part # rest \<Rightarrow>
             (if last part = CHR '':'' then TkLabel (butlast part) # map word_token rest else [])
             @ (case parse_mnemonic (to_upper part) of
                  None \<Rightarrow> []
                | Some t \<Rightarrow> t # (case rest of [] \<Rightarrow> [] | operand # _ \<Rightarrow> [TkIdent operand]))))"

definition tokenize :: "string \<Rightarrow> token list" where
  "tokenize source = concat (map line_tokens (str_lines source))"

subsection \<open>Parser\<close>

datatype compare_op = CmpEq | CmpNe | CmpGt | CmpGe | CmpLt | CmpLe

datatype il_statement =
    SLoad string | SLoadNot string | SStore string
  | SAnd string | SAndNot string | SOr string | SOrNot string | SXor string
  | SAdd string | SSub string | SMul string | SDiv string | SMod string
  | SCmp compare_op string
  | SJump string | SJumpIf string | SJumpIfNot string | SCall string | SReturn
  | SSet string | SReset string | SNot
  | STon string | STof string | STp string | SCtu string | SCtd string
  | SRTrig string | SFTrig string | SSr string | SRs string
  | SLabel string

definition expect_ident :: "token list \<Rightarrow> string \<times> token list" where
  "expect_ident ts = (case ts of TkIdent nm # rest \<Rightarrow> (nm, rest) | _ \<Rightarrow> (''?'', ts))"

text \<open>The statement of a mnemonic with an operand.\<close>

definition operand_stmt :: "token \<Rightarrow> (string \<Rightarrow> il_statement) option" where
  "operand_stmt t =
     (case t of
        TkLd \<Rightarrow> Some SLoad | TkLdn \<Rightarrow> Some SLoadNot | TkSt \<Rightarrow> Some SStore
      | TkAnd \<Rightarrow> Some SAnd | TkAndn \<Rightarrow> Some SAndNot | TkOr \<Rightarrow> Some SOr | TkOrn \<Rightarrow> Some SOrNot
      | TkXor \<Rightarrow> Some SXor | TkAdd \<Rightarrow> Some SAdd | TkSub \<Rightarrow> Some SSub | TkMul \<Rightarrow> Some SMul
      | TkDiv \<Rightarrow> Some SDiv | TkMod \<Rightarrow> Some SMod
      | TkGt \<Rightarrow> Some (SCmp CmpGt) | TkGe \<Rightarrow> Some (SCmp CmpGe) | TkEq \<Rightarrow> Some (SCmp CmpEq)
      | TkNe \<Rightarrow> Some (SCmp CmpNe) | TkLe \<Rightarrow> Some (SCmp CmpLe) | TkLt \<Rightarrow> Some (SCmp CmpLt)
      | TkJmp \<Rightarrow> Some SJump | TkJmpc \<Rightarrow> Some SJumpIf | TkJmpcn \<Rightarrow> Some SJumpIfNot
      | TkCal \<Rightarrow> Some SCall | TkS \<Rightarrow> Some SSet | TkR \<Rightarrow> Some SReset
      | TkTon \<Rightarrow> Some STon | TkTof \<Rightarrow> Some STof | TkTp \<Rightarrow> Some STp | TkCtu \<Rightarrow> Some SCtu
      | TkCtd \<Rightarrow> Some SCtd | TkRTrig \<Rightarrow> Some SRTrig | TkFTrig \<Rightarrow> Some SFTrig | TkSr \<Rightarrow> Some SSr
      | TkRs \<Rightarrow> Some SRs
      | TkRet \<Rightarrow> None | TkNot \<Rightarrow> None | TkIdent _ \<Rightarrow> None | TkLabel _ \<Rightarrow> None)"

lemma expect_ident_length: "length (snd (expect_ident ts)) \<le> length ts"
  by (simp add: expect_ident_def split: list.split token.split)

function parse :: "token list \<Rightarrow> il_statement list" where
  "parse [] = []"
| "parse (t # rest) =
     (case operand_stmt t of
        Some mk \<Rightarrow> mk (fst (expect_ident rest)) # parse (snd (expect_ident rest))
      | None \<Rightarrow>
          (case t of
             TkRet \<Rightarrow> SReturn # parse rest
           | TkNot \<Rightarrow> SNot # parse rest
           | TkLabel nm \<Rightarrow> SLabel nm # parse rest
           | _ \<Rightarrow> parse rest))"
  by pat_completeness auto

termination parse
  by (relation "measure length") (auto simp: le_imp_less_Suc expect_ident_length)

subsection \<open>Code generator\<close>

abbreviation USER_REG_MAX :: u8 where "USER_REG_MAX \<equiv> 9"
abbreviation TEMP1_REG :: u8 where "TEMP1_REG \<equiv> 12"
abbreviation CR_REG :: u8 where "CR_REG \<equiv> 14"
abbreviation TRUE_REG :: u8 where "TRUE_REG \<equiv> 15"

record codegen =
  cg_instructions :: "instruction list"
  var_map :: "(string, u8) hmap"
  next_reg :: u8
  labels :: "(string, nat) hmap"
  label_refs :: "(nat \<times> string) list"

definition codegen_new :: codegen where
  "codegen_new = \<lparr>cg_instructions = [], var_map = [], next_reg = 0, labels = [], label_refs = []\<rparr>"

definition get_var_reg :: "codegen \<Rightarrow> string \<Rightarrow> (codegen \<times> u8) outcome" where
  "get_var_reg cg nm =
     (case hm_get (var_map cg) nm of
        Some r \<Rightarrow> Ok (cg, r)
      | None \<Rightarrow>
          (let r = next_reg cg in
           if USER_REG_MAX < r then Panic ExplicitPanic
           else Ok (cg\<lparr>next_reg := r + 1, var_map := hm_insert nm r (var_map cg)\<rparr>, r)))"

definition emit_all :: "codegen \<Rightarrow> instruction list \<Rightarrow> codegen" where
  "emit_all cg is = cg\<lparr>cg_instructions := cg_instructions cg @ is\<rparr>"

abbreviation current_ip :: "codegen \<Rightarrow> nat" where
  "current_ip cg \<equiv> length (cg_instructions cg)"

definition ld_reg :: "u8 \<Rightarrow> u8 \<Rightarrow> instruction" where
  "ld_reg dest src = inst Load [Register dest, Register src]"

definition ld_sig :: "u8 \<Rightarrow> string \<Rightarrow> instruction" where
  "ld_sig dest nm = inst Load [Register dest, SignalName nm]"

definition not_reg :: "u8 \<Rightarrow> u8 \<Rightarrow> instruction" where
  "not_reg src dest = inst NotOp [Register src, Register dest]"

definition add_ref :: "codegen \<Rightarrow> nat \<Rightarrow> string \<Rightarrow> codegen" where
  "add_ref cg idx nm = cg\<lparr>label_refs := label_refs cg @ [(idx, nm)]\<rparr>"

text \<open>The statements that address a variable: its register, then the instructions for it.\<close>

definition with_reg :: "codegen \<Rightarrow> string \<Rightarrow> (u8 \<Rightarrow> instruction list) \<Rightarrow> codegen outcome" where
  "with_reg cg nm code = bindo (get_var_reg cg nm) (\<lambda>(cg1, r). Ok (emit_all cg1 (code r)))"

definition materialize_cr_from_flags :: "codegen \<Rightarrow> codegen" where
  "materialize_cr_from_flags cg =
     (let true_ip = of_nat (current_ip cg + 3); done_ip = of_nat (current_ip cg + 5) in
      emit_all cg [jump_if true_ip, load_imm CR_REG (VBool False), jump done_ip,
        load_imm CR_REG (VBool True)])"

definition emit_bool_test_and_jump :: "codegen \<Rightarrow> string \<Rightarrow> bool \<Rightarrow> codegen" where
  "emit_bool_test_and_jump cg nm negate =
     (let cg1 = emit_all cg [cmp (if negate then Neq else Eq) CR_REG TRUE_REG];
          idx = current_ip cg1
      in add_ref (emit_all cg1 [jump_if 0]) idx nm)"

fun cmp_opcode :: "compare_op \<Rightarrow> opcode" where
  "cmp_opcode CmpEq = Eq"
| "cmp_opcode CmpNe = Neq"
| "cmp_opcode CmpGt = Gt"
| "cmp_opcode CmpGe = Gte"
| "cmp_opcode CmpLt = Lt"
| "cmp_opcode CmpLe = Lte"

fun compile_stmt :: "codegen \<Rightarrow> il_statement \<Rightarrow> codegen outcome" where
  "compile_stmt cg (SLabel nm) = Ok (cg\<lparr>labels := hm_insert nm (current_ip cg) (labels cg)\<rparr>)"
| "compile_stmt cg (SLoad v) = with_reg cg v (\<lambda>r. [ld_sig r v, ld_reg CR_REG r])"
| "compile_stmt cg (SLoadNot v) =
     with_reg cg v (\<lambda>r. [ld_sig r v, ld_reg CR_REG r, not_reg CR_REG CR_REG])"
| "compile_stmt cg (SStore v) = Ok (emit_all cg [inst Store [SignalName v, Register CR_REG]])"
| "compile_stmt cg (SAnd v) = with_reg cg v (\<lambda>r. [ld_sig r v, arith And CR_REG r CR_REG])"
| "compile_stmt cg (SAndNot v) =
     with_reg cg v (\<lambda>r. [ld_sig r v, ld_reg TEMP1_REG r, not_reg TEMP1_REG TEMP1_REG,
       arith And CR_REG TEMP1_REG CR_REG])"
| "compile_stmt cg (SOr v) = with_reg cg v (\<lambda>r. [arith Or CR_REG r CR_REG])"
| "compile_stmt cg (SOrNot v) =
     with_reg cg v (\<lambda>r. [ld_reg TEMP1_REG r, not_reg TEMP1_REG TEMP1_REG,
       arith Or CR_REG TEMP1_REG CR_REG])"
| "compile_stmt cg (SXor v) = with_reg cg v (\<lambda>r. [arith Xor CR_REG r CR_REG])"
| "compile_stmt cg (SAdd v) = with_reg cg v (\<lambda>r. [arith Add CR_REG r CR_REG])"
| "compile_stmt cg (SSub v) = with_reg cg v (\<lambda>r. [arith Sub CR_REG r CR_REG])"
| "compile_stmt cg (SMul v) = with_reg cg v (\<lambda>r. [arith Mul CR_REG r CR_REG])"
| "compile_stmt cg (SDiv v) = with_reg cg v (\<lambda>r. [arith Div CR_REG r CR_REG])"
| "compile_stmt cg (SMod v) = with_reg cg v (\<lambda>r. [arith Mod CR_REG r CR_REG])"
| "compile_stmt cg (SCmp op v) =
     mapo materialize_cr_from_flags (with_reg cg v (\<lambda>r. [cmp (cmp_opcode op) CR_REG r]))"
| "compile_stmt cg (SJump nm) = Ok (add_ref (emit_all cg [jump 0]) (current_ip cg) nm)"
| "compile_stmt cg (SJumpIf nm) = Ok (emit_bool_test_and_jump cg nm False)"
| "compile_stmt cg (SJumpIfNot nm) = Ok (emit_bool_test_and_jump cg nm True)"
| "compile_stmt cg (SCall fb) = Ok (add_ref (emit_all cg [call 0]) (current_ip cg) fb)"
| "compile_stmt cg SReturn = Ok (emit_all cg [ret None])"
| "compile_stmt cg (SSet v) = with_reg cg v (\<lambda>r. [load_imm r (VBool True)])"
| "compile_stmt cg (SReset v) = with_reg cg v (\<lambda>r. [load_imm r (VBool False)])"
| "compile_stmt cg SNot = Ok (emit_all cg [not_reg CR_REG CR_REG])"
| "compile_stmt cg (STon v) = with_reg cg v (\<lambda>r. [inst TimerRun [Register r]])"
| "compile_stmt cg (STof v) = with_reg cg v (\<lambda>r. [inst TimerRun [Register r]])"
| "compile_stmt cg (STp v) = with_reg cg v (\<lambda>r. [inst TimerRun [Register r]])"
| "compile_stmt cg (SCtu v) = with_reg cg v (\<lambda>r. [inst CounterRun [Register r]])"
| "compile_stmt cg (SCtd v) = with_reg cg v (\<lambda>r. [inst CounterRun [Register r]])"
| "compile_stmt cg (SRTrig v) = with_reg cg v (\<lambda>r. [inst EdgeRun [Register r]])"
| "compile_stmt cg (SFTrig v) = with_reg cg v (\<lambda>r. [inst EdgeRun [Register r]])"
| "compile_stmt cg (SSr v) = with_reg cg v (\<lambda>r. [inst SrRun [Register r]])"
| "compile_stmt cg (SRs v) = with_reg cg v (\<lambda>r. [inst SrRun [Register r]])"

primrec compile_stmts :: "codegen \<Rightarrow> il_statement list \<Rightarrow> codegen outcome" where
  "compile_stmts cg [] = Ok cg"
| "compile_stmts cg (s # ss) = bindo (compile_stmt cg s) (\<lambda>cg1. compile_stmts cg1 ss)"

definition patch :: "instruction \<Rightarrow> u32 \<Rightarrow> instruction" where
  "patch i target =
     (if operands i = [] then i
      else case opcode i of
        Jump \<Rightarrow> jump target
      | JumpIf \<Rightarrow> jump_if target
      | Call \<Rightarrow> call target
      | _ \<Rightarrow> i)"

text \<open>
  Backpatching: every reference is resolved to its label, or to the final halt instruction. The
  indices were taken when the instructions were emitted, so \<open>result[idx]\<close> is in range.
\<close>

definition backpatch :: "(string, nat) hmap \<Rightarrow> instruction list \<Rightarrow> nat \<times> string \<Rightarrow> instruction list" where
  "backpatch lbls is ref =
     (let halt_ip = length is - 1;
          target = (case hm_get lbls (snd ref) of Some t \<Rightarrow> t | None \<Rightarrow> halt_ip)
      in is[fst ref := patch (is ! fst ref) (of_nat target)])"

definition compile_ast :: "il_statement list \<Rightarrow> instruction list outcome" where
  "compile_ast stmts =
     bindo (compile_stmts (emit_all codegen_new [load_imm TRUE_REG (VBool True)]) stmts) (\<lambda>cg.
     let cg1 = emit_all cg [halt] in
     Ok (foldl (backpatch (labels cg1)) (cg_instructions cg1) (label_refs cg1)))"

subsection \<open>The compiler\<close>

definition stored_signal :: "instruction \<Rightarrow> string option" where
  "stored_signal i =
     (if opcode i = Store then (case operands i of SignalName nm # _ \<Rightarrow> Some nm | _ \<Rightarrow> None) else None)"

definition il_binding :: "string \<Rightarrow> signal_binding" where
  "il_binding nm = \<lparr>hal_signal_name = nm, program_var = nm, sb_direction = Write, hal_pin_type = TS32\<rparr>"

definition collect_bindings :: "instruction list \<Rightarrow> string list" where
  "collect_bindings is =
     foldl (\<lambda>seen i. case stored_signal i of
              Some nm \<Rightarrow> if nm \<in> set seen then seen else seen @ [nm]
            | None \<Rightarrow> seen) [] is"

definition il_compile :: "string \<Rightarrow> hal_program outcome" where
  "il_compile source =
     bindo (compile_ast (parse (tokenize source))) (\<lambda>is.
     Ok ((hal_program_new ''il_program'' is)
       \<lparr>prog_signals := map il_binding (collect_bindings is)\<rparr>))"

end
