(* ===== verification/Ld_Compiler.thy ===== *)
theory Ld_Compiler
  imports Il_Compiler
begin

text \<open>
  The ladder text compiler \<^verbatim>\<open>audesys-ld-compiler\<close>: lexer, grouping into networks, and the
  generation of instruction list text. Sources are ASCII, as for the instruction list compiler.
\<close>

subsection \<open>Lexer\<close>

datatype ld_token =
    LtNetwork | LtNo string | LtNc string | LtP string | LtN string
  | LtOut string | LtSet string | LtReset string | LtParallel string

definition parallel_spec :: "string list \<Rightarrow> ld_token" where
  "parallel_spec parts =
     (case parts of
        [k, var] \<Rightarrow>
          if k = ''NO'' then LtParallel (''NO '' @ var)
          else if k = ''NC'' then LtParallel (''NC '' @ var)
          else if k = ''P'' then LtParallel (''P '' @ var)
          else if k = ''N'' then LtParallel (''N '' @ var)
          else LtNetwork
      | _ \<Rightarrow> LtNetwork)"

definition other_line :: "string \<Rightarrow> ld_token" where
  "other_line line =
     (if line \<noteq> [] \<and> hd line = CHR ''|''
      then parallel_spec (split_whitespace (to_upper (trim (tl line))))
      else LtNetwork)"

definition parse_line :: "string \<Rightarrow> ld_token" where
  "parse_line line =
     (case split_whitespace (to_upper line) of
        [k] \<Rightarrow> if k = ''NETWORK'' then LtNetwork else other_line line
      | [k, var] \<Rightarrow>
          if k = ''NO'' then LtNo var
          else if k = ''NC'' then LtNc var
          else if k = ''P'' then LtP var
          else if k = ''N'' then LtN var
          else if k = ''OUT'' then LtOut var
          else if k = ''SET'' then LtSet var
          else if k = ''RESET'' then LtReset var
          else other_line line
      | _ \<Rightarrow> other_line line)"

definition ld_tokenize :: "string \<Rightarrow> ld_token list" where
  "ld_tokenize source = map parse_line (filter (\<lambda>l. l \<noteq> []) (map trim (str_lines source)))"

subsection \<open>Networks\<close>

datatype ld_coil_kind = LdOut | LdSet | LdReset

datatype ld_element =
    LdContact bool string
  | LdParallelContact bool string
  | LdEdgeContact bool string
  | LdCoil ld_coil_kind string

definition parallel_element :: "string \<Rightarrow> ld_element list" where
  "parallel_element spec =
     (case split_whitespace spec of
        [k, var] \<Rightarrow>
          if k = ''NO'' then [LdParallelContact True var]
          else if k = ''NC'' then [LdParallelContact False var]
          else if k = ''P'' then [LdEdgeContact True var]
          else if k = ''N'' then [LdEdgeContact False var]
          else []
      | _ \<Rightarrow> [])"

fun token_elements :: "ld_token \<Rightarrow> ld_element list" where
  "token_elements LtNetwork = []"
| "token_elements (LtNo v) = [LdContact True v]"
| "token_elements (LtNc v) = [LdContact False v]"
| "token_elements (LtOut v) = [LdCoil LdOut v]"
| "token_elements (LtSet v) = [LdCoil LdSet v]"
| "token_elements (LtReset v) = [LdCoil LdReset v]"
| "token_elements (LtP v) = [LdEdgeContact True v]"
| "token_elements (LtN v) = [LdEdgeContact False v]"
| "token_elements (LtParallel spec) = parallel_element spec"

primrec group_networks :: "ld_token list \<Rightarrow> ld_element list \<Rightarrow> ld_element list list" where
  "group_networks [] cur = (if cur = [] then [] else [cur])"
| "group_networks (t # ts) cur =
     (if t = LtNetwork
      then (if cur = [] then group_networks ts [] else cur # group_networks ts [])
      else group_networks ts (cur @ token_elements t))"

definition parse_networks :: "ld_token list \<Rightarrow> ld_element list list" where
  "parse_networks ts = group_networks ts []"

subsection \<open>Generation\<close>

primrec element_lines :: "bool \<Rightarrow> ld_element \<Rightarrow> bool \<times> string list" where
  "element_lines first (LdContact no v) =
     (False, [(if first then (if no then ''LD '' else ''LDN '') else (if no then ''AND '' else ''ANDN '')) @ v])"
| "element_lines first (LdParallelContact no v) = (first, [(if no then ''OR '' else ''ORN '') @ v])"
| "element_lines first (LdEdgeContact rising v) =
     (False, [(if first then ''LD '' else ''AND '') @ v, (if rising then ''R_TRIG '' else ''F_TRIG '') @ v])"
| "element_lines first (LdCoil kind v) =
     (first, [(case kind of LdOut \<Rightarrow> ''ST '' | LdSet \<Rightarrow> ''S '' | LdReset \<Rightarrow> ''R '') @ v])"

primrec network_lines :: "bool \<Rightarrow> ld_element list \<Rightarrow> string list" where
  "network_lines first [] = []"
| "network_lines first (e # es) = snd (element_lines first e) @ network_lines (fst (element_lines first e)) es"

definition ld_generate_il :: "ld_element list list \<Rightarrow> string" where
  "ld_generate_il networks = join_lines (concat (map (network_lines True) networks))"

definition ld_compile :: "string \<Rightarrow> string + string" where
  "ld_compile source =
     (let tokens = ld_tokenize source in
      if tokens = [] then Inl ''empty LD source''
      else Inr (ld_generate_il (parse_networks tokens)))"

end
