(* ===== verification/Il_Text.thy ===== *)
theory Il_Text
  imports Il_Compiler
begin

text \<open>
  Reading instruction list text that another compiler has written: a line of a mnemonic and a word
  is read back as the statement of that mnemonic. The ladder and the function block compilers hand
  such text to \<^verbatim>\<open>il_compile\<close>.
\<close>

fun comment_free :: "string \<Rightarrow> bool" where
  "comment_free (x # y # xs) = (\<not> (x = CHR ''('' \<and> y = CHR ''*'') \<and> comment_free (y # xs))"
| "comment_free _ = True"

lemma remove_comments_free: "comment_free s \<Longrightarrow> remove_comments False s = s"
  by (induction s rule: comment_free.induct) auto

lemma comment_free_append:
  "CHR ''('' \<notin> set m \<Longrightarrow> comment_free v \<Longrightarrow> comment_free (m @ v)"
proof (induction m)
  case (Cons x m)
  then show ?case by (cases "m @ v") auto
qed simp

type_synonym il_op = "string \<times> string"

definition op_line :: "il_op \<Rightarrow> string" where
  "op_line mv = fst mv @ '' '' @ snd mv"

definition op_names :: "string list" where
  "op_names = [''LD'', ''LDN'', ''AND'', ''ANDN'', ''OR'', ''ORN'', ''R_TRIG'', ''F_TRIG'', ''ST'', ''S'', ''R'', ''CAL'']"

definition op_ok :: "il_op \<Rightarrow> bool" where
  "op_ok mv \<longleftrightarrow> fst mv \<in> set op_names \<and> word_ok (snd mv) \<and> comment_free (snd mv)"

fun op_stmt :: "il_op \<Rightarrow> il_statement" where
  "op_stmt (m, v) =
     (if m = ''LD'' then SLoad v else if m = ''LDN'' then SLoadNot v
      else if m = ''AND'' then SAnd v else if m = ''ANDN'' then SAndNot v
      else if m = ''OR'' then SOr v else if m = ''ORN'' then SOrNot v
      else if m = ''R_TRIG'' then SRTrig v else if m = ''F_TRIG'' then SFTrig v
      else if m = ''ST'' then SStore v else if m = ''S'' then SSet v
      else if m = ''CAL'' then SCall v else SReset v)"

lemma op_tokens:
  "parse_mnemonic (to_upper ''LD'') = Some TkLd" "parse_mnemonic (to_upper ''LDN'') = Some TkLdn"
  "parse_mnemonic (to_upper ''AND'') = Some TkAnd" "parse_mnemonic (to_upper ''ANDN'') = Some TkAndn"
  "parse_mnemonic (to_upper ''OR'') = Some TkOr" "parse_mnemonic (to_upper ''ORN'') = Some TkOrn"
  "parse_mnemonic (to_upper ''R_TRIG'') = Some TkRTrig" "parse_mnemonic (to_upper ''F_TRIG'') = Some TkFTrig"
  "parse_mnemonic (to_upper ''ST'') = Some TkSt" "parse_mnemonic (to_upper ''S'') = Some TkS"
  "parse_mnemonic (to_upper ''R'') = Some TkR" "parse_mnemonic (to_upper ''CAL'') = Some TkCal"
  by code_simp+

lemma op_names_words:
  "list_all (\<lambda>m. word_ok m \<and> CHR ''('' \<notin> set m \<and> last m \<noteq> CHR '':'' \<and> take 2 m \<noteq> ''(*'') op_names"
  by code_simp

lemma op_mnemonics:
  "list_all (\<lambda>m. \<exists>t mk. parse_mnemonic (to_upper m) = Some t \<and> operand_stmt t = Some mk
     \<and> (\<forall>v. mk v = op_stmt (m, v))) op_names"
  by (simp add: op_names_def op_tokens operand_stmt_def)

lemma line_tokens_op:
  assumes "op_ok mv"
  shows "\<exists>t mk. line_tokens (op_line mv) = [t, TkIdent (snd mv)] \<and> operand_stmt t = Some mk \<and> mk (snd mv) = op_stmt mv"
    and "line_ok (op_line mv)"
proof -
  obtain m v where mv: "mv = (m, v)" by (cases mv)
  have ok: "m \<in> set op_names" "word_ok v" "comment_free v" using assms by (simp_all add: op_ok_def mv)
  have m: "word_ok m" "CHR ''('' \<notin> set m" "last m \<noteq> CHR '':''" "m \<noteq> []"
    using op_names_words ok(1) by (auto simp: list_all_iff word_ok_def)
  obtain t mk where t: "parse_mnemonic (to_upper m) = Some t" "operand_stmt t = Some mk" "mk v = op_stmt (m, v)"
    using op_mnemonics ok(1) unfolding list_all_iff by blast
  have cf: "remove_inline_comments (m @ '' '' @ v) = m @ '' '' @ v"
    using comment_free_append [of "m @ '' ''" v] m(2) ok(3)
    by (simp add: remove_inline_comments_def remove_comments_free)
  have "take 2 (m @ '' '' @ v) \<noteq> ''(*''" using m(2,4) by (cases m) auto
  then have "line_tokens (op_line mv) = [t, TkIdent v]"
    using m t(1) unfolding line_tokens_def op_line_def mv fst_conv snd_conv trim_two [OF m(1) ok(2)] Let_def cf
      split_two [OF m(1) ok(2)] by simp
  then show "\<exists>t mk. line_tokens (op_line mv) = [t, TkIdent (snd mv)] \<and> operand_stmt t = Some mk \<and> mk (snd mv) = op_stmt mv"
    using t by (simp add: mv)
  have "is_ws CHR 0x0A" "is_ws CHR 0x0D" by code_simp+
  then have "CHR 0x0A \<notin> set m" "CHR 0x0A \<notin> set v" "last v \<noteq> CHR 0x0D" "v \<noteq> []"
    using m(1) ok(2) by (auto simp: word_ok_def list_all_iff dest: last_in_set)
  then show "line_ok (op_line mv)" by (simp add: line_ok_def op_line_def mv)
qed

lemma parse_ops: "list_all op_ok ops \<Longrightarrow> parse (concat (map (line_tokens \<circ> op_line) ops)) = map op_stmt ops"
proof (induction ops)
  case (Cons mv ops)
  obtain t mk where t: "line_tokens (op_line mv) = [t, TkIdent (snd mv)]" "operand_stmt t = Some mk" "mk (snd mv) = op_stmt mv"
    using line_tokens_op(1) [of mv] Cons.prems by auto
  then show ?case using Cons by (simp add: expect_ident_def)
qed simp

lemma parse_generated:
  assumes "list_all op_ok ops"
  shows "parse (tokenize (join_lines (map op_line ops))) = map op_stmt ops"
proof -
  have "list_all line_ok (map op_line ops)" using assms line_tokens_op(2) by (auto simp: list_all_iff)
  then show ?thesis using parse_ops [OF assms] by (simp add: tokenize_def str_lines_join)
qed

text \<open>Lines that end with a newline each, cut at the end of the text.\<close>

lemma str_lines_terminated:
  assumes "list_all (\<lambda>l. CHR 0x0A \<notin> set l \<and> (l = [] \<or> last l \<noteq> CHR 0x0D)) ls" and "line_ok l"
  shows "str_lines (concat (map (\<lambda>l. l @ newline) ls) @ l) = ls @ [l]"
  using assms(1)
proof (induction ls)
  case Nil
  then show ?case using assms(2) lines_from_line [of l "[]" "[]"] by (simp add: str_lines_def line_ok_def)
next
  case (Cons x ls)
  then have "CHR 0x0A \<notin> set x" "strip_cr x = x" by (auto simp: strip_cr_def)
  then show ?case using Cons by (simp add: str_lines_def lines_from_line)
qed

lemma trim_end_last:
  assumes "l \<noteq> []" and "\<not> is_ws (last l)"
  shows "trim_end (s @ l @ newline) = s @ l"
proof -
  have "is_ws CHR 0x0A" by code_simp
  moreover obtain xs x where "l = xs @ [x]" "\<not> is_ws x" using assms by (cases l rule: rev_cases) auto
  ultimately show ?thesis by (simp add: trim_end_def)
qed

end
