(* ===== verification/Straight_Line.thy ===== *)
theory Straight_Line
  imports Executor_Safety
begin

text \<open>
  Execution of straight-line code on the executor: the effect of a list of instructions, run as
  one block, and the scan of a program that is such a block followed by a halt. Two instructions
  count as straight-line: those that are not control instructions, and conditional jumps whose
  first operand is not an immediate, which the executor steps over whatever the flag. The last
  part is about scans that do not end.
\<close>

subsection \<open>Blocks\<close>

primrec exec_list :: "profile \<Rightarrow> vm \<Rightarrow> instruction list \<Rightarrow> vm outcome" where
  "exec_list p m [] = Ok m"
| "exec_list p m (i # is) = bindo (execute_instruction p m i) (\<lambda>(m1, _). exec_list p (advance_ip m1) is)"

lemma exec_list_append: "exec_list p m (xs @ ys) = bindo (exec_list p m xs) (\<lambda>m1. exec_list p m1 ys)"
  by (induction xs arbitrary: m) (simp_all add: bindo_assoc case_prod_unfold)

definition is_immediate :: "operand \<Rightarrow> bool" where
  "is_immediate x \<longleftrightarrow> (case x of Immediate _ \<Rightarrow> True | _ \<Rightarrow> False)"

definition dead_jump :: "instruction \<Rightarrow> bool" where
  "dead_jump i \<longleftrightarrow> opcode i = JumpIf \<and> operands i \<noteq> [] \<and> \<not> is_immediate (hd (operands i))"

definition linear :: "instruction \<Rightarrow> bool" where
  "linear i \<longleftrightarrow> \<not> is_control (opcode i) \<or> dead_jump i"

definition erase :: "instruction \<Rightarrow> instruction" where
  "erase i = (if dead_jump i then nop else i)"

lemma erase_data [simp]: "\<not> is_control (opcode i) \<Longrightarrow> erase i = i"
  by (auto simp: erase_def dead_jump_def is_control_def)

lemma step_data:
  assumes "\<not> debug_mode (ex_debug ex)" and "ip (ex_vm ex) < length (instructions (ex_program ex))"
    and "\<not> is_control (opcode (instructions (ex_program ex) ! ip (ex_vm ex)))"
    and "execute_instruction p (ex_vm ex) (instructions (ex_program ex) ! ip (ex_vm ex)) = Ok (m, r)"
  shows "step p ex = Ok (ex\<lparr>ex_vm := advance_ip m\<rparr>, Continue)"
proof -
  have "r = Continue" using data_instruction [OF assms(3), of "ex_vm ex" p] assms(4)
    by (simp add: data_exec_def)
  moreover have "\<not> is_jump (opcode (instructions (ex_program ex) ! ip (ex_vm ex)))"
    using assms(3) by (auto simp: is_control_def is_jump_def)
  ultimately show ?thesis using assms by (simp add: step_def Let_def record_trace_def)
qed

lemma step_dead_jump:
  assumes "\<not> debug_mode (ex_debug ex)" and "ip (ex_vm ex) < length (instructions (ex_program ex))"
    and "dead_jump (instructions (ex_program ex) ! ip (ex_vm ex))"
  shows "step p ex = Ok (ex\<lparr>ex_vm := advance_ip (ex_vm ex)\<rparr>, Continue)"
proof -
  obtain x xs where "operands (instructions (ex_program ex) ! ip (ex_vm ex)) = x # xs" "\<not> is_immediate x"
    using assms(3) by (auto simp: dead_jump_def neq_Nil_conv)
  then show ?thesis using assms
    by (cases x) (simp_all add: step_def Let_def record_trace_def dead_jump_def execute_instruction_def
        exec_jump_if_def is_jump_def is_immediate_def)
qed

lemma step_linear:
  assumes "\<not> debug_mode (ex_debug ex)" and "ip (ex_vm ex) < length (instructions (ex_program ex))"
    and "instructions (ex_program ex) ! ip (ex_vm ex) = i" and "linear i"
    and "execute_instruction p (ex_vm ex) (erase i) = Ok (m, r)"
  shows "step p ex = Ok (ex\<lparr>ex_vm := advance_ip m\<rparr>, Continue)" and "ip m = ip (ex_vm ex)"
proof -
  show "step p ex = Ok (ex\<lparr>ex_vm := advance_ip m\<rparr>, Continue)"
  proof (cases "dead_jump i")
    case True
    then have "m = ex_vm ex" using assms(5)
      by (simp add: erase_def nop_def execute_instruction_def)
    then show ?thesis using True assms step_dead_jump [of ex p] by simp
  next
    case False
    then show ?thesis using assms step_data [of ex p m r] by (simp add: linear_def)
  qed
  have "\<not> is_control (opcode (erase i))"
    using assms(4) by (auto simp: linear_def erase_def nop_def is_control_def)
  then show "ip m = ip (ex_vm ex)"
    using data_instruction [of "erase i" "ex_vm ex" p] assms(5) by (simp add: data_exec_def frame_def)
qed

lemma run_linear:
  assumes "instructions (ex_program ex) = pre @ is @ post" and "ip (ex_vm ex) = length pre"
    and "\<not> debug_mode (ex_debug ex)" and "list_all linear is"
    and "exec_list p (ex_vm ex) (map erase is) = Ok m"
  shows "run_loop p k ex = run_loop p (k + length is) (ex\<lparr>ex_vm := m\<rparr>)
    \<and> ip m = length pre + length is"
  using assms
proof (induction "is" arbitrary: ex pre k)
  case Nil
  then have "m = ex_vm ex" by simp
  then show ?case using Nil by simp
next
  case (Cons i "is")
  obtain m1 r where x: "execute_instruction p (ex_vm ex) (erase i) = Ok (m1, r)"
    and rest: "exec_list p (advance_ip m1) (map erase is) = Ok m"
    using Cons.prems(5) by (auto simp: outcome_simps)
  have nth: "instructions (ex_program ex) ! ip (ex_vm ex) = i"
    using Cons.prems(1,2) by (simp add: nth_append)
  let ?ex = "ex\<lparr>ex_vm := advance_ip m1\<rparr>"
  have s: "step p ex = Ok (?ex, Continue)" and "ip m1 = ip (ex_vm ex)"
    using step_linear [of ex i p m1 r] Cons.prems x nth by simp_all
  then have "ip (ex_vm ?ex) = length (pre @ [i])" using Cons.prems(2) by (simp add: advance_ip_def)
  then have "run_loop p (k + 1) ?ex = run_loop p (k + 1 + length is) (?ex\<lparr>ex_vm := m\<rparr>)
      \<and> ip m = length (pre @ [i]) + length is"
    using Cons.prems rest by (intro Cons.IH) simp_all
  then show ?case using run_loop_Continue [OF s, of k] by simp
qed

lemma halt_step:
  assumes "\<not> debug_mode (ex_debug ex)" and "ip (ex_vm ex) < length (instructions (ex_program ex))"
    and "instructions (ex_program ex) ! ip (ex_vm ex) = halt"
  shows "\<exists>n. step p ex = Ok (ex\<lparr>ex_vm := (ex_vm ex)\<lparr>ip := n\<rparr>\<rparr>, Halted)"
  using assms
  by (auto simp: step_def Let_def record_trace_def halt_def inst_def execute_instruction_def is_jump_def
      advance_ip_def)

text \<open>A program that is a block and a halt returns after one pass over the block.\<close>

lemma scan_linear:
  assumes "instructions (ex_program ex) = is @ [halt]" and "list_all linear is" and "ip (ex_vm ex) = 0"
    and "\<not> debug_mode (ex_debug ex)" and "exec_list p (ex_vm ex) (map erase is) = Ok m"
  shows "\<exists>ex'. run_to_halt p ex = Some (Ok (ex', length is + 1)) \<and> signals (ex_vm ex') = signals m"
proof -
  let ?ex = "ex\<lparr>ex_vm := m\<rparr>"
  have loop: "run_loop p 0 ex = run_loop p (length is) ?ex" and at: "ip m = length is"
    using run_linear [of ex "[]" "is" "[halt]" p m 0] assms by simp_all
  obtain n where "step p ?ex = Ok (?ex\<lparr>ex_vm := m\<lparr>ip := n\<rparr>\<rparr>, Halted)"
    using halt_step [of ?ex p] assms(1,4) at by (auto simp: nth_append)
  from run_loop_stop [OF this] loop show ?thesis by (simp add: run_to_halt_def)
qed

lemma linear_data: "list_all (\<lambda>i. \<not> is_control (opcode i)) is \<Longrightarrow> list_all linear is \<and> map erase is = is"
  by (induction "is") (simp_all add: linear_def)

text \<open>Arithmetic with a floating-point second operand never panics.\<close>

lemma binop_f64:
  "hal_binop p OpAdd x (VF64 z) = Ok (case x of VF64 a \<Rightarrow> VF64 (f64_add a z) | _ \<Rightarrow> VS32 0)"
  "hal_binop p OpSub x (VF64 z) = Ok (case x of VF64 a \<Rightarrow> VF64 (f64_sub a z) | _ \<Rightarrow> VS32 0)"
  "hal_binop p OpMul x (VF64 z) = Ok (case x of VF64 a \<Rightarrow> VF64 (f64_mul a z) | _ \<Rightarrow> VS32 0)"
  by (cases x; simp add: hal_binop_def)+

subsection \<open>Scans that do not end\<close>

text \<open>A set of states closed under continuing steps: a scan from it never returns.\<close>

lemma run_loop_closed:
  assumes "\<And>ex. S ex \<Longrightarrow> \<exists>ex'. step p ex = Ok (ex', Continue) \<and> S ex'" and "S ex"
  shows "run_loop p k ex = None"
proof -
  have "run_loop p k ex = Some r \<Longrightarrow> \<not> S ex" for k ex r
    by (erule run_loop.raw_induct [where P = "\<lambda>q k ex r. q = p \<longrightarrow> \<not> S ex", rotated, rule_format])
       (use assms(1) in \<open>fastforce split: outcome.splits executor_result.splits\<close>)+
  then show ?thesis using assms(2) by (cases "run_loop p k ex") auto
qed


text \<open>A set of states that a step only leaves by a panic: a scan from it never completes.\<close>

lemma run_loop_no_result:
  assumes "\<And>ex ex' r. S ex \<Longrightarrow> step p ex = Ok (ex', r) \<Longrightarrow> r = Continue \<and> S ex'" and "S ex"
  shows "run_loop p k ex \<noteq> Some (Ok res)"
proof -
  have "run_loop p k ex = Some r \<Longrightarrow> \<not> (S ex \<and> is_ok r)" for k ex r
    by (erule run_loop.raw_induct [where P = "\<lambda>q k ex r. q = p \<longrightarrow> \<not> (S ex \<and> is_ok r)", rotated, rule_format])
       (use assms(1) in \<open>fastforce simp: is_ok_iff split: outcome.splits executor_result.splits\<close>)+
  then show ?thesis using assms(2) by (metis is_ok_iff)
qed

lemma step_linear_result:
  assumes "\<not> debug_mode (ex_debug ex)" and "ip (ex_vm ex) < length (instructions (ex_program ex))"
    and "linear (instructions (ex_program ex) ! ip (ex_vm ex))" and "step p ex = Ok (ex', r)"
  shows "r = Continue \<and> ip (ex_vm ex') = ip (ex_vm ex) + 1 \<and> ex_program ex' = ex_program ex \<and> ex_debug ex' = ex_debug ex"
proof -
  let ?i = "instructions (ex_program ex) ! ip (ex_vm ex)"
  have "\<exists>m s. execute_instruction p (ex_vm ex) (erase ?i) = Ok (m, s)"
  proof (cases "dead_jump ?i")
    case True
    then show ?thesis by (simp add: erase_def nop_def execute_instruction_def)
  next
    case False
    then have "\<not> is_control (opcode ?i)" using assms(3) by (simp add: linear_def)
    then show ?thesis using assms(1,2,4)
      by (cases "execute_instruction p (ex_vm ex) ?i") (auto simp: step_def Let_def record_trace_def)
  qed
  then obtain m s where "execute_instruction p (ex_vm ex) (erase ?i) = Ok (m, s)" by blast
  from step_linear [OF assms(1,2) refl assms(3) this] assms(4) show ?thesis by (auto simp: advance_ip_def)
qed

text \<open>A backward jump behind straight-line code: the scan never completes.\<close>

lemma backward_jump_loops:
  assumes "instructions pr = pre @ jump t # post" and "list_all linear pre" and "unat t \<le> length pre"
    and "ex_program ex = pr" and "ip (ex_vm ex) = 0" and "\<not> debug_mode (ex_debug ex)"
  shows "run_to_halt p ex \<noteq> Some (Ok res)"
proof -
  let ?S = "\<lambda>ex. ex_program ex = pr \<and> \<not> debug_mode (ex_debug ex) \<and> ip (ex_vm ex) \<le> length pre"
  have closed: "r = Continue \<and> ?S ex'" if s: "?S ex" and st: "step p ex = Ok (ex', r)" for ex ex' r
  proof (cases "ip (ex_vm ex) < length pre")
    case True
    moreover have "linear (pre ! ip (ex_vm ex))" using True assms(2) by (simp add: list_all_length)
    ultimately show ?thesis using step_linear_result [OF _ _ _ st] s assms(1) by (simp add: nth_append)
  next
    case False
    then have at: "ip (ex_vm ex) < length (instructions pr)" "instructions pr ! ip (ex_vm ex) = jump t"
      using s assms(1) by (simp_all add: nth_append)
    have "step p ex = Ok (ex\<lparr>ex_vm := set_ip (ex_vm ex) (unat t)\<rparr>, Continue)"
      using s at by (simp add: step_def Let_def record_trace_def jump_def execute_instruction_def exec_jump_def
          is_jump_def)
    then show ?thesis using s st assms(3) by (auto simp: set_ip_def)
  qed
  have "?S ex" using assms(4-6) by simp
  from run_loop_no_result [of ?S, OF closed this] show ?thesis by (simp add: run_to_halt_def)
qed

text \<open>
  A block behind which a conditional jump leads back to its start, whenever the block leaves the
  flag set and the machine in a state from which it does so again: the scan never completes, since
  the number of executed instructions has no bound.
\<close>

lemma run_loop_count:
  assumes "run_loop p k ex = Some r"
  shows "\<forall>ex' n. r = Ok (ex', n) \<longrightarrow> k < n"
  using assms
  by (rule run_loop.raw_induct [rotated]) (fastforce split: outcome.splits executor_result.splits)

lemma run_block_jump:
  assumes "instructions (ex_program ex) = pre @ body @ jump_if t # post" and "unat t = length pre"
    and "list_all linear body" and "ip (ex_vm ex) = length pre" and "\<not> debug_mode (ex_debug ex)"
    and "exec_list p (ex_vm ex) (map erase body) = Ok m" and "flags_zero m"
  shows "run_loop p k ex = run_loop p (k + length body + 1) (ex\<lparr>ex_vm := m\<lparr>ip := length pre\<rparr>\<rparr>)"
proof -
  let ?ex = "ex\<lparr>ex_vm := m\<rparr>"
  have loop: "run_loop p k ex = run_loop p (k + length body) ?ex" and at: "ip m = length pre + length body"
    using run_linear [of ex pre body "jump_if t # post" p m k] assms by simp_all
  have "step p ?ex = Ok (?ex\<lparr>ex_vm := set_ip m (unat t)\<rparr>, Continue)"
    using at assms(1,5,7)
    by (simp add: step_def Let_def record_trace_def nth_append jump_if_def execute_instruction_def exec_jump_if_def
        is_jump_def)
  then show ?thesis using loop run_loop_Continue [of p ?ex _ "k + length body"] assms(2) by (simp add: set_ip_def)
qed

lemma block_loops:
  assumes prog: "instructions pr = pre @ body @ jump_if t # post" "unat t = length pre" "list_all linear body"
    and body: "\<And>m. P m \<Longrightarrow> \<exists>m'. exec_list p m (map erase body) = Ok m' \<and> flags_zero m' \<and> P (m'\<lparr>ip := length pre\<rparr>)"
    and start: "ex_program ex = pr" "ip (ex_vm ex) = length pre" "\<not> debug_mode (ex_debug ex)" "P (ex_vm ex)"
  shows "run_loop p k ex \<noteq> Some (Ok res)"
proof
  assume r: "run_loop p k ex = Some (Ok res)"
  have iter: "\<exists>ex' j. n \<le> j \<and> run_loop p k ex = run_loop p (k + j) ex' \<and> ex_program ex' = pr \<and> ip (ex_vm ex') = length pre
    \<and> \<not> debug_mode (ex_debug ex') \<and> P (ex_vm ex')" for n
  proof (induction n)
    case 0
    show ?case using start by (intro exI [of _ ex] exI [of _ 0]) simp
  next
    case (Suc n)
    then obtain ex' j where e: "n \<le> j" "run_loop p k ex = run_loop p (k + j) ex'" "ex_program ex' = pr"
      "ip (ex_vm ex') = length pre" "\<not> debug_mode (ex_debug ex')" "P (ex_vm ex')" by blast
    obtain m where m: "exec_list p (ex_vm ex') (map erase body) = Ok m" "flags_zero m" "P (m\<lparr>ip := length pre\<rparr>)"
      using body [OF e(6)] by blast
    show ?case
      using run_block_jump [of ex' pre body t post p m "k + j"] prog e m
      by (intro exI [of _ "ex'\<lparr>ex_vm := m\<lparr>ip := length pre\<rparr>\<rparr>"] exI [of _ "j + length body + 1"]) (simp add: add.assoc)
  qed
  obtain ex' j where "snd res \<le> j" "run_loop p (k + j) ex' = Some (Ok res)" using iter [of "snd res"] r by auto
  then show False using run_loop_count [of p "k + j" ex' "Ok res"] by (cases res) simp
qed

end
