(* ===== verification/Il_Correct.thy ===== *)
theory Il_Correct
  imports Il_Compiler Straight_Line
begin

text \<open>
  Correctness of the instruction list compiler on the register machine: the statements LD, LDN,
  ST, AND, ANDN, NOT and labels are compiled to code whose scan computes what the statements
  mean. Two further theorems show how comparisons and OR go wrong.
\<close>

subsection \<open>Meaning of the statements\<close>

text \<open>The current result and the signal table.\<close>

type_synonym il_state = "hal_value \<times> (string \<rightharpoonup> hal_value)"

definition sig_value :: "(string \<rightharpoonup> hal_value) \<Rightarrow> string \<Rightarrow> hal_value" where
  "sig_value sg nm = (case sg nm of Some v \<Rightarrow> v | None \<Rightarrow> VBool False)"

fun il_step :: "il_statement \<Rightarrow> il_state \<Rightarrow> il_state" where
  "il_step (SLoad v) (cr, sg) = (sig_value sg v, sg)"
| "il_step (SLoadNot v) (cr, sg) = (hal_not (sig_value sg v), sg)"
| "il_step (SStore v) (cr, sg) = (cr, sg(v \<mapsto> cr))"
| "il_step (SAnd v) (cr, sg) = (hal_bitop OpAnd cr (sig_value sg v), sg)"
| "il_step (SAndNot v) (cr, sg) = (hal_bitop OpAnd cr (hal_not (sig_value sg v)), sg)"
| "il_step SNot (cr, sg) = (hal_not cr, sg)"
| "il_step _ st = st"

definition il_run :: "il_statement list \<Rightarrow> il_state \<Rightarrow> il_state" where
  "il_run ss st = foldl (\<lambda>st s. il_step s st) st ss"

fun in_fragment :: "il_statement \<Rightarrow> bool" where
  "in_fragment (SLoad _) = True"
| "in_fragment (SLoadNot _) = True"
| "in_fragment (SStore _) = True"
| "in_fragment (SAnd _) = True"
| "in_fragment (SAndNot _) = True"
| "in_fragment SNot = True"
| "in_fragment (SLabel _) = True"
| "in_fragment _ = False"

subsection \<open>The code of each statement\<close>

definition il_rel :: "vm \<Rightarrow> il_state \<Rightarrow> bool" where
  "il_rel m st \<longleftrightarrow> length (registers m) = REGISTER_COUNT \<and> registers m ! 14 = fst st
     \<and> (\<forall>nm. read_signal m nm = snd st nm)"

definition cg_inv :: "codegen \<Rightarrow> bool" where
  "cg_inv cg \<longleftrightarrow> (\<forall>nm r. hm_get (var_map cg) nm = Some r \<longrightarrow> unat r < 10)"

lemma get_var_reg_ok:
  assumes "get_var_reg cg nm = Ok (cg1, r)" and "cg_inv cg"
  shows "unat r < 10" and "cg_inv cg1" and "cg_instructions cg1 = cg_instructions cg"
    and "label_refs cg1 = label_refs cg"
proof -
  have "unat w < 10" if "\<not> USER_REG_MAX < w" for w :: u8
    using that by (simp add: word_less_nat_alt not_less)
  then show "unat r < 10" "cg_inv cg1" "cg_instructions cg1 = cg_instructions cg"
    "label_refs cg1 = label_refs cg"
    using assms by (auto simp: get_var_reg_def cg_inv_def Let_def split: option.splits if_splits)
qed

lemma with_reg_ok:
  assumes "with_reg cg nm code = Ok cg'" and "cg_inv cg"
  shows "\<exists>r. unat r < 10 \<and> cg_instructions cg' = cg_instructions cg @ code r \<and> cg_inv cg'
    \<and> label_refs cg' = label_refs cg"
proof -
  obtain cg1 r where g: "get_var_reg cg nm = Ok (cg1, r)" and c: "cg' = emit_all cg1 (code r)"
    using assms(1) by (auto simp: with_reg_def outcome_simps)
  then show ?thesis using get_var_reg_ok [OF g assms(2)]
    by (intro exI [of _ r]) (simp add: emit_all_def cg_inv_def)
qed

definition implements :: "instruction list \<Rightarrow> il_statement \<Rightarrow> bool" where
  "implements is s \<longleftrightarrow> list_all (\<lambda>i. \<not> is_control (opcode i)) is
     \<and> (\<forall>p m st. il_rel m st \<longrightarrow> (\<exists>m'. exec_list p m is = Ok m' \<and> il_rel m' (il_step s st)))"

lemmas il_exec_simps = execute_instruction_def exec_load_def exec_arith_binop_def exec_unary_def
  exec_bitwise_not_def exec_store_def read_register_def write_register_def advance_ip_def
  ld_reg_def ld_sig_def not_reg_def arith_def load_imm_def REGISTER_COUNT_def

lemma load_implements:
  assumes "unat r < 10"
  shows "implements [ld_sig r v, ld_reg CR_REG r] (SLoad v)"
    and "implements [ld_sig r v, ld_reg CR_REG r, not_reg CR_REG CR_REG] (SLoadNot v)"
    and "implements [ld_sig r v, arith And CR_REG r CR_REG] (SAnd v)"
    and "implements [ld_sig r v, ld_reg TEMP1_REG r, not_reg TEMP1_REG TEMP1_REG,
       arith And CR_REG TEMP1_REG CR_REG] (SAndNot v)"
  using assms
  by (auto simp: implements_def il_rel_def is_control_def il_exec_simps sig_value_def read_signal_def)

lemma store_implements: "implements [inst Store [SignalName v, Register CR_REG]] (SStore v)"
  by (auto simp: implements_def il_rel_def is_control_def il_exec_simps write_signal_def read_signal_def)

lemma not_implements: "implements [not_reg CR_REG CR_REG] SNot"
  by (auto simp: implements_def il_rel_def is_control_def il_exec_simps read_signal_def)

lemma label_implements: "implements [] (SLabel nm)"
  by (auto simp: implements_def)

lemma compile_stmt_implements:
  assumes "compile_stmt cg s = Ok cg'" and "in_fragment s" and "cg_inv cg"
  shows "\<exists>is. cg_instructions cg' = cg_instructions cg @ is \<and> implements is s \<and> cg_inv cg'
    \<and> label_refs cg' = label_refs cg"
proof (cases s)
  case (SLabel nm)
  then show ?thesis using assms label_implements by (auto simp: cg_inv_def)
next
  case (SStore v)
  then show ?thesis using assms store_implements by (auto simp: emit_all_def cg_inv_def)
next
  case SNot
  then show ?thesis using assms not_implements by (auto simp: emit_all_def cg_inv_def)
next
  case (SLoad v)
  then show ?thesis using with_reg_ok [of cg v _ cg'] assms load_implements(1) by fastforce
next
  case (SLoadNot v)
  then show ?thesis using with_reg_ok [of cg v _ cg'] assms load_implements(2) by fastforce
next
  case (SAnd v)
  then show ?thesis using with_reg_ok [of cg v _ cg'] assms load_implements(3) by fastforce
next
  case (SAndNot v)
  then show ?thesis using with_reg_ok [of cg v _ cg'] assms load_implements(4) by fastforce
qed (use assms(2) in simp_all)

lemma compile_stmts_correct:
  assumes "compile_stmts cg ss = Ok cg'" and "list_all in_fragment ss" and "cg_inv cg"
  shows "\<exists>is. cg_instructions cg' = cg_instructions cg @ is \<and> label_refs cg' = label_refs cg
    \<and> list_all (\<lambda>i. \<not> is_control (opcode i)) is
    \<and> (\<forall>p m st. il_rel m st \<longrightarrow> (\<exists>m'. exec_list p m is = Ok m' \<and> il_rel m' (il_run ss st)))"
  using assms
proof (induction ss arbitrary: cg)
  case Nil
  then show ?case by (simp add: il_run_def)
next
  case (Cons s ss)
  obtain cg1 where c1: "compile_stmt cg s = Ok cg1" and c2: "compile_stmts cg1 ss = Ok cg'"
    using Cons.prems(1) by (auto simp: outcome_simps)
  obtain is1 where i1: "cg_instructions cg1 = cg_instructions cg @ is1" "implements is1 s" "cg_inv cg1"
    "label_refs cg1 = label_refs cg"
    using compile_stmt_implements [OF c1] Cons.prems by auto
  obtain is2 where i2: "cg_instructions cg' = cg_instructions cg1 @ is2" "label_refs cg' = label_refs cg1"
    "list_all (\<lambda>i. \<not> is_control (opcode i)) is2"
    "\<And>p m st. il_rel m st \<Longrightarrow> \<exists>m'. exec_list p m is2 = Ok m' \<and> il_rel m' (il_run ss st)"
    using Cons.IH [OF c2] Cons.prems i1(3) by auto
  have "\<exists>m'. exec_list p m (is1 @ is2) = Ok m' \<and> il_rel m' (il_run (s # ss) st)" if rel: "il_rel m st" for p m st
  proof -
    obtain m1 where m1: "exec_list p m is1 = Ok m1" "il_rel m1 (il_step s st)"
      using i1(2) rel unfolding implements_def by blast
    then show ?thesis using i2(4) [OF m1(2), of p] by (simp add: exec_list_append il_run_def)
  qed
  then show ?case using i1 i2 by (intro exI [of _ "is1 @ is2"]) (simp add: implements_def)
qed

subsection \<open>The compiled program\<close>

lemma compile_ast_fragment:
  assumes "compile_ast ss = Ok code" and "list_all in_fragment ss"
  shows "\<exists>is. code = load_imm TRUE_REG (VBool True) # is @ [halt]
    \<and> list_all (\<lambda>i. \<not> is_control (opcode i)) is
    \<and> (\<forall>p m st. il_rel m st \<longrightarrow> (\<exists>m'. exec_list p m is = Ok m' \<and> il_rel m' (il_run ss st)))"
proof -
  let ?cg = "emit_all codegen_new [load_imm TRUE_REG (VBool True)]"
  obtain cg where c: "compile_stmts ?cg ss = Ok cg"
    and code: "code = foldl (backpatch (labels cg)) (cg_instructions cg @ [halt]) (label_refs cg)"
    using assms(1) by (auto simp: compile_ast_def outcome_simps Let_def emit_all_def)
  have "cg_inv ?cg" by (simp add: cg_inv_def codegen_new_def emit_all_def)
  then obtain "is" where "cg_instructions cg = cg_instructions ?cg @ is" "label_refs cg = label_refs ?cg"
    "list_all (\<lambda>i. \<not> is_control (opcode i)) is"
    "\<forall>p m st. il_rel m st \<longrightarrow> (\<exists>m'. exec_list p m is = Ok m' \<and> il_rel m' (il_run ss st))"
    using compile_stmts_correct [OF c assms(2)] by blast
  then show ?thesis using code by (intro exI [of _ "is"]) (simp add: emit_all_def codegen_new_def)
qed

lemma load_true_rel:
  "il_rel m st \<Longrightarrow> \<exists>m'. exec_list p m [load_imm TRUE_REG (VBool True)] = Ok m' \<and> il_rel m' st"
  by (auto simp: il_rel_def il_exec_simps read_signal_def)

lemma compiled_scan:
  assumes "compile_ast ss = Ok code" and "list_all in_fragment ss"
    and "instructions (ex_program ex) = code" and "ip (ex_vm ex) = 0" and "vm_wf (ex_vm ex)"
    and "\<not> debug_mode (ex_debug ex)"
  shows "\<exists>ex'. run_to_halt p ex = Some (Ok (ex', length code))
    \<and> read_signal (ex_vm ex') = snd (il_run ss (registers (ex_vm ex) ! 14, read_signal (ex_vm ex)))"
proof -
  let ?st = "(registers (ex_vm ex) ! 14, read_signal (ex_vm ex))"
  obtain "is" where code: "code = load_imm TRUE_REG (VBool True) # is @ [halt]"
    and data: "list_all (\<lambda>i. \<not> is_control (opcode i)) is"
    and run: "\<And>m st. il_rel m st \<Longrightarrow> \<exists>m'. exec_list p m is = Ok m' \<and> il_rel m' (il_run ss st)"
    using compile_ast_fragment [OF assms(1,2)] by blast
  have r0: "il_rel (ex_vm ex) ?st" using assms(5) by (simp add: il_rel_def vm_wf_def)
  obtain m1 where m1: "exec_list p (ex_vm ex) [load_imm TRUE_REG (VBool True)] = Ok m1" "il_rel m1 ?st"
    using load_true_rel [OF r0] by blast
  obtain m2 where m2: "exec_list p m1 is = Ok m2" "il_rel m2 (il_run ss ?st)" using run [OF m1(2)] by blast
  let ?is = "load_imm TRUE_REG (VBool True) # is"
  have "exec_list p (ex_vm ex) ?is = Ok m2"
    using exec_list_append [of p "ex_vm ex" "[load_imm TRUE_REG (VBool True)]" "is"] m1(1) m2(1) by simp
  moreover have "list_all (\<lambda>i. \<not> is_control (opcode i)) ?is"
    using data by (simp add: load_imm_def inst_def is_control_def)
  ultimately show ?thesis
    using scan_linear [of ex ?is p m2] linear_data [of ?is] assms(3,4,6) code m2(2)
    by (auto simp: il_rel_def read_signal_def fun_eq_iff)
qed

lemma il_compile_ast: "il_compile src = Ok pr \<Longrightarrow> compile_ast (parse (tokenize src)) = Ok (instructions pr)"
  by (auto simp: il_compile_def outcome_simps hal_program_new_def)


lemma il_step_keeps_defined: "sg nm \<noteq> None \<Longrightarrow> snd (il_step s (cr, sg)) nm \<noteq> None"
  by (cases s) simp_all

lemma il_run_keeps_defined: "snd st nm \<noteq> None \<Longrightarrow> snd (il_run ss st) nm \<noteq> None"
proof (induction ss arbitrary: st)
  case (Cons s ss)
  then have "snd (il_step s st) nm \<noteq> None" using il_step_keeps_defined [of "snd st" nm s "fst st"] by simp
  then show ?case using Cons.IH [of "il_step s st"] by (simp add: il_run_def)
qed (simp add: il_run_def)

text \<open>A conjunction of two inputs, with a comment and lower case mnemonics.\<close>

definition and_source :: string where
  "and_source = ''ld a (* input *)'' @ [CHR 0x0A] @ ''and b'' @ [CHR 0x0A] @ ''ST c'' @ [CHR 0x0A]"

lemma and_source_parse: "parse (tokenize and_source) = [SLoad ''a'', SAnd ''b'', SStore ''c'']"
  by code_simp

lemma and_source_compiles: "\<exists>pr. il_compile and_source = Ok pr"
proof -
  have "is_ok (compile_ast [SLoad ''a'', SAnd ''b'', SStore ''c''])" by code_simp
  then show ?thesis by (auto simp: il_compile_def and_source_parse is_ok_iff)
qed


subsection \<open>Every compiled program\<close>

lemma patch_keeps: "opcode (patch i t) = opcode i" "stored_signal (patch i t) = stored_signal i"
  by (simp_all add: patch_def jump_def jump_if_def call_def stored_signal_def split: opcode.split)

lemma map_update_keeps: "f y = f (xs ! i) \<Longrightarrow> map f (xs[i := y]) = map f xs"
  by (cases "i < length xs") (auto simp: nth_list_update intro: nth_equalityI)

lemma backpatch_keeps:
  "map opcode (foldl (backpatch l) is refs) = map opcode is"
  "map stored_signal (foldl (backpatch l) is refs) = map stored_signal is"
  by (induction refs arbitrary: "is") (simp_all add: backpatch_def Let_def patch_keeps map_update_keeps)

lemma collect_bindings_eq:
  "foldl (\<lambda>seen i. case stored_signal i of Some nm \<Rightarrow> if nm \<in> set seen then seen else seen @ [nm] | None \<Rightarrow> seen) acc is
   = acc' \<Longrightarrow> distinct acc \<Longrightarrow> distinct acc' \<and> set acc' = set acc \<union> {nm. Some nm \<in> stored_signal ` set is}"
  by (induction "is" arbitrary: acc) (force split: option.splits if_splits)+

lemma with_reg_stores:
  assumes "with_reg cg nm code = Ok cg'" and "\<And>r. list_all (\<lambda>i. stored_signal i = None) (code r)"
  shows "\<exists>is. cg_instructions cg' = cg_instructions cg @ is \<and> {nm. Some nm \<in> stored_signal ` set is} = {}"
proof -
  obtain cg1 r where g: "get_var_reg cg nm = Ok (cg1, r)" and c: "cg' = emit_all cg1 (code r)"
    using assms(1) by (auto simp: with_reg_def outcome_simps)
  have "cg_instructions cg1 = cg_instructions cg"
    using g by (auto simp: get_var_reg_def Let_def split: option.splits if_splits)
  then show ?thesis using c assms(2) [of r] by (force simp: emit_all_def list_all_iff)
qed

lemmas no_store_simps = stored_signal_def ld_sig_def ld_reg_def not_reg_def arith_def cmp_def load_imm_def
  jump_def jump_if_def call_def ret_def

definition stores :: "il_statement \<Rightarrow> string set" where
  "stores s = (case s of SStore v \<Rightarrow> {v} | _ \<Rightarrow> {})"

lemma compile_stmt_stores:
  assumes "compile_stmt cg s = Ok cg'"
  shows "\<exists>is. cg_instructions cg' = cg_instructions cg @ is \<and> {nm. Some nm \<in> stored_signal ` set is} = stores s"
proof (cases s)
  case (SCmp op v)
  then obtain cg1 where c: "with_reg cg v (\<lambda>r. [cmp (cmp_opcode op) CR_REG r]) = Ok cg1"
    and m: "cg' = materialize_cr_from_flags cg1"
    using assms by (auto simp: outcome_simps)
  have "stored_signal (cmp (cmp_opcode op) a b) = None" for a b
    by (cases op) (simp_all add: no_store_simps)
  then obtain "is" where "cg_instructions cg1 = cg_instructions cg @ is" "{nm. Some nm \<in> stored_signal ` set is} = {}"
    using with_reg_stores [OF c] by auto
  then show ?thesis using m SCmp
    by (auto simp: materialize_cr_from_flags_def emit_all_def Let_def stores_def no_store_simps)
next
  case (SStore v)
  then show ?thesis using assms by (auto simp: emit_all_def stores_def stored_signal_def)
qed (use assms in \<open>auto dest!: with_reg_stores simp: stores_def no_store_simps add_ref_def emit_all_def
       emit_bool_test_and_jump_def Let_def\<close>)

lemma compile_stmts_stores:
  "compile_stmts cg ss = Ok cg' \<Longrightarrow> \<exists>is. cg_instructions cg' = cg_instructions cg @ is
     \<and> {nm. Some nm \<in> stored_signal ` set is} = (\<Union>s\<in>set ss. stores s)"
proof (induction ss arbitrary: cg)
  case Nil
  then show ?case by simp
next
  case (Cons s ss)
  then obtain cg1 where c1: "compile_stmt cg s = Ok cg1" and c2: "compile_stmts cg1 ss = Ok cg'"
    by (auto simp: outcome_simps)
  obtain is1 where 1: "cg_instructions cg1 = cg_instructions cg @ is1"
    "{nm. Some nm \<in> stored_signal ` set is1} = stores s" using compile_stmt_stores [OF c1] by blast
  obtain is2 where 2: "cg_instructions cg' = cg_instructions cg1 @ is2"
    "{nm. Some nm \<in> stored_signal ` set is2} = (\<Union>s\<in>set ss. stores s)" using Cons.IH [OF c2] by blast
  have "{nm. Some nm \<in> stored_signal ` set (is1 @ is2)} = stores s \<union> (\<Union>s\<in>set ss. stores s)"
    unfolding 1(2) [symmetric] 2(2) [symmetric] by auto
  then show ?case using 1(1) 2(1) by (intro exI [of _ "is1 @ is2"]) simp
qed

lemma il_compile_signals:
  assumes "il_compile src = Ok pr"
  shows "is_well_formed pr" and "\<exists>nms. prog_signals pr = map il_binding nms \<and> distinct nms
    \<and> set nms = {v. SStore v \<in> set (parse (tokenize src))}"
proof -
  let ?ss = "parse (tokenize src)"
  obtain code where c: "compile_ast ?ss = Ok code" and "is": "instructions pr = code"
    and sg: "prog_signals pr = map il_binding (collect_bindings code)"
    using assms by (auto simp: il_compile_def outcome_simps hal_program_new_def)
  obtain cg where cg: "compile_stmts (emit_all codegen_new [load_imm TRUE_REG (VBool True)]) ?ss = Ok cg"
    and code: "code = foldl (backpatch (labels cg)) (cg_instructions cg @ [halt]) (label_refs cg)"
    using c by (auto simp: compile_ast_def outcome_simps Let_def emit_all_def)
  have "opcode halt \<in> set (map opcode code)" by (simp add: code backpatch_keeps)
  then show "is_well_formed pr" by (force simp: is_well_formed_def list_ex_iff "is" halt_def)
  have "{v. SStore v \<in> set ?ss} = (\<Union>s\<in>set ?ss. stores s)"
    by (auto simp: stores_def split: il_statement.splits)
  also have "\<dots> = {nm. Some nm \<in> stored_signal ` set (cg_instructions cg @ [halt])}"
  proof -
    have "stored_signal (load_imm r v) = None" "stored_signal halt = None" for r v
      by (simp_all add: load_imm_def stored_signal_def halt_def)
    then show ?thesis using compile_stmts_stores [OF cg]
      by (elim exE conjE) (simp add: emit_all_def codegen_new_def)
  qed
  also have "\<dots> = {nm. Some nm \<in> stored_signal ` set code}"
    using arg_cong [OF backpatch_keeps(2), of set] by (simp add: code del: set_append)
  finally have "distinct (collect_bindings code) \<and> set (collect_bindings code) = {v. SStore v \<in> set ?ss}"
    using collect_bindings_eq [of "[]" code] by (simp add: collect_bindings_def)
  then show "\<exists>nms. prog_signals pr = map il_binding nms \<and> distinct nms \<and> set nms = {v. SStore v \<in> set ?ss}"
    using sg by blast
qed

text \<open>
  Every source that compiles gives a well-formed program, that is one with a halt instruction, and
  its signal table has exactly the variables the source stores to, each once, all as outputs.
\<close>

theorem il_compile_bindings:
  assumes "il_compile src = Ok pr"
  shows "is_well_formed pr \<and> distinct (map hal_signal_name (prog_signals pr))
    \<and> set (map hal_signal_name (prog_signals pr)) = {v. SStore v \<in> set (parse (tokenize src))}
    \<and> list_all (\<lambda>b. sb_direction b = Write \<and> program_var b = hal_signal_name b) (prog_signals pr)"
proof -
  obtain nms where nms: "prog_signals pr = map il_binding nms" "distinct nms"
    "set nms = {v. SStore v \<in> set (parse (tokenize src))}" using il_compile_signals(2) [OF assms] by blast
  moreover have "map hal_signal_name (map il_binding nms) = nms" by (simp add: il_binding_def comp_def)
  ultimately show ?thesis using il_compile_signals(1) [OF assms]
    by (simp only: list_all_iff list.set_map) (simp add: il_binding_def)
qed

lemma distinct_singleton_set:
  assumes "distinct xs" and "set xs = {c}"
  shows "xs = [c]"
proof (cases xs)
  case (Cons y ys)
  then have "set ys \<subseteq> {c}" "y = c" "y \<notin> set ys" using assms by auto
  then have "set ys = {}" by (simp add: subset_singleton_iff) auto
  then show ?thesis using Cons \<open>y = c\<close> by simp
qed (use assms in simp)

theorem il_compile_bindings_witness:
  "\<exists>pr. il_compile and_source = Ok pr \<and> is_well_formed pr \<and> map hal_signal_name (prog_signals pr) = [''c'']"
proof -
  obtain pr where pr: "il_compile and_source = Ok pr" using and_source_compiles by blast
  let ?names = "map hal_signal_name (prog_signals pr)"
  have names: "is_well_formed pr" "distinct ?names" "set ?names = {''c''}"
    using il_compile_bindings [OF pr] by (simp_all add: and_source_parse)
  show ?thesis by (intro exI [of _ pr] conjI pr names(1) distinct_singleton_set [OF names(2,3)])
qed

subsection \<open>Statements that go wrong\<close>

declare run_loop.simps [code]

text \<open>One scan of a statement list from a fresh machine with the given signals; the value of one signal.\<close>

definition il_scan :: "il_statement list \<Rightarrow> (string \<times> hal_value) list \<Rightarrow> string \<Rightarrow> hal_value option outcome option" where
  "il_scan ss sigs nm = (case compile_ast ss of
     Panic e \<Rightarrow> Some (Panic e)
   | Ok code \<Rightarrow> (let ex = executor_new (hal_program_new ''il'' code) in
        map_option (mapo (\<lambda>(ex', _). read_signal (ex_vm ex') nm))
          (run_to_halt DevBuild (ex\<lparr>ex_vm := foldl (\<lambda>m (n, v). write_signal m n v) (ex_vm ex) sigs\<rparr>))))"

text \<open>
  A comparison whose result is false jumps one instruction too far, over the statement that follows:
  after LD a, EQ b, ST c with different operands the signal c is not written at all, and a comparison that
  ends the program jumps behind the final halt, where the executor panics.
\<close>

theorem false_comparison_skips:
  "il_scan [SLoad ''a'', SCmp CmpEq ''b'', SStore ''c''] [(''a'', VS32 1), (''b'', VS32 2)] ''c'' = Some (Ok None)
   \<and> il_scan [SLoad ''a'', SCmp CmpEq ''b''] [(''a'', VS32 1), (''b'', VS32 2)] ''c'' = Some (Panic AssertionFailed)"
  by code_simp

text \<open>
  OR reads the register of its variable without loading the signal into it, so the operand is whatever the
  register holds; S sets the register and never the signal.
\<close>

lemma operands_not_loaded:
  "il_scan [SLoad ''a'', SOr ''b'', SStore ''c''] [(''a'', VBool False), (''b'', VBool True)] ''c'' = Some (Ok (Some (VS32 0)))"
  "il_scan [SSet ''b''] [(''b'', VBool False)] ''b'' = Some (Ok (Some (VBool False)))"
  by code_simp+

end
