(* ===== verification/Ld_Semantics.thy ===== *)
theory Ld_Semantics
  imports Prelude
begin

text \<open>
  Power flow in ladder diagrams, after \<^verbatim>\<open>audesys-ld-semantics\<close>: the contact network with its
  topological order, power flow through it, the rungs of a scan cycle, latching coils and EN/ENO
  chains. The loop that computes the topological order need not end on a cyclic network, so it is
  a partial function.
\<close>

subsection \<open>Contacts, coils and networks\<close>

datatype contact = No string | Nc string | PosEdge string | NegEdge string

fun var_name :: "contact \<Rightarrow> string" where
  "var_name (No v) = v"
| "var_name (Nc v) = v"
| "var_name (PosEdge v) = v"
| "var_name (NegEdge v) = v"

datatype coil_kind = CoilOut | CoilSet | CoilReset | CoilNegated

record coil =
  coil_var :: string
  coil_kind :: coil_kind

record contact_edge =
  ce_source :: nat
  ce_target :: nat
  ce_contact :: contact

record contact_network =
  cn_nodes :: "nat list"
  cn_edges :: "contact_edge list"
  cn_left_rail :: "nat option"
  cn_output :: "nat option"
  cn_outgoing :: "nat list list"
  cn_topo :: "nat list"
  cn_dirty :: bool

definition network_new :: contact_network where
  "network_new = \<lparr>cn_nodes = [], cn_edges = [], cn_left_rail = None, cn_output = None,
     cn_outgoing = [], cn_topo = [], cn_dirty = False\<rparr>"

definition add_node :: "contact_network \<Rightarrow> contact_network \<times> nat" where
  "add_node net =
     (let i = length (cn_nodes net) in
      (net\<lparr>cn_nodes := cn_nodes net @ [i], cn_outgoing := cn_outgoing net @ [[]], cn_dirty := True\<rparr>, i))"

definition add_edge :: "contact_network \<Rightarrow> nat \<Rightarrow> nat \<Rightarrow> contact \<Rightarrow> contact_network outcome" where
  "add_edge net s t c =
     (let edges = cn_edges net @ [\<lparr>ce_source = s, ce_target = t, ce_contact = c\<rparr>] in
      bindo (vec_at (cn_outgoing net) s) (\<lambda>out.
      Ok (net\<lparr>cn_edges := edges, cn_outgoing := (cn_outgoing net)[s := out @ [length edges - 1]],
              cn_dirty := True\<rparr>)))"

definition set_left_rail :: "contact_network \<Rightarrow> nat \<Rightarrow> contact_network" where
  "set_left_rail net n = net\<lparr>cn_left_rail := Some n\<rparr>"

definition set_output_node :: "contact_network \<Rightarrow> nat \<Rightarrow> contact_network" where
  "set_output_node net n = net\<lparr>cn_output := Some n\<rparr>"

definition expect :: "'a option \<Rightarrow> 'a outcome" where
  "expect x = (case x of Some a \<Rightarrow> Ok a | None \<Rightarrow> Panic ExplicitPanic)"

definition left_rail_node :: "contact_network \<Rightarrow> nat outcome" where
  "left_rail_node net = expect (cn_left_rail net)"

definition output_node_id :: "contact_network \<Rightarrow> nat outcome" where
  "output_node_id net = expect (cn_output net)"

text \<open>The in-degrees, then the work list: a stack whose top is the end of the vector.\<close>

primrec in_degrees :: "contact_edge list \<Rightarrow> nat list \<Rightarrow> nat list outcome" where
  "in_degrees [] d = Ok d"
| "in_degrees (e # es) d = bindo (vec_at d (ce_target e)) (\<lambda>k. in_degrees es (d[ce_target e := k + 1]))"

primrec relax :: "contact_edge list \<Rightarrow> nat list \<Rightarrow> nat list \<times> nat list \<Rightarrow> (nat list \<times> nat list) outcome" where
  "relax es [] s = Ok s"
| "relax es (i # is) s =
     bindo (vec_at es i) (\<lambda>e.
     bindo (vec_at (fst s) (ce_target e)) (\<lambda>k.
     relax es is ((fst s)[ce_target e := k - 1],
       if k - 1 = 0 then snd s @ [ce_target e] else snd s)))"

partial_function (option) topo_loop ::
    "contact_edge list \<Rightarrow> nat list list \<Rightarrow> nat list \<Rightarrow> nat list \<Rightarrow> nat list \<Rightarrow> nat list outcome option" where
  "topo_loop es out d q topo =
     (if q = [] then Some (Ok topo)
      else (case bindo (vec_at out (last q)) (\<lambda>is. relax es is (d, butlast q)) of
              Panic e \<Rightarrow> Some (Panic e)
            | Ok s \<Rightarrow> topo_loop es out (fst s) (snd s) (topo @ [last q])))"

definition rebuild_topo :: "contact_network \<Rightarrow> contact_network outcome option" where
  "rebuild_topo net =
     (let n = length (cn_nodes net) in
      case in_degrees (cn_edges net) (replicate n 0) of
        Panic e \<Rightarrow> Some (Panic e)
      | Ok d \<Rightarrow>
          (let q = (case cn_left_rail net of Some lr \<Rightarrow> [lr] | None \<Rightarrow> filter (\<lambda>i. d ! i = 0) [0..<n]) in
           map_option (mapo (\<lambda>topo. net\<lparr>cn_topo := topo, cn_dirty := False\<rparr>))
             (topo_loop (cn_edges net) (cn_outgoing net) d q [])))"

definition topological_order :: "contact_network \<Rightarrow> contact_network outcome option" where
  "topological_order net = (if cn_dirty net then rebuild_topo net else Some (Ok net))"

subsection \<open>Snapshots and edge detection\<close>

type_synonym input_snapshot = "(string, bool) hmap"
type_synonym edge_state = "(string, bool) hmap"
type_synonym var_store = "(string, bool) hmap"

definition get_bool :: "(string, bool) hmap \<Rightarrow> string \<Rightarrow> bool" where
  "get_bool m v = (case hm_get m v of Some b \<Rightarrow> b | None \<Rightarrow> False)"

definition is_rising :: "edge_state \<Rightarrow> string \<Rightarrow> input_snapshot \<Rightarrow> edge_state \<times> bool" where
  "is_rising es v snap =
     (hm_insert v (get_bool snap v) es, \<not> get_bool es v \<and> get_bool snap v)"

definition is_falling :: "edge_state \<Rightarrow> string \<Rightarrow> input_snapshot \<Rightarrow> edge_state \<times> bool" where
  "is_falling es v snap =
     (hm_insert v (get_bool snap v) es, get_bool es v \<and> \<not> get_bool snap v)"

definition advance_cycle :: "edge_state \<Rightarrow> input_snapshot \<Rightarrow> edge_state" where
  "advance_cycle es snap =
     foldl (\<lambda>es (v, b). if hm_get es v = None then hm_insert v b es else es) es snap"

subsection \<open>Power flow\<close>

fun contact_power :: "input_snapshot \<Rightarrow> edge_state \<Rightarrow> contact \<Rightarrow> edge_state \<times> bool" where
  "contact_power snap es (No v) = (es, get_bool snap v)"
| "contact_power snap es (Nc v) = (es, \<not> get_bool snap v)"
| "contact_power snap es (PosEdge v) = is_rising es v snap"
| "contact_power snap es (NegEdge v) = is_falling es v snap"

type_synonym node_power = "(nat, bool) hmap"

definition node_get :: "node_power \<Rightarrow> nat \<Rightarrow> bool" where
  "node_get m n = (case hm_get m n of Some b \<Rightarrow> b | None \<Rightarrow> False)"

definition flow_edge :: "input_snapshot \<Rightarrow> contact_edge \<Rightarrow> edge_state \<times> node_power \<Rightarrow> edge_state \<times> node_power" where
  "flow_edge snap e s =
     (let r = contact_power snap (fst s) (ce_contact e);
          existing = node_get (snd s) (ce_target e)
      in (fst r, hm_insert (ce_target e) (existing \<or> snd r) (snd s)))"

primrec flow_edges ::
    "contact_edge list \<Rightarrow> input_snapshot \<Rightarrow> nat list \<Rightarrow> edge_state \<times> node_power \<Rightarrow> (edge_state \<times> node_power) outcome" where
  "flow_edges edges snap [] s = Ok s"
| "flow_edges edges snap (i # is) s =
     bindo (vec_at edges i) (\<lambda>e. flow_edges edges snap is (flow_edge snap e s))"

primrec flow_nodes ::
    "contact_network \<Rightarrow> input_snapshot \<Rightarrow> nat list \<Rightarrow> edge_state \<times> node_power \<Rightarrow> (edge_state \<times> node_power) outcome" where
  "flow_nodes net snap [] s = Ok s"
| "flow_nodes net snap (v # vs) s =
     (if node_get (snd s) v
      then bindo (vec_at (cn_outgoing net) v) (\<lambda>is.
           bindo (flow_edges (cn_edges net) snap is s) (\<lambda>s1. flow_nodes net snap vs s1))
      else flow_nodes net snap vs s)"

definition evaluate_power_flow ::
    "contact_network \<Rightarrow> input_snapshot \<Rightarrow> edge_state \<Rightarrow> (contact_network \<times> edge_state \<times> bool) outcome option" where
  "evaluate_power_flow net snap es =
     (case bindo (left_rail_node net) (\<lambda>lr. mapo (Pair lr) (output_node_id net)) of
        Panic e \<Rightarrow> Some (Panic e)
      | Ok (lr, out) \<Rightarrow>
          map_option (\<lambda>r. bindo r (\<lambda>net1.
              mapo (\<lambda>s. (net1, fst s, node_get (snd s) out))
                (flow_nodes net1 snap (cn_topo net1) (es, hm_insert lr True []))))
            (topological_order net))"

subsection \<open>Serial and parallel networks\<close>

primrec add_chain :: "contact list \<Rightarrow> contact_network \<times> nat \<Rightarrow> (contact_network \<times> nat) outcome" where
  "add_chain [] s = Ok s"
| "add_chain (c # cs) s =
     (case add_node (fst s) of (net1, next) \<Rightarrow>
        bindo (add_edge net1 (snd s) next c) (\<lambda>net2. add_chain cs (net2, next)))"

definition build_serial_network :: "contact list \<Rightarrow> contact_network outcome" where
  "build_serial_network cs =
     (case add_node network_new of (net, left) \<Rightarrow>
        mapo (\<lambda>s. set_output_node (fst s) (snd s)) (add_chain cs (set_left_rail net left, left)))"

fun add_branch :: "nat \<Rightarrow> contact list \<Rightarrow> contact_network \<times> nat \<Rightarrow> contact_network outcome" where
  "add_branch output [] s = Ok (fst s)"
| "add_branch output [c] s = add_edge (fst s) (snd s) output c"
| "add_branch output (c # cs) s =
     (case add_node (fst s) of (net1, next) \<Rightarrow>
        bindo (add_edge net1 (snd s) next c) (\<lambda>net2. add_branch output cs (net2, next)))"

primrec add_branches :: "nat \<Rightarrow> nat \<Rightarrow> contact list list \<Rightarrow> contact_network \<Rightarrow> contact_network outcome" where
  "add_branches left output [] net = Ok net"
| "add_branches left output (b # bs) net =
     bindo (add_branch output b (net, left)) (\<lambda>net1. add_branches left output bs net1)"

definition build_parallel_network :: "contact list list \<Rightarrow> contact_network outcome" where
  "build_parallel_network branches =
     (case add_node network_new of (net, left) \<Rightarrow>
      case add_node (set_left_rail net left) of (net1, output) \<Rightarrow>
        add_branches left output branches (set_output_node net1 output))"

subsection \<open>Rungs\<close>

datatype contact_type = CtNo | CtNc

record contact_state =
  contact_id :: string
  contact_type :: contact_type
  is_closed :: bool

datatype coil_type = CNormal | CNegated | CSet | CReset

record coil_state =
  coil_id :: string
  coil_type :: coil_type
  energized :: bool

record rung_state =
  rung_id :: string
  contact_states :: "contact_state list"
  coil_states :: "coil_state list"

record power_flow_result =
  rung_states :: "rung_state list"
  powered_coils :: "string list"

fun coil_type_of :: "coil_kind \<Rightarrow> coil_type" where
  "coil_type_of CoilOut = CNormal"
| "coil_type_of CoilNegated = CNegated"
| "coil_type_of CoilSet = CSet"
| "coil_type_of CoilReset = CReset"

definition edge_is :: "string \<Rightarrow> input_snapshot \<Rightarrow> edge_state \<Rightarrow> bool" where
  "edge_is v snap es = get_bool snap v"

fun rung_contact_state :: "input_snapshot \<Rightarrow> edge_state \<Rightarrow> contact \<Rightarrow> contact_state" where
  "rung_contact_state snap es (No v) = \<lparr>contact_id = v, contact_type = CtNo, is_closed = get_bool snap v\<rparr>"
| "rung_contact_state snap es (Nc v) = \<lparr>contact_id = v, contact_type = CtNc, is_closed = (\<not> get_bool snap v)\<rparr>"
| "rung_contact_state snap es (PosEdge v) = \<lparr>contact_id = v, contact_type = CtNo, is_closed = edge_is v snap es\<rparr>"
| "rung_contact_state snap es (NegEdge v) = \<lparr>contact_id = v, contact_type = CtNc, is_closed = edge_is v snap es\<rparr>"

definition rung_coil_state :: "bool \<Rightarrow> var_store \<Rightarrow> coil \<Rightarrow> coil_state" where
  "rung_coil_state pw vars c =
     \<lparr>coil_id = coil_var c, coil_type = coil_type_of (coil_kind c),
      energized = (case coil_kind c of
          CoilOut \<Rightarrow> pw
        | CoilNegated \<Rightarrow> \<not> pw
        | CoilSet \<Rightarrow> pw \<or> (get_bool vars (coil_var c) \<and> \<not> pw)
        | CoilReset \<Rightarrow> \<not> pw \<and> get_bool vars (coil_var c))\<rparr>"

definition evaluate_rung ::
    "string \<Rightarrow> contact list \<Rightarrow> coil list \<Rightarrow> input_snapshot \<Rightarrow> edge_state \<Rightarrow> var_store
     \<Rightarrow> (edge_state \<times> rung_state) outcome option" where
  "evaluate_rung rid contacts coils snap es vars =
     (case build_serial_network contacts of
        Panic e \<Rightarrow> Some (Panic e)
      | Ok net \<Rightarrow>
          map_option (mapo (\<lambda>(_, es1, pw).
            (es1, \<lparr>rung_id = rid, contact_states = map (rung_contact_state snap es1) contacts,
                   coil_states = map (rung_coil_state pw vars) coils\<rparr>)))
            (evaluate_power_flow net snap es))"

subsection \<open>Variable store\<close>

definition set_bool :: "var_store \<Rightarrow> string \<Rightarrow> bool \<Rightarrow> var_store" where
  "set_bool vars v b = hm_insert v b vars"

definition store_coils :: "var_store \<Rightarrow> coil_state list \<Rightarrow> var_store" where
  "store_coils vars cs = foldl (\<lambda>vars c. set_bool vars (coil_id c) (energized c)) vars cs"

definition store_apply :: "var_store \<Rightarrow> power_flow_result \<Rightarrow> var_store" where
  "store_apply vars r = foldl (\<lambda>vars rung. store_coils vars (coil_states rung)) vars (rung_states r)"

definition store_snapshot :: "var_store \<Rightarrow> input_snapshot" where
  "store_snapshot vars = vars"

subsection \<open>EN and ENO\<close>

definition evaluate_eno :: "bool \<Rightarrow> bool \<Rightarrow> bool" where
  "evaluate_eno en err = (en \<and> \<not> err)"

record fn_block =
  fb_name :: string
  fb_error :: bool
  fb_outputs :: "(string \<times> bool) list"

record fn_block_result =
  fr_name :: string
  fr_en :: bool
  fr_eno :: bool
  fr_outputs :: "(string \<times> bool) list"

primrec evaluate_eno_chain :: "bool \<Rightarrow> fn_block list \<Rightarrow> fn_block_result list" where
  "evaluate_eno_chain en [] = []"
| "evaluate_eno_chain en (b # bs) =
     (let eno = (if en \<and> \<not> fb_error b then True else False) in
      \<lparr>fr_name = fb_name b, fr_en = en, fr_eno = eno,
       fr_outputs = (if en \<and> \<not> fb_error b then fb_outputs b else [])\<rparr>
      # evaluate_eno_chain eno bs)"

subsection \<open>Scan cycle\<close>

record rung_def =
  rd_id :: string
  rd_network :: contact_network
  rd_coils :: "coil list"

fun cycle_contact_state :: "input_snapshot \<Rightarrow> contact \<Rightarrow> contact_state" where
  "cycle_contact_state snap (No v) = \<lparr>contact_id = v, contact_type = CtNo, is_closed = get_bool snap v\<rparr>"
| "cycle_contact_state snap (Nc v) = \<lparr>contact_id = v, contact_type = CtNc, is_closed = (\<not> get_bool snap v)\<rparr>"
| "cycle_contact_state snap (PosEdge v) = \<lparr>contact_id = v, contact_type = CtNo, is_closed = get_bool snap v\<rparr>"
| "cycle_contact_state snap (NegEdge v) = \<lparr>contact_id = v, contact_type = CtNc, is_closed = (\<not> get_bool snap v)\<rparr>"

definition cycle_coil_state :: "bool \<Rightarrow> var_store \<Rightarrow> coil \<Rightarrow> coil_state" where
  "cycle_coil_state pw vars c =
     \<lparr>coil_id = coil_var c, coil_type = coil_type_of (coil_kind c),
      energized = (case coil_kind c of
          CoilOut \<Rightarrow> pw
        | CoilNegated \<Rightarrow> \<not> pw
        | CoilSet \<Rightarrow> if pw then True else get_bool vars (coil_var c)
        | CoilReset \<Rightarrow> if pw then False else get_bool vars (coil_var c))\<rparr>"

text \<open>
  The rungs in order. Besides the result the call updates the variable store and the caches of the
  networks; the edge state starts empty and is dropped at the end of the call.
\<close>

record cycle_state =
  cy_rungs :: "rung_def list"
  cy_vars :: var_store
  cy_edges :: edge_state
  cy_states :: "rung_state list"
  cy_powered :: "string list"

definition cycle_rung :: "rung_def \<Rightarrow> cycle_state \<Rightarrow> cycle_state outcome option" where
  "cycle_rung rung s =
     (let snap = store_snapshot (cy_vars s) in
      map_option (mapo (\<lambda>(net, es, pw).
        let coils = map (cycle_coil_state pw (cy_vars s)) (rd_coils rung) in
        s\<lparr>cy_rungs := cy_rungs s @ [rung\<lparr>rd_network := net\<rparr>],
          cy_vars := store_coils (cy_vars s) coils,
          cy_edges := es,
          cy_states := cy_states s @ [\<lparr>rung_id = rd_id rung,
             contact_states = map (\<lambda>e. cycle_contact_state snap (ce_contact e)) (cn_edges net),
             coil_states = coils\<rparr>],
          cy_powered := cy_powered s @ map coil_id (filter energized coils)\<rparr>))
      (evaluate_power_flow (rd_network rung) snap (cy_edges s)))"

primrec cycle_rungs :: "rung_def list \<Rightarrow> cycle_state \<Rightarrow> cycle_state outcome option" where
  "cycle_rungs [] s = Some (Ok s)"
| "cycle_rungs (r # rs) s =
     (case cycle_rung r s of
        None \<Rightarrow> None
      | Some (Panic e) \<Rightarrow> Some (Panic e)
      | Some (Ok s1) \<Rightarrow> cycle_rungs rs s1)"

definition evaluate_cycle ::
    "rung_def list \<Rightarrow> var_store \<Rightarrow> (rung_def list \<times> var_store \<times> power_flow_result) outcome option" where
  "evaluate_cycle rungs vars =
     map_option (mapo (\<lambda>s. (cy_rungs s, cy_vars s,
         \<lparr>rung_states = cy_states s, powered_coils = cy_powered s\<rparr>)))
       (cycle_rungs rungs \<lparr>cy_rungs = [], cy_vars = vars, cy_edges = [], cy_states = [], cy_powered = []\<rparr>)"

end
