(* ===== verification/Ld_Power.thy ===== *)
theory Ld_Power
  imports Ld_Semantics
begin

text \<open>
  Correctness of power flow: on an acyclic contact network the topological order is computed, and
  a node is powered exactly when a path of closed contacts leads to it from the left rail.
\<close>

subsection \<open>Well-formed networks\<close>

definition network_wf :: "contact_network \<Rightarrow> bool" where
  "network_wf net \<longleftrightarrow> length (cn_outgoing net) = length (cn_nodes net)
     \<and> (\<forall>e \<in> set (cn_edges net). ce_source e < length (cn_nodes net) \<and> ce_target e < length (cn_nodes net))
     \<and> (\<forall>v < length (cn_nodes net). cn_outgoing net ! v =
          filter (\<lambda>i. ce_source (cn_edges net ! i) = v) [0..<length (cn_edges net)])"

definition edge_rel :: "contact_network \<Rightarrow> (nat \<times> nat) set" where
  "edge_rel net = (\<lambda>e. (ce_source e, ce_target e)) ` set (cn_edges net)"

lemma finite_edge_rel [simp]: "finite (edge_rel net)"
  by (simp add: edge_rel_def)

lemma network_wf_new [simp]: "network_wf network_new"
  by (simp add: network_wf_def network_new_def)

lemma network_wf_add_node: "network_wf net \<Longrightarrow> network_wf (fst (add_node net))"
proof -
  assume wf: "network_wf net"
  then have "filter (\<lambda>i. ce_source (cn_edges net ! i) = length (cn_nodes net)) [0..<length (cn_edges net)] = []"
    by (fastforce simp: network_wf_def filter_empty_conv dest: nth_mem)
  then show ?thesis using wf
    by (auto simp: network_wf_def add_node_def Let_def nth_append less_Suc_eq intro: less_SucI)
qed

lemma network_wf_add_edge:
  assumes "network_wf net" and "s < length (cn_nodes net)" and "t < length (cn_nodes net)"
  shows "\<exists>net'. add_edge net s t c = Ok net' \<and> network_wf net'
    \<and> cn_edges net' = cn_edges net @ [\<lparr>ce_source = s, ce_target = t, ce_contact = c\<rparr>]
    \<and> cn_nodes net' = cn_nodes net \<and> cn_left_rail net' = cn_left_rail net
    \<and> cn_output net' = cn_output net \<and> cn_dirty net'"
proof -
  have "filter (\<lambda>i. ce_source ((cn_edges net @ [e]) ! i) = v) [0..<length (cn_edges net)]
      = filter (\<lambda>i. ce_source (cn_edges net ! i) = v) [0..<length (cn_edges net)]" for e v
    by (rule filter_cong) (simp_all add: nth_append)
  then show ?thesis using assms
    by (auto simp: add_edge_def Let_def network_wf_def nth_list_update)
qed

lemma map_nth_filter: "map ((!) xs) (filter (\<lambda>i. P (xs ! i)) [0..<length xs]) = filter P xs"
proof -
  have "filter P (map ((!) xs) [0..<length xs]) = map ((!) xs) (filter (P \<circ> (!) xs) [0..<length xs])"
    by (rule filter_map)
  then show ?thesis by (simp add: map_nth comp_def)
qed

subsection \<open>In-degrees\<close>

definition open_in :: "contact_edge list \<Rightarrow> nat set \<Rightarrow> nat \<Rightarrow> nat" where
  "open_in es P t = length (filter (\<lambda>e. ce_target e = t \<and> ce_source e \<notin> P) es)"

lemma in_degrees_ok:
  assumes "\<forall>e \<in> set es. ce_target e < length d"
  shows "\<exists>d'. in_degrees es d = Ok d' \<and> length d' = length d
    \<and> (\<forall>t < length d. d' ! t = d ! t + open_in es {} t)"
  using assms
proof (induction es arbitrary: d)
  case Nil
  then show ?case by (simp add: open_in_def)
next
  case (Cons e es)
  let ?d = "d[ce_target e := Suc (d ! ce_target e)]"
  have "\<exists>d'. in_degrees es ?d = Ok d' \<and> length d' = length ?d
      \<and> (\<forall>t < length ?d. d' ! t = ?d ! t + open_in es {} t)"
    using Cons.prems by (intro Cons.IH) simp
  then show ?case using Cons.prems by (auto simp: open_in_def nth_list_update)
qed

definition targets :: "contact_edge list \<Rightarrow> nat list \<Rightarrow> nat list" where
  "targets es is = map (\<lambda>i. ce_target (es ! i)) is"

lemma relax_ok:
  assumes "\<forall>i \<in> set is. i < length es" and "set (targets es is) \<subseteq> {..<length d}"
    and "\<forall>t < length d. count_list (targets es is) t \<le> d ! t"
  shows "\<exists>d' ts. relax es is (d, q) = Ok (d', q @ ts) \<and> length d' = length d
    \<and> (\<forall>t < length d. d' ! t = d ! t - count_list (targets es is) t)
    \<and> distinct ts \<and> set ts = {t \<in> set (targets es is). d ! t = count_list (targets es is) t}"
  using assms
proof (induction "is" arbitrary: d q)
  case Nil
  then show ?case by (simp add: targets_def)
next
  case (Cons i "is")
  let ?t = "ce_target (es ! i)"
  let ?d = "d[?t := d ! ?t - 1]"
  let ?q = "if d ! ?t - 1 = 0 then q @ [?t] else q"
  have tg: "targets es (i # is) = ?t # targets es is" by (simp add: targets_def)
  have t: "?t < length d" "i < length es" using Cons.prems by (auto simp: tg)
  have le: "Suc (count_list (targets es is) ?t) \<le> d ! ?t" using Cons.prems(3) t by (auto simp: tg)
  have "\<exists>d' ts. relax es is (?d, ?q) = Ok (d', ?q @ ts) \<and> length d' = length ?d
    \<and> (\<forall>t < length ?d. d' ! t = ?d ! t - count_list (targets es is) t)
    \<and> distinct ts \<and> set ts = {t \<in> set (targets es is). ?d ! t = count_list (targets es is) t}"
    using Cons.prems le by (intro Cons.IH) (auto simp: tg nth_list_update)
  then obtain d' ts where r: "relax es is (?d, ?q) = Ok (d', ?q @ ts)" "length d' = length d"
    "\<forall>t < length d. d' ! t = ?d ! t - count_list (targets es is) t" "distinct ts"
    "set ts = {t \<in> set (targets es is). ?d ! t = count_list (targets es is) t}" by auto
  have z: "d ! ?t - 1 = 0 \<Longrightarrow> count_list (targets es is) ?t = 0 \<and> ?t \<notin> set (targets es is) \<and> d ! ?t = 1"
  proof -
    assume "d ! ?t - 1 = 0"
    then have "count_list (targets es is) ?t = 0" "d ! ?t = 1" using le by simp_all
    then show ?thesis using count_list_0_iff [of "targets es is" ?t] by blast
  qed
  let ?ts = "(if d ! ?t - 1 = 0 then [?t] else []) @ ts"
  have "relax es (i # is) (d, q) = Ok (d', q @ ?ts)"
    using r(1) t by (cases "d ! ?t - 1 = 0") simp_all
  moreover have "\<forall>u < length d. d' ! u = d ! u - count_list (targets es (i # is)) u"
    using r(3) t by (auto simp: tg nth_list_update)
  moreover have "distinct ?ts" using r(4,5) z by auto
  moreover have "set ?ts = {u \<in> set (targets es (i # is)). d ! u = count_list (targets es (i # is)) u}"
  proof (cases "d ! ?t - 1 = 0")
    case True
    then show ?thesis using r(5) z t by (auto simp: tg nth_list_update)
  next
    case False
    have "u \<in> set (targets es is) \<and> ?d ! u = count_list (targets es is) u \<longleftrightarrow>
        u \<in> set (targets es (i # is)) \<and> d ! u = count_list (targets es (i # is)) u" for u
    proof (cases "u = ?t")
      case True
      then show ?thesis using le False t count_list_0_iff [of "targets es is" ?t]
        by (cases "?t \<in> set (targets es is)") (auto simp: tg)
    qed (simp add: tg)
    then show ?thesis using r(5) False by auto
  qed
  ultimately show ?case using r(2) by blast
qed

lemma outgoing_targets:
  assumes "network_wf net" and "v < length (cn_nodes net)"
  shows "\<forall>i \<in> set (cn_outgoing net ! v). i < length (cn_edges net)"
    and "targets (cn_edges net) (cn_outgoing net ! v) = map ce_target (filter (\<lambda>e. ce_source e = v) (cn_edges net))"
proof -
  have o: "cn_outgoing net ! v = filter (\<lambda>i. ce_source (cn_edges net ! i) = v) [0..<length (cn_edges net)]"
    using assms by (simp add: network_wf_def)
  show "\<forall>i \<in> set (cn_outgoing net ! v). i < length (cn_edges net)" by (simp add: o)
  have "targets (cn_edges net) (cn_outgoing net ! v)
      = map ce_target (map ((!) (cn_edges net)) (cn_outgoing net ! v))" by (simp add: targets_def)
  then show "targets (cn_edges net) (cn_outgoing net ! v) = map ce_target (filter (\<lambda>e. ce_source e = v) (cn_edges net))"
    by (simp add: o map_nth_filter [of "cn_edges net" "\<lambda>e. ce_source e = v"] del: map_map)
qed

lemma count_targets:
  "v \<notin> P \<Longrightarrow> open_in es P t = open_in es (insert v P) t
     + count_list (map ce_target (filter (\<lambda>e. ce_source e = v) es)) t"
  by (induction es) (auto simp: open_in_def)

subsection \<open>The topological order\<close>

text \<open>
  The invariant of the work list on an acyclic network with left rail \<open>lr\<close>. The stored in-degree of
  a node is the number of its incoming edges that have not been followed; what is on the list or in
  the order has none, the left rail apart, and is reachable from it.
\<close>

definition topo_inv :: "contact_network \<Rightarrow> nat \<Rightarrow> nat list \<Rightarrow> nat list \<Rightarrow> nat list \<Rightarrow> bool" where
  "topo_inv net lr d q topo \<longleftrightarrow>
     length d = length (cn_nodes net)
     \<and> (\<forall>t < length d. d ! t = open_in (cn_edges net) (set topo) t)
     \<and> distinct (topo @ q) \<and> set (topo @ q) \<subseteq> {..<length (cn_nodes net)}
     \<and> lr \<in> set (topo @ q)
     \<and> (\<forall>v \<in> set (topo @ q). (lr, v) \<in> (edge_rel net)\<^sup>*)
     \<and> (\<forall>v \<in> set (topo @ q). v \<noteq> lr \<longrightarrow> d ! v = 0)
     \<and> (\<forall>u \<in> set topo. \<forall>v. (u, v) \<in> edge_rel net \<and> d ! v = 0 \<longrightarrow> v \<in> set (topo @ q))
     \<and> (\<forall>xs v ys u. topo = xs @ v # ys \<and> v \<noteq> lr \<and> (u, v) \<in> edge_rel net \<longrightarrow> u \<in> set xs)"

lemma topo_invD:
  assumes "topo_inv net lr d q topo"
  shows "length d = length (cn_nodes net)"
    and "\<And>t. t < length d \<Longrightarrow> d ! t = open_in (cn_edges net) (set topo) t"
    and "distinct (topo @ q)" and "set (topo @ q) \<subseteq> {..<length (cn_nodes net)}"
    and "lr \<in> set (topo @ q)"
    and "\<And>v. v \<in> set (topo @ q) \<Longrightarrow> (lr, v) \<in> (edge_rel net)\<^sup>*"
    and "\<And>v. v \<in> set (topo @ q) \<Longrightarrow> v \<noteq> lr \<Longrightarrow> d ! v = 0"
    and "\<And>u v. u \<in> set topo \<Longrightarrow> (u, v) \<in> edge_rel net \<Longrightarrow> d ! v = 0 \<Longrightarrow> v \<in> set (topo @ q)"
    and "\<And>xs v ys u. topo = xs @ v # ys \<Longrightarrow> v \<noteq> lr \<Longrightarrow> (u, v) \<in> edge_rel net \<Longrightarrow> u \<in> set xs"
  using assms unfolding topo_inv_def by blast+

lemma open_in_0: "open_in es P t = 0 \<longleftrightarrow> (\<forall>e \<in> set es. ce_target e = t \<longrightarrow> ce_source e \<in> P)"
  by (auto simp: open_in_def filter_empty_conv)

lemma topo_step:
  assumes wf: "network_wf net" and ac: "acyclic (edge_rel net)"
    and inv: "topo_inv net lr d (q @ [v]) topo"
  shows "\<exists>d' ts. bindo (vec_at (cn_outgoing net) v) (\<lambda>is. relax (cn_edges net) is (d, q)) = Ok (d', q @ ts)
    \<and> topo_inv net lr d' (q @ ts) (topo @ [v])"
proof -
  let ?es = "cn_edges net"
  let ?out = "map ce_target (filter (\<lambda>e. ce_source e = v) ?es)"
  note n = topo_invD(1) [OF inv] and deg = topo_invD(2) [OF inv] and dist = topo_invD(3) [OF inv]
    and sub = topo_invD(4) [OF inv] and lr = topo_invD(5) [OF inv] and reaches = topo_invD(6) [OF inv]
    and zero = topo_invD(7) [OF inv] and succ = topo_invD(8) [OF inv] and ord = topo_invD(9) [OF inv]
  have v: "v < length (cn_nodes net)" and vt: "v \<notin> set topo" and reach: "(lr, v) \<in> (edge_rel net)\<^sup>*"
    using sub dist reaches [of v] by auto
  note o = outgoing_targets [OF wf v]
  have deg2: "d ! t = open_in ?es (set (topo @ [v])) t + count_list ?out t" if "t < length d" for t
    using deg [OF that] count_targets [OF vt, of ?es t] by simp
  have bound: "set ?out \<subseteq> {..<length d}" using wf n by (auto simp: network_wf_def)
  obtain d' ts where r: "relax ?es (cn_outgoing net ! v) (d, q) = Ok (d', q @ ts)" "length d' = length d"
    "\<forall>t < length d. d' ! t = d ! t - count_list ?out t" "distinct ts"
    "set ts = {t \<in> set ?out. d ! t = count_list ?out t}"
    using relax_ok [OF o(1), of d q] bound deg2 unfolding o(2) by auto
  have d': "d' ! t = open_in ?es (set (topo @ [v])) t" if "t < length d" for t
    using r(3) deg2 [OF that] that by simp
  have out: "t \<in> set ?out \<longleftrightarrow> (v, t) \<in> edge_rel net" for t by (force simp: edge_rel_def)
  have ts: "t \<in> set ts \<longleftrightarrow> (v, t) \<in> edge_rel net \<and> d' ! t = 0" for t
    using r(5) deg2 d' bound out by auto
  have not_lr: "(u, lr) \<notin> edge_rel net" if "(lr, u) \<in> (edge_rel net)\<^sup>*" for u
    using ac that unfolding acyclic_def by (meson rtrancl_into_trancl1)
  have pos: "d ! t \<noteq> 0" if "(v, t) \<in> edge_rel net" for t
    using that deg2 [of t] bound out [of t] count_list_0_iff [of ?out t] by auto
  have new: "t \<notin> set (topo @ q @ [v])" if "t \<in> set ts" for t
    using that ts [of t] pos [of t] not_lr [OF reach] zero [of t] by metis
  have ln: "length (cn_outgoing net) = length (cn_nodes net)" using wf by (simp add: network_wf_def)
  have mono: "d' ! t = 0" if "d ! t = 0" "t < length d" for t using r(3) that by simp
  have "topo_inv net lr d' (q @ ts) (topo @ [v])"
    unfolding topo_inv_def
  proof (intro conjI allI ballI impI)
    show "length d' = length (cn_nodes net)" using r(2) n by simp
    show "d' ! t = open_in ?es (set (topo @ [v])) t" if "t < length d'" for t using d' that r(2) by simp
    show "distinct ((topo @ [v]) @ q @ ts)" using dist new r(4) by auto
    show "set ((topo @ [v]) @ q @ ts) \<subseteq> {..<length (cn_nodes net)}"
      using sub bound r(5) n by auto
    show "lr \<in> set ((topo @ [v]) @ q @ ts)" using lr by auto
    show "(lr, w) \<in> (edge_rel net)\<^sup>*" if "w \<in> set ((topo @ [v]) @ q @ ts)" for w
      using that reaches [of w] ts [of w] reach by (auto intro: rtrancl_into_rtrancl)
    show "d' ! w = 0" if "w \<in> set ((topo @ [v]) @ q @ ts)" "w \<noteq> lr" for w
      proof (cases "w \<in> set ts")
      case True
      then show ?thesis using ts by blast
    next
      case False
      then have "w \<in> set (topo @ q @ [v])" using that by auto
      then show ?thesis using zero [of w] mono [of w] sub n that(2) by auto
    qed
    show "w \<in> set ((topo @ [v]) @ q @ ts)"
      if "u \<in> set (topo @ [v])" "(u, w) \<in> edge_rel net \<and> d' ! w = 0" for u w
    proof (cases "(v, w) \<in> edge_rel net")
      case True
      then show ?thesis using that ts by simp
    next
      case False
      then have "w < length d" "count_list ?out w = 0" "u \<in> set topo"
        using that wf n out [of w] count_list_0_iff [of ?out w] by (auto simp: edge_rel_def network_wf_def)
      then have "d ! w = 0" using r(3) that by simp
      then show ?thesis using succ [OF \<open>u \<in> set topo\<close>] that by auto
    qed
    show "u \<in> set xs" if "topo @ [v] = xs @ w # ys \<and> w \<noteq> lr \<and> (u, w) \<in> edge_rel net" for xs w ys u
    proof (cases ys rule: rev_cases)
      case Nil
      then have "w = v" "xs = topo" using that by auto
      moreover have "d ! v = 0" using that \<open>w = v\<close> zero by auto
      ultimately show ?thesis using that deg [of v] v n open_in_0 [of ?es "set topo" v]
        by (auto simp: edge_rel_def)
    next
      case (snoc ys' y)
      then show ?thesis using that ord [of xs w ys' u] by auto
    qed
  qed
  then show ?thesis using r(1) v ln by auto
qed

lemma topo_loop_ok:
  assumes "network_wf net" and "acyclic (edge_rel net)" and "topo_inv net lr d q topo"
  shows "\<exists>d' topo'. topo_loop (cn_edges net) (cn_outgoing net) d q topo = Some (Ok topo')
    \<and> topo_inv net lr d' [] topo'"
  using assms(3)
proof (induction "length (cn_nodes net) - length topo" arbitrary: d q topo rule: less_induct)
  case less
  show ?case
  proof (cases q rule: rev_cases)
    case Nil
    then show ?thesis using less.prems by (subst topo_loop.simps) auto
  next
    case (snoc q' v)
    obtain d' ts where s: "bindo (vec_at (cn_outgoing net) v) (\<lambda>is. relax (cn_edges net) is (d, q')) = Ok (d', q' @ ts)"
      "topo_inv net lr d' (q' @ ts) (topo @ [v])"
      using topo_step [OF assms(1,2)] less.prems snoc by blast
    have "card (set (topo @ q)) \<le> card {..<length (cn_nodes net)}"
      using less.prems by (intro card_mono) (auto simp: topo_inv_def)
    moreover have "card (set (topo @ q)) = length topo + length q"
      using less.prems distinct_card [of "topo @ q"] by (simp add: topo_inv_def)
    ultimately have "length (cn_nodes net) - length (topo @ [v]) < length (cn_nodes net) - length topo"
      using snoc by simp
    then obtain d'' topo' where "topo_loop (cn_edges net) (cn_outgoing net) d' (q' @ ts) (topo @ [v]) = Some (Ok topo')"
      "topo_inv net lr d'' [] topo'" using less.hyps s(2) by blast
    then show ?thesis using s(1) snoc by (subst topo_loop.simps) auto
  qed
qed

lemma topo_start:
  assumes "network_wf net" and "cn_left_rail net = Some lr" and "lr < length (cn_nodes net)"
  shows "\<exists>d. in_degrees (cn_edges net) (replicate (length (cn_nodes net)) 0) = Ok d \<and> topo_inv net lr d [lr] []"
proof -
  obtain d where "in_degrees (cn_edges net) (replicate (length (cn_nodes net)) 0) = Ok d"
    "length d = length (cn_nodes net)" "\<forall>t < length d. d ! t = open_in (cn_edges net) {} t"
    using in_degrees_ok [of "cn_edges net" "replicate (length (cn_nodes net)) 0"] assms(1)
    by (auto simp: network_wf_def)
  then show ?thesis using assms(3) by (auto simp: topo_inv_def)
qed

lemma rebuild_topo_ok:
  assumes "network_wf net" and "acyclic (edge_rel net)" and "cn_left_rail net = Some lr"
    and "lr < length (cn_nodes net)"
  shows "\<exists>d topo. rebuild_topo net = Some (Ok (net\<lparr>cn_topo := topo, cn_dirty := False\<rparr>))
    \<and> topo_inv net lr d [] topo"
  using topo_start [OF assms(1,3,4)] topo_loop_ok [OF assms(1,2)] assms(3)
  by (fastforce simp: rebuild_topo_def Let_def)

text \<open>When every source of an edge can be reached from the left rail, the order is complete.\<close>

lemma topo_complete:
  assumes "topo_inv net lr d [] topo" and "network_wf net" and "acyclic (edge_rel net)"
    and "\<forall>e \<in> set (cn_edges net). (lr, ce_source e) \<in> (edge_rel net)\<^sup>*"
    and "(lr, v) \<in> (edge_rel net)\<^sup>*"
  shows "v \<in> set topo"
proof -
  have succ: "\<And>u w. u \<in> set topo \<Longrightarrow> (u, w) \<in> edge_rel net \<Longrightarrow> d ! w = 0 \<Longrightarrow> w \<in> set topo"
    and deg: "\<And>t. t < length (cn_nodes net) \<Longrightarrow> d ! t = open_in (cn_edges net) (set topo) t"
    using topo_invD(1,2,8) [OF assms(1)] by simp_all
  have "wf (edge_rel net)" by (rule finite_acyclic_wf [OF finite_edge_rel assms(3)])
  then show ?thesis using assms(5)
  proof (induction v rule: wf_induct_rule)
    case (less v)
    show ?case
    proof (cases "v = lr")
      case True
      then show ?thesis using assms(1) by (simp add: topo_inv_def)
    next
      case False
      then obtain u where u: "(u, v) \<in> edge_rel net" using less.prems by (metis rtranclE)
      have "ce_source e \<in> set topo" if "e \<in> set (cn_edges net)" "ce_target e = v" for e
        using that less.IH assms(4) by (auto simp: edge_rel_def)
      then have "open_in (cn_edges net) (set topo) v = 0" by (simp add: open_in_0)
      moreover have "v < length (cn_nodes net)" "u \<in> set topo"
        using u assms(2,4) less.IH by (auto simp: edge_rel_def network_wf_def)
      ultimately show ?thesis using u succ deg by auto
    qed
  qed
qed

subsection \<open>Power\<close>

text \<open>Contacts without memory; their state is a function of the snapshot.\<close>

fun plain :: "contact \<Rightarrow> bool" where
  "plain (No _) = True"
| "plain (Nc _) = True"
| "plain _ = False"

fun closed :: "input_snapshot \<Rightarrow> contact \<Rightarrow> bool" where
  "closed snap (No v) = get_bool snap v"
| "closed snap (Nc v) = (\<not> get_bool snap v)"
| "closed snap _ = False"

lemma contact_power_plain: "plain c \<Longrightarrow> contact_power snap es c = (es, closed snap c)"
  by (cases c) simp_all

definition conducts :: "contact_network \<Rightarrow> input_snapshot \<Rightarrow> (nat \<times> nat) set" where
  "conducts net snap = (\<lambda>e. (ce_source e, ce_target e)) ` {e \<in> set (cn_edges net). closed snap (ce_contact e)}"

lemma node_get_insert [simp]: "node_get (hm_insert k b m) n = (if n = k then b else node_get m n)"
  by (simp add: node_get_def)

lemma flow_edges_ok:
  assumes "\<forall>i \<in> set is. i < length edges \<and> plain (ce_contact (edges ! i))"
  shows "\<exists>pm'. flow_edges edges snap is (es, pm) = Ok (es, pm')
    \<and> (\<forall>n. node_get pm' n \<longleftrightarrow> node_get pm n
        \<or> (\<exists>i \<in> set is. ce_target (edges ! i) = n \<and> closed snap (ce_contact (edges ! i))))"
  using assms
proof (induction "is" arbitrary: pm)
  case (Cons i "is")
  let ?e = "edges ! i"
  let ?pm = "hm_insert (ce_target ?e) (node_get pm (ce_target ?e) \<or> closed snap (ce_contact ?e)) pm"
  obtain pm' where "flow_edges edges snap is (es, ?pm) = Ok (es, pm')"
    "\<And>n. node_get pm' n \<longleftrightarrow> node_get ?pm n
        \<or> (\<exists>i \<in> set is. ce_target (edges ! i) = n \<and> closed snap (ce_contact (edges ! i)))"
    using Cons.IH [of ?pm] Cons.prems by auto
  moreover have "flow_edges edges snap (i # is) (es, pm) = flow_edges edges snap is (es, ?pm)"
    using Cons.prems by (simp add: flow_edge_def Let_def contact_power_plain)
  ultimately show ?case by (intro exI [of _ pm']) auto
qed simp

lemma flow_nodes_ok:
  assumes wf: "network_wf net" and pl: "\<forall>e \<in> set (cn_edges net). plain (ce_contact e)"
    and ord: "\<And>us v ws u. xs @ vs = us @ v # ws \<Longrightarrow> v \<noteq> lr \<Longrightarrow> (u, v) \<in> edge_rel net \<Longrightarrow> u \<in> set us"
    and sub: "set (xs @ vs) \<subseteq> {..<length (cn_nodes net)}"
    and pm: "\<And>n. node_get pm n \<longleftrightarrow> n = lr \<or> (\<exists>u \<in> set xs. (lr, u) \<in> (conducts net snap)\<^sup>* \<and> (u, n) \<in> conducts net snap)"
  shows "\<exists>pm'. flow_nodes net snap vs (es, pm) = Ok (es, pm')
    \<and> (\<forall>n. node_get pm' n \<longleftrightarrow> n = lr \<or> (\<exists>u \<in> set (xs @ vs). (lr, u) \<in> (conducts net snap)\<^sup>* \<and> (u, n) \<in> conducts net snap))"
  using ord sub pm
proof (induction vs arbitrary: xs pm)
  case Nil
  then show ?case by simp
next
  case (Cons v vs)
  let ?C = "conducts net snap"
  have CE: "?C \<subseteq> edge_rel net" by (auto simp: conducts_def edge_rel_def)
  have v: "v < length (cn_nodes net)" using Cons.prems(2) by simp
  have pv: "node_get pm v \<longleftrightarrow> (lr, v) \<in> ?C\<^sup>*"
  proof
    assume "node_get pm v"
    then show "(lr, v) \<in> ?C\<^sup>*" using Cons.prems(3) [of v] by (auto intro: rtrancl_into_rtrancl)
  next
    assume "(lr, v) \<in> ?C\<^sup>*"
    then show "node_get pm v"
    proof (cases rule: rtranclE)
      case base
      then show ?thesis using Cons.prems(3) by simp
    next
      case (step u)
      then show ?thesis using Cons.prems(1) [of xs v vs u] CE Cons.prems(3) [of v] by blast
    qed
  qed
  let ?is = "cn_outgoing net ! v"
  have is_ok: "\<forall>i \<in> set ?is. i < length (cn_edges net) \<and> plain (ce_contact (cn_edges net ! i))"
    using outgoing_targets(1) [OF wf v] pl by simp
  have out: "(\<exists>i \<in> set ?is. ce_target (cn_edges net ! i) = n \<and> closed snap (ce_contact (cn_edges net ! i)))
      \<longleftrightarrow> (v, n) \<in> ?C" for n
    using wf v by (auto simp: network_wf_def conducts_def in_set_conv_nth)
  obtain pm1 where f: "flow_edges (cn_edges net) snap ?is (es, pm) = Ok (es, pm1)"
    "\<And>n. node_get pm1 n \<longleftrightarrow> node_get pm n \<or> (v, n) \<in> ?C"
    using flow_edges_ok [OF is_ok, of snap es pm] out by metis
  have ord': "\<And>us w ws u. (xs @ [v]) @ vs = us @ w # ws \<Longrightarrow> w \<noteq> lr \<Longrightarrow> (u, w) \<in> edge_rel net \<Longrightarrow> u \<in> set us"
    using Cons.prems(1) by simp
  have sub': "set ((xs @ [v]) @ vs) \<subseteq> {..<length (cn_nodes net)}" using Cons.prems(2) by simp
  have ln: "v < length (cn_outgoing net)" using wf v by (simp add: network_wf_def)
  let ?pm = "if node_get pm v then pm1 else pm"
  have pm': "\<And>n. node_get ?pm n \<longleftrightarrow> n = lr \<or> (\<exists>u \<in> set (xs @ [v]). (lr, u) \<in> ?C\<^sup>* \<and> (u, n) \<in> ?C)"
    using f(2) Cons.prems(3) pv by auto
  have "flow_nodes net snap (v # vs) (es, pm) = flow_nodes net snap vs (es, ?pm)"
    using f(1) ln by simp
  then show ?case using Cons.IH [OF ord' sub' pm'] by simp
qed

text \<open>The cached order is up to date.\<close>

definition topo_ready :: "contact_network \<Rightarrow> nat \<Rightarrow> bool" where
  "topo_ready net lr \<longleftrightarrow> cn_dirty net \<or> (\<exists>d. topo_inv net lr d [] (cn_topo net))"

lemma topological_order_ok:
  assumes "network_wf net" and "acyclic (edge_rel net)" and "topo_ready net lr"
    and "cn_left_rail net = Some lr" and "lr < length (cn_nodes net)"
  shows "\<exists>topo d. topological_order net = Some (Ok (net\<lparr>cn_topo := topo, cn_dirty := False\<rparr>))
    \<and> topo_inv net lr d [] topo"
proof (cases "cn_dirty net")
  case True
  then show ?thesis using rebuild_topo_ok [OF assms(1,2,4,5)] by (auto simp: topological_order_def)
next
  case False
  then have "net = net\<lparr>cn_topo := cn_topo net, cn_dirty := False\<rparr>" by (cases net) simp
  moreover obtain d where "topo_inv net lr d [] (cn_topo net)" using False assms(3) by (auto simp: topo_ready_def)
  moreover have "topological_order net = Some (Ok net)" using False by (simp add: topological_order_def)
  ultimately show ?thesis by metis
qed

lemma topo_inv_cache: "topo_inv (net\<lparr>cn_topo := t, cn_dirty := b\<rparr>) lr d q topo = topo_inv net lr d q topo"
proof -
  have "edge_rel (net\<lparr>cn_topo := t, cn_dirty := b\<rparr>) = edge_rel net"
    "cn_edges (net\<lparr>cn_topo := t, cn_dirty := b\<rparr>) = cn_edges net"
    "cn_nodes (net\<lparr>cn_topo := t, cn_dirty := b\<rparr>) = cn_nodes net" by (simp_all add: edge_rel_def)
  then show ?thesis unfolding topo_inv_def by (simp only:)
qed

lemma power_flow_ok:
  assumes "network_wf net" and "acyclic (edge_rel net)" and "topo_ready net lr"
    and "cn_left_rail net = Some lr" and "lr < length (cn_nodes net)" and "cn_output net = Some out"
    and "\<forall>e \<in> set (cn_edges net). plain (ce_contact e) \<and> (lr, ce_source e) \<in> (edge_rel net)\<^sup>*"
  shows "\<exists>topo. evaluate_power_flow net snap es = Some (Ok (net\<lparr>cn_topo := topo, cn_dirty := False\<rparr>, es,
    (lr, out) \<in> (conducts net snap)\<^sup>*)) \<and> topo_ready (net\<lparr>cn_topo := topo, cn_dirty := False\<rparr>) lr"
proof -
  let ?C = "conducts net snap"
  obtain topo d where t: "topological_order net = Some (Ok (net\<lparr>cn_topo := topo, cn_dirty := False\<rparr>))"
    "topo_inv net lr d [] topo" using topological_order_ok [OF assms(1-5)] by blast
  have ready: "topo_ready (net\<lparr>cn_topo := topo, cn_dirty := False\<rparr>) lr"
    using t(2) by (auto simp: topo_ready_def topo_inv_cache)
  let ?net = "net\<lparr>cn_topo := topo, cn_dirty := False\<rparr>"
  have net: "network_wf ?net" "edge_rel ?net = edge_rel net" "conducts ?net snap = ?C"
    using assms(1) by (simp_all add: network_wf_def edge_rel_def conducts_def)
  have "\<exists>pm'. flow_nodes ?net snap topo (es, hm_insert lr True []) = Ok (es, pm')
    \<and> (\<forall>n. node_get pm' n \<longleftrightarrow> n = lr
        \<or> (\<exists>u \<in> set ([] @ topo). (lr, u) \<in> (conducts ?net snap)\<^sup>* \<and> (u, n) \<in> conducts ?net snap))"
  proof (rule flow_nodes_ok [OF net(1)])
    show "u \<in> set us" if "[] @ topo = us @ v # ws" "v \<noteq> lr" "(u, v) \<in> edge_rel ?net" for us v ws u
      using topo_invD(9) [OF t(2)] that net(2) by simp
    show "set ([] @ topo) \<subseteq> {..<length (cn_nodes ?net)}" using topo_invD(4) [OF t(2)] by simp
  qed (use assms(7) in \<open>auto simp: node_get_def\<close>)
  then obtain pm' where f: "flow_nodes ?net snap topo (es, hm_insert lr True []) = Ok (es, pm')"
    "\<And>n. node_get pm' n \<longleftrightarrow> n = lr \<or> (\<exists>u \<in> set topo. (lr, u) \<in> ?C\<^sup>* \<and> (u, n) \<in> ?C)"
    unfolding net by auto
  have "?C\<^sup>* \<subseteq> (edge_rel net)\<^sup>*" by (rule rtrancl_mono) (auto simp: conducts_def edge_rel_def)
  then have "u \<in> set topo" if "(lr, u) \<in> ?C\<^sup>*" for u
    using topo_complete [OF t(2) assms(1,2)] assms(7) that by blast
  then have "node_get pm' out \<longleftrightarrow> (lr, out) \<in> ?C\<^sup>*"
    using f(2) [of out] by (metis rtranclE rtrancl.simps)
  then show ?thesis using t(1) f(1) assms(4,6) ready
    by (intro exI [of _ topo])
      (simp add: evaluate_power_flow_def left_rail_node_def output_node_id_def expect_def)
qed

text \<open>
  C11: power flow is reachability through closed contacts. On a well-formed acyclic network of plain
  contacts in which every edge starts at a node the left rail can reach, the evaluation returns,
  leaves the edge state alone, and the output is powered exactly when a path of closed contacts
  leads to it from the left rail.
\<close>

theorem power_flow_paths:
  assumes "network_wf net" and "acyclic (edge_rel net)" and "cn_dirty net"
    and "cn_left_rail net = Some lr" and "lr < length (cn_nodes net)" and "cn_output net = Some out"
    and "\<forall>e \<in> set (cn_edges net). plain (ce_contact e) \<and> (lr, ce_source e) \<in> (edge_rel net)\<^sup>*"
  shows "\<exists>net'. evaluate_power_flow net snap es
    = Some (Ok (net', es, (lr, out) \<in> (conducts net snap)\<^sup>*))"
  using power_flow_ok [OF assms(1,2) _ assms(4-7)] assms(3) by (auto simp: topo_ready_def)

subsection \<open>Serial networks\<close>

primrec serial_edges :: "nat \<Rightarrow> contact list \<Rightarrow> contact_edge list" where
  "serial_edges k [] = []"
| "serial_edges k (c # cs) = \<lparr>ce_source = k, ce_target = Suc k, ce_contact = c\<rparr> # serial_edges (Suc k) cs"

lemma length_serial_edges [simp]: "length (serial_edges k cs) = length cs"
  by (induction cs arbitrary: k) simp_all

lemma nth_serial_edges:
  "i < length cs \<Longrightarrow> serial_edges k cs ! i = \<lparr>ce_source = k + i, ce_target = Suc (k + i), ce_contact = cs ! i\<rparr>"
  by (induction cs arbitrary: k i) (auto simp: nth_Cons split: nat.split)

lemma set_serial_edges:
  "e \<in> set (serial_edges k cs) \<longleftrightarrow>
    (\<exists>i < length cs. e = \<lparr>ce_source = k + i, ce_target = Suc (k + i), ce_contact = cs ! i\<rparr>)"
  by (auto simp: in_set_conv_nth nth_serial_edges)

lemma add_node_props:
  "snd (add_node net) = length (cn_nodes net)"
  "length (cn_nodes (fst (add_node net))) = Suc (length (cn_nodes net))"
  "cn_edges (fst (add_node net)) = cn_edges net" "cn_left_rail (fst (add_node net)) = cn_left_rail net"
  "cn_dirty (fst (add_node net))"
  by (simp_all add: add_node_def Let_def)

lemma add_chain_ok:
  assumes "network_wf net" and "length (cn_nodes net) = Suc k" and "cn_dirty net"
  shows "\<exists>net'. add_chain cs (net, k) = Ok (net', k + length cs) \<and> network_wf net'
    \<and> cn_edges net' = cn_edges net @ serial_edges k cs \<and> length (cn_nodes net') = Suc (k + length cs)
    \<and> cn_left_rail net' = cn_left_rail net \<and> cn_dirty net'"
  using assms
proof (induction cs arbitrary: net k)
  case (Cons c cs)
  let ?net = "fst (add_node net)"
  have a: "snd (add_node net) = Suc k" using Cons.prems(2) by (simp add: add_node_props)
  have wf: "network_wf ?net" using Cons.prems(1) by (rule network_wf_add_node)
  have bounds: "k < length (cn_nodes ?net)" "Suc k < length (cn_nodes ?net)"
    using Cons.prems(2) by (simp_all add: add_node_props)
  obtain net2 where e: "add_edge ?net k (Suc k) c = Ok net2" "network_wf net2"
    "cn_edges net2 = cn_edges ?net @ [\<lparr>ce_source = k, ce_target = Suc k, ce_contact = c\<rparr>]"
    "cn_nodes net2 = cn_nodes ?net" "cn_left_rail net2 = cn_left_rail ?net" "cn_dirty net2"
    using network_wf_add_edge [OF wf bounds] by blast
  have "length (cn_nodes net2) = Suc (Suc k)" using e(4) Cons.prems(2) by (simp add: add_node_props)
  then obtain net' where "add_chain cs (net2, Suc k) = Ok (net', Suc k + length cs)" "network_wf net'"
    "cn_edges net' = cn_edges net2 @ serial_edges (Suc k) cs" "length (cn_nodes net') = Suc (Suc k + length cs)"
    "cn_left_rail net' = cn_left_rail net2" "cn_dirty net'"
    using Cons.IH [OF e(2) _ e(6)] by blast
  then show ?case using e a by (simp add: add_node_props case_prod_unfold)
qed simp

lemma build_serial_ok:
  "\<exists>net. build_serial_network cs = Ok net \<and> network_wf net \<and> cn_edges net = serial_edges 0 cs
    \<and> length (cn_nodes net) = Suc (length cs) \<and> cn_left_rail net = Some 0 \<and> cn_output net = Some (length cs)
    \<and> cn_dirty net"
proof -
  let ?net = "set_left_rail (fst (add_node network_new)) 0"
  have a: "snd (add_node network_new) = 0"
    by (simp add: add_node_def network_new_def)
  have "network_wf ?net" "length (cn_nodes ?net) = Suc 0" "cn_dirty ?net" "cn_edges ?net = []"
    "cn_left_rail ?net = Some 0"
    using network_wf_add_node [OF network_wf_new]
    by (simp_all add: network_wf_def set_left_rail_def add_node_props) (simp_all add: network_new_def)
  then obtain net' where "add_chain cs (?net, 0) = Ok (net', length cs)" "network_wf net'"
    "cn_edges net' = serial_edges 0 cs" "length (cn_nodes net') = Suc (length cs)"
    "cn_left_rail net' = Some 0" "cn_dirty net'"
    using add_chain_ok [of ?net 0 cs] by auto
  then show ?thesis using a
    by (simp add: build_serial_network_def set_output_node_def network_wf_def case_prod_unfold)
qed

lemma serial_reach:
  assumes "\<And>i. i < n \<Longrightarrow> (i, Suc i) \<in> R"
  shows "(0, n) \<in> R\<^sup>*"
  using assms by (induction n) (auto intro: rtrancl_into_rtrancl)

lemma serial_paths:
  assumes "cn_edges net = serial_edges 0 cs"
  shows "(0, length cs) \<in> (conducts net snap)\<^sup>* \<longleftrightarrow> list_all (closed snap) cs"
proof
  have mem: "(i, j) \<in> conducts net snap \<longleftrightarrow> i < length cs \<and> j = Suc i \<and> closed snap (cs ! i)" for i j
    using assms by (force simp: conducts_def set_serial_edges)
  {
    fix n assume "(0, n) \<in> (conducts net snap)\<^sup>*"
    then have "\<forall>i < n. closed snap (cs ! i)"
      by (induction rule: rtrancl_induct) (auto simp: mem less_Suc_eq)
  }
  then show "(0, length cs) \<in> (conducts net snap)\<^sup>* \<Longrightarrow> list_all (closed snap) cs"
    by (simp add: list_all_length)
  show "list_all (closed snap) cs \<Longrightarrow> (0, length cs) \<in> (conducts net snap)\<^sup>*"
    by (rule serial_reach) (simp add: mem list_all_length)
qed

definition serial_ready :: "contact list \<Rightarrow> contact_network \<Rightarrow> bool" where
  "serial_ready cs net \<longleftrightarrow> network_wf net \<and> cn_edges net = serial_edges 0 cs
     \<and> length (cn_nodes net) = Suc (length cs) \<and> cn_left_rail net = Some 0
     \<and> cn_output net = Some (length cs) \<and> topo_ready net 0"

lemma build_serial_ready: "\<exists>net. build_serial_network cs = Ok net \<and> serial_ready cs net"
  using build_serial_ok [of cs] by (auto simp: serial_ready_def topo_ready_def)

lemma serial_power:
  assumes "list_all plain cs" and "serial_ready cs net"
  shows "\<exists>net'. evaluate_power_flow net snap es = Some (Ok (net', es, list_all (closed snap) cs))
    \<and> serial_ready cs net'"
proof -
  have net: "network_wf net" "cn_edges net = serial_edges 0 cs" "length (cn_nodes net) = Suc (length cs)"
    "cn_left_rail net = Some 0" "cn_output net = Some (length cs)" "topo_ready net 0"
    using assms(2) by (simp_all add: serial_ready_def)
  have E: "(i, j) \<in> edge_rel net \<longleftrightarrow> i < length cs \<and> j = Suc i" for i j
    using net(2) by (force simp: edge_rel_def set_serial_edges)
  then have "edge_rel net \<subseteq> less_than" by auto
  then have ac: "acyclic (edge_rel net)" by (rule acyclic_subset [OF wf_acyclic [OF wf_less_than]])
  have "\<forall>e \<in> set (cn_edges net). plain (ce_contact e) \<and> (0, ce_source e) \<in> (edge_rel net)\<^sup>*"
    using assms(1) net(2) E by (auto simp: set_serial_edges list_all_length intro!: serial_reach)
  then obtain topo where "evaluate_power_flow net snap es = Some (Ok (net\<lparr>cn_topo := topo, cn_dirty := False\<rparr>, es,
      (0, length cs) \<in> (conducts net snap)\<^sup>*))" "topo_ready (net\<lparr>cn_topo := topo, cn_dirty := False\<rparr>) 0"
    using power_flow_ok [OF net(1) ac net(6,4) _ net(5), of snap es] net(3) by auto
  then show ?thesis using net serial_paths [OF net(2)]
    by (intro exI [of _ "net\<lparr>cn_topo := topo, cn_dirty := False\<rparr>"]) (simp add: serial_ready_def network_wf_def)
qed

subsection \<open>Scan cycles\<close>

text \<open>
  What a ladder of serial rungs means: each rung computes the conjunction of its contacts on the
  current values and drives its coils, the coils of a rung all reading the values from before it.
\<close>

type_synonym rung = "contact list \<times> coil list"

fun contact_on :: "(string \<Rightarrow> bool) \<Rightarrow> contact \<Rightarrow> bool" where
  "contact_on \<sigma> (No v) = \<sigma> v"
| "contact_on \<sigma> (Nc v) = (\<not> \<sigma> v)"
| "contact_on \<sigma> _ = False"

definition coil_on :: "bool \<Rightarrow> (string \<Rightarrow> bool) \<Rightarrow> coil \<Rightarrow> bool" where
  "coil_on pw \<sigma> c =
     (case coil_kind c of CoilOut \<Rightarrow> pw | CoilNegated \<Rightarrow> \<not> pw
      | CoilSet \<Rightarrow> pw \<or> \<sigma> (coil_var c) | CoilReset \<Rightarrow> \<not> pw \<and> \<sigma> (coil_var c))"

definition rung_effect :: "(string \<Rightarrow> bool) \<Rightarrow> rung \<Rightarrow> string \<Rightarrow> bool" where
  "rung_effect \<sigma> r =
     foldl (\<lambda>\<tau> c. \<tau>(coil_var c := coil_on (list_all (contact_on \<sigma>) (fst r)) \<sigma> c)) \<sigma> (snd r)"

definition ladder_scan :: "rung list \<Rightarrow> (string \<Rightarrow> bool) \<Rightarrow> string \<Rightarrow> bool" where
  "ladder_scan rs \<sigma> = foldl rung_effect \<sigma> rs"

definition implements_rung :: "rung_def \<Rightarrow> rung \<Rightarrow> bool" where
  "implements_rung d r \<longleftrightarrow> serial_ready (fst r) (rd_network d) \<and> rd_coils d = snd r \<and> list_all plain (fst r)"

lemma closed_contact_on: "closed snap c = contact_on (get_bool snap) c"
  by (cases c) simp_all

lemma get_bool_store_coils:
  "get_bool (store_coils vars (map (cycle_coil_state pw vars0) cs)) =
     foldl (\<lambda>\<tau> c. \<tau>(coil_var c := coil_on pw (get_bool vars0) c)) (get_bool vars) cs"
proof (induction cs arbitrary: vars)
  case (Cons c cs)
  have "get_bool (set_bool vars (coil_var c) (energized (cycle_coil_state pw vars0 c)))
      = (get_bool vars)(coil_var c := coil_on pw (get_bool vars0) c)"
    by (auto simp: fun_eq_iff get_bool_def set_bool_def cycle_coil_state_def coil_on_def split: coil_kind.split)
  moreover have "coil_id (cycle_coil_state pw vars0 c) = coil_var c" by (simp add: cycle_coil_state_def)
  ultimately show ?case using Cons.IH by (simp add: store_coils_def)
qed (simp add: store_coils_def)

lemma cycle_rung_ok:
  assumes "implements_rung d r"
  shows "\<exists>d' s'. cycle_rung d s = Some (Ok s') \<and> cy_rungs s' = cy_rungs s @ [d'] \<and> implements_rung d' r
    \<and> get_bool (cy_vars s') = rung_effect (get_bool (cy_vars s)) r"
proof -
  obtain net' where e: "evaluate_power_flow (rd_network d) (cy_vars s) (cy_edges s)
      = Some (Ok (net', cy_edges s, list_all (closed (cy_vars s)) (fst r)))" "serial_ready (fst r) net'"
    using serial_power [of "fst r" "rd_network d"] assms by (auto simp: implements_rung_def)
  have "closed (cy_vars s) = contact_on (get_bool (cy_vars s))" by (simp add: fun_eq_iff closed_contact_on)
  then show ?thesis using e assms
    by (intro exI [of _ "d\<lparr>rd_network := net'\<rparr>"])
      (simp add: cycle_rung_def store_snapshot_def Let_def implements_rung_def get_bool_store_coils rung_effect_def)
qed

lemma cycle_rungs_ok:
  assumes "list_all2 implements_rung ds rs"
  shows "\<exists>ds' s'. cycle_rungs ds s = Some (Ok s') \<and> cy_rungs s' = cy_rungs s @ ds'
    \<and> list_all2 implements_rung ds' rs \<and> get_bool (cy_vars s') = ladder_scan rs (get_bool (cy_vars s))"
  using assms
proof (induction arbitrary: s rule: list_all2_induct)
  case Nil
  then show ?case by (simp add: ladder_scan_def)
next
  case (Cons d ds r rs)
  obtain d1 s1 where 1: "cycle_rung d s = Some (Ok s1)" "cy_rungs s1 = cy_rungs s @ [d1]" "implements_rung d1 r"
    "get_bool (cy_vars s1) = rung_effect (get_bool (cy_vars s)) r" using cycle_rung_ok [OF Cons.hyps(1)] by blast
  obtain ds2 s2 where 2: "cycle_rungs ds s1 = Some (Ok s2)" "cy_rungs s2 = cy_rungs s1 @ ds2"
    "list_all2 implements_rung ds2 rs" "get_bool (cy_vars s2) = ladder_scan rs (get_bool (cy_vars s1))"
    using Cons.IH by blast
  then show ?case using 1 by (intro exI [of _ "d1 # ds2"]) (simp add: ladder_scan_def)
qed

lemma evaluate_cycle_ok:
  assumes "list_all2 implements_rung ds rs"
  shows "\<exists>ds' vars' res. evaluate_cycle ds vars = Some (Ok (ds', vars', res))
    \<and> list_all2 implements_rung ds' rs \<and> get_bool vars' = ladder_scan rs (get_bool vars)"
  using cycle_rungs_ok [OF assms, of "\<lparr>cy_rungs = [], cy_vars = vars, cy_edges = [], cy_states = [], cy_powered = []\<rparr>"]
  by (auto simp: evaluate_cycle_def)

text \<open>
  C13: a scan of a ladder of serial rungs returns and computes the ladder's meaning, with coils of
  one rung visible to the next, and the rungs it leaves, with their cached orders, again compute
  that meaning in the next scan.
\<close>

theorem ladder_cycle_correct:
  assumes "list_all2 implements_rung ds rs"
  shows "\<exists>ds' vars' res. evaluate_cycle ds vars = Some (Ok (ds', vars', res))
    \<and> list_all2 implements_rung ds' rs \<and> get_bool vars' = ladder_scan rs (get_bool vars)"
  using assms by (rule evaluate_cycle_ok)

subsection \<open>Witnesses\<close>

definition motor_rung :: rung where
  "motor_rung = ([No ''start'', Nc ''stop''], [\<lparr>coil_var = ''motor'', coil_kind = CoilSet\<rparr>])"

lemma motor_rung_implements:
  "\<exists>net. build_serial_network (fst motor_rung) = Ok net
    \<and> implements_rung \<lparr>rd_id = ''r1'', rd_network = net, rd_coils = snd motor_rung\<rparr> motor_rung"
  using build_serial_ready [of "fst motor_rung"] by (auto simp: implements_rung_def motor_rung_def)

theorem ladder_cycle_correct_witness:
  "\<exists>d d' vars' res. evaluate_cycle [d] [(''start'', True)] = Some (Ok ([d'], vars', res)) \<and> get_bool vars' ''motor''"
proof -
  obtain net where n: "implements_rung \<lparr>rd_id = ''r1'', rd_network = net, rd_coils = snd motor_rung\<rparr> motor_rung"
    using motor_rung_implements by blast
  let ?d = "\<lparr>rd_id = ''r1'', rd_network = net, rd_coils = snd motor_rung\<rparr>"
  have "list_all2 implements_rung [?d] [motor_rung]" using n by simp
  from ladder_cycle_correct [OF this, of "[(''start'', True)]"]
  obtain ds' vars' res where r: "evaluate_cycle [?d] [(''start'', True)] = Some (Ok (ds', vars', res))"
    "list_all2 implements_rung ds' [motor_rung]"
    "get_bool vars' = ladder_scan [motor_rung] (get_bool [(''start'', True)])" by blast
  have "get_bool vars' ''motor''"
    by (simp add: r(3) ladder_scan_def rung_effect_def motor_rung_def coil_on_def get_bool_def)
  moreover obtain d' where "ds' = [d']" using r(2) by (auto simp: list_all2_Cons2)
  ultimately show ?thesis using r(1) by blast
qed

theorem power_flow_paths_witness:
  "\<exists>net net'. build_serial_network [No ''a'', Nc ''b''] = Ok net
     \<and> evaluate_power_flow net [(''a'', True)] [] = Some (Ok (net', [], True))"
proof -
  let ?cs = "[No ''a'', Nc ''b'']"
  obtain net where net: "build_serial_network ?cs = Ok net" "network_wf net" "cn_edges net = serial_edges 0 ?cs"
    "length (cn_nodes net) = Suc (length ?cs)" "cn_left_rail net = Some 0" "cn_output net = Some (length ?cs)"
    "cn_dirty net" using build_serial_ok [of ?cs] by blast
  have E: "edge_rel net = {(0, 1), (1, 2)}" by (auto simp: edge_rel_def net(3))
  have "edge_rel net \<subseteq> less_than" by (simp add: E)
  then have ac: "acyclic (edge_rel net)" by (rule acyclic_subset [OF wf_acyclic [OF wf_less_than]])
  have "\<forall>e \<in> set (cn_edges net). plain (ce_contact e) \<and> (0, ce_source e) \<in> (edge_rel net)\<^sup>*"
    by (auto simp: net(3) E)
  then obtain net' where "evaluate_power_flow net [(''a'', True)] []
      = Some (Ok (net', [], (0, length ?cs) \<in> (conducts net [(''a'', True)])\<^sup>*))"
    using power_flow_paths [OF net(2) ac net(7,5) _ net(6), of "[(''a'', True)]" "[]"] net(4) by auto
  moreover have "(0, length ?cs) \<in> (conducts net [(''a'', True)])\<^sup>*"
    by (simp only: serial_paths [OF net(3)]) (simp add: get_bool_def)
  ultimately show ?thesis using net(1) by auto
qed

subsection \<open>Networks with a cycle\<close>

definition cyclic_network :: contact_network where
  "cyclic_network =
     \<lparr>cn_nodes = [0, 1],
      cn_edges = [\<lparr>ce_source = 0, ce_target = 1, ce_contact = No ''a''\<rparr>,
                  \<lparr>ce_source = 1, ce_target = 0, ce_contact = No ''b''\<rparr>],
      cn_left_rail = Some 0, cn_output = Some 1, cn_outgoing = [[0], [1]], cn_topo = [], cn_dirty = True\<rparr>"

lemma cyclic_network_built:
  "bindo (add_edge (set_output_node (set_left_rail (fst (add_node (fst (add_node network_new)))) 0) 1) 0 1 (No ''a''))
     (\<lambda>net. add_edge net 1 0 (No ''b'')) = Ok cyclic_network"
  by (simp add: cyclic_network_def add_edge_def add_node_def network_new_def set_left_rail_def
      set_output_node_def Let_def)

lemma topo_loop_cyclic:
  assumes "topo_loop es out d q topo = Some r"
  shows "\<not> (es = cn_edges cyclic_network \<and> out = cn_outgoing cyclic_network \<and> d = [0, 0] \<and> (q = [0] \<or> q = [1]))"
  using assms
  by (rule topo_loop.raw_induct [rotated])
    (auto simp: cyclic_network_def split: outcome.splits if_splits, blast+)

text \<open>
  The network is documented as acyclic, but a cycle is accepted when it is built and then keeps
  the evaluation from returning: with an edge back into the left rail the work list never empties.
\<close>

theorem cyclic_network_diverges:
  "bindo (add_edge (set_output_node (set_left_rail (fst (add_node (fst (add_node network_new)))) 0) 1) 0 1 (No ''a''))
     (\<lambda>net. add_edge net 1 0 (No ''b'')) = Ok cyclic_network
   \<and> evaluate_power_flow cyclic_network snap es = None"
proof -
  have "topo_loop (cn_edges cyclic_network) (cn_outgoing cyclic_network) [0, 0] [0] [0, 1] = None"
    using topo_loop_cyclic [of "cn_edges cyclic_network" "cn_outgoing cyclic_network" "[0, 0]" "[0]" "[0, 1]"]
    by (cases "topo_loop (cn_edges cyclic_network) (cn_outgoing cyclic_network) [0, 0] [0] [0, 1]") auto
  moreover have "topo_loop (cn_edges cyclic_network) (cn_outgoing cyclic_network) [1, 1] [0] []
      = topo_loop (cn_edges cyclic_network) (cn_outgoing cyclic_network) [1, 0] [1] [0]"
    by (subst topo_loop.simps) (simp add: cyclic_network_def)
  moreover have "topo_loop (cn_edges cyclic_network) (cn_outgoing cyclic_network) [1, 0] [1] [0]
      = topo_loop (cn_edges cyclic_network) (cn_outgoing cyclic_network) [0, 0] [0] [0, 1]"
    by (subst topo_loop.simps) (simp add: cyclic_network_def)
  ultimately have "topo_loop (cn_edges cyclic_network) (cn_outgoing cyclic_network) [1, 1] [0] [] = None"
    by simp
  then have "topological_order cyclic_network = None"
    by (simp add: topological_order_def rebuild_topo_def Let_def) (simp add: cyclic_network_def)
  then show ?thesis using cyclic_network_built
    by (simp add: evaluate_power_flow_def left_rail_node_def output_node_id_def expect_def)
      (simp add: cyclic_network_def)
qed

subsection \<open>Edge contacts\<close>

lemma serial_one:
  "build_serial_network [c] =
     Ok \<lparr>cn_nodes = [0, 1], cn_edges = [\<lparr>ce_source = 0, ce_target = 1, ce_contact = c\<rparr>],
         cn_left_rail = Some 0, cn_output = Some 1, cn_outgoing = [[0], []], cn_topo = [], cn_dirty = True\<rparr>"
  by (simp add: build_serial_network_def add_node_def add_edge_def network_new_def set_left_rail_def
      set_output_node_def Let_def)

lemma one_contact_power:
  assumes "build_serial_network [c] = Ok net"
  shows "\<exists>net'. evaluate_power_flow net snap es = Some (Ok (net', contact_power snap es c))"
proof -
  let ?e = "\<lparr>ce_source = 0, ce_target = 1, ce_contact = c\<rparr>"
  have "topo_loop [?e] [[0], []] [0, 1] [0] [] = topo_loop [?e] [[0], []] [0, 0] [1] [0]"
    by (subst topo_loop.simps) simp
  also have "\<dots> = topo_loop [?e] [[0], []] [0, 0] [] [0, 1]" by (subst topo_loop.simps) simp
  also have "\<dots> = Some (Ok [0, 1])" by (subst topo_loop.simps) simp
  finally show ?thesis using assms
    by (auto simp: serial_one evaluate_power_flow_def left_rail_node_def output_node_id_def expect_def
        topological_order_def rebuild_topo_def flow_edge_def node_get_def Let_def prod_eq_iff)
qed

text \<open>
  In a scan cycle an edge contact does not detect edges. The edge state is created anew in every
  cycle, so a rising-edge contact passes power in every scan in which its variable is on, however
  long it has been on, and a falling-edge contact never passes power.
\<close>

theorem edge_contacts_forget:
  assumes "build_serial_network [PosEdge x] = Ok up" and "build_serial_network [NegEdge x] = Ok down"
  shows "(\<exists>ds' vars' res. evaluate_cycle
      [\<lparr>rd_id = i, rd_network = up, rd_coils = [\<lparr>coil_var = y, coil_kind = CoilOut\<rparr>]\<rparr>] vars
      = Some (Ok (ds', vars', res)) \<and> get_bool vars' y = get_bool vars x)
    \<and> (\<exists>ds' vars' res. evaluate_cycle
      [\<lparr>rd_id = i, rd_network = down, rd_coils = [\<lparr>coil_var = y, coil_kind = CoilOut\<rparr>]\<rparr>] vars
      = Some (Ok (ds', vars', res)) \<and> \<not> get_bool vars' y)"
  using one_contact_power [OF assms(1), of vars "[]"] one_contact_power [OF assms(2), of vars "[]"]
  by (auto simp: evaluate_cycle_def cycle_rung_def store_snapshot_def is_rising_def is_falling_def Let_def
      store_coils_def set_bool_def cycle_coil_state_def get_bool_def)

theorem edge_contacts_forget_witness:
  "\<exists>up ds' vars' res. build_serial_network [PosEdge ''x''] = Ok up
    \<and> evaluate_cycle [\<lparr>rd_id = ''r'', rd_network = up, rd_coils = [\<lparr>coil_var = ''y'', coil_kind = CoilOut\<rparr>]\<rparr>]
        [(''x'', True), (''y'', True)] = Some (Ok (ds', vars', res)) \<and> get_bool vars' ''y''"
  using edge_contacts_forget [where x = "''x''" and i = "''r''" and y = "''y''"
      and vars = "[(''x'', True), (''y'', True)]", OF serial_one serial_one]
    serial_one [of "PosEdge ''x''"]
  by (auto simp: get_bool_def [of "[(''x'', True), (''y'', True)]"])

end
