(* ===== verification/Ld_Correct.thy ===== *)
theory Ld_Correct
  imports Ld_Compiler Il_Text Il_Correct Ld_Power
begin

text \<open>
  The ladder compiler against the ladder semantics: the text it writes is read back by the
  instruction list compiler as the intended statements, and the compiled program computes the
  power flow of the rungs.
\<close>

subsection \<open>From elements to statements\<close>

primrec element_ops :: "bool \<Rightarrow> ld_element \<Rightarrow> bool \<times> il_op list" where
  "element_ops first (LdContact no v) =
     (False, [(if first then (if no then ''LD'' else ''LDN'') else (if no then ''AND'' else ''ANDN''), v)])"
| "element_ops first (LdParallelContact no v) = (first, [(if no then ''OR'' else ''ORN'', v)])"
| "element_ops first (LdEdgeContact rising v) =
     (False, [(if first then ''LD'' else ''AND'', v), (if rising then ''R_TRIG'' else ''F_TRIG'', v)])"
| "element_ops first (LdCoil kind v) =
     (first, [(case kind of LdOut \<Rightarrow> ''ST'' | LdSet \<Rightarrow> ''S'' | LdReset \<Rightarrow> ''R'', v)])"

primrec network_ops :: "bool \<Rightarrow> ld_element list \<Rightarrow> il_op list" where
  "network_ops first [] = []"
| "network_ops first (e # es) = snd (element_ops first e) @ network_ops (fst (element_ops first e)) es"

primrec ld_var :: "ld_element \<Rightarrow> string" where
  "ld_var (LdContact _ v) = v"
| "ld_var (LdParallelContact _ v) = v"
| "ld_var (LdEdgeContact _ v) = v"
| "ld_var (LdCoil _ v) = v"

lemma element_lines_ops:
  "element_lines first e = (fst (element_ops first e), map op_line (snd (element_ops first e)))"
  by (cases e) (simp_all add: op_line_def split: ld_coil_kind.split)

lemma network_lines_ops: "network_lines first es = map op_line (network_ops first es)"
  by (induction es arbitrary: first) (simp_all add: element_lines_ops)

lemma generate_ops:
  "ld_generate_il nets = join_lines (map op_line (concat (map (network_ops True) nets)))"
  by (simp add: ld_generate_il_def map_concat comp_def network_lines_ops [abs_def])

lemma element_ops_ok:
  "word_ok (ld_var e) \<Longrightarrow> comment_free (ld_var e) \<Longrightarrow> list_all op_ok (snd (element_ops first e))"
  by (cases e) (simp_all add: op_ok_def op_names_def split: ld_coil_kind.split)

lemma network_ops_ok:
  "\<forall>e \<in> set es. word_ok (ld_var e) \<and> comment_free (ld_var e) \<Longrightarrow> list_all op_ok (network_ops first es)"
  by (induction es arbitrary: first) (simp_all add: element_ops_ok)

primrec element_stmts :: "bool \<Rightarrow> ld_element \<Rightarrow> bool \<times> il_statement list" where
  "element_stmts first (LdContact no v) =
     (False, [if first then (if no then SLoad v else SLoadNot v) else (if no then SAnd v else SAndNot v)])"
| "element_stmts first (LdParallelContact no v) = (first, [if no then SOr v else SOrNot v])"
| "element_stmts first (LdEdgeContact rising v) =
     (False, [if first then SLoad v else SAnd v, if rising then SRTrig v else SFTrig v])"
| "element_stmts first (LdCoil kind v) =
     (first, [case kind of LdOut \<Rightarrow> SStore v | LdSet \<Rightarrow> SSet v | LdReset \<Rightarrow> SReset v])"

primrec network_stmts :: "bool \<Rightarrow> ld_element list \<Rightarrow> il_statement list" where
  "network_stmts first [] = []"
| "network_stmts first (e # es) = snd (element_stmts first e) @ network_stmts (fst (element_stmts first e)) es"

lemma element_stmts_ops:
  "element_stmts first e = (fst (element_ops first e), map op_stmt (snd (element_ops first e)))"
  by (cases e) (simp_all split: ld_coil_kind.split)

lemma network_stmts_ops: "network_stmts first es = map op_stmt (network_ops first es)"
  by (induction es arbitrary: first) (simp_all add: element_stmts_ops)

subsection \<open>Names in a source\<close>

fun token_ok :: "ld_token \<Rightarrow> bool" where
  "token_ok LtNetwork = True"
| "token_ok (LtParallel _) = True"
| "token_ok (LtNo v) = word_ok v"
| "token_ok (LtNc v) = word_ok v"
| "token_ok (LtP v) = word_ok v"
| "token_ok (LtN v) = word_ok v"
| "token_ok (LtOut v) = word_ok v"
| "token_ok (LtSet v) = word_ok v"
| "token_ok (LtReset v) = word_ok v"

lemma other_line_ok: "token_ok (other_line line)"
  by (simp add: other_line_def parallel_spec_def split: list.split)

lemma parse_line_ok: "token_ok (parse_line line)"
proof (cases "split_whitespace (to_upper line)")
  case (Cons k ws)
  then show ?thesis using split_words_ok [of _ "to_upper line"] other_line_ok
    by (auto simp: parse_line_def split: list.split)
qed (simp add: parse_line_def other_line_ok)

lemma parallel_element_ok: "e \<in> set (parallel_element spec) \<Longrightarrow> word_ok (ld_var e)"
proof -
  assume e: "e \<in> set (parallel_element spec)"
  have "ld_var e \<in> set ws" if "e \<in> set (case ws of [k, var] \<Rightarrow>
      if k = ''NO'' then [LdParallelContact True var] else if k = ''NC'' then [LdParallelContact False var]
      else if k = ''P'' then [LdEdgeContact True var] else if k = ''N'' then [LdEdgeContact False var] else []
    | _ \<Rightarrow> [])" for ws
    using that by (cases ws; cases "tl ws"; cases "tl (tl ws)") (simp_all split: if_split_asm)
  from this [OF e [unfolded parallel_element_def]] show ?thesis by (rule split_words_ok)
qed

lemma token_elements_ok: "token_ok t \<Longrightarrow> e \<in> set (token_elements t) \<Longrightarrow> word_ok (ld_var e)"
  by (cases t) (auto dest: parallel_element_ok)

lemma group_networks_ok:
  assumes "list_all token_ok ts" and "\<forall>e \<in> set cur. word_ok (ld_var e)"
    and "net \<in> set (group_networks ts cur)" and "e \<in> set net"
  shows "word_ok (ld_var e)"
  using assms
proof (induction ts arbitrary: cur)
  case Nil
  then show ?case by (simp split: if_splits)
next
  case (Cons t ts)
  show ?case
  proof (cases "t = LtNetwork")
    case True
    then show ?thesis using Cons.IH [of "[]"] Cons.prems by (auto split: if_splits)
  next
    case False
    have "\<forall>e \<in> set (cur @ token_elements t). word_ok (ld_var e)"
      using Cons.prems token_elements_ok by auto
    then show ?thesis using Cons.IH [of "cur @ token_elements t"] Cons.prems False by simp
  qed
qed

lemma source_names_ok:
  assumes "net \<in> set (parse_networks (ld_tokenize source))" and "e \<in> set net"
  shows "word_ok (ld_var e)"
proof (rule group_networks_ok)
  show "list_all token_ok (ld_tokenize source)" by (simp add: ld_tokenize_def list_all_iff parse_line_ok)
qed (use assms in \<open>simp_all add: parse_networks_def\<close>)

lemma compiled_statements:
  assumes "ld_compile source = Inr il"
    and "\<forall>net \<in> set (parse_networks (ld_tokenize source)). \<forall>e \<in> set net. comment_free (ld_var e)"
  shows "parse (tokenize il) = concat (map (network_stmts True) (parse_networks (ld_tokenize source)))"
proof -
  let ?nets = "parse_networks (ld_tokenize source)"
  have "il = ld_generate_il ?nets" using assms(1) by (simp add: ld_compile_def Let_def split: if_splits)
  moreover have "list_all op_ok (concat (map (network_ops True) ?nets))"
    using assms(2) network_ops_ok source_names_ok by (fastforce simp: list_all_iff)
  ultimately show ?thesis
    by (simp only: generate_ops parse_generated) (simp add: map_concat comp_def network_stmts_ops [abs_def])
qed

subsection \<open>Boolean signals\<close>

definition all_bool :: "(string \<rightharpoonup> hal_value) \<Rightarrow> bool" where
  "all_bool sg \<longleftrightarrow> (\<forall>nm x. sg nm = Some x \<longrightarrow> (\<exists>b. x = VBool b))"

definition bool_view :: "(string \<rightharpoonup> hal_value) \<Rightarrow> string \<Rightarrow> bool" where
  "bool_view sg nm = (case sg nm of Some (VBool b) \<Rightarrow> b | _ \<Rightarrow> False)"

lemma sig_value_bool: "all_bool sg \<Longrightarrow> sig_value sg nm = VBool (bool_view sg nm)"
  by (cases "sg nm") (fastforce simp: all_bool_def sig_value_def bool_view_def)+

lemma bool_view_store: "bool_view (sg(nm \<mapsto> VBool b)) = (bool_view sg)(nm := b)"
  by (auto simp: bool_view_def fun_eq_iff)

lemma all_bool_store: "all_bool sg \<Longrightarrow> all_bool (sg(nm \<mapsto> VBool b))"
  by (simp add: all_bool_def)

subsection \<open>Rungs\<close>

fun contact_element :: "contact \<Rightarrow> ld_element" where
  "contact_element (No v) = LdContact True v"
| "contact_element (Nc v) = LdContact False v"
| "contact_element (PosEdge v) = LdEdgeContact True v"
| "contact_element (NegEdge v) = LdEdgeContact False v"

definition rung_network :: "rung \<Rightarrow> ld_element list" where
  "rung_network r = map contact_element (fst r) @ map (\<lambda>c. LdCoil LdOut (coil_var c)) (snd r)"

definition simple_rung :: "rung \<Rightarrow> bool" where
  "simple_rung r \<longleftrightarrow> fst r \<noteq> [] \<and> list_all plain (fst r) \<and> list_all (\<lambda>c. coil_kind c = CoilOut) (snd r)"

lemma network_stmts_append:
  "network_stmts first (xs @ ys) =
     network_stmts first xs @ network_stmts (foldl (\<lambda>f e. fst (element_stmts f e)) first xs) ys"
  by (induction xs arbitrary: first) simp_all

lemma il_run_append: "il_run (xs @ ys) st = il_run ys (il_run xs st)"
  by (simp add: il_run_def)

lemma run_and_contacts:
  assumes "all_bool sg" and "list_all plain cs"
  shows "il_run (network_stmts False (map contact_element cs)) (VBool b, sg)
    = (VBool (b \<and> list_all (contact_on (bool_view sg)) cs), sg)"
  using assms(2)
proof (induction cs arbitrary: b)
  case (Cons c cs)
  then show ?case using assms(1)
    by (cases c) (simp_all add: il_run_def sig_value_bool hal_bitop_def conj_assoc)
qed (simp add: il_run_def)

lemma run_contacts:
  assumes "all_bool sg" and "list_all plain cs" and "cs \<noteq> []"
  shows "il_run (network_stmts True (map contact_element cs)) (cr, sg)
    = (VBool (list_all (contact_on (bool_view sg)) cs), sg)"
proof (cases cs)
  case (Cons c cs')
  then show ?thesis using assms run_and_contacts [OF assms(1), of cs']
    by (cases c) (simp_all add: il_run_def sig_value_bool)
qed (use assms in simp)

lemma run_coils:
  assumes "all_bool sg"
  shows "\<exists>sg'. il_run (network_stmts first (map (\<lambda>c. LdCoil LdOut (coil_var c)) coils)) (VBool pw, sg) = (VBool pw, sg')
    \<and> all_bool sg' \<and> bool_view sg' = foldl (\<lambda>\<tau> c. \<tau>(coil_var c := pw)) (bool_view sg) coils"
  using assms
proof (induction coils arbitrary: sg)
  case (Cons c coils)
  let ?sg = "sg(coil_var c \<mapsto> VBool pw)"
  let ?stmts = "\<lambda>cs. network_stmts first (map (\<lambda>c. LdCoil LdOut (coil_var c)) cs)"
  obtain sg' where h: "il_run (?stmts coils) (VBool pw, ?sg) = (VBool pw, sg')" "all_bool sg'"
    "bool_view sg' = foldl (\<lambda>\<tau> c. \<tau>(coil_var c := pw)) (bool_view ?sg) coils"
    using Cons.IH [OF all_bool_store [OF Cons.prems]] by blast
  have "il_run (?stmts (c # coils)) (VBool pw, sg) = il_run (?stmts coils) (VBool pw, ?sg)"
    by (simp add: il_run_def)
  then show ?case using h unfolding bool_view_store foldl.simps by auto
qed (simp add: il_run_def)

lemma run_rung:
  assumes "simple_rung r" and "all_bool sg"
  shows "\<exists>cr' sg'. il_run (network_stmts True (rung_network r)) (cr, sg) = (cr', sg')
    \<and> all_bool sg' \<and> bool_view sg' = rung_effect (bool_view sg) r"
proof -
  let ?pw = "list_all (contact_on (bool_view sg)) (fst r)"
  let ?first = "foldl (\<lambda>f e. fst (element_stmts f e)) True (map contact_element (fst r))"
  have c: "il_run (network_stmts True (map contact_element (fst r))) (cr, sg) = (VBool ?pw, sg)"
    using assms run_contacts by (simp add: simple_rung_def)
  obtain sg' where s: "il_run (network_stmts ?first (map (\<lambda>c. LdCoil LdOut (coil_var c)) (snd r))) (VBool ?pw, sg)
      = (VBool ?pw, sg')" "all_bool sg'" "bool_view sg' = foldl (\<lambda>\<tau> c. \<tau>(coil_var c := ?pw)) (bool_view sg) (snd r)"
    using run_coils [OF assms(2)] by blast
  have "coil_on ?pw (bool_view sg) c = ?pw" if "c \<in> set (snd r)" for c
    using that assms(1) by (auto simp: simple_rung_def list_all_iff coil_on_def)
  then have "foldl (\<lambda>\<tau> c. \<tau>(coil_var c := ?pw)) (bool_view sg) (snd r) = rung_effect (bool_view sg) r"
    unfolding rung_effect_def by (intro foldl_cong) simp_all
  then show ?thesis using c s unfolding rung_network_def network_stmts_append il_run_append by auto
qed

lemma run_ladder:
  assumes "list_all simple_rung rs" and "all_bool sg"
  shows "\<exists>cr' sg'. il_run (concat (map (network_stmts True) (map rung_network rs))) (cr, sg) = (cr', sg')
    \<and> all_bool sg' \<and> bool_view sg' = ladder_scan rs (bool_view sg)"
  using assms
proof (induction rs arbitrary: cr sg)
  case (Cons r rs)
  obtain cr1 sg1 where 1: "il_run (network_stmts True (rung_network r)) (cr, sg) = (cr1, sg1)"
    "all_bool sg1" "bool_view sg1 = rung_effect (bool_view sg) r" using run_rung [of r sg cr] Cons.prems by auto
  then show ?case using Cons.IH [of sg1 cr1] Cons.prems(1) by (simp add: il_run_append ladder_scan_def)
qed (simp add: il_run_def ladder_scan_def)


subsection \<open>Witness\<close>

definition ladder_source :: string where
  "ladder_source = ''NETWORK'' @ [CHR 0x0A] @ ''  no a'' @ [CHR 0x0A] @ ''  NC b'' @ [CHR 0x0A] @ ''  OUT c''"

definition ladder_rung :: rung where
  "ladder_rung = ([No ''A'', Nc ''B''], [\<lparr>coil_var = ''C'', coil_kind = CoilOut\<rparr>])"

lemma ladder_source_networks: "parse_networks (ld_tokenize ladder_source) = map rung_network [ladder_rung]"
proof -
  have "parse_networks (ld_tokenize ladder_source) = [[LdContact True ''A'', LdContact False ''B'', LdCoil LdOut ''C'']]"
    by code_simp
  then show ?thesis by (simp add: ladder_rung_def rung_network_def)
qed

definition ladder_il :: string where
  "ladder_il = ''LD A'' @ [CHR 0x0A] @ ''ANDN B'' @ [CHR 0x0A] @ ''ST C''"

lemma ladder_source_compiles: "ld_compile ladder_source = Inr ladder_il" "is_ok (il_compile ladder_il)"
  by code_simp+


end
