(* ===== verification/Sfc_Compiler.thy ===== *)
theory Sfc_Compiler
  imports Rust_Str
begin

text \<open>
  The sequential function chart compiler \<^verbatim>\<open>audesys-sfc-compiler\<close>: tokenizer, steps, transitions and
  the generation of instruction list text. Sources are ASCII; the text it writes is a byte string.
\<close>

subsection \<open>Steps and tokens\<close>

record sfc_action =
  qualifier :: char
  act_body :: string

record sfc_transition =
  tr_from :: string
  tr_to :: string
  tr_condition :: string

record sfc_step =
  step_name :: string
  step_actions :: "sfc_action list"
  step_transition :: "sfc_transition option"

datatype sfc_token =
    StepName string
  | SfcAction char string
  | EndStep
  | SfcTransition string string string
  | EndTransition

definition action_token :: "string \<Rightarrow> sfc_token list" where
  "action_token rest =
     (case find_str '':'' rest of
        None \<Rightarrow> []
      | Some k \<Rightarrow>
          (case trim (take k rest) of
             [] \<Rightarrow> []
           | q # _ \<Rightarrow> [SfcAction q (trim (drop (k + 1) rest))]))"

definition transition_token :: "string \<Rightarrow> sfc_token list" where
  "transition_token rest =
     (case find_str ''FROM '' (to_upper rest) of
        None \<Rightarrow> []
      | Some from_start \<Rightarrow>
          (let after_from = drop (from_start + 5) rest in
           case find_str '' TO '' (to_upper after_from) of
             None \<Rightarrow> []
           | Some to_pos \<Rightarrow>
               (let after_to = drop (to_pos + 4) after_from in
                case find_str '':'' after_to of
                  None \<Rightarrow> []
                | Some colon \<Rightarrow>
                    [SfcTransition (trim (take to_pos after_from)) (trim (take colon after_to))
                       (trim (drop (colon + 1) after_to))])))"

definition sfc_line :: "string \<Rightarrow> sfc_token list" where
  "sfc_line l =
     (let line = trim l; upper = to_upper line in
      if starts_with upper ''END_STEP'' then [EndStep]
      else if starts_with upper ''END_TRANSITION'' then [EndTransition]
      else if starts_with upper ''STEP '' then
        (let name = trim (drop 5 line) in if name = [] then [] else [StepName name])
      else if starts_with upper ''ACTION '' then action_token (trim (drop 7 line))
      else if starts_with upper ''TRANSITION '' then transition_token (trim (drop 11 line))
      else [])"

definition sfc_tokenize :: "string \<Rightarrow> sfc_token list" where
  "sfc_tokenize source = concat (map sfc_line (str_lines source))"

subsection \<open>Parser\<close>

fun step_tokens :: "sfc_token list \<Rightarrow> sfc_step option \<Rightarrow> sfc_step list" where
  "step_tokens [] cur = (case cur of Some s \<Rightarrow> [s] | None \<Rightarrow> [])"
| "step_tokens (StepName nm # ts) cur =
     (case cur of Some s \<Rightarrow> [s] | None \<Rightarrow> [])
     @ step_tokens ts (Some \<lparr>step_name = nm, step_actions = [], step_transition = None\<rparr>)"
| "step_tokens (SfcAction q b # ts) cur =
     step_tokens ts (map_option (\<lambda>s. s\<lparr>step_actions := step_actions s @ [\<lparr>qualifier = q, act_body = b\<rparr>]\<rparr>) cur)"
| "step_tokens (EndStep # ts) cur = (case cur of Some s \<Rightarrow> [s] | None \<Rightarrow> []) @ step_tokens ts None"
| "step_tokens (SfcTransition f t c # ts) cur = step_tokens ts cur"
| "step_tokens (EndTransition # ts) cur = step_tokens ts cur"

definition parse_steps :: "sfc_token list \<Rightarrow> string + sfc_step list" where
  "parse_steps ts =
     (let steps = step_tokens ts None in
      if steps = [] then Inl ''no SFC steps found'' else Inr steps)"

fun parse_transitions :: "sfc_token list \<Rightarrow> sfc_transition list" where
  "parse_transitions [] = []"
| "parse_transitions (SfcTransition f t c # ts) =
     \<lparr>tr_from = f, tr_to = t, tr_condition = c\<rparr> # parse_transitions ts"
| "parse_transitions (_ # ts) = parse_transitions ts"

fun position :: "('a \<Rightarrow> bool) \<Rightarrow> 'a list \<Rightarrow> nat option" where
  "position P [] = None"
| "position P (x # xs) = (if P x then Some 0 else map_option Suc (position P xs))"

primrec link_transitions :: "sfc_transition list \<Rightarrow> sfc_step list \<Rightarrow> string + sfc_step list" where
  "link_transitions [] steps = Inr steps"
| "link_transitions (tr # trs) steps =
     (case position (\<lambda>s. step_name s = tr_from tr) steps of
        None \<Rightarrow> Inl (''step '' @ [CHR 0x27] @ tr_from tr @ [CHR 0x27] @ '' not found for transition FROM'')
      | Some idx \<Rightarrow>
          if \<not> list_ex (\<lambda>s. step_name s = tr_to tr) steps
          then Inl (''step '' @ [CHR 0x27] @ tr_to tr @ [CHR 0x27] @ '' not found for transition TO'')
          else if step_transition (steps ! idx) \<noteq> None then link_transitions trs steps
          else link_transitions trs (steps[idx := (steps ! idx)\<lparr>step_transition := Some tr\<rparr>]))"

subsection \<open>Expressions\<close>

definition is_identifier :: "string \<Rightarrow> bool" where
  "is_identifier s0 =
     (let s = trim s0 in
      case s of
        [] \<Rightarrow> False
      | first # _ \<Rightarrow> (is_alpha first \<or> first = CHR ''_'')
          \<and> list_all (\<lambda>c. is_alpha c \<or> is_digit c \<or> c = CHR ''_'') s)"

definition il_op_for :: "string \<Rightarrow> string option" where
  "il_op_for op =
     map_of [(''+'', ''ADD''), (''-'', ''SUB''), (''*'', ''MUL''), (''/'', ''DIV''), (''='', ''EQ''),
       (''<>'', ''NE''), (''<'', ''LT''), (''<='', ''LE''), (''>'', ''GT''), (''>='', ''GE'')] op"

definition split_at :: "string \<Rightarrow> string \<Rightarrow> nat \<Rightarrow> nat \<Rightarrow> string \<times> string \<times> string" where
  "split_at e op k n = (trim (take k e), op, trim (drop (k + n) e))"

definition split_equals :: "string \<Rightarrow> (string \<times> string \<times> string) option" where
  "split_equals e =
     (case find_str '' = '' e of
        Some k \<Rightarrow> Some (split_at e ''='' k 3)
      | None \<Rightarrow>
          (case rfind_char CHR ''='' e of
             None \<Rightarrow> None
           | Some k \<Rightarrow>
               if 0 < k \<and> e ! (k - 1) = CHR '':'' then None
               else if k + 1 < length e \<and> e ! (k + 1) = CHR ''='' then None
               else Some (split_at e ''='' k 1)))"

fun split_multi :: "string list \<Rightarrow> string \<Rightarrow> (string \<times> string \<times> string) option" where
  "split_multi [] e = None"
| "split_multi (op # ops) e =
     (case find_str op e of
        Some k \<Rightarrow> Some (split_at e op k (length op))
      | None \<Rightarrow> split_multi ops e)"

definition split_binary_expression :: "string \<Rightarrow> (string \<times> string \<times> string) option" where
  "split_binary_expression e =
     (case split_multi [''>='', ''<='', ''<>''] e of
        Some r \<Rightarrow> Some r
      | None \<Rightarrow>
          (case split_equals e of
             Some r \<Rightarrow> Some r
           | None \<Rightarrow> split_multi [''<'', ''>'', ''+'', ''-'', ''*'', ''/''] e))"

definition sfc_arrow :: string where
  "sfc_arrow = [CHR 0xE2, CHR 0x86, CHR 0x92]"

definition load_store :: "string \<Rightarrow> string \<Rightarrow> string" where
  "load_store v target = ''LD '' @ v @ newline @ ''ST '' @ target"

definition expr_to_il :: "string \<Rightarrow> string \<Rightarrow> string" where
  "expr_to_il expr target =
     (let e = trim expr in
      if to_upper e = ''TRUE'' then load_store ''1'' target
      else if to_upper e = ''FALSE'' then load_store ''0'' target
      else if list_all is_digit e then load_store e target
      else case strip_prefix e ''NOT '' of
        Some inner \<Rightarrow> ''LD '' @ trim inner @ newline @ ''NOT'' @ newline @ ''ST '' @ target
      | None \<Rightarrow>
          if is_identifier e then load_store e target
          else (case split_binary_expression e of
             Some (left, op, right) \<Rightarrow>
               (case il_op_for op of
                  None \<Rightarrow> ''; unparsed binary: '' @ expr @ '' '' @ sfc_arrow @ '' ST '' @ target
                | Some il_op \<Rightarrow> ''LD '' @ left @ newline @ il_op @ '' '' @ trim right @ newline @ ''ST '' @ target)
           | None \<Rightarrow> ''; unparsed expr: '' @ expr @ '' '' @ sfc_arrow @ '' ST '' @ target))"

definition il_opcodes :: "string list" where
  "il_opcodes = [''LD '', ''LDN '', ''ST '', ''S '', ''R '', ''AND '', ''ANDN '', ''OR '', ''ORN '', ''XOR '',
     ''XORN '', ''ADD '', ''SUB '', ''MUL '', ''DIV '', ''GT '', ''GE '', ''EQ '', ''NE '', ''LT '', ''LE '',
     ''JMP '', ''JMPC '', ''JMPCN '', ''CAL '', ''RET '', ''NOT '', ''NOP '']"

definition action_body_to_il :: "string \<Rightarrow> string" where
  "action_body_to_il body =
     (let b = trim_end_char CHR '';'' (trim body) in
      if list_ex (starts_with (to_upper b)) il_opcodes then b
      else case find_str '':='' b of
        Some k \<Rightarrow> expr_to_il (trim (drop (k + 2) b)) (trim (take k b))
      | None \<Rightarrow> ''; unparsed action: '' @ b)"

definition transition_condition_to_il :: "string \<Rightarrow> string" where
  "transition_condition_to_il condition =
     (let c = trim condition in
      if to_upper c = ''TRUE'' then ''LD 1''
      else if to_upper c = ''FALSE'' then ''LD 0''
      else if list_all is_digit c then ''LD '' @ c
      else if is_identifier c then ''LD '' @ c @ newline @ ''NE 0''
      else case strip_prefix c ''NOT '' of
        Some inner \<Rightarrow> ''LD '' @ trim inner @ newline @ ''NOT''
      | None \<Rightarrow>
          (case split_binary_expression c of
             Some (left, op, right) \<Rightarrow>
               (case il_op_for op of
                  Some il_op \<Rightarrow> ''LD '' @ left @ newline @ il_op @ '' '' @ right
                | None \<Rightarrow> ''; unparsed condition: '' @ c)
           | None \<Rightarrow> ''; unparsed condition: '' @ c))"

subsection \<open>Generation\<close>

definition indent_lines :: "string \<Rightarrow> string" where
  "indent_lines il = concat (map (\<lambda>l. ''  '' @ l @ newline) (str_lines il))"

definition step_il :: "nat \<Rightarrow> nat \<Rightarrow> sfc_step \<Rightarrow> string + string" where
  "step_il count idx step =
     (let label = to_upper (step_name step);
          head = label @ '':'' @ newline
            @ concat (map (\<lambda>a. indent_lines (action_body_to_il (act_body a))) (step_actions step))
      in case step_transition step of
        Some tr \<Rightarrow> Inr (head @ indent_lines (transition_condition_to_il (tr_condition tr))
            @ ''  JMPC '' @ to_upper (tr_to tr) @ newline
            @ ''  JMP '' @ label @ newline @ newline)
      | None \<Rightarrow>
          if idx = count - 1 then Inr (head @ ''  HALT'' @ newline @ newline)
          else Inl (''step '' @ [CHR 0x27] @ step_name step @ [CHR 0x27]
            @ '' has no transition (only the final step may lack a transition)''))"

primrec steps_il :: "nat \<Rightarrow> nat \<Rightarrow> sfc_step list \<Rightarrow> string + string" where
  "steps_il count idx [] = Inr []"
| "steps_il count idx (s # ss) =
     (case step_il count idx s of
        Inl e \<Rightarrow> Inl e
      | Inr il \<Rightarrow> (case steps_il count (Suc idx) ss of Inl e \<Rightarrow> Inl e | Inr rest \<Rightarrow> Inr (il @ rest)))"

definition sfc_generate_il :: "sfc_step list \<Rightarrow> string + string" where
  "sfc_generate_il steps =
     (case steps of
        [] \<Rightarrow> Inl ''no steps to generate IL from''
      | first # _ \<Rightarrow>
          (case steps_il (length steps) 0 steps of
             Inl e \<Rightarrow> Inl e
           | Inr il \<Rightarrow> Inr (''; SFC compiled to IL'' @ newline
               @ ''JMP '' @ to_upper (step_name first) @ newline @ newline @ il)))"

definition sfc_compile :: "string \<Rightarrow> string + string" where
  "sfc_compile source =
     (let tokens = sfc_tokenize source in
      case parse_steps tokens of
        Inl e \<Rightarrow> Inl e
      | Inr steps \<Rightarrow>
          (case link_transitions (parse_transitions tokens) steps of
             Inl e \<Rightarrow> Inl e
           | Inr linked \<Rightarrow> sfc_generate_il linked))"

end
