(* ===== verification/Sfc_Correct.thy ===== *)
theory Sfc_Correct
  imports Sfc_Compiler Il_Correct
begin

text \<open>
  When the chart compiler accepts a source, and what the machine makes of its transitions.
\<close>

subsection \<open>Accepted sources\<close>

lemma position_Some:
  "position P xs = Some i \<longleftrightarrow> i < length xs \<and> P (xs ! i) \<and> (\<forall>j < i. \<not> P (xs ! j))"
proof (induction xs arbitrary: i)
  case (Cons x xs)
  then show ?case by (cases i) (auto simp: less_Suc_eq_0_disj)
qed simp

lemma position_None: "position P xs = None \<longleftrightarrow> (\<forall>x \<in> set xs. \<not> P x)"
  by (induction xs) auto

lemma position_names:
  "map step_name xs = map step_name ys
   \<Longrightarrow> position (\<lambda>s. step_name s = nm) xs = position (\<lambda>s. step_name s = nm) ys"
proof (induction xs arbitrary: ys)
  case (Cons x xs)
  then show ?case by (cases ys) auto
qed simp

text \<open>The step at index \<open>i\<close> is the first of its name and some transition leaves it.\<close>

definition has_exit :: "sfc_transition list \<Rightarrow> sfc_step list \<Rightarrow> nat \<Rightarrow> bool" where
  "has_exit trs sts i \<longleftrightarrow>
     (\<exists>tr \<in> set trs. position (\<lambda>s. step_name s = tr_from tr) sts = Some i)"

definition known_ends :: "sfc_step list \<Rightarrow> sfc_transition \<Rightarrow> bool" where
  "known_ends sts tr \<longleftrightarrow> tr_from tr \<in> step_name ` set sts \<and> tr_to tr \<in> step_name ` set sts"

lemma link_ok:
  "(\<exists>linked. link_transitions trs sts = Inr linked) \<longleftrightarrow> list_all (known_ends sts) trs"
proof (induction trs arbitrary: sts)
  case (Cons tr trs)
  show ?case
  proof (cases "position (\<lambda>s. step_name s = tr_from tr) sts")
    case None
    then have "tr_from tr \<notin> step_name ` set sts" by (auto simp: position_None)
    then show ?thesis using None by (simp add: known_ends_def)
  next
    case (Some idx)
    let ?sts = "sts[idx := (sts ! idx)\<lparr>step_transition := Some tr\<rparr>]"
    have i: "idx < length sts" "step_name (sts ! idx) = tr_from tr" using Some by (auto simp: position_Some)
    have "map step_name ?sts = map step_name sts"
      by (rule map_update_keeps) simp
    then have "step_name ` set ?sts = step_name ` set sts" by (metis list.set_map)
    then have same: "known_ends ?sts = known_ends sts" by (simp add: known_ends_def fun_eq_iff)
    have "tr_from tr \<in> step_name ` set sts" using i by (metis image_eqI nth_mem)
    moreover have "list_ex (\<lambda>s. step_name s = tr_to tr) sts \<longleftrightarrow> tr_to tr \<in> step_name ` set sts"
      unfolding list_ex_iff by (metis imageE image_eqI)
    ultimately show ?thesis using Some Cons.IH [of sts] Cons.IH [of ?sts] same
      by (simp add: known_ends_def)
  qed
qed simp

lemma link_result:
  "link_transitions trs sts = Inr linked \<Longrightarrow> length linked = length sts
    \<and> (\<forall>i < length sts. step_transition (linked ! i) \<noteq> None
      \<longleftrightarrow> step_transition (sts ! i) \<noteq> None \<or> has_exit trs sts i)"
proof (induction trs arbitrary: sts)
  case Nil
  then show ?case by (simp add: has_exit_def)
next
  case (Cons tr trs)
  obtain idx where idx: "position (\<lambda>s. step_name s = tr_from tr) sts = Some idx"
    using Cons.prems by (cases "position (\<lambda>s. step_name s = tr_from tr) sts") simp_all
  let ?sts = "if step_transition (sts ! idx) \<noteq> None then sts
    else sts[idx := (sts ! idx)\<lparr>step_transition := Some tr\<rparr>]"
  have i: "idx < length sts" using idx by (auto simp: position_Some)
  have l: "link_transitions trs ?sts = Inr linked" using Cons.prems idx by (auto split: if_splits)
  have names: "map step_name ?sts = map step_name sts" by (auto intro!: map_update_keeps)
  have he: "has_exit trs ?sts = has_exit trs sts"
    unfolding has_exit_def position_names [OF names] ..
  have hc: "has_exit (tr # trs) sts j \<longleftrightarrow> j = idx \<or> has_exit trs sts j" for j
    using idx by (auto simp: has_exit_def)
  have "step_transition (?sts ! j) \<noteq> None \<longleftrightarrow> step_transition (sts ! j) \<noteq> None \<or> j = idx" if "j < length sts" for j
    using i that by (auto simp: nth_list_update)
  then show ?case using Cons.IH [OF l] i unfolding he hc by auto
qed

lemma steps_il_ok:
  "(\<exists>il. steps_il n k ss = Inr il) \<longleftrightarrow>
     (\<forall>i < length ss. step_transition (ss ! i) \<noteq> None \<or> k + i = n - 1)"
proof (induction ss arbitrary: k)
  case (Cons s ss)
  have "(\<exists>il. step_il n k s = Inr il) \<longleftrightarrow> step_transition s \<noteq> None \<or> k = n - 1"
    by (auto simp: step_il_def Let_def split: option.split)
  moreover have "(\<exists>il. steps_il n k (s # ss) = Inr il) \<longleftrightarrow>
      (\<exists>il. step_il n k s = Inr il) \<and> (\<exists>il. steps_il n (Suc k) ss = Inr il)"
    by (auto split: sum.split)
  ultimately show ?case using Cons.IH [of "Suc k"]
    by (auto simp: less_Suc_eq_0_disj)
qed simp

lemma all_but_last: "(\<forall>i < n. P i \<or> i = n - 1) \<longleftrightarrow> (\<forall>i < n - 1. P i)" for n :: nat
  by (cases n) (auto simp: less_Suc_eq)

lemma step_tokens_fresh:
  "(\<And>s. cur = Some s \<Longrightarrow> step_transition s = None) \<Longrightarrow> s \<in> set (step_tokens ts cur) \<Longrightarrow> step_transition s = None"
proof (induction ts cur rule: step_tokens.induct)
  case (3 q b ts cur)
  then show ?case by (cases cur) auto
qed (auto split: option.splits)


subsection \<open>A transition that is always enabled\<close>

definition chart_source :: string where
  "chart_source = ''STEP A'' @ newline @ ''END_STEP'' @ newline
     @ ''TRANSITION FROM A TO B : TRUE'' @ newline @ ''END_TRANSITION'' @ newline
     @ ''STEP B'' @ newline @ ''  ACTION N: done := TRUE;'' @ newline @ ''END_STEP''"

definition chart_code :: "instruction list" where
  "chart_code = [load_imm 15 (VBool True), jump 2, ld_sig 0 ''1'', ld_reg 14 0, cmp Eq 14 15, jump_if 7, jump 2,
     ld_sig 0 ''1'', ld_reg 14 0, inst Store [SignalName ''done'', Register 14], halt]"

lemma chart_compiles:
  "case sfc_compile chart_source of Inl _ \<Rightarrow> False | Inr il \<Rightarrow>
     (case il_compile il of Panic _ \<Rightarrow> False | Ok pr \<Rightarrow> instructions pr = chart_code)"
  by code_simp

definition chart_state :: "executor \<Rightarrow> bool" where
  "chart_state ex \<longleftrightarrow> instructions (ex_program ex) = chart_code \<and> \<not> debug_mode (ex_debug ex)
     \<and> length (registers (ex_vm ex)) = REGISTER_COUNT \<and> read_signal (ex_vm ex) ''1'' = None
     \<and> (ip (ex_vm ex) = 0 \<or> registers (ex_vm ex) ! 15 = VBool True
         \<and> (ip (ex_vm ex) = 1 \<or> ip (ex_vm ex) = 2 \<or> ip (ex_vm ex) = 3 \<and> registers (ex_vm ex) ! 0 = VBool False
             \<or> ip (ex_vm ex) = 4 \<and> registers (ex_vm ex) ! 14 = VBool False
             \<or> ip (ex_vm ex) = 5 \<and> \<not> flags_zero (ex_vm ex) \<or> ip (ex_vm ex) = 6))"

lemmas chart_simps = step_def Let_def record_trace_def is_jump_def chart_code_def execute_instruction_def
  exec_load_def exec_compare_def exec_jump_def exec_jump_if_def set_flags_zero_def set_ip_def advance_ip_def
  read_register_def write_register_def read_signal_def ld_sig_def ld_reg_def load_imm_def cmp_def jump_def
  jump_if_def inst_def REGISTER_COUNT_def hal_eq_def

lemma chart_step:
  assumes "chart_state ex"
  shows "\<exists>ex'. step p ex = Ok (ex', Continue) \<and> chart_state ex'"
proof -
  consider "ip (ex_vm ex) = 0" | "ip (ex_vm ex) = 1" | "ip (ex_vm ex) = 2"
    | "ip (ex_vm ex) = 3" "registers (ex_vm ex) ! 0 = VBool False"
    | "ip (ex_vm ex) = 4" "registers (ex_vm ex) ! 14 = VBool False"
    | "ip (ex_vm ex) = 5" "\<not> flags_zero (ex_vm ex)" | "ip (ex_vm ex) = 6"
    using assms by (auto simp: chart_state_def)
  then show ?thesis using assms unfolding chart_state_def
    by cases (simp_all add: chart_simps)
qed

text \<open>
  A transition with the condition TRUE is never taken. The compiler turns the constant into a
  load of a signal named 1, which reads as false unless somebody registers such a signal, and an
  untaken transition jumps back to its own step inside the same scan. So the two-step chart that
  should go from A to B at once compiles, and its scan never returns.
\<close>

theorem true_transition_hangs:
  assumes "instructions (ex_program ex) = chart_code" and "ip (ex_vm ex) = 0" and "vm_wf (ex_vm ex)"
    and "\<not> debug_mode (ex_debug ex)" and "read_signal (ex_vm ex) ''1'' = None"
  shows "(\<exists>il pr. sfc_compile chart_source = Inr il \<and> il_compile il = Ok pr \<and> instructions pr = chart_code)
    \<and> run_to_halt p ex = None"
proof -
  have "chart_state ex" using assms by (simp add: chart_state_def vm_wf_def)
  then have "run_to_halt p ex = None"
    unfolding run_to_halt_def by (rule run_loop_closed [rotated]) (rule chart_step)
  then show ?thesis using chart_compiles by (auto split: sum.splits outcome.splits)
qed

theorem true_transition_hangs_witness:
  "run_to_halt DevBuild (executor_new (hal_program_new ''il_program'' chart_code)) = None"
  using true_transition_hangs [of "executor_new (hal_program_new ''il_program'' chart_code)" DevBuild]
  by (simp add: executor_new_def hal_program_new_def debug_state_new_def read_signal_def vm_new_def vm_wf_def hm_wf_def)

end
