(* ===== verification/Cnc_Axis.thy ===== *)
theory Cnc_Axis
  imports Hal_Ir Rust_Str
begin

text \<open>
  The axis group generators of \<^verbatim>\<open>audesys-cnc-axis-group\<close>: the configuration (\<^verbatim>\<open>config.rs\<close>) and the
  generators of the homing, soft limit, backlash and alarm programs with the combined program
  (\<^verbatim>\<open>homing.rs\<close>, \<^verbatim>\<open>limits.rs\<close>, \<^verbatim>\<open>backlash.rs\<close>, \<^verbatim>\<open>alarm.rs\<close>, \<^verbatim>\<open>lib.rs\<close>). The Rust code appends to
  a vector of instructions and keeps indices into it for later patching; here every emitter takes
  the code so far and returns the longer code, with the index where the source returns one. Each
  file has its own register constants and helpers of the same names, told apart by a prefix.
\<close>

subsection \<open>Configuration\<close>

datatype axis_type = Linear | Rotary

datatype home_direction = Positive | Negative

fun multiplier :: "home_direction \<Rightarrow> f64" where
  "multiplier Positive = f64_of_int 1"
| "multiplier Negative = f64_of_int (-1)"

datatype plane = G17 | G18 | G19

record axis_config =
  ax_index :: u8
  ax_label :: string
  axis_type :: axis_type
  soft_limit_min :: f64
  soft_limit_max :: f64
  soft_limit_enable :: bool
  backlash_distance :: f64
  backlash_enable :: bool
  home_search_vel :: f64
  home_latch_vel :: f64
  home_backoff_dist :: f64
  home_offset :: f64
  home_max_dist :: f64
  home_latch_max_dist :: f64
  home_direction :: home_direction

definition axis_default :: axis_config where
  "axis_default = \<lparr>ax_index = 0, ax_label = [], axis_type = Linear, soft_limit_min = f64_of_int 0,
     soft_limit_max = f64_of_int 1000, soft_limit_enable = True, backlash_distance = f64_of_int 0,
     backlash_enable = False, home_search_vel = f64_of_int 50, home_latch_vel = f64_of_int 5,
     home_backoff_dist = f64_of_int 2, home_offset = f64_of_int 0, home_max_dist = f64_of_int 2000,
     home_latch_max_dist = f64_of_int 50, home_direction = Negative\<rparr>"

definition axis_linear :: "u8 \<Rightarrow> string \<Rightarrow> axis_config" where
  "axis_linear idx lbl = axis_default\<lparr>ax_index := idx, ax_label := lbl, axis_type := Linear\<rparr>"

definition axis_rotary :: "u8 \<Rightarrow> string \<Rightarrow> axis_config" where
  "axis_rotary idx lbl = axis_default\<lparr>ax_index := idx, ax_label := lbl, axis_type := Rotary\<rparr>"

record axis_group_config =
  group_name :: string
  group_label :: string
  axes :: "axis_config list"
  kinematics :: string
  default_plane :: plane

definition axis_group_new :: "string \<Rightarrow> axis_config list \<Rightarrow> axis_group_config" where
  "axis_group_new nm axs = \<lparr>group_name = nm, group_label = [], axes = axs, kinematics = ''trivial'',
     default_plane = G17\<rparr>"

definition default_xyz :: axis_group_config where
  "default_xyz = \<lparr>group_name = ''group.0'', group_label = ''XYZ Group'',
     axes = [axis_linear 0 ''X'', axis_linear 1 ''Y'', axis_linear 2 ''Z''], kinematics = ''trivial'',
     default_plane = G17\<rparr>"

definition axis_count :: "axis_group_config \<Rightarrow> nat" where
  "axis_count cfg = length (axes cfg)"

definition axis_at :: "axis_group_config \<Rightarrow> u8 \<Rightarrow> axis_config option" where
  "axis_at cfg idx = (if unat idx < length (axes cfg) then Some (axes cfg ! unat idx) else None)"

definition signal_prefix :: "axis_group_config \<Rightarrow> u8 \<Rightarrow> string" where
  "signal_prefix cfg axis_index = ''group.'' @ group_name cfg @ ''.axis.'' @ dec_string (unat axis_index)"

subsection \<open>Emitting code\<close>

type_synonym code = "instruction list"

abbreviation f64_imm :: "int \<Rightarrow> hal_value" where
  "f64_imm n \<equiv> VF64 (f64_of_int n)"

definition load_signal :: "u8 \<Rightarrow> string \<Rightarrow> instruction" where
  "load_signal r nm = inst Load [Register r, SignalName nm]"

definition store_signal :: "string \<Rightarrow> u8 \<Rightarrow> instruction" where
  "store_signal nm r = inst Store [SignalName nm, Register r]"

definition underscored :: "string \<Rightarrow> string" where
  "underscored s = map (\<lambda>c. if c = CHR ''.'' then CHR ''_'' else c) s"

definition axis_binding :: "string \<Rightarrow> string \<Rightarrow> direction \<Rightarrow> hal_pin_type \<Rightarrow> signal_binding" where
  "axis_binding pfx suffix dir ty = \<lparr>hal_signal_name = pfx @ ''.'' @ suffix,
     program_var = underscored pfx @ ''_'' @ suffix, sb_direction = dir, hal_pin_type = ty\<rparr>"

definition copy_reg :: "code \<Rightarrow> u8 \<Rightarrow> u8 \<Rightarrow> u8 \<Rightarrow> code" where
  "copy_reg is src dst zero_reg = is @ [arith Add src zero_reg dst]"

text \<open>The \<^verbatim>\<open>JumpIf\<close> with the condition register in front of its target, as all four files emit it.\<close>

definition jump_if_reg :: "u8 \<Rightarrow> instruction" where
  "jump_if_reg cond_reg = inst JumpIf [Register cond_reg, imm_u32 0]"

definition patch_jump_if :: "code \<Rightarrow> nat \<Rightarrow> nat \<Rightarrow> code" where
  "patch_jump_if is jump_idx target =
     (if jump_idx < length is then
        (let i = is ! jump_idx in
         if opcode i = JumpIf \<and> 2 \<le> length (operands i)
         then is[jump_idx := i\<lparr>operands := (operands i)[1 := imm_u32 (of_nat target)]\<rparr>] else is)
      else is)"

subsection \<open>Soft limits\<close>

abbreviation L_POS :: u8 where "L_POS \<equiv> 0"
abbreviation L_HOMED :: u8 where "L_HOMED \<equiv> 1"
abbreviation L_MIN :: u8 where "L_MIN \<equiv> 2"
abbreviation L_MAX :: u8 where "L_MAX \<equiv> 3"
abbreviation L_FAULT :: u8 where "L_FAULT \<equiv> 4"
abbreviation L_SCRATCH :: u8 where "L_SCRATCH \<equiv> 5"
abbreviation L_ZERO :: u8 where "L_ZERO \<equiv> 6"
abbreviation L_ONE :: u8 where "L_ONE \<equiv> 7"

definition limits_cmp_eq_imm :: "code \<Rightarrow> u8 \<Rightarrow> int \<Rightarrow> code" where
  "limits_cmp_eq_imm is r v = is @ [load_imm L_MAX (f64_imm v), inst Eq [Register r, Register L_MAX]]"

definition limits_cmp_lt :: "code \<Rightarrow> u8 \<Rightarrow> u8 \<Rightarrow> u8 \<Rightarrow> code" where
  "limits_cmp_lt is a b dst = copy_reg is a dst L_ZERO @ [inst Lt [Register dst, Register b]]"

definition limits_cmp_gt :: "code \<Rightarrow> u8 \<Rightarrow> u8 \<Rightarrow> u8 \<Rightarrow> code" where
  "limits_cmp_gt is a b dst = copy_reg is a dst L_ZERO @ [inst Gt [Register dst, Register b]]"

definition limits_jump_if_not :: "code \<Rightarrow> u8 \<Rightarrow> code \<times> nat" where
  "limits_jump_if_not is cond_reg =
     (let is1 = limits_cmp_eq_imm is cond_reg 0 in (is1 @ [jump_if_reg cond_reg], length is1))"

definition limit_bindings :: "string \<Rightarrow> signal_binding list" where
  "limit_bindings pfx = [axis_binding pfx ''pos_cmd'' ReadWrite TF64, axis_binding pfx ''homed'' Read TBool,
     axis_binding pfx ''pos_fault'' Write TBool]"

definition limit_axis :: "axis_group_config \<Rightarrow> axis_config \<Rightarrow> code \<Rightarrow> code" where
  "limit_axis cfg ax is =
     (if \<not> soft_limit_enable ax then is else
      let pfx = signal_prefix cfg (ax_index ax);
          is1 = is @ [load_signal L_POS (pfx @ ''.pos_cmd''), load_signal L_HOMED (pfx @ ''.homed'')];
          is2 = limits_cmp_eq_imm (copy_reg is1 L_HOMED L_SCRATCH L_ZERO) L_SCRATCH 1;
          (is3, skip_idx) = limits_jump_if_not is2 L_SCRATCH;
          is4 = is3 @ [load_imm L_FAULT (f64_imm 0), load_imm L_MIN (VF64 (soft_limit_min ax))];
          (is5, no_lower_fault) = limits_jump_if_not (limits_cmp_lt is4 L_POS L_MIN L_SCRATCH) L_SCRATCH;
          is6 = copy_reg is5 L_MIN L_POS L_ZERO @ [load_imm L_FAULT (f64_imm 1)];
          is7 = patch_jump_if is6 no_lower_fault (length is6) @ [load_imm L_MAX (VF64 (soft_limit_max ax))];
          (is8, no_upper_fault) = limits_jump_if_not (limits_cmp_gt is7 L_POS L_MAX L_SCRATCH) L_SCRATCH;
          is9 = copy_reg is8 L_MAX L_POS L_ZERO @ [load_imm L_FAULT (f64_imm 1)];
          is10 = patch_jump_if is9 no_upper_fault (length is9)
                 @ [store_signal (pfx @ ''.pos_fault'') L_FAULT, store_signal (pfx @ ''.pos_cmd'') L_POS]
      in patch_jump_if is10 skip_idx (length is10))"

definition generate_soft_limits_program :: "axis_group_config \<Rightarrow> hal_program" where
  "generate_soft_limits_program cfg =
     \<lparr>prog_name = ''soft_limits_'' @ group_name cfg,
      prog_signals = concat (map (\<lambda>ax. if soft_limit_enable ax
        then limit_bindings (signal_prefix cfg (ax_index ax)) else []) (axes cfg)),
      prog_channels = [],
      instructions = foldl (\<lambda>is ax. limit_axis cfg ax is)
        [load_imm L_ZERO (f64_imm 0), load_imm L_ONE (f64_imm 1)] (axes cfg) @ [halt],
      function_table = []\<rparr>"

subsection \<open>Homing\<close>

abbreviation H_IDX :: u8 where "H_IDX \<equiv> 0"
abbreviation H_STATE :: u8 where "H_STATE \<equiv> 1"
abbreviation H_LIMIT :: u8 where "H_LIMIT \<equiv> 2"
abbreviation H_VEL :: u8 where "H_VEL \<equiv> 3"
abbreviation H_DIR :: u8 where "H_DIR \<equiv> 4"
abbreviation H_SCRATCH :: u8 where "H_SCRATCH \<equiv> 5"
abbreviation H_ZERO :: u8 where "H_ZERO \<equiv> 6"
abbreviation H_ONE :: u8 where "H_ONE \<equiv> 7"

definition add_signal_bindings :: "string \<Rightarrow> signal_binding list" where
  "add_signal_bindings pfx = map (\<lambda>(suffix, ty, dir). axis_binding pfx suffix dir ty)
     [(''homing_state'', TU8, ReadWrite), (''pos_cmd'', TF64, Write), (''vel_cmd'', TF64, Write),
      (''enable'', TBool, Write), (''limit_pos'', TBool, Read), (''limit_neg'', TBool, Read),
      (''homed'', TBool, Write)]"

fun limit_signal_name :: "string \<Rightarrow> home_direction \<Rightarrow> string" where
  "limit_signal_name pfx Positive = pfx @ ''.limit_pos''"
| "limit_signal_name pfx Negative = pfx @ ''.limit_neg''"

definition emit_set_state :: "code \<Rightarrow> string \<Rightarrow> u8 \<Rightarrow> code" where
  "emit_set_state is pfx st = is @ [load_imm H_SCRATCH (VU8 st), store_signal (pfx @ ''.homing_state'') H_SCRATCH]"

definition emit_write_vel :: "code \<Rightarrow> string \<Rightarrow> u8 \<Rightarrow> code" where
  "emit_write_vel is pfx vel_reg =
     is @ [arith Mul vel_reg H_DIR H_SCRATCH, store_signal (pfx @ ''.vel_cmd'') H_SCRATCH]"

definition emit_copy :: "code \<Rightarrow> u8 \<Rightarrow> u8 \<Rightarrow> u8 \<Rightarrow> code" where
  "emit_copy is src dst zero_reg = is @ [arith Add src zero_reg dst]"

definition emit_cmp_eq_imm :: "code \<Rightarrow> u8 \<Rightarrow> int \<Rightarrow> code" where
  "emit_cmp_eq_imm is r v = is @ [load_imm H_VEL (f64_imm v), inst Eq [Register r, Register H_VEL]]"

definition homing_jump_if_not :: "code \<Rightarrow> u8 \<Rightarrow> code \<times> nat" where
  "homing_jump_if_not is cond_reg =
     (let is1 = is @ [load_imm H_DIR (f64_imm 1), load_imm H_DIR (f64_imm 0),
                      inst Eq [Register cond_reg, Register H_DIR]]
      in (is1 @ [jump_if_reg cond_reg], length is1))"

text \<open>The four state blocks of an axis: idle, seek, latch and backoff.\<close>

definition check_state :: "code \<Rightarrow> int \<Rightarrow> code \<times> nat" where
  "check_state is st = homing_jump_if_not (emit_cmp_eq_imm (emit_copy is H_STATE H_SCRATCH H_ZERO) H_SCRATCH st) H_SCRATCH"

definition idle_block :: "string \<Rightarrow> axis_config \<Rightarrow> code \<Rightarrow> code" where
  "idle_block pfx ax is =
     (let (is1, skip_idle) = check_state is 0;
          is2 = is1 @ [load_imm H_DIR (VF64 (multiplier (home_direction ax))),
                       load_imm H_VEL (VF64 (home_search_vel ax))];
          is3 = emit_write_vel (emit_set_state is2 pfx 1) pfx H_VEL
                @ [store_signal (pfx @ ''.enable'') H_ONE, store_signal (pfx @ ''.pos_cmd'') H_ZERO]
      in patch_jump_if is3 skip_idle (length is3))"

definition seek_block :: "string \<Rightarrow> axis_config \<Rightarrow> code \<Rightarrow> code" where
  "seek_block pfx ax is =
     (let (is1, skip_seek) = check_state is 1;
          is2 = is1 @ [load_signal H_LIMIT (limit_signal_name pfx (home_direction ax))];
          (is3, keep_seeking) = homing_jump_if_not (emit_cmp_eq_imm is2 H_LIMIT 1) H_LIMIT;
          is4 = emit_set_state is3 pfx 2
                @ [load_imm H_DIR (VF64 (f64_neg (multiplier (home_direction ax)))),
                   load_imm H_VEL (VF64 (home_latch_vel ax))];
          is5 = emit_write_vel is4 pfx H_VEL
      in patch_jump_if (patch_jump_if is5 keep_seeking (length is5)) skip_seek (length is5))"

definition latch_block :: "string \<Rightarrow> axis_config \<Rightarrow> code \<Rightarrow> code" where
  "latch_block pfx ax is =
     (let (is1, skip_latch) = check_state is 2;
          is2 = is1 @ [load_signal H_LIMIT (limit_signal_name pfx (home_direction ax))];
          (is3, keep_latching) = homing_jump_if_not (emit_cmp_eq_imm is2 H_LIMIT 0) H_LIMIT;
          is4 = emit_set_state is3 pfx 3
                @ [load_imm H_SCRATCH (VF64 (home_offset ax)), store_signal (pfx @ ''.pos_cmd'') H_SCRATCH,
                   store_signal (pfx @ ''.vel_cmd'') H_ZERO]
      in patch_jump_if (patch_jump_if is4 keep_latching (length is4)) skip_latch (length is4))"

definition backoff_block :: "string \<Rightarrow> code \<Rightarrow> code" where
  "backoff_block pfx is =
     (let (is1, skip_backoff) = check_state is 3;
          is2 = emit_set_state is1 pfx 4
                @ [store_signal (pfx @ ''.homed'') H_ONE, store_signal (pfx @ ''.enable'') H_ZERO]
      in patch_jump_if is2 skip_backoff (length is2))"

definition homing_axis :: "axis_group_config \<Rightarrow> axis_config \<Rightarrow> code \<Rightarrow> code" where
  "homing_axis cfg ax is =
     (let pfx = signal_prefix cfg (ax_index ax);
          is1 = is @ [load_imm H_IDX (VU32 (ucast (ax_index ax))), load_signal H_STATE (pfx @ ''.homing_state'')]
      in backoff_block pfx (latch_block pfx ax (seek_block pfx ax (idle_block pfx ax is1))))"

definition generate_homing_program :: "axis_group_config \<Rightarrow> hal_program" where
  "generate_homing_program cfg =
     \<lparr>prog_name = ''homing_'' @ group_name cfg,
      prog_signals = concat (map (\<lambda>ax. add_signal_bindings (signal_prefix cfg (ax_index ax))) (axes cfg)),
      prog_channels = [],
      instructions = foldl (\<lambda>is ax. homing_axis cfg ax is)
        [load_imm H_ZERO (f64_imm 0), load_imm H_ONE (f64_imm 1)] (axes cfg) @ [halt],
      function_table = []\<rparr>"

subsection \<open>Backlash\<close>

abbreviation B_POS :: u8 where "B_POS \<equiv> 0"
abbreviation B_VEL :: u8 where "B_VEL \<equiv> 1"
abbreviation B_LAST_DIR :: u8 where "B_LAST_DIR \<equiv> 2"
abbreviation B_NEW_DIR :: u8 where "B_NEW_DIR \<equiv> 3"
abbreviation B_BACKLASH :: u8 where "B_BACKLASH \<equiv> 4"
abbreviation B_COMP :: u8 where "B_COMP \<equiv> 5"
abbreviation B_SCRATCH :: u8 where "B_SCRATCH \<equiv> 6"
abbreviation B_ZERO :: u8 where "B_ZERO \<equiv> 7"
abbreviation B_ONE :: u8 where "B_ONE \<equiv> 8"

definition backlash_cmp_gt :: "code \<Rightarrow> u8 \<Rightarrow> u8 \<Rightarrow> u8 \<Rightarrow> code" where
  "backlash_cmp_gt is a b dst = copy_reg is a dst B_ZERO @ [inst Gt [Register dst, Register b]]"

definition backlash_cmp_lt :: "code \<Rightarrow> u8 \<Rightarrow> u8 \<Rightarrow> u8 \<Rightarrow> code" where
  "backlash_cmp_lt is a b dst = copy_reg is a dst B_ZERO @ [inst Lt [Register dst, Register b]]"

definition backlash_cmp_ne_imm :: "code \<Rightarrow> u8 \<Rightarrow> int \<Rightarrow> u8 \<Rightarrow> code" where
  "backlash_cmp_ne_imm is r v dst =
     copy_reg (is @ [load_imm B_BACKLASH (f64_imm v)]) r dst B_ZERO
     @ [inst Neq [Register dst, Register B_BACKLASH]]"

definition backlash_jump_if_not :: "code \<Rightarrow> u8 \<Rightarrow> code \<times> nat" where
  "backlash_jump_if_not is cond_reg =
     (let is1 = is @ [load_imm B_BACKLASH (f64_imm 0), inst Eq [Register cond_reg, Register B_BACKLASH]]
      in (is1 @ [jump_if_reg cond_reg], length is1))"

definition emit_jump :: "code \<Rightarrow> code \<times> nat" where
  "emit_jump is = (is @ [jump 0], length is)"

definition patch_jump :: "code \<Rightarrow> nat \<Rightarrow> nat \<Rightarrow> code" where
  "patch_jump is jump_idx target =
     (if jump_idx < length is then
        (let i = is ! jump_idx in
         case opcode i of
           Jump \<Rightarrow> if operands i \<noteq> []
             then is[jump_idx := i\<lparr>operands := (operands i)[0 := imm_u32 (of_nat target)]\<rparr>] else is
         | JumpIf \<Rightarrow> if 2 \<le> length (operands i)
             then is[jump_idx := i\<lparr>operands := (operands i)[1 := imm_u32 (of_nat target)]\<rparr>] else is
         | _ \<Rightarrow> is)
      else is)"

definition backlash_active :: "axis_config \<Rightarrow> bool" where
  "backlash_active ax \<longleftrightarrow> backlash_enable ax \<and> f64_cmp (backlash_distance ax) 0 \<noteq> Some Equal"

definition backlash_bindings :: "string \<Rightarrow> signal_binding list" where
  "backlash_bindings pfx = [axis_binding pfx ''pos_cmd'' ReadWrite TF64, axis_binding pfx ''vel_cmd'' Read TF64,
     axis_binding pfx ''last_dir'' ReadWrite TF64]"

text \<open>The sign of the velocity, with the only unconditional jump of the four programs.\<close>

definition sign_block :: "code \<Rightarrow> code" where
  "sign_block is =
     (let (is1, not_pos) = backlash_jump_if_not
            (backlash_cmp_gt (is @ [load_imm B_NEW_DIR (f64_imm 0)]) B_VEL B_ZERO B_SCRATCH) B_SCRATCH;
          (is2, done_sign) = emit_jump (is1 @ [load_imm B_NEW_DIR (f64_imm 1)]);
          is3 = patch_jump is2 not_pos (length is2);
          (is4, not_neg) = backlash_jump_if_not (backlash_cmp_lt is3 B_VEL B_ZERO B_SCRATCH) B_SCRATCH;
          is5 = is4 @ [load_imm B_NEW_DIR (f64_imm (-1))]
      in patch_jump (patch_jump is5 not_neg (length is5)) done_sign (length is5))"

definition backlash_axis :: "axis_group_config \<Rightarrow> axis_config \<Rightarrow> code \<Rightarrow> code" where
  "backlash_axis cfg ax is =
     (if \<not> backlash_active ax then is else
      let pfx = signal_prefix cfg (ax_index ax);
          is1 = is @ [load_signal B_POS (pfx @ ''.pos_cmd''), load_signal B_VEL (pfx @ ''.vel_cmd''),
                      load_signal B_LAST_DIR (pfx @ ''.last_dir'')];
          (is2, no_reversal) = backlash_jump_if_not
             (backlash_cmp_ne_imm (sign_block is1) B_NEW_DIR 0 B_SCRATCH) B_SCRATCH;
          (is3, no_reversal2) = backlash_jump_if_not
             (copy_reg is2 B_NEW_DIR B_SCRATCH B_ZERO @ [inst Neq [Register B_SCRATCH, Register B_LAST_DIR]]) B_SCRATCH;
          is4 = is3 @ [load_imm B_BACKLASH (VF64 (backlash_distance ax)), arith Mul B_BACKLASH B_NEW_DIR B_COMP,
                       arith Add B_POS B_COMP B_POS];
          is5 = patch_jump (patch_jump is4 no_reversal2 (length is4)) no_reversal (length is4)
      in is5 @ [store_signal (pfx @ ''.last_dir'') B_NEW_DIR, store_signal (pfx @ ''.pos_cmd'') B_POS])"

definition generate_backlash_program :: "axis_group_config \<Rightarrow> hal_program" where
  "generate_backlash_program cfg =
     \<lparr>prog_name = ''backlash_'' @ group_name cfg,
      prog_signals = concat (map (\<lambda>ax. if backlash_active ax
        then backlash_bindings (signal_prefix cfg (ax_index ax)) else []) (axes cfg)),
      prog_channels = [],
      instructions = foldl (\<lambda>is ax. backlash_axis cfg ax is)
        [load_imm B_ZERO (f64_imm 0), load_imm B_ONE (f64_imm 1)] (axes cfg) @ [halt],
      function_table = []\<rparr>"

subsection \<open>Alarms\<close>

abbreviation A_ANY_FAULT :: u8 where "A_ANY_FAULT \<equiv> 0"
abbreviation A_STATE :: u8 where "A_STATE \<equiv> 1"
abbreviation A_NEW_STATE :: u8 where "A_NEW_STATE \<equiv> 2"
abbreviation A_SCRATCH :: u8 where "A_SCRATCH \<equiv> 3"
abbreviation A_ZERO :: u8 where "A_ZERO \<equiv> 4"
abbreviation A_ONE :: u8 where "A_ONE \<equiv> 5"

definition alarm_cmp_ne_imm :: "code \<Rightarrow> u8 \<Rightarrow> int \<Rightarrow> u8 \<Rightarrow> code" where
  "alarm_cmp_ne_imm is r v dst =
     copy_reg (is @ [load_imm A_SCRATCH (f64_imm v)]) r dst A_ZERO
     @ [inst Neq [Register dst, Register A_SCRATCH]]"

definition alarm_jump_if_not :: "code \<Rightarrow> u8 \<Rightarrow> code \<times> nat" where
  "alarm_jump_if_not is cond_reg =
     (let is1 = is @ [load_imm A_STATE (f64_imm 0), inst Eq [Register cond_reg, Register A_STATE]]
      in (is1 @ [jump_if_reg cond_reg], length is1))"

text \<open>One fault input: raise the accumulated flag unless the signal is off.\<close>

definition fault_check :: "string \<Rightarrow> code \<Rightarrow> code" where
  "fault_check nm is =
     (let (is1, skip) = alarm_jump_if_not
            (alarm_cmp_ne_imm (is @ [load_signal A_SCRATCH nm]) A_SCRATCH 0 A_SCRATCH) A_SCRATCH;
          is2 = is1 @ [load_imm A_ANY_FAULT (f64_imm 1)]
      in patch_jump_if is2 skip (length is2))"

definition alarm_axis :: "axis_group_config \<Rightarrow> axis_config \<Rightarrow> code \<Rightarrow> code" where
  "alarm_axis cfg ax is =
     (let pfx = signal_prefix cfg (ax_index ax)
      in fault_check (pfx @ ''.vel_fault'') (fault_check (pfx @ ''.pos_fault'') is))"

definition alarm_bindings :: "axis_group_config \<Rightarrow> signal_binding list" where
  "alarm_bindings cfg =
     [\<lparr>hal_signal_name = group_name cfg @ ''.alarm_state'', program_var = ''alarm_state'',
       sb_direction = ReadWrite, hal_pin_type = TU8\<rparr>,
      \<lparr>hal_signal_name = group_name cfg @ ''.any_fault'', program_var = ''any_fault'',
       sb_direction = Write, hal_pin_type = TBool\<rparr>]
     @ concat (map (\<lambda>ax. let pfx = signal_prefix cfg (ax_index ax) in
         [axis_binding pfx ''pos_fault'' Read TBool, axis_binding pfx ''vel_fault'' Read TBool]) (axes cfg))"

definition generate_alarm_program :: "axis_group_config \<Rightarrow> hal_program" where
  "generate_alarm_program cfg =
     \<lparr>prog_name = ''alarm_'' @ group_name cfg,
      prog_signals = alarm_bindings cfg,
      prog_channels = [],
      instructions =
        copy_reg (foldl (\<lambda>is ax. alarm_axis cfg ax is)
            [load_imm A_ZERO (f64_imm 0), load_imm A_ONE (f64_imm 1), load_imm A_ANY_FAULT (f64_imm 0)] (axes cfg)
          @ [store_signal (group_name cfg @ ''.any_fault'') A_ANY_FAULT,
             load_signal A_STATE (group_name cfg @ ''.alarm_state'')]) A_ANY_FAULT A_NEW_STATE A_ZERO
        @ [store_signal (group_name cfg @ ''.alarm_state'') A_NEW_STATE, halt],
      function_table = []\<rparr>"

subsection \<open>The combined program\<close>

definition merge_signal :: "signal_binding list \<Rightarrow> signal_binding \<Rightarrow> signal_binding list" where
  "merge_signal ss s = (if list_ex (\<lambda>t. hal_signal_name t = hal_signal_name s) ss then ss else ss @ [s])"

definition generate_combined_program :: "axis_group_config \<Rightarrow> hal_program" where
  "generate_combined_program cfg =
     (let homing = generate_homing_program cfg; limits = generate_soft_limits_program cfg;
          backlash = generate_backlash_program cfg; alarm = generate_alarm_program cfg
      in \<lparr>prog_name = ''axis_group_'' @ group_name cfg,
          prog_signals = foldl merge_signal (prog_signals homing)
            (prog_signals limits @ prog_signals backlash @ prog_signals alarm),
          prog_channels = [],
          instructions = concat (map (\<lambda>pr. filter (\<lambda>i. opcode i \<noteq> Halt) (instructions pr))
            [homing, limits, backlash, alarm]) @ [halt],
          function_table = []\<rparr>)"

end
