(* ===== verification/Cnc_Correct.thy ===== *)
theory Cnc_Correct
  imports Cnc_Axis Straight_Line
begin

text \<open>
  What a scan of the generated axis programs does. Their conditional jumps carry the condition
  register in front of the target, and the executor reads the target from the first operand, so it
  steps over every one of them: the programs are straight-line code.
\<close>

subsection \<open>Patching does not matter\<close>

lemma dead_jump_if_reg [simp]: "linear (jump_if_reg r)" "erase (jump_if_reg r) = nop"
  by (simp_all add: linear_def erase_def dead_jump_def jump_if_reg_def is_immediate_def)

lemma linear_jump_if [simp]: "linear (inst JumpIf [Register r, x])"
  by (simp add: linear_def dead_jump_def is_immediate_def)

lemma patched_dead:
  assumes "linear i" and "opcode i = JumpIf"
  shows "linear (i\<lparr>operands := (operands i)[1 := x]\<rparr>) \<and> erase (i\<lparr>operands := (operands i)[1 := x]\<rparr>) = erase i"
proof -
  obtain y ys where "operands i = y # ys" "\<not> is_immediate y"
    using assms by (auto simp: linear_def dead_jump_def is_control_def neq_Nil_conv)
  then show ?thesis using assms by (simp add: linear_def erase_def dead_jump_def)
qed

lemma patch_linear:
  assumes "list_all linear is"
  shows "list_all linear (patch_jump_if is k t)" and "map erase (patch_jump_if is k t) = map erase is"
proof -
  have "list_all linear (patch_jump_if is k t) \<and> map erase (patch_jump_if is k t) = map erase is"
  proof (cases "k < length is \<and> opcode (is ! k) = JumpIf")
    case True
    then have "linear (is ! k)" using assms by (simp add: list_all_length)
    then show ?thesis using True assms patched_dead [of "is ! k" "imm_u32 (of_nat t)"]
      by (auto simp: patch_jump_if_def Let_def map_update list_all_length nth_list_update
          intro!: nth_equalityI)
  qed (use assms in \<open>auto simp: patch_jump_if_def Let_def\<close>)
  then show "list_all linear (patch_jump_if is k t)" "map erase (patch_jump_if is k t) = map erase is"
    by simp_all
qed

lemma linear_code [simp]:
  "linear (load_imm r v)" "linear (load_signal r nm)" "linear (store_signal nm r)"
  "linear (arith Add a b c)" "linear (arith Mul a b c)"
  "linear (inst Eq ops)" "linear (inst Neq ops)" "linear (inst Lt ops)" "linear (inst Gt ops)"
  by (simp_all add: linear_def is_control_def load_imm_def load_signal_def store_signal_def arith_def)

lemma erase_code [simp]:
  "erase (load_imm r v) = load_imm r v" "erase (load_signal r nm) = load_signal r nm"
  "erase (store_signal nm r) = store_signal nm r" "erase (arith Add a b c) = arith Add a b c"
  "erase (arith Mul a b c) = arith Mul a b c" "erase (inst Eq ops) = inst Eq ops"
  "erase (inst Neq ops) = inst Neq ops" "erase (inst Lt ops) = inst Lt ops" "erase (inst Gt ops) = inst Gt ops"
  by (simp_all add: is_control_def load_imm_def load_signal_def store_signal_def arith_def)

lemma linear_nop [simp]: "linear nop" "erase nop = nop"
  by (simp_all add: linear_def nop_def is_control_def)

subsection \<open>Machine states\<close>

text \<open>The constants 0.0 and 1.0 are in the registers \<open>z\<close> and \<open>z + 1\<close>, and the signals are \<open>sg\<close>.\<close>

definition cnc_rel :: "nat \<Rightarrow> vm \<Rightarrow> (string \<rightharpoonup> hal_value) \<Rightarrow> bool" where
  "cnc_rel z m sg \<longleftrightarrow> length (registers m) = REGISTER_COUNT \<and> registers m ! z = f64_imm 0
     \<and> registers m ! (z + 1) = f64_imm 1 \<and> (\<forall>nm. read_signal m nm = sg nm)"

lemmas cnc_exec_simps = execute_instruction_def exec_load_def exec_arith_binop_def exec_compare_def
  exec_store_def read_register_def write_register_def advance_ip_def set_flags_zero_def write_signal_def
  load_imm_def load_signal_def store_signal_def arith_def nop_def REGISTER_COUNT_def binop_f64

text \<open>
  A generator that appends a straight-line block per axis, and what the block does to the signals
  once its dead jumps are erased.
\<close>

locale axis_generator =
  fixes gen :: "axis_config \<Rightarrow> code \<Rightarrow> code"
    and rel :: "vm \<Rightarrow> 's \<Rightarrow> bool"
    and effect :: "axis_config \<Rightarrow> 's \<Rightarrow> 's"
  assumes gen_linear: "list_all linear is \<Longrightarrow> list_all linear (gen ax is)"
    and gen_erase: "list_all linear is \<Longrightarrow> map erase (gen ax is) = map erase is @ map erase (gen ax [])"
    and gen_effect: "rel m s \<Longrightarrow> \<exists>m'. exec_list p m (map erase (gen ax [])) = Ok m' \<and> rel m' (effect ax s)"
begin

lemma gen_axes:
  "list_all linear is \<Longrightarrow> list_all linear (foldl (\<lambda>is ax. gen ax is) is axs)
     \<and> map erase (foldl (\<lambda>is ax. gen ax is) is axs) = map erase is @ concat (map (\<lambda>ax. map erase (gen ax [])) axs)"
proof (induction axs arbitrary: "is")
  case (Cons ax axs)
  then show ?case using Cons.IH [OF gen_linear [OF Cons.prems, of ax]] gen_erase [OF Cons.prems, of ax] by simp
qed simp

lemma axes_effect:
  "rel m s \<Longrightarrow> \<exists>m'. exec_list p m (concat (map (\<lambda>ax. map erase (gen ax [])) axs)) = Ok m'
     \<and> rel m' (foldl (\<lambda>s ax. effect ax s) s axs)"
proof (induction axs arbitrary: m s)
  case (Cons ax axs)
  obtain m1 where "exec_list p m (map erase (gen ax [])) = Ok m1" "rel m1 (effect ax s)"
    using gen_effect [OF Cons.prems] by blast
  then show ?case using Cons.IH [of m1 "effect ax s"] by (auto simp: exec_list_append)
qed simp

text \<open>
  A scan of a program that sets up its constants, runs the blocks of the axes and a final block,
  and halts.
\<close>

lemma axes_scan:
  assumes "instructions (ex_program ex) = foldl (\<lambda>is ax. gen ax is) is axs @ post @ [halt]"
    and "list_all linear is" and "exec_list p (ex_vm ex) (map erase is) = Ok m1" and "rel m1 s"
    and "list_all linear post"
    and "\<And>m2. rel m2 (foldl (\<lambda>s ax. effect ax s) s axs) \<Longrightarrow> \<exists>m3. exec_list p m2 (map erase post) = Ok m3 \<and> R m3"
    and "ip (ex_vm ex) = 0" and "\<not> debug_mode (ex_debug ex)"
  shows "\<exists>ex' n m3. run_to_halt p ex = Some (Ok (ex', n)) \<and> signals (ex_vm ex') = signals m3 \<and> R m3"
proof -
  let ?is = "foldl (\<lambda>is ax. gen ax is) is axs @ post"
  obtain m2 where m2: "exec_list p m1 (concat (map (\<lambda>ax. map erase (gen ax [])) axs)) = Ok m2"
    "rel m2 (foldl (\<lambda>s ax. effect ax s) s axs)"
    using axes_effect [OF assms(4)] by blast
  obtain m3 where m3: "exec_list p m2 (map erase post) = Ok m3" "R m3" using assms(6) [OF m2(2)] by blast
  have "instructions (ex_program ex) = ?is @ [halt]" "list_all linear ?is"
    "exec_list p (ex_vm ex) (map erase ?is) = Ok m3"
    using gen_axes [OF assms(2), of axs] assms(1,3,5) m2(1) m3(1) by (simp_all add: exec_list_append)
  from scan_linear [OF this(1,2) assms(7,8) this(3)] show ?thesis using m3(2) by blast
qed

end

lemma load_constants:
  "vm_wf m \<Longrightarrow> \<exists>m'. exec_list p m [load_imm 6 (f64_imm 0), load_imm 7 (f64_imm 1)] = Ok m'
     \<and> cnc_rel 6 m' (read_signal m)"
  "vm_wf m \<Longrightarrow> \<exists>m'. exec_list p m [load_imm 4 (f64_imm 0), load_imm 5 (f64_imm 1), load_imm 0 (f64_imm 0)] = Ok m'
     \<and> cnc_rel 4 m' (read_signal m)"
  by (auto simp: cnc_rel_def cnc_exec_simps read_signal_def vm_wf_def)

lemma f64_zero_add [simp]: "f64_add (f64_of_int 0) (f64_of_int 0) = f64_of_int 0"
  by code_simp

subsection \<open>Soft limits\<close>

text \<open>The jump helper borrows the register of the upper limit, so it is zero that is copied to the position.\<close>

definition limit_effect :: "axis_group_config \<Rightarrow> axis_config \<Rightarrow> (string \<rightharpoonup> hal_value) \<Rightarrow> (string \<rightharpoonup> hal_value)" where
  "limit_effect cfg ax sg =
     (if \<not> soft_limit_enable ax then sg else
      let pfx = signal_prefix cfg (ax_index ax) in
      sg(pfx @ ''.pos_fault'' \<mapsto> f64_imm 1, pfx @ ''.pos_cmd'' \<mapsto> f64_imm 0))"

lemmas limit_code_simps = limit_axis_def limits_jump_if_not_def limits_cmp_eq_imm_def limits_cmp_lt_def
  limits_cmp_gt_def copy_reg_def patch_linear Let_def

lemma limit_axis_code:
  assumes "list_all linear is"
  shows "list_all linear (limit_axis cfg ax is)" 
    and "map erase (limit_axis cfg ax is) = map erase is @ map erase (limit_axis cfg ax [])"
  using assms by (simp_all add: limit_code_simps)

lemma limit_axis_effect:
  assumes "cnc_rel 6 m sg"
  shows "\<exists>m'. exec_list p m (map erase (limit_axis cfg ax [])) = Ok m' \<and> cnc_rel 6 m' (limit_effect cfg ax sg)"
proof (cases "soft_limit_enable ax")
  case True
  then show ?thesis using assms
    by (simp add: limit_code_simps limit_effect_def)
       (auto simp: cnc_rel_def cnc_exec_simps read_signal_def)
qed (use assms in \<open>simp add: limit_code_simps limit_effect_def\<close>)

interpretation limits: axis_generator "limit_axis cfg" "cnc_rel 6" "limit_effect cfg"
  for cfg
  by unfold_locales (simp_all only: limit_axis_code limit_axis_effect)

lemma limits_scan:
  assumes "ex_program ex = generate_soft_limits_program cfg" and "ip (ex_vm ex) = 0" and "vm_wf (ex_vm ex)"
    and "\<not> debug_mode (ex_debug ex)"
  shows "\<exists>ex' n. run_to_halt p ex = Some (Ok (ex', n))
    \<and> read_signal (ex_vm ex') = foldl (\<lambda>sg ax. limit_effect cfg ax sg) (read_signal (ex_vm ex)) (axes cfg)"
proof -
  let ?sg = "foldl (\<lambda>sg ax. limit_effect cfg ax sg) (read_signal (ex_vm ex)) (axes cfg)"
  obtain m1 where m1: "exec_list p (ex_vm ex) [load_imm 6 (f64_imm 0), load_imm 7 (f64_imm 1)] = Ok m1"
    "cnc_rel 6 m1 (read_signal (ex_vm ex))"
    using load_constants(1) [OF assms(3), of p] by auto
  from limits.axes_scan [OF _ _ _ m1(2), of ex cfg _ "axes cfg" "[]" p "\<lambda>m. cnc_rel 6 m ?sg"] m1(1) assms
  show ?thesis by (fastforce simp: generate_soft_limits_program_def cnc_rel_def read_signal_def fun_eq_iff)
qed

subsection \<open>Homing\<close>

definition homing_effect :: "axis_group_config \<Rightarrow> axis_config \<Rightarrow> (string \<rightharpoonup> hal_value) \<Rightarrow> (string \<rightharpoonup> hal_value)" where
  "homing_effect cfg ax sg =
     (let pfx = signal_prefix cfg (ax_index ax) in
      sg(pfx @ ''.pos_cmd'' \<mapsto> VF64 (home_offset ax), pfx @ ''.vel_cmd'' \<mapsto> f64_imm 0,
         pfx @ ''.homing_state'' \<mapsto> VU8 4, pfx @ ''.homed'' \<mapsto> f64_imm 1, pfx @ ''.enable'' \<mapsto> f64_imm 0))"

lemmas homing_code_simps = homing_axis_def idle_block_def seek_block_def latch_block_def backoff_block_def
  check_state_def homing_jump_if_not_def emit_cmp_eq_imm_def emit_copy_def emit_write_vel_def emit_set_state_def
  patch_linear Let_def

lemma homing_axis_code:
  assumes "list_all linear is"
  shows "list_all linear (homing_axis cfg ax is)"
    and "map erase (homing_axis cfg ax is) = map erase is @ map erase (homing_axis cfg ax [])"
  using assms by (simp_all add: homing_code_simps)

lemma homing_axis_effect:
  assumes "cnc_rel 6 m sg"
  shows "\<exists>m'. exec_list p m (map erase (homing_axis cfg ax [])) = Ok m' \<and> cnc_rel 6 m' (homing_effect cfg ax sg)"
  using assms
  by (simp add: homing_code_simps homing_effect_def)
     (auto simp: cnc_rel_def cnc_exec_simps read_signal_def)


interpretation homing: axis_generator "homing_axis cfg" "cnc_rel 6" "homing_effect cfg"
  for cfg
  by unfold_locales (simp_all only: homing_axis_code homing_axis_effect)

lemma homing_scan:
  assumes "ex_program ex = generate_homing_program cfg" and "ip (ex_vm ex) = 0" and "vm_wf (ex_vm ex)"
    and "\<not> debug_mode (ex_debug ex)"
  shows "\<exists>ex' n. run_to_halt p ex = Some (Ok (ex', n))
    \<and> read_signal (ex_vm ex') = foldl (\<lambda>sg ax. homing_effect cfg ax sg) (read_signal (ex_vm ex)) (axes cfg)"
proof -
  let ?sg = "foldl (\<lambda>sg ax. homing_effect cfg ax sg) (read_signal (ex_vm ex)) (axes cfg)"
  obtain m1 where m1: "exec_list p (ex_vm ex) [load_imm 6 (f64_imm 0), load_imm 7 (f64_imm 1)] = Ok m1"
    "cnc_rel 6 m1 (read_signal (ex_vm ex))"
    using load_constants(1) [OF assms(3), of p] by auto
  from homing.axes_scan [OF _ _ _ m1(2), of ex cfg _ "axes cfg" "[]" p "\<lambda>m. cnc_rel 6 m ?sg"] m1(1) assms
  show ?thesis by (fastforce simp: generate_homing_program_def cnc_rel_def read_signal_def fun_eq_iff)
qed


subsection \<open>Alarms\<close>

definition alarm_rel :: "vm \<Rightarrow> (string \<rightharpoonup> hal_value) \<times> hal_value \<Rightarrow> bool" where
  "alarm_rel m s \<longleftrightarrow> cnc_rel 4 m (fst s) \<and> registers m ! 0 = snd s"

lemmas alarm_code_simps = alarm_axis_def fault_check_def alarm_jump_if_not_def alarm_cmp_ne_imm_def copy_reg_def
  patch_linear Let_def

lemma alarm_axis_code:
  assumes "list_all linear is"
  shows "list_all linear (alarm_axis cfg ax is)"
    and "map erase (alarm_axis cfg ax is) = map erase is @ map erase (alarm_axis cfg ax [])"
  using assms by (simp_all add: alarm_code_simps)

lemma alarm_axis_effect:
  assumes "alarm_rel m s"
  shows "\<exists>m'. exec_list p m (map erase (alarm_axis cfg ax [])) = Ok m' \<and> alarm_rel m' (fst s, f64_imm 1)"
  using assms
  by (simp add: alarm_code_simps)
     (auto simp: alarm_rel_def cnc_rel_def cnc_exec_simps read_signal_def)

interpretation alarm: axis_generator "alarm_axis cfg" alarm_rel "\<lambda>ax s. (fst s, f64_imm 1)"
  for cfg
  by unfold_locales (simp_all only: alarm_axis_code alarm_axis_effect)

lemma foldl_last: "axs \<noteq> [] \<Longrightarrow> foldl (\<lambda>s ax. (fst s, v)) s axs = (fst s, v)"
  by (induction axs arbitrary: s) (auto, metis foldl_Nil fst_conv)

lemma f64_one_add [simp]: "f64_add (f64_of_int 1) (f64_of_int 0) = f64_of_int 1"
  by code_simp

lemma alarm_scan:
  assumes "ex_program ex = generate_alarm_program cfg" and "ip (ex_vm ex) = 0" and "vm_wf (ex_vm ex)"
    and "\<not> debug_mode (ex_debug ex)" and "axes cfg \<noteq> []"
  shows "\<exists>ex' n. run_to_halt p ex = Some (Ok (ex', n))
    \<and> read_signal (ex_vm ex') = (read_signal (ex_vm ex))
        (group_name cfg @ ''.any_fault'' \<mapsto> f64_imm 1, group_name cfg @ ''.alarm_state'' \<mapsto> f64_imm 1)"
proof -
  let ?is = "[load_imm 4 (f64_imm 0), load_imm 5 (f64_imm 1), load_imm 0 (f64_imm 0)] :: code"
  let ?post = "[store_signal (group_name cfg @ ''.any_fault'') A_ANY_FAULT,
      load_signal A_STATE (group_name cfg @ ''.alarm_state''), arith Add A_ANY_FAULT A_ZERO A_NEW_STATE,
      store_signal (group_name cfg @ ''.alarm_state'') A_NEW_STATE]"
  let ?sg = "(read_signal (ex_vm ex))
        (group_name cfg @ ''.any_fault'' \<mapsto> f64_imm 1, group_name cfg @ ''.alarm_state'' \<mapsto> f64_imm 1)"
  obtain m1 where m1: "exec_list p (ex_vm ex) (map erase ?is) = Ok m1"
      "alarm_rel m1 (read_signal (ex_vm ex), registers m1 ! 0)"
    using load_constants(2) [OF assms(3), of p] by (auto simp: alarm_rel_def)
  have "instructions (ex_program ex) = foldl (\<lambda>is ax. alarm_axis cfg ax is) ?is (axes cfg) @ ?post @ [halt]"
    using assms(1) by (simp add: generate_alarm_program_def copy_reg_def)
  moreover have "\<exists>m3. exec_list p m2 (map erase ?post) = Ok m3 \<and> cnc_rel 4 m3 ?sg"
    if "alarm_rel m2 (read_signal (ex_vm ex), f64_imm 1)" for m2
    using that by simp (auto simp: alarm_rel_def cnc_rel_def cnc_exec_simps read_signal_def)
  ultimately show ?thesis
    using alarm.axes_scan [OF _ _ m1, of cfg "axes cfg" ?post "\<lambda>m. cnc_rel 4 m ?sg"] assms(2,4,5)
    by (fastforce simp: foldl_last cnc_rel_def read_signal_def fun_eq_iff)
qed


subsection \<open>What the scans show\<close>

lemma fault_names_apart [simp]: "p @ ''.pos_cmd'' \<noteq> q @ ''.pos_fault''" "p @ ''.pos_fault'' \<noteq> q @ ''.pos_cmd''"
  by (auto dest: arg_cong [where f = last])

lemma limit_effect_set:
  assumes "soft_limit_enable ax \<and> ax \<in> set axs"
  shows "foldl (\<lambda>sg ax. limit_effect cfg ax sg) sg axs (signal_prefix cfg (ax_index ax) @ ''.pos_cmd'') = Some (f64_imm 0)
    \<and> foldl (\<lambda>sg ax. limit_effect cfg ax sg) sg axs (signal_prefix cfg (ax_index ax) @ ''.pos_fault'') = Some (f64_imm 1)"
  using assms
proof (induction axs rule: rev_induct)
  case (snoc a axs)
  then show ?case by (auto simp: limit_effect_def Let_def)
qed simp

text \<open>
  C40: the soft limit program does not limit. Whatever the commanded position, the limits and the
  homing flag are, a scan of the program sets the position command of every axis with enabled
  limits to 0.0 and raises its fault flag.
\<close>

theorem soft_limits_always_fault:
  assumes "ex_program ex = generate_soft_limits_program cfg" and "ip (ex_vm ex) = 0" and "vm_wf (ex_vm ex)"
    and "\<not> debug_mode (ex_debug ex)" and "ax \<in> set (axes cfg)" and "soft_limit_enable ax"
  shows "\<exists>ex' n. run_to_halt p ex = Some (Ok (ex', n))
    \<and> read_signal (ex_vm ex') (signal_prefix cfg (ax_index ax) @ ''.pos_cmd'') = Some (f64_imm 0)
    \<and> read_signal (ex_vm ex') (signal_prefix cfg (ax_index ax) @ ''.pos_fault'') = Some (f64_imm 1)"
  using limits_scan [OF assms(1-4), of p] limit_effect_set [of ax "axes cfg"] assms(5,6) by fastforce

text \<open>
  Homing finishes in the scan that starts it. Whatever the homing states and the limit switches
  are, one scan of the homing program takes every axis through all states: it is marked homed at
  its home offset, with zero velocity and disabled, although nothing has moved.
\<close>

theorem homing_done_in_one_scan:
  assumes "ex_program ex = generate_homing_program cfg" and "ip (ex_vm ex) = 0" and "vm_wf (ex_vm ex)"
    and "\<not> debug_mode (ex_debug ex)"
  shows "\<exists>ex' n. run_to_halt p ex = Some (Ok (ex', n))
    \<and> read_signal (ex_vm ex') = foldl (\<lambda>sg ax. homing_effect cfg ax sg) (read_signal (ex_vm ex)) (axes cfg)"
  using assms by (rule homing_scan)

subsection \<open>The combined program\<close>

lemma length_patch [simp]: "length (patch_jump is k t) = length is" "length (patch_jump_if is k t) = length is"
  by (simp_all add: patch_jump_def patch_jump_if_def Let_def split: opcode.split)

lemma take_patch: "n \<le> k \<Longrightarrow> take n (patch_jump is k t) = take n is"
  by (auto simp: patch_jump_def Let_def split: opcode.split)

lemmas backlash_code_simps = backlash_axis_def sign_block_def backlash_jump_if_not_def backlash_cmp_gt_def
  backlash_cmp_lt_def backlash_cmp_ne_imm_def copy_reg_def emit_jump_def Let_def

lemma backlash_prefix: "take (length is) (backlash_axis cfg ax is) = is" "length is \<le> length (backlash_axis cfg ax is)"
  by (simp_all add: backlash_code_simps take_patch)

lemma backlash_fold_prefix:
  "n \<le> length is \<Longrightarrow> take n (foldl (\<lambda>is ax. backlash_axis cfg ax is) is axs) = take n is"
proof (induction axs arbitrary: "is")
  case (Cons ax axs)
  have "take n (backlash_axis cfg ax is) = take n is"
    using backlash_prefix [of "is" cfg ax] Cons.prems by (metis min.absorb1 take_take)
  then show ?case using Cons backlash_prefix(2) [of "is" cfg ax] by simp
qed simp

lemma take_patch_in: "k < n \<Longrightarrow> take n (patch_jump is k t) = patch_jump (take n is) k t"
  by (auto simp: patch_jump_def Let_def take_update_swap split: opcode.split)

lemma patch_at:
  "length xs = k \<Longrightarrow> patch_jump (xs @ jump_if_reg r # ys) k t = xs @ inst JumpIf [Register r, imm_u32 (of_nat t)] # ys"
  "length xs = k \<Longrightarrow> patch_jump (xs @ jump u # ys) k t = xs @ jump (of_nat t) # ys"
  by (auto simp: patch_jump_def jump_if_reg_def jump_def inst_def Let_def)

text \<open>The jump of the first compensated axis, at its place in the backlash program.\<close>

lemma first_jump:
  assumes "backlash_active ax"
  shows "\<exists>is. take 13 (backlash_axis cfg ax [load_imm B_ZERO (f64_imm 0), load_imm B_ONE (f64_imm 1)]) = is @ [jump 19]
    \<and> list_all linear is"
proof -
  let ?pfx = "signal_prefix cfg (ax_index ax)"
  let ?xs = "[load_imm B_ZERO (f64_imm 0), load_imm B_ONE (f64_imm 1), load_signal B_POS (?pfx @ ''.pos_cmd''),
    load_signal B_VEL (?pfx @ ''.vel_cmd''), load_signal B_LAST_DIR (?pfx @ ''.last_dir''),
    load_imm B_NEW_DIR (f64_imm 0), arith Add B_VEL B_ZERO B_SCRATCH, inst Gt [Register B_SCRATCH, Register B_ZERO],
    load_imm B_BACKLASH (f64_imm 0), inst Eq [Register B_SCRATCH, Register B_BACKLASH]]"
  let ?l = "load_imm B_NEW_DIR (f64_imm 1)"
  have "take 13 (backlash_axis cfg ax [load_imm B_ZERO (f64_imm 0), load_imm B_ONE (f64_imm 1)])
      = patch_jump (patch_jump (?xs @ jump_if_reg B_SCRATCH # [?l, jump 0]) 10 13) 12 19"
    using assms by (simp add: backlash_code_simps take_patch take_patch_in eval_nat_numeral)
  also have "\<dots> = (?xs @ [inst JumpIf [Register B_SCRATCH, imm_u32 13], ?l]) @ jump 19 # []"
    using patch_at(1) [of ?xs 10 B_SCRATCH "[?l, jump 0]" 13]
      patch_at(2) [of "?xs @ [inst JumpIf [Register B_SCRATCH, imm_u32 13], ?l]" 12 0 "[]" 19] by simp
  finally show ?thesis
    by (intro exI [of _ "?xs @ [inst JumpIf [Register B_SCRATCH, imm_u32 13], ?l]"]) simp
qed


lemma backlash_fold_jump:
  assumes "ax \<in> set axs" and "backlash_active ax"
  shows "\<exists>is rest. foldl (\<lambda>is ax. backlash_axis cfg ax is) [load_imm B_ZERO (f64_imm 0), load_imm B_ONE (f64_imm 1)] axs
      = is @ jump 19 # rest \<and> list_all linear is"
  using assms
proof (induction axs)
  case (Cons a axs)
  let ?is = "[load_imm B_ZERO (f64_imm 0), load_imm B_ONE (f64_imm 1)] :: code"
  show ?case
  proof (cases "backlash_active a")
    case True
    let ?b = "backlash_axis cfg a ?is" and ?r = "foldl (\<lambda>is ax. backlash_axis cfg ax is)"
    obtain "is" where j: "take 13 ?b = is @ [jump 19]" "list_all linear is" using first_jump [OF True] by blast
    have "13 \<le> length ?b" using True by (simp add: backlash_code_simps)
    then have "take 13 (?r ?b axs) = is @ [jump 19]" using j(1) by (simp add: backlash_fold_prefix)
    then have "?r ?is (a # axs) = is @ jump 19 # drop 13 (?r ?b axs)"
      by (metis append.assoc append_Cons append_Nil append_take_drop_id foldl_Cons)
    then show ?thesis using j(2) by blast
  next
    case False
    then show ?thesis using Cons by (auto simp: backlash_axis_def)
  qed
qed simp

lemma linear_not_halt: "list_all linear is \<Longrightarrow> filter (\<lambda>i. opcode i \<noteq> Halt) is = is"
  by (induction "is") (auto simp: linear_def is_control_def dead_jump_def)

lemma homing_fold_length:
  "length is + 20 * length axs \<le> length (foldl (\<lambda>is ax. homing_axis cfg ax is) is axs)"
proof (induction axs arbitrary: "is")
  case (Cons ax axs)
  have "length is + 20 \<le> length (homing_axis cfg ax is)" by (simp add: homing_code_simps)
  then show ?case using Cons [of "homing_axis cfg ax is"] by simp
qed simp

lemma combined_jump:
  assumes "ax \<in> set (axes cfg)" and "backlash_active ax"
  shows "\<exists>pre post. instructions (generate_combined_program cfg) = pre @ jump 19 # post
    \<and> list_all linear pre \<and> 19 \<le> length pre"
proof -
  let ?h = "foldl (\<lambda>is ax. homing_axis cfg ax is) [load_imm H_ZERO (f64_imm 0), load_imm H_ONE (f64_imm 1)] (axes cfg)"
  let ?l = "foldl (\<lambda>is ax. limit_axis cfg ax is) [load_imm L_ZERO (f64_imm 0), load_imm L_ONE (f64_imm 1)] (axes cfg)"
  let ?post = "\<lambda>rest. filter (\<lambda>i. opcode i \<noteq> Halt) rest
    @ filter (\<lambda>i. opcode i \<noteq> Halt) (instructions (generate_alarm_program cfg)) @ [halt]"
  have h: "list_all linear ?h" and l: "list_all linear ?l"
    using homing.gen_axes limits.gen_axes by simp_all
  have len: "20 \<le> length ?h"
    using homing_fold_length [of "[load_imm H_ZERO (f64_imm 0), load_imm H_ONE (f64_imm 1)]" "axes cfg" cfg] assms(1)
    by (cases "axes cfg") auto
  obtain "is" rest where b: "foldl (\<lambda>is ax. backlash_axis cfg ax is)
      [load_imm B_ZERO (f64_imm 0), load_imm B_ONE (f64_imm 1)] (axes cfg) = is @ jump 19 # rest" "list_all linear is"
    using backlash_fold_jump [OF assms] by blast
  then have "instructions (generate_combined_program cfg) = (?h @ ?l @ is) @ jump 19 # ?post rest"
    using h l
    by (simp add: generate_combined_program_def generate_homing_program_def generate_soft_limits_program_def
        generate_backlash_program_def linear_not_halt Let_def halt_def jump_def)
  moreover have "list_all linear (?h @ ?l @ is)" "19 \<le> length (?h @ ?l @ is)" using h l b(2) len by simp_all
  ultimately show ?thesis by blast
qed

text \<open>
  The combined program hangs when an axis compensates backlash. Its parts are concatenated
  without relocating their jumps, so the jump of the backlash part goes back into the homing part,
  and a scan never completes.
\<close>

theorem combined_backlash_hangs:
  assumes "ex_program ex = generate_combined_program cfg" and "ip (ex_vm ex) = 0"
    and "\<not> debug_mode (ex_debug ex)" and "ax \<in> set (axes cfg)" and "backlash_active ax"
  shows "run_to_halt p ex \<noteq> Some (Ok res)"
proof -
  obtain pre post where "instructions (generate_combined_program cfg) = pre @ jump 19 # post"
    "list_all linear pre" "19 \<le> length pre"
    using combined_jump [OF assms(4,5)] by blast
  then show ?thesis using backward_jump_loops [of "generate_combined_program cfg" pre 19 post ex] assms(1-3) by simp
qed

subsection \<open>Witnesses\<close>

lemma ip_new: "ip vm_new = 0"
  by (simp add: vm_new_def)

theorem soft_limits_always_fault_witness:
  "\<exists>ex' n. run_to_halt ReleaseBuild (executor_new (generate_soft_limits_program default_xyz)) = Some (Ok (ex', n))
    \<and> read_signal (ex_vm ex') ''group.group.0.axis.1.pos_cmd'' = Some (f64_imm 0)
    \<and> read_signal (ex_vm ex') ''group.group.0.axis.1.pos_fault'' = Some (f64_imm 1)"
proof -
  have "signal_prefix default_xyz (ax_index (axis_linear 1 ''Y'')) = ''group.group.0.axis.1''" by code_simp
  moreover have "axis_linear 1 ''Y'' \<in> set (axes default_xyz)" "soft_limit_enable (axis_linear 1 ''Y'')"
    by (simp_all add: default_xyz_def axis_linear_def axis_default_def)
  ultimately show ?thesis
    using soft_limits_always_fault [of "executor_new (generate_soft_limits_program default_xyz)" default_xyz
        "axis_linear 1 ''Y''" ReleaseBuild] vm_wf_new ip_new
    by (simp add: executor_new_def debug_state_new_def)
qed

theorem homing_done_in_one_scan_witness:
  "\<exists>ex' n. run_to_halt DevBuild (executor_new (generate_homing_program default_xyz)) = Some (Ok (ex', n))
    \<and> read_signal (ex_vm ex') ''group.group.0.axis.2.homed'' = Some (f64_imm 1)"
proof -
  have "foldl (\<lambda>sg ax. homing_effect default_xyz ax sg) (read_signal vm_new) (axes default_xyz)
      ''group.group.0.axis.2.homed'' = Some (f64_imm 1)"
    by code_simp
  then show ?thesis
    using homing_done_in_one_scan [of "executor_new (generate_homing_program default_xyz)" default_xyz DevBuild]
      vm_wf_new ip_new
    by (fastforce simp: executor_new_def debug_state_new_def)
qed

definition backlash_group :: axis_group_config where
  "backlash_group = axis_group_new ''g'' [(axis_linear 0 ''X'')\<lparr>backlash_enable := True, backlash_distance := f64_of_int 1\<rparr>]"

theorem combined_backlash_hangs_witness:
  "\<not> (\<exists>res. run_to_halt DevBuild (executor_new (generate_combined_program backlash_group)) = Some (Ok res))"
proof -
  have "f64_cmp (f64_of_int 1) 0 = Some Greater" by code_simp
  then show ?thesis
    using combined_backlash_hangs [of "executor_new (generate_combined_program backlash_group)" backlash_group
        "hd (axes backlash_group)" DevBuild]
    by (simp add: executor_new_def debug_state_new_def vm_new_def backlash_group_def axis_group_new_def
        backlash_active_def axis_linear_def)
qed

end
