(* ===== verification/Virtual_Modbus.thy ===== *)
theory Virtual_Modbus
  imports Inproc_Transport Rust_Str
begin

unbundle bit_operations_syntax

text \<open>
  The simulated Modbus TCP server of \<^verbatim>\<open>audesys-runtime/src/virtual_modbus.rs\<close>. The module holds
  the request handlers twice: once as methods of the device that is configured, and once as methods
  of the copy \<^verbatim>\<open>ThreadDevice\<close> that the listener thread runs. Both are here, over the in-process
  transport. The transport is shared: it is passed through, together with the deliveries to
  subscribers that the writes cause. A TCP stream is the list of segments that reads return, and
  the atomic flag \<^verbatim>\<open>running\<close> is a function from the number of the loop iteration.
\<close>

subsection \<open>Devices\<close>

definition ILLEGAL_FUNCTION :: u8 where "ILLEGAL_FUNCTION = 0x01"
definition ILLEGAL_DATA_ADDRESS :: u8 where "ILLEGAL_DATA_ADDRESS = 0x02"
definition ILLEGAL_DATA_VALUE :: u8 where "ILLEGAL_DATA_VALUE = 0x03"

type_synonym register_map = "(u16, string) hmap"

record modbus_device =
  md_addr :: string
  md_bound :: bool
  md_coils :: register_map
  md_holding_regs :: register_map
  md_input_regs :: register_map
  md_discrete_inputs :: register_map
  md_running :: bool

record thread_device =
  td_coils :: register_map
  td_holding_regs :: register_map
  td_input_regs :: register_map
  td_discrete_inputs :: register_map

definition modbus_device_new :: "string \<Rightarrow> modbus_device" where
  "modbus_device_new addr =
     \<lparr>md_addr = (if CHR '':'' \<in> set addr then addr else addr @ '':1502''), md_bound = False, md_coils = [],
      md_holding_regs = [], md_input_regs = [], md_discrete_inputs = [], md_running = False\<rparr>"

definition modbus_bind :: "modbus_device \<Rightarrow> modbus_device" where
  "modbus_bind d = d\<lparr>md_bound := True\<rparr>"

definition map_coil :: "modbus_device \<Rightarrow> u16 \<Rightarrow> string \<Rightarrow> modbus_device" where
  "map_coil d addr sig = d\<lparr>md_coils := hm_insert addr sig (md_coils d)\<rparr>"

definition map_holding_register :: "modbus_device \<Rightarrow> u16 \<Rightarrow> string \<Rightarrow> modbus_device" where
  "map_holding_register d addr sig = d\<lparr>md_holding_regs := hm_insert addr sig (md_holding_regs d)\<rparr>"

definition map_input_register :: "modbus_device \<Rightarrow> u16 \<Rightarrow> string \<Rightarrow> modbus_device" where
  "map_input_register d addr sig = d\<lparr>md_input_regs := hm_insert addr sig (md_input_regs d)\<rparr>"

definition map_discrete_input :: "modbus_device \<Rightarrow> u16 \<Rightarrow> string \<Rightarrow> modbus_device" where
  "map_discrete_input d addr sig = d\<lparr>md_discrete_inputs := hm_insert addr sig (md_discrete_inputs d)\<rparr>"

subsection \<open>Access to the transport\<close>

type_synonym 'cb bus = "'cb inproc_transport \<times> 'cb delivery list"

definition bus_read :: "'cb bus \<Rightarrow> string \<Rightarrow> 'cb bus \<times> sample option" where
  "bus_read b nm = (case tr_read_signal (fst b) nm of (t, r) \<Rightarrow> ((t, snd b), r))"

definition bus_publish :: "'cb bus \<Rightarrow> string \<Rightarrow> hal_value \<Rightarrow> 'cb bus" where
  "bus_publish b nm v =
     (case publish_signal (fst b) nm v \<lparr>ts_secs = 0, ts_micros = 0\<rparr> of (t, ds) \<Rightarrow> (t, snd b @ ds))"

fun coil_value :: "hal_value \<Rightarrow> bool" where
  "coil_value (VBool b) = b"
| "coil_value (VU16 v) = (v \<noteq> 0)"
| "coil_value (VU32 v) = (v \<noteq> 0)"
| "coil_value _ = False"

fun register_value :: "hal_value \<Rightarrow> u16" where
  "register_value (VU16 v) = v"
| "register_value (VU32 v) = ucast v"
| "register_value (VS32 v) = ucast v"
| "register_value (VF32 v) = f32_as_u16 v"
| "register_value (VBool b) = (if b then 1 else 0)"
| "register_value _ = 0"

type_synonym ('cb, 'a) access = "('cb bus \<times> (u8 + 'a)) outcome"

text \<open>The four accessors of the thread's copy, which always has a transport.\<close>

definition td_read_coil_signal :: "thread_device \<Rightarrow> 'cb bus \<Rightarrow> u16 \<Rightarrow> ('cb, bool) access" where
  "td_read_coil_signal d b addr =
     (case hm_get (td_coils d) addr of
        None \<Rightarrow> Ok (b, Inl ILLEGAL_DATA_ADDRESS)
      | Some nm \<Rightarrow> (case bus_read b nm of (b1, r) \<Rightarrow>
          Ok (b1, Inr (coil_value (case r of None \<Rightarrow> VBool False | Some (v, _) \<Rightarrow> v)))))"

definition td_write_coil_signal :: "thread_device \<Rightarrow> 'cb bus \<Rightarrow> u16 \<Rightarrow> bool \<Rightarrow> ('cb, unit) access" where
  "td_write_coil_signal d b addr v =
     (case hm_get (td_coils d) addr of
        None \<Rightarrow> Ok (b, Inl ILLEGAL_DATA_ADDRESS)
      | Some nm \<Rightarrow> Ok (bus_publish b nm (VBool v), Inr ()))"

definition td_read_register_signal :: "register_map \<Rightarrow> 'cb bus \<Rightarrow> u16 \<Rightarrow> ('cb, u16) access" where
  "td_read_register_signal mp b addr =
     (case hm_get mp addr of
        None \<Rightarrow> Ok (b, Inl ILLEGAL_DATA_ADDRESS)
      | Some nm \<Rightarrow> (case bus_read b nm of (b1, r) \<Rightarrow>
          Ok (b1, Inr (register_value (case r of None \<Rightarrow> VU16 0 | Some (v, _) \<Rightarrow> v)))))"

definition td_write_register_signal :: "register_map \<Rightarrow> 'cb bus \<Rightarrow> u16 \<Rightarrow> u16 \<Rightarrow> ('cb, unit) access" where
  "td_write_register_signal mp b addr v =
     (case hm_get mp addr of
        None \<Rightarrow> Ok (b, Inl ILLEGAL_DATA_ADDRESS)
      | Some nm \<Rightarrow> Ok (bus_publish b nm (VU16 v), Inr ()))"

definition td_read_discrete :: "thread_device \<Rightarrow> 'cb bus \<Rightarrow> u16 \<Rightarrow> ('cb, bool) access" where
  "td_read_discrete d b addr =
     (case hm_get (td_discrete_inputs d) addr of
        None \<Rightarrow> Ok (b, Inr False)
      | Some nm \<Rightarrow> (case bus_read b nm of (b1, r) \<Rightarrow>
          Ok (b1, Inr (case r of Some (VBool True, _) \<Rightarrow> True | _ \<Rightarrow> False))))"

text \<open>The accessors of the device look the name up first and then expect a transport.\<close>

definition bound_access :: "modbus_device \<Rightarrow> register_map \<Rightarrow> 'cb bus \<Rightarrow> u16 \<Rightarrow> (string \<Rightarrow> 'cb bus \<times> 'a) \<Rightarrow> ('cb, 'a) access" where
  "bound_access d mp b addr k =
     (case hm_get mp addr of
        None \<Rightarrow> Ok (b, Inl ILLEGAL_DATA_ADDRESS)
      | Some nm \<Rightarrow> if \<not> md_bound d then Panic ExplicitPanic else (case k nm of (b1, x) \<Rightarrow> Ok (b1, Inr x)))"

definition md_read_coil_signal :: "modbus_device \<Rightarrow> 'cb bus \<Rightarrow> u16 \<Rightarrow> ('cb, bool) access" where
  "md_read_coil_signal d b addr = bound_access d (md_coils d) b addr (\<lambda>nm.
     case bus_read b nm of (b1, r) \<Rightarrow> (b1, coil_value (case r of None \<Rightarrow> VBool False | Some (v, _) \<Rightarrow> v)))"

definition md_write_coil_signal :: "modbus_device \<Rightarrow> 'cb bus \<Rightarrow> u16 \<Rightarrow> bool \<Rightarrow> ('cb, unit) access" where
  "md_write_coil_signal d b addr v = bound_access d (md_coils d) b addr (\<lambda>nm. (bus_publish b nm (VBool v), ()))"

definition md_read_register_signal :: "modbus_device \<Rightarrow> register_map \<Rightarrow> 'cb bus \<Rightarrow> u16 \<Rightarrow> ('cb, u16) access" where
  "md_read_register_signal d mp b addr = bound_access d mp b addr (\<lambda>nm.
     case bus_read b nm of (b1, r) \<Rightarrow> (b1, register_value (case r of None \<Rightarrow> VU16 0 | Some (v, _) \<Rightarrow> v)))"

definition md_write_register_signal :: "modbus_device \<Rightarrow> register_map \<Rightarrow> 'cb bus \<Rightarrow> u16 \<Rightarrow> u16 \<Rightarrow> ('cb, unit) access" where
  "md_write_register_signal d mp b addr v = bound_access d mp b addr (\<lambda>nm. (bus_publish b nm (VU16 v), ()))"

definition md_read_discrete :: "modbus_device \<Rightarrow> 'cb bus \<Rightarrow> u16 \<Rightarrow> ('cb, bool) access" where
  "md_read_discrete d b addr =
     (case hm_get (md_discrete_inputs d) addr of
        None \<Rightarrow> Ok (b, Inr False)
      | Some nm \<Rightarrow> if \<not> md_bound d then Ok (b, Inr False) else
          (case bus_read b nm of (b1, r) \<Rightarrow>
            Ok (b1, Inr (case r of Some (VBool True, _) \<Rightarrow> True | _ \<Rightarrow> False))))"

subsection \<open>Frames\<close>

text \<open>The seven bytes of the header buffer.\<close>

record mbap =
  tid_hi :: byte
  tid_lo :: byte
  proto_hi :: byte
  proto_lo :: byte
  len_hi :: byte
  len_lo :: byte
  unit_id :: byte

definition len_bytes :: "nat \<Rightarrow> byte list" where
  "len_bytes n = [word_of_nat (n div 256), word_of_nat (n mod 256)]"

definition exception_response :: "mbap \<Rightarrow> u8 \<Rightarrow> u8 \<Rightarrow> byte list" where
  "exception_response h fc exc = [tid_hi h, tid_lo h, 0, 0, 0, 3, unit_id h, fc OR 0x80, exc]"

definition read_response :: "mbap \<Rightarrow> u8 \<Rightarrow> byte list \<Rightarrow> byte list" where
  "read_response h fc data =
     [tid_hi h, tid_lo h, 0, 0] @ len_bytes (2 + length data + 1)
     @ [unit_id h, fc, word_of_nat (length data)] @ data"

definition echo_response :: "mbap \<Rightarrow> u8 \<Rightarrow> byte list \<Rightarrow> byte list" where
  "echo_response h fc data =
     [tid_hi h, tid_lo h, 0, 0] @ len_bytes (1 + length data + 1) @ [unit_id h, fc] @ data"

subsection \<open>Read and write handlers\<close>

definition set_bit_at :: "byte list \<Rightarrow> nat \<Rightarrow> byte list" where
  "set_bit_at bs i = bs[i div 8 := (bs ! (i div 8)) OR push_bit (i mod 8) 1]"

primrec read_bits ::
    "profile \<Rightarrow> ('cb bus \<Rightarrow> u16 \<Rightarrow> ('cb, bool) access) \<Rightarrow> u16 \<Rightarrow> nat list \<Rightarrow> byte list \<Rightarrow> 'cb bus \<Rightarrow> ('cb, byte list) access" where
  "read_bits p rd start [] bs b = Ok (b, Inr bs)"
| "read_bits p rd start (i # is) bs b =
     bindo (ures p (uint start + int i)) (\<lambda>addr.
     bindo (rd b addr) (\<lambda>(b1, r).
       case r of Inl e \<Rightarrow> Ok (b1, Inl e)
       | Inr on \<Rightarrow> read_bits p rd start is (if on then set_bit_at bs i else bs) b1))"

primrec read_words ::
    "profile \<Rightarrow> ('cb bus \<Rightarrow> u16 \<Rightarrow> ('cb, u16) access) \<Rightarrow> u16 \<Rightarrow> nat list \<Rightarrow> byte list \<Rightarrow> 'cb bus \<Rightarrow> ('cb, byte list) access" where
  "read_words p rd start [] bs b = Ok (b, Inr bs)"
| "read_words p rd start (i # is) bs b =
     bindo (ures p (uint start + int i)) (\<lambda>addr.
     bindo (rd b addr) (\<lambda>(b1, r).
       case r of Inl e \<Rightarrow> Ok (b1, Inl e)
       | Inr v \<Rightarrow> read_words p rd start is (bs[2 * i := u16_hi v, 2 * i + 1 := u16_lo v]) b1))"

type_synonym 'cb answer = "('cb bus \<times> byte list) outcome"

definition answer_read :: "mbap \<Rightarrow> u8 \<Rightarrow> ('cb, byte list) access \<Rightarrow> 'cb answer" where
  "answer_read h fc a = mapo (\<lambda>(b, r). (b, case r of Inl e \<Rightarrow> exception_response h fc e | Inr bs \<Rightarrow> read_response h fc bs)) a"

definition answer_write :: "mbap \<Rightarrow> u8 \<Rightarrow> byte list \<Rightarrow> ('cb, unit) access \<Rightarrow> 'cb answer" where
  "answer_write h fc data a =
     mapo (\<lambda>(b, r). (b, case r of Inl e \<Rightarrow> exception_response h fc e | Inr _ \<Rightarrow> echo_response h fc data)) a"

definition handle_read_bits ::
    "profile \<Rightarrow> u8 \<Rightarrow> ('cb bus \<Rightarrow> u16 \<Rightarrow> ('cb, bool) access) \<Rightarrow> mbap \<Rightarrow> byte list \<Rightarrow> 'cb bus \<Rightarrow> 'cb answer" where
  "handle_read_bits p fc rd h data b =
     (case data of
        a0 # a1 # c0 # c1 # _ \<Rightarrow>
          (let start = be_u16 a0 a1; count = be_u16 c0 c1 in
           if count = 0 \<or> 2000 < count then Ok (b, exception_response h fc ILLEGAL_DATA_VALUE)
           else answer_read h fc (read_bits p rd start [0..<unat count] (replicate ((unat count + 7) div 8) 0) b))
      | _ \<Rightarrow> Ok (b, exception_response h fc ILLEGAL_DATA_VALUE))"

definition handle_read_words ::
    "profile \<Rightarrow> u8 \<Rightarrow> ('cb bus \<Rightarrow> u16 \<Rightarrow> ('cb, u16) access) \<Rightarrow> mbap \<Rightarrow> byte list \<Rightarrow> 'cb bus \<Rightarrow> 'cb answer" where
  "handle_read_words p fc rd h data b =
     (case data of
        a0 # a1 # c0 # c1 # _ \<Rightarrow>
          (let start = be_u16 a0 a1; count = be_u16 c0 c1 in
           if count = 0 \<or> 125 < count then Ok (b, exception_response h fc ILLEGAL_DATA_VALUE)
           else answer_read h fc (read_words p rd start [0..<unat count] (replicate (2 * unat count) 0) b))
      | _ \<Rightarrow> Ok (b, exception_response h fc ILLEGAL_DATA_VALUE))"

definition coil_command :: "u16 \<Rightarrow> bool option" where
  "coil_command v = (if v = 0xFF00 then Some True else if v = 0 then Some False else None)"

text \<open>The handlers of the thread's copy.\<close>

definition td_handle_read_coils :: "profile \<Rightarrow> thread_device \<Rightarrow> mbap \<Rightarrow> byte list \<Rightarrow> 'cb bus \<Rightarrow> 'cb answer" where
  "td_handle_read_coils p d = handle_read_bits p 0x01 (td_read_coil_signal d)"

definition td_handle_read_discrete_inputs :: "profile \<Rightarrow> thread_device \<Rightarrow> mbap \<Rightarrow> byte list \<Rightarrow> 'cb bus \<Rightarrow> 'cb answer" where
  "td_handle_read_discrete_inputs p d = handle_read_bits p 0x02 (td_read_discrete d)"

definition td_handle_read_registers ::
    "profile \<Rightarrow> thread_device \<Rightarrow> u8 \<Rightarrow> register_map \<Rightarrow> mbap \<Rightarrow> byte list \<Rightarrow> 'cb bus \<Rightarrow> 'cb answer" where
  "td_handle_read_registers p d fc mp = handle_read_words p fc (td_read_register_signal mp)"

definition td_handle_write_single_coil :: "thread_device \<Rightarrow> mbap \<Rightarrow> byte list \<Rightarrow> 'cb bus \<Rightarrow> 'cb answer" where
  "td_handle_write_single_coil d h data b =
     (case data of
        a0 # a1 # v0 # v1 # _ \<Rightarrow>
          (case coil_command (be_u16 v0 v1) of
             None \<Rightarrow> Ok (b, exception_response h 0x05 ILLEGAL_DATA_VALUE)
           | Some v \<Rightarrow> answer_write h 0x05 data (td_write_coil_signal d b (be_u16 a0 a1) v))
      | _ \<Rightarrow> Ok (b, exception_response h 0x05 ILLEGAL_DATA_VALUE))"

definition td_handle_write_single_register :: "thread_device \<Rightarrow> mbap \<Rightarrow> byte list \<Rightarrow> 'cb bus \<Rightarrow> 'cb answer" where
  "td_handle_write_single_register d h data b =
     (case data of
        a0 # a1 # v0 # v1 # _ \<Rightarrow>
          answer_write h 0x06 data (td_write_register_signal (td_holding_regs d) b (be_u16 a0 a1) (be_u16 v0 v1))
      | _ \<Rightarrow> Ok (b, exception_response h 0x06 ILLEGAL_DATA_VALUE))"

definition td_handle_write_multiple_coils :: "thread_device \<Rightarrow> mbap \<Rightarrow> byte list \<Rightarrow> 'cb bus \<Rightarrow> 'cb answer" where
  "td_handle_write_multiple_coils d h data b =
     (case data of
        a0 # a1 # c0 # c1 # n # v # _ \<Rightarrow>
          answer_write h 0x0F [a0, a1, c0, c1] (td_write_coil_signal d b (be_u16 a0 a1) (v AND 0x01 \<noteq> 0))
      | _ \<Rightarrow> Ok (b, exception_response h 0x0F ILLEGAL_DATA_VALUE))"

definition td_handle_write_multiple_registers :: "thread_device \<Rightarrow> mbap \<Rightarrow> byte list \<Rightarrow> 'cb bus \<Rightarrow> 'cb answer" where
  "td_handle_write_multiple_registers d h data b =
     (case data of
        a0 # a1 # c0 # c1 # n # v0 # v1 # _ # _ \<Rightarrow>
          answer_write h 0x10 [a0, a1, c0, c1]
            (td_write_register_signal (td_holding_regs d) b (be_u16 a0 a1) (be_u16 v0 v1))
      | _ \<Rightarrow> Ok (b, exception_response h 0x10 ILLEGAL_DATA_VALUE))"

definition td_handle_request :: "profile \<Rightarrow> thread_device \<Rightarrow> mbap \<Rightarrow> byte list \<Rightarrow> 'cb bus \<Rightarrow> 'cb answer" where
  "td_handle_request p d h pdu b =
     (case pdu of
        [] \<Rightarrow> Ok (b, exception_response h 0 ILLEGAL_FUNCTION)
      | fc # data \<Rightarrow>
          if fc = 0x01 then td_handle_read_coils p d h data b
          else if fc = 0x02 then td_handle_read_discrete_inputs p d h data b
          else if fc = 0x03 then td_handle_read_registers p d 0x03 (td_holding_regs d) h data b
          else if fc = 0x04 then td_handle_read_registers p d 0x04 (td_input_regs d) h data b
          else if fc = 0x05 then td_handle_write_single_coil d h data b
          else if fc = 0x06 then td_handle_write_single_register d h data b
          else if fc = 0x0F then td_handle_write_multiple_coils d h data b
          else if fc = 0x10 then td_handle_write_multiple_registers d h data b
          else Ok (b, exception_response h fc ILLEGAL_FUNCTION))"

text \<open>The same handlers as methods of the device.\<close>

definition md_handle_read_coils :: "profile \<Rightarrow> modbus_device \<Rightarrow> mbap \<Rightarrow> byte list \<Rightarrow> 'cb bus \<Rightarrow> 'cb answer" where
  "md_handle_read_coils p d = handle_read_bits p 0x01 (md_read_coil_signal d)"

definition md_handle_read_discrete_inputs :: "profile \<Rightarrow> modbus_device \<Rightarrow> mbap \<Rightarrow> byte list \<Rightarrow> 'cb bus \<Rightarrow> 'cb answer" where
  "md_handle_read_discrete_inputs p d = handle_read_bits p 0x02 (md_read_discrete d)"

definition md_handle_read_registers ::
    "profile \<Rightarrow> modbus_device \<Rightarrow> u8 \<Rightarrow> register_map \<Rightarrow> mbap \<Rightarrow> byte list \<Rightarrow> 'cb bus \<Rightarrow> 'cb answer" where
  "md_handle_read_registers p d fc mp = handle_read_words p fc (md_read_register_signal d mp)"

definition md_handle_write_single_coil :: "modbus_device \<Rightarrow> mbap \<Rightarrow> byte list \<Rightarrow> 'cb bus \<Rightarrow> 'cb answer" where
  "md_handle_write_single_coil d h data b =
     (case data of
        a0 # a1 # v0 # v1 # _ \<Rightarrow>
          (case coil_command (be_u16 v0 v1) of
             None \<Rightarrow> Ok (b, exception_response h 0x05 ILLEGAL_DATA_VALUE)
           | Some v \<Rightarrow> answer_write h 0x05 data (md_write_coil_signal d b (be_u16 a0 a1) v))
      | _ \<Rightarrow> Ok (b, exception_response h 0x05 ILLEGAL_DATA_VALUE))"

definition md_handle_write_single_register :: "modbus_device \<Rightarrow> mbap \<Rightarrow> byte list \<Rightarrow> 'cb bus \<Rightarrow> 'cb answer" where
  "md_handle_write_single_register d h data b =
     (case data of
        a0 # a1 # v0 # v1 # _ \<Rightarrow>
          answer_write h 0x06 data (md_write_register_signal d (md_holding_regs d) b (be_u16 a0 a1) (be_u16 v0 v1))
      | _ \<Rightarrow> Ok (b, exception_response h 0x06 ILLEGAL_DATA_VALUE))"

definition md_handle_write_multiple_coils :: "modbus_device \<Rightarrow> mbap \<Rightarrow> byte list \<Rightarrow> 'cb bus \<Rightarrow> 'cb answer" where
  "md_handle_write_multiple_coils d h data b =
     (case data of
        a0 # a1 # c0 # c1 # n # v # _ \<Rightarrow>
          answer_write h 0x0F [a0, a1, c0, c1] (md_write_coil_signal d b (be_u16 a0 a1) (v AND 0x01 \<noteq> 0))
      | _ \<Rightarrow> Ok (b, exception_response h 0x0F ILLEGAL_DATA_VALUE))"

definition md_handle_write_multiple_registers :: "modbus_device \<Rightarrow> mbap \<Rightarrow> byte list \<Rightarrow> 'cb bus \<Rightarrow> 'cb answer" where
  "md_handle_write_multiple_registers d h data b =
     (case data of
        a0 # a1 # c0 # c1 # n # v0 # v1 # _ \<Rightarrow>
          answer_write h 0x10 [a0, a1, c0, c1]
            (md_write_register_signal d (md_holding_regs d) b (be_u16 a0 a1) (be_u16 v0 v1))
      | _ \<Rightarrow> Ok (b, exception_response h 0x10 ILLEGAL_DATA_VALUE))"

definition md_handle_request :: "profile \<Rightarrow> modbus_device \<Rightarrow> mbap \<Rightarrow> byte list \<Rightarrow> 'cb bus \<Rightarrow> 'cb answer" where
  "md_handle_request p d h pdu b =
     (case pdu of
        [] \<Rightarrow> Ok (b, exception_response h 0 ILLEGAL_FUNCTION)
      | fc # data \<Rightarrow>
          if fc = 0x01 then md_handle_read_coils p d h data b
          else if fc = 0x02 then md_handle_read_discrete_inputs p d h data b
          else if fc = 0x03 then md_handle_read_registers p d 0x03 (md_holding_regs d) h data b
          else if fc = 0x04 then md_handle_read_registers p d 0x04 (md_input_regs d) h data b
          else if fc = 0x05 then md_handle_write_single_coil d h data b
          else if fc = 0x06 then md_handle_write_single_register d h data b
          else if fc = 0x0F then md_handle_write_multiple_coils d h data b
          else if fc = 0x10 then md_handle_write_multiple_registers d h data b
          else Ok (b, exception_response h fc ILLEGAL_FUNCTION))"

subsection \<open>Connections\<close>

type_synonym socket = "byte list list"

text \<open>A read returns part of the next segment; at the end it times out or reports the end.\<close>

fun sock_read :: "nat \<Rightarrow> socket \<Rightarrow> (byte list \<times> socket) option" where
  "sock_read n [] = None"
| "sock_read n (c # cs) =
     (if c = [] then None
      else if length c \<le> n then Some (c, cs) else Some (take n c, drop n c # cs))"

lemma sock_read_Some:
  "sock_read n s = Some (bs, s1) \<Longrightarrow> 0 < n \<Longrightarrow> bs \<noteq> [] \<and> length bs \<le> n \<and> concat s = bs @ concat s1"
  by (cases s) (auto split: if_splits)

function read_exact :: "nat \<Rightarrow> socket \<Rightarrow> (byte list \<times> socket) option" where
  "read_exact n s =
     (if n = 0 then Some ([], s) else
      case sock_read n s of
        None \<Rightarrow> None
      | Some (bs, s1) \<Rightarrow> map_option (\<lambda>(cs, s2). (bs @ cs, s2)) (read_exact (n - length bs) s1))"
  by pat_completeness auto

termination read_exact
  by (relation "measure fst") (auto dest: sock_read_Some)

declare read_exact.simps [simp del]

lemma read_exact_0 [simp]: "read_exact 0 s = Some ([], s)"
  by (simp add: read_exact.simps)

lemma read_exact_Some:
  "read_exact n s = Some (bs, s1) \<Longrightarrow> length bs = n \<and> concat s = bs @ concat s1"
proof (induction n s arbitrary: bs s1 rule: read_exact.induct)
  case (1 n s)
  show ?case
  proof (cases "n = 0")
    case False
    then obtain b1 s2 cs where "sock_read n s = Some (b1, s2)" "read_exact (n - length b1) s2 = Some (cs, s1)" "bs = b1 @ cs"
      using "1.prems" by (auto simp: read_exact.simps [of n s] split: option.splits)
    then show ?thesis using "1.IH" [of "(b1, s2)" b1 s2 cs s1] sock_read_Some [of n s b1 s2] False by auto
  qed (use "1.prems" in simp)
qed

fun mbap_of :: "byte list \<Rightarrow> mbap option" where
  "mbap_of [a, b, c, d, e, f, g] =
     Some \<lparr>tid_hi = a, tid_lo = b, proto_hi = c, proto_lo = d, len_hi = e, len_lo = f, unit_id = g\<rparr>"
| "mbap_of _ = None"

text \<open>
  The loop of \<^verbatim>\<open>ThreadDevice::handle_client\<close>. \<open>run k\<close> is the flag in iteration \<open>k\<close>; the result is the
  bus and the frames written to the stream.
\<close>

function handle_client ::
    "profile \<Rightarrow> thread_device \<Rightarrow> (nat \<Rightarrow> bool) \<Rightarrow> nat \<Rightarrow> socket \<Rightarrow> 'cb bus \<Rightarrow> ('cb bus \<times> byte list list) outcome" where
  "handle_client p d run k s b =
     (if \<not> run k then Ok (b, []) else
      case read_exact 7 s of
        None \<Rightarrow> Ok (b, [])
      | Some (hdr, s1) \<Rightarrow>
          (case mbap_of hdr of
             None \<Rightarrow> Ok (b, [])
           | Some h \<Rightarrow>
               (let pdu_len = unat (be_u16 (len_hi h) (len_lo h)) in
                if pdu_len < 2 then Ok (b, []) else
                case read_exact (pdu_len - 1) s1 of
                  None \<Rightarrow> Ok (b, [])
                | Some (pdu, s2) \<Rightarrow>
                    (case td_handle_request p d h pdu b of
                       Panic e \<Rightarrow> Panic e
                     | Ok (b1, resp) \<Rightarrow>
                         mapo (\<lambda>(b2, out). (b2, resp # out)) (handle_client p d run (Suc k) s2 b1)))))"
  by pat_completeness auto

termination handle_client
proof (relation "measure (\<lambda>(p, d, run, k, s, b). length (concat s))")
  fix k :: nat and s :: socket and x2 hdr s1 x2a and x x2b pdu s2 x2c b1 resp
  fix p d run b
  assume "read_exact 7 s = Some x2" "(hdr, s1) = x2" "read_exact (x - 1) s1 = Some x2b" "(pdu, s2) = x2b"
  then show "((p, d, run, Suc k, s2, b1), (p, d, run, k, s, b)) \<in> measure (\<lambda>(p, d, run, k, s, b). length (concat s))"
    using read_exact_Some [of 7 s hdr s1] read_exact_Some [of "x - 1" s1 pdu s2] by auto
qed simp

declare handle_client.simps [simp del]

definition thread_device_of :: "modbus_device \<Rightarrow> thread_device" where
  "thread_device_of d = \<lparr>td_coils = md_coils d, td_holding_regs = md_holding_regs d,
     td_input_regs = md_input_regs d, td_discrete_inputs = md_discrete_inputs d\<rparr>"

text \<open>
  Starting the listener: the flag is set and the thread serves the connections one after the other
  with its own copy of the maps; each connection comes with the values of the flag it sees.
\<close>

primrec serve ::
    "profile \<Rightarrow> thread_device \<Rightarrow> (bool \<times> (nat \<Rightarrow> bool) \<times> socket) list \<Rightarrow> 'cb bus \<Rightarrow> ('cb bus \<times> byte list list list) outcome" where
  "serve p d [] b = Ok (b, [])"
| "serve p d (conn # conns) b =
     (case conn of (running, run, s) \<Rightarrow>
        if \<not> running then Ok (b, []) else
        bindo (handle_client p d run 0 s b) (\<lambda>(b1, out).
        mapo (\<lambda>(b2, outs). (b2, out # outs)) (serve p d conns b1)))"

definition modbus_start :: "modbus_device \<Rightarrow> (modbus_device \<times> thread_device) outcome" where
  "modbus_start d = (if \<not> md_bound d then Panic AssertionFailed else Ok (d\<lparr>md_running := True\<rparr>, thread_device_of d))"

definition modbus_stop :: "modbus_device \<Rightarrow> modbus_device" where
  "modbus_stop d = d\<lparr>md_running := False\<rparr>"

end
