(* ===== verification/Modbus_Correct.thy ===== *)
theory Modbus_Correct
  imports Virtual_Modbus
begin

unbundle bit_operations_syntax

text \<open>
  Properties of the simulated Modbus server: the two copies of the handlers agree up to one length
  check, every answer is a well-formed frame, reads return the values of the mapped signals, a
  written register or coil is read back, and a connection does not depend on how its bytes are cut
  into segments.
\<close>

subsection \<open>The two copies\<close>

lemma bound_accessors:
  assumes "md_bound d"
  shows "md_read_coil_signal d = td_read_coil_signal (thread_device_of d)"
    and "md_write_coil_signal d = td_write_coil_signal (thread_device_of d)"
    and "md_read_register_signal d = td_read_register_signal"
    and "md_write_register_signal d = td_write_register_signal"
    and "md_read_discrete d = td_read_discrete (thread_device_of d)"
  using assms
  by (auto simp: fun_eq_iff md_read_coil_signal_def td_read_coil_signal_def md_write_coil_signal_def
      td_write_coil_signal_def md_read_register_signal_def td_read_register_signal_def
      md_write_register_signal_def td_write_register_signal_def md_read_discrete_def td_read_discrete_def
      bound_access_def thread_device_of_def split: option.splits prod.splits)

lemmas copies_def = td_handle_request_def md_handle_request_def td_handle_read_coils_def md_handle_read_coils_def
  td_handle_read_discrete_inputs_def md_handle_read_discrete_inputs_def td_handle_read_registers_def
  md_handle_read_registers_def td_handle_write_single_coil_def md_handle_write_single_coil_def
  td_handle_write_single_register_def md_handle_write_single_register_def td_handle_write_multiple_coils_def
  md_handle_write_multiple_coils_def


subsection \<open>Frames\<close>

text \<open>
  An answer to the header: its transaction and unit, protocol 0, and a length field that counts the
  bytes behind it.
\<close>

definition frame_ok :: "mbap \<Rightarrow> u8 \<Rightarrow> byte list \<Rightarrow> bool" where
  "frame_ok h fc resp \<longleftrightarrow> (\<exists>l0 l1 fc' body. resp = [tid_hi h, tid_lo h, 0, 0, l0, l1, unit_id h, fc'] @ body
     \<and> fc' \<in> {fc, fc OR 0x80} \<and> unat (be_u16 l0 l1) = length resp - 6)"

lemma unat_len_bytes: "n < 65536 \<Longrightarrow> unat (be_u16 (word_of_nat (n div 256)) (word_of_nat (n mod 256))) = n"
proof -
  assume n: "n < 65536"
  have byte: "uint (word_of_nat k :: byte) = int k" if "k < 256" for k
  proof -
    have "unat (word_of_nat k :: byte) = k" using that by (intro unat_of_nat_small) simp
    then show ?thesis by (metis of_nat_unat)
  qed
  have "uint (be_u16 (word_of_nat (n div 256)) (word_of_nat (n mod 256))) = 256 * int (n div 256) + int (n mod 256)"
    using n byte [of "n div 256"] byte [of "n mod 256"] by (simp only: uint_be_u16)
  also have "\<dots> = int n" by (metis mult_div_mod_eq of_nat_add of_nat_mult of_nat_numeral)
  finally show ?thesis by (simp only: unat_eq_nat_uint nat_int)
qed

lemma frame_exception: "frame_ok h fc (exception_response h fc e)"
proof -
  have "unat (be_u16 0 3) = 3" by code_simp
  then show ?thesis by (simp add: frame_ok_def exception_response_def)
qed

lemma frame_read: "length data < 65533 \<Longrightarrow> frame_ok h fc (read_response h fc data)"
  using unat_len_bytes [of "3 + length data"]
  by (auto simp: frame_ok_def read_response_def len_bytes_def)

lemma frame_echo: "length data < 65534 \<Longrightarrow> frame_ok h fc (echo_response h fc data)"
  using unat_len_bytes [of "2 + length data"]
  by (auto simp: frame_ok_def echo_response_def len_bytes_def)


lemma sum_case_eq: "(case r of Inl e \<Rightarrow> f e | Inr x \<Rightarrow> g x) = y \<longleftrightarrow> (\<exists>e. r = Inl e \<and> f e = y) \<or> (\<exists>x. r = Inr x \<and> g x = y)"
  by (cases r) auto

lemma length_read_bits:
  "read_bits p rd start is bs b = Ok (b', Inr bs') \<Longrightarrow> length bs' = length bs"
  by (induction "is" arbitrary: bs b) (fastforce simp: outcome_simps sum_case_eq set_bit_at_def split: prod.splits if_splits)+

lemma length_read_words:
  "read_words p rd start is bs b = Ok (b', Inr bs') \<Longrightarrow> length bs' = length bs"
  by (induction "is" arbitrary: bs b) (fastforce simp: outcome_simps sum_case_eq split: prod.splits)+

lemma frame_answer_write:
  assumes "answer_write h fc data a = Ok (b', resp)" and "length data < 65534"
  shows "frame_ok h fc resp"
  using assms frame_exception [of h fc] frame_echo [of data h fc]
  by (cases a) (auto simp: answer_write_def split: sum.splits)

lemma frame_answer_read:
  assumes "answer_read h fc a = Ok (b', resp)" and "\<And>b1 bs. a = Ok (b1, Inr bs) \<Longrightarrow> length bs < 65533"
  shows "frame_ok h fc resp"
  using assms frame_exception [of h fc] frame_read [of _ h fc]
  by (cases a) (auto simp: answer_read_def split: sum.splits)

lemma frame_read_bits:
  assumes "handle_read_bits p fc rd h data b = Ok (b', resp)"
  shows "frame_ok h fc resp"
proof -
  have "frame_ok h fc resp"
    if "answer_read h fc (read_bits p rd start [0..<unat count] (replicate ((unat count + 7) div 8) 0) b) = Ok (b', resp)"
      "count \<le> 2000" for start and count :: u16
  proof -
    have "unat count \<le> 2000" using that(2) by (simp add: word_le_nat_alt)
    then show ?thesis by (intro frame_answer_read [OF that(1)]) (auto dest!: length_read_bits)
  qed
  then show ?thesis using assms frame_exception [of h fc]
    by (auto simp: handle_read_bits_def Let_def not_less split: list.splits if_splits)
qed

lemma frame_read_words:
  assumes "handle_read_words p fc rd h data b = Ok (b', resp)"
  shows "frame_ok h fc resp"
proof -
  have "frame_ok h fc resp"
    if "answer_read h fc (read_words p rd start [0..<unat count] (replicate (2 * unat count) 0) b) = Ok (b', resp)"
      "count \<le> 125" for start and count :: u16
  proof -
    have "unat count \<le> 125" using that(2) by (simp add: word_le_nat_alt)
    then show ?thesis by (intro frame_answer_read [OF that(1)]) (auto dest!: length_read_words)
  qed
  then show ?thesis using assms frame_exception [of h fc]
    by (auto simp: handle_read_words_def Let_def not_less split: list.splits if_splits)
qed

lemmas td_writes_def = td_handle_write_single_coil_def td_handle_write_single_register_def
  td_handle_write_multiple_coils_def td_handle_write_multiple_registers_def

lemma frame_writes:
  assumes "length data < 65534"
  shows "td_handle_write_single_coil d h data b = Ok (b', resp) \<Longrightarrow> frame_ok h 0x05 resp"
    and "td_handle_write_single_register d h data b = Ok (b', resp) \<Longrightarrow> frame_ok h 0x06 resp"
    and "td_handle_write_multiple_coils d h data b = Ok (b', resp) \<Longrightarrow> frame_ok h 0x0F resp"
    and "td_handle_write_multiple_registers d h data b = Ok (b', resp) \<Longrightarrow> frame_ok h 0x10 resp"
  using assms frame_exception
  by (auto simp: td_writes_def dest!: frame_answer_write split: list.splits option.splits)

text \<open>
  C16: every answer of the server is a well-formed frame. For any request that fits the length field
  of its header, including empty, truncated and unknown ones, the answer carries the transaction
  and unit of the request, protocol 0, a length field equal to the number of bytes behind it, and
  the function code of the request, with the top bit set or not.
\<close>

theorem answers_are_frames:
  assumes "td_handle_request p d h pdu b = Ok (b', resp)" and "length pdu < 65535"
  shows "frame_ok h (case pdu of [] \<Rightarrow> 0 | fc # _ \<Rightarrow> fc) resp"
proof (cases pdu)
  case (Cons fc data)
  then have "length data < 65534" using assms(2) by simp
  from frame_writes [OF this, of d h b b' resp] show ?thesis
    using assms(1) Cons frame_read_bits [of p _ _ h data b b' resp] frame_read_words [of p _ _ h data b b' resp]
      frame_exception
    by (auto simp: td_handle_request_def td_handle_read_coils_def td_handle_read_discrete_inputs_def
        td_handle_read_registers_def split: if_splits)
qed (use assms frame_exception in \<open>auto simp: td_handle_request_def\<close>)


subsection \<open>Reads and writes\<close>

definition bus_value :: "'cb bus \<Rightarrow> string \<Rightarrow> sample option" where
  "bus_value b nm = snd (tr_read_signal (fst b) nm)"

lemma bus_read_eq: "\<exists>b1. bus_read b nm = (b1, bus_value b nm) \<and> bus_value b1 = bus_value b"
  by (auto simp: bus_read_def bus_value_def fun_eq_iff tr_read_signal_def Let_def)

lemma bus_value_publish: "bus_value (bus_publish b nm v) nm = Some (v, \<lparr>ts_secs = 0, ts_micros = 0\<rparr>)"
  using inproc.read_publish [of "fst b" nm v "\<lparr>ts_secs = 0, ts_micros = 0\<rparr>" nm]
  by (simp add: bus_value_def bus_publish_def case_prod_unfold)

text \<open>The value of a mapped register, and its two bytes on the wire.\<close>

definition reg_value :: "'cb bus \<Rightarrow> string \<Rightarrow> u16" where
  "reg_value b nm = register_value (case bus_value b nm of None \<Rightarrow> VU16 0 | Some (v, _) \<Rightarrow> v)"

definition reg_bytes :: "'cb bus \<Rightarrow> (nat \<Rightarrow> string) \<Rightarrow> nat \<Rightarrow> byte list" where
  "reg_bytes b nm i = [u16_hi (reg_value b (nm i)), u16_lo (reg_value b (nm i))]"

lemma td_read_register:
  "hm_get mp addr = Some nm \<Longrightarrow> \<exists>b1. td_read_register_signal mp b addr = Ok (b1, Inr (reg_value b nm))
     \<and> bus_value b1 = bus_value b"
  using bus_read_eq [of b nm] by (auto simp: td_read_register_signal_def reg_value_def)

lemma length_reg_bytes: "length (concat (map (reg_bytes b nm) [0..<k])) = 2 * k"
  by (induction k) (simp_all add: reg_bytes_def)

lemma ures_addr: "unat start + i < 65536 \<Longrightarrow> ures p (uint (start :: u16) + int i) = Ok (start + word_of_nat i)"
  using ures_of_nat [where 'a = 16, of "unat start + i" p] by simp

lemma read_words_values:
  assumes "unat start + n \<le> 65536" and "\<And>i. i < n \<Longrightarrow> hm_get mp (start + word_of_nat i) = Some (nm i)"
    and "k \<le> n" and "bus_value b1 = bus_value b"
  shows "\<exists>b2. read_words p (td_read_register_signal mp) start [k..<n]
      (concat (map (reg_bytes b nm) [0..<k]) @ replicate (2 * (n - k)) 0) b1
      = Ok (b2, Inr (concat (map (reg_bytes b nm) [0..<n]))) \<and> bus_value b2 = bus_value b"
  using assms(3,4)
proof (induction "n - k" arbitrary: k b1)
  case (Suc m)
  then have k: "k < n" by simp
  obtain b2 where r: "td_read_register_signal mp b1 (start + word_of_nat k) = Ok (b2, Inr (reg_value b (nm k)))"
    "bus_value b2 = bus_value b"
    using td_read_register [OF assms(2) [OF k], of b1] Suc.prems(2) by (auto simp: reg_value_def)
  let ?xs = "concat (map (reg_bytes b nm) [0..<k])"
  have "replicate (2 * (n - k)) (0 :: byte) = 0 # 0 # replicate (2 * (n - Suc k)) 0"
    using k by (simp add: Suc_diff_Suc numeral_2_eq_2 flip: replicate_Suc)
  then have upd: "(?xs @ replicate (2 * (n - k)) 0)[2 * k := u16_hi (reg_value b (nm k)), 2 * k + 1 := u16_lo (reg_value b (nm k))]
      = concat (map (reg_bytes b nm) [0..<Suc k]) @ replicate (2 * (n - Suc k)) 0"
    using length_reg_bytes [of b nm k] by (simp add: list_update_append reg_bytes_def)
  have "ures p (uint start + int k) = Ok (start + word_of_nat k)" using assms(1) k by (intro ures_addr) simp
  moreover obtain b3 where "read_words p (td_read_register_signal mp) start [Suc k..<n]
      (concat (map (reg_bytes b nm) [0..<Suc k]) @ replicate (2 * (n - Suc k)) 0) b2
      = Ok (b3, Inr (concat (map (reg_bytes b nm) [0..<n])))" "bus_value b3 = bus_value b"
  proof -
    have "m = n - Suc k" "Suc k \<le> n" using Suc.hyps(2) k by simp_all
    from that Suc.hyps(1) [OF this r(2)] show ?thesis by blast
  qed
  ultimately show ?case using r(1) upd k by (simp add: upt_conv_Cons)
qed simp


lemma word_pair: "be_u16 (u16_hi w) (u16_lo w) = w"
  by simp

lemma read_holding:
  assumes "0 < count" and "count \<le> 125" and "unat start + unat count \<le> 65536"
    and "\<And>i. i < unat count \<Longrightarrow> hm_get mp (start + word_of_nat i) = Some (nm i)"
  shows "\<exists>b'. handle_read_words p fc (td_read_register_signal mp) h [u16_hi start, u16_lo start, u16_hi count, u16_lo count] b
      = Ok (b', read_response h fc (concat (map (reg_bytes b nm) [0..<unat count])))"
proof -
  obtain b2 where "read_words p (td_read_register_signal mp) start [0..<unat count] (replicate (2 * unat count) 0) b
      = Ok (b2, Inr (concat (map (reg_bytes b nm) [0..<unat count])))"
    using read_words_values [of start "unat count" mp nm 0 b b p] assms(3,4) by auto
  then show ?thesis using assms(1,2) by (auto simp: handle_read_words_def answer_read_def Let_def not_less)
qed

text \<open>
  A read of holding registers returns their values. For up to 125 registers in the address
  range that are all mapped, the answer holds the values of the mapped signals in address order,
  two bytes each with the high byte first, as they are on the bus when the request arrives.
\<close>

theorem holding_registers_read:
  assumes "0 < count" and "count \<le> 125" and "unat start + unat count \<le> 65536"
    and "\<And>i. i < unat count \<Longrightarrow> hm_get (td_holding_regs d) (start + word_of_nat i) = Some (nm i)"
  shows "\<exists>b'. td_handle_request p d h [0x03, u16_hi start, u16_lo start, u16_hi count, u16_lo count] b
      = Ok (b', read_response h 0x03 (concat (map (reg_bytes b nm) [0..<unat count])))"
  using read_holding [OF assms, of p "0x03" h b] by (simp add: td_handle_request_def td_handle_read_registers_def)

lemma word_one: "u16_hi 1 = 0" "u16_lo 1 = 1" "unat (1 :: u16) = 1" "be_u16 0 1 = 1"
  by code_simp+

lemma write_read_register:
  assumes "hm_get (td_holding_regs d) addr = Some nm"
  shows "\<exists>b1 b2. td_handle_request p d h [0x06, u16_hi addr, u16_lo addr, u16_hi v, u16_lo v] b
        = Ok (b1, echo_response h 0x06 [u16_hi addr, u16_lo addr, u16_hi v, u16_lo v])
      \<and> td_handle_request p d h2 [0x03, u16_hi addr, u16_lo addr, 0, 1] b1
        = Ok (b2, read_response h2 0x03 [u16_hi v, u16_lo v])"
proof -
  let ?b = "bus_publish b nm (VU16 v)"
  have w: "td_handle_request p d h [0x06, u16_hi addr, u16_lo addr, u16_hi v, u16_lo v] b
        = Ok (?b, echo_response h 0x06 [u16_hi addr, u16_lo addr, u16_hi v, u16_lo v])"
    using assms by (simp add: td_handle_request_def td_handle_write_single_register_def td_write_register_signal_def
        answer_write_def)
  have "reg_value ?b nm = v" by (simp add: reg_value_def bus_value_publish)
  moreover have "unat addr + 1 \<le> 65536" using unsigned_less [of addr, where 'a = nat] by simp
  ultimately have "\<exists>b2. td_handle_request p d h2 [0x03, u16_hi addr, u16_lo addr, 0, 1] ?b
        = Ok (b2, read_response h2 0x03 [u16_hi v, u16_lo v])"
    using read_holding [of 1 addr "td_holding_regs d" "\<lambda>_. nm" p "0x03" h2 ?b] assms word_one
    by (simp add: td_handle_request_def td_handle_read_registers_def reg_bytes_def)
  with w show ?thesis by blast
qed

lemma write_read_coil:
  assumes "hm_get (td_coils d) coil = Some nm"
  shows "\<exists>b1 b2. td_handle_request p d h [0x05, u16_hi coil, u16_lo coil, if on then 0xFF else 0, 0] b
        = Ok (b1, echo_response h 0x05 [u16_hi coil, u16_lo coil, if on then 0xFF else 0, 0])
      \<and> td_handle_request p d h2 [0x01, u16_hi coil, u16_lo coil, 0, 1] b1
        = Ok (b2, read_response h2 0x01 [if on then 1 else 0])"
proof -
  let ?b = "bus_publish b nm (VBool on)"
  have "be_u16 0xFF 0 = 0xFF00" "be_u16 0 0 = 0" by code_simp+
  then have w: "td_handle_request p d h [0x05, u16_hi coil, u16_lo coil, if on then 0xFF else 0, 0] b
        = Ok (?b, echo_response h 0x05 [u16_hi coil, u16_lo coil, if on then 0xFF else 0, 0])"
    using assms by (cases on) (simp_all add: td_handle_request_def td_handle_write_single_coil_def
        td_write_coil_signal_def answer_write_def coil_command_def)
  obtain b3 where "td_read_coil_signal d ?b coil = Ok (b3, Inr on)"
    using assms bus_read_eq [of ?b nm] by (auto simp: td_read_coil_signal_def bus_value_publish)
  moreover have "ures p (uint coil) = Ok coil"
    using ures_addr [of coil 0 p] unsigned_less [of coil, where 'a = nat] by simp
  ultimately have "td_handle_request p d h2 [0x01, u16_hi coil, u16_lo coil, 0, 1] ?b
        = Ok (b3, read_response h2 0x01 [if on then 1 else 0])"
    using word_one by (simp add: td_handle_request_def td_handle_read_coils_def handle_read_bits_def answer_read_def
        Let_def set_bit_at_def)
  with w show ?thesis by blast
qed

text \<open>
  C17: what is written is read back. After a write of a mapped holding register is answered with its
  echo, a read of that register answers with the value written; after a write of a mapped coil, a
  read of that coil answers with the bit that was commanded.
\<close>

theorem write_then_read:
  assumes "hm_get (td_holding_regs d) addr = Some nm" and "hm_get (td_coils d) coil = Some nc"
  shows "(\<exists>b1 b2. td_handle_request p d h [0x06, u16_hi addr, u16_lo addr, u16_hi v, u16_lo v] b
        = Ok (b1, echo_response h 0x06 [u16_hi addr, u16_lo addr, u16_hi v, u16_lo v])
      \<and> td_handle_request p d h2 [0x03, u16_hi addr, u16_lo addr, 0, 1] b1
        = Ok (b2, read_response h2 0x03 [u16_hi v, u16_lo v]))
    \<and> (\<exists>b1 b2. td_handle_request p d h [0x05, u16_hi coil, u16_lo coil, if on then 0xFF else 0, 0] b
        = Ok (b1, echo_response h 0x05 [u16_hi coil, u16_lo coil, if on then 0xFF else 0, 0])
      \<and> td_handle_request p d h2 [0x01, u16_hi coil, u16_lo coil, 0, 1] b1
        = Ok (b2, read_response h2 0x01 [if on then 1 else 0]))"
  using write_read_register [OF assms(1)] write_read_coil [OF assms(2)] by blast


subsection \<open>Connections\<close>

definition segments :: "socket \<Rightarrow> bool" where
  "segments s \<longleftrightarrow> list_all (\<lambda>c. c \<noteq> []) s"

lemma sock_read_segments:
  assumes "segments s" and "concat s \<noteq> []" and "0 < n"
  obtains bs s1 where "sock_read n s = Some (bs, s1)" and "segments s1" and "bs \<noteq> []" and "length bs \<le> n"
    and "concat s = bs @ concat s1"
proof (cases s)
  case (Cons c cs)
  then show ?thesis using that assms by (cases "length c \<le> n") (auto simp: segments_def)
qed (use assms in simp)

lemma read_exact_segments:
  assumes "segments s"
  shows "n \<le> length (concat s) \<Longrightarrow> \<exists>s1. read_exact n s = Some (take n (concat s), s1) \<and> segments s1
      \<and> concat s1 = drop n (concat s)"
    and "length (concat s) < n \<Longrightarrow> read_exact n s = None"
proof -
  have "(n \<le> length (concat s) \<longrightarrow> (\<exists>s1. read_exact n s = Some (take n (concat s), s1) \<and> segments s1
      \<and> concat s1 = drop n (concat s))) \<and> (length (concat s) < n \<longrightarrow> read_exact n s = None)"
    using assms
  proof (induction n arbitrary: s rule: less_induct)
    case (less n)
    show ?case
    proof (cases "n = 0 \<or> concat s = []")
      case True
      moreover have "s = []" if "concat s = []"
        using less.prems that by (cases s) (auto simp: segments_def)
      ultimately show ?thesis using less.prems by (auto simp: read_exact.simps [of n])
    next
      case False
      then obtain bs s1 where r: "sock_read n s = Some (bs, s1)" "segments s1" "bs \<noteq> []" "length bs \<le> n"
        "concat s = bs @ concat s1"
        using sock_read_segments [OF less.prems, of n] by auto
      then show ?thesis using less.IH [of "n - length bs" s1] False
        by (auto simp: read_exact.simps [of n])
    qed
  qed
  then show "n \<le> length (concat s) \<Longrightarrow> \<exists>s1. read_exact n s = Some (take n (concat s), s1) \<and> segments s1
      \<and> concat s1 = drop n (concat s)" "length (concat s) < n \<Longrightarrow> read_exact n s = None" by blast+
qed

text \<open>A request as bytes: the header, whose length field counts the unit and the body, and the body.\<close>

definition request_bytes :: "mbap \<times> byte list \<Rightarrow> byte list" where
  "request_bytes r = (case r of (h, pdu) \<Rightarrow>
     [tid_hi h, tid_lo h, proto_hi h, proto_lo h, len_hi h, len_lo h, unit_id h] @ pdu)"

definition valid_request :: "mbap \<times> byte list \<Rightarrow> bool" where
  "valid_request r \<longleftrightarrow> (case r of (h, pdu) \<Rightarrow> pdu \<noteq> [] \<and> unat (be_u16 (len_hi h) (len_lo h)) = length pdu + 1)"

primrec answer_all :: "profile \<Rightarrow> thread_device \<Rightarrow> (mbap \<times> byte list) list \<Rightarrow> 'cb bus \<Rightarrow> ('cb bus \<times> byte list list) outcome" where
  "answer_all p d [] b = Ok (b, [])"
| "answer_all p d (r # rs) b =
     bindo (td_handle_request p d (fst r) (snd r) b) (\<lambda>(b1, resp). mapo (\<lambda>(b2, out). (b2, resp # out)) (answer_all p d rs b1))"

text \<open>
  C18: a client is served in order, however its bytes arrive. Cut the bytes of a sequence of requests
  into non-empty segments in any way; while the server runs, the connection answers each request
  once, in order, each on the bus the ones before have left, and then ends.
\<close>

theorem session_answers:
  assumes "segments s" and "concat s = concat (map request_bytes rs)" and "list_all valid_request rs"
  shows "handle_client p d (\<lambda>_. True) k s b = answer_all p d rs b"
  using assms
proof (induction rs arbitrary: s k b)
  case Nil
  then have "length (concat s) < 7" by (simp only: list.map concat.simps list.size)
  then have "read_exact 7 s = None" using read_exact_segments(2) Nil by blast
  then show ?case by (simp add: handle_client.simps [of p d _ k s b])
next
  case (Cons r rs)
  obtain h pdu where r: "r = (h, pdu)" by (cases r)
  let ?hdr = "[tid_hi h, tid_lo h, proto_hi h, proto_lo h, len_hi h, len_lo h, unit_id h]"
  have len: "unat (be_u16 (len_hi h) (len_lo h)) = length pdu + 1" "pdu \<noteq> []"
    using Cons.prems(3) r by (simp_all add: valid_request_def)
  have bytes: "concat s = ?hdr @ pdu @ concat (map request_bytes rs)"
    using Cons.prems(2) r by (simp add: request_bytes_def [of "(h, pdu)"])
  then obtain s1 where s1: "read_exact 7 s = Some (?hdr, s1)" "segments s1" "concat s1 = pdu @ concat (map request_bytes rs)"
    using read_exact_segments(1) [OF Cons.prems(1), of 7] by auto
  then obtain s2 where s2: "read_exact (length pdu) s1 = Some (pdu, s2)" "segments s2"
    "concat s2 = concat (map request_bytes rs)"
    using read_exact_segments(1) [OF s1(2), of "length pdu"] by auto
  have h: "mbap_of ?hdr = Some h" by simp
  show ?case using s1(1) s2(1) h len Cons.IH [OF s2(2,3)] Cons.prems(3) r
    by (cases "td_handle_request p d h pdu b") (auto simp: handle_client.simps [of p d _ k s b] Let_def simp del: mbap_of.simps)
qed


subsection \<open>The last address\<close>

text \<open>
  A read of two discrete inputs from the last address needs no mapping to reach the addition that
  overflows: a development build panics in the listener thread, and a release build goes on at
  address 0.
\<close>

lemma discrete_read_overflow:
  assumes "hm_get (td_discrete_inputs d) 0xFFFF = None"
  shows "td_handle_request DevBuild d h [0x02, 0xFF, 0xFF, 0, 2] b = Panic ArithmeticOverflow"
    and "hm_get (td_discrete_inputs d) 0 = None
      \<Longrightarrow> td_handle_request ReleaseBuild d h [0x02, 0xFF, 0xFF, 0, 2] b = Ok (b, read_response h 0x02 [0])"
proof -
  have e: "be_u16 0xFF 0xFF = 0xFFFF" "be_u16 0 2 = 2" "[0..<unat (2 :: u16)] = [0, 1]"
    "(ures DevBuild (uint (0xFFFF :: u16) + 0) :: u16 outcome) = Ok 0xFFFF"
    "(ures DevBuild (uint (0xFFFF :: u16) + 1) :: u16 outcome) = Panic ArithmeticOverflow"
    by code_simp+
  have last: "td_read_discrete d b 0xFFFF = Ok (b, Inr False)" using assms by (simp add: td_read_discrete_def)
  show "td_handle_request DevBuild d h [0x02, 0xFF, 0xFF, 0, 2] b = Panic ArithmeticOverflow"
    using last e by (simp add: td_handle_request_def td_handle_read_discrete_inputs_def handle_read_bits_def Let_def
        answer_read_def)
  assume "hm_get (td_discrete_inputs d) 0 = None"
  moreover have "(65536 :: u16) = 0" by code_simp
  ultimately have "td_read_discrete d b 65536 = Ok (b, Inr False)" by (metis option.case(1) td_read_discrete_def)
  then show "td_handle_request ReleaseBuild d h [0x02, 0xFF, 0xFF, 0, 2] b = Ok (b, read_response h 0x02 [0])"
    using last e by (simp add: td_handle_request_def td_handle_read_discrete_inputs_def handle_read_bits_def Let_def
        answer_read_def)
qed

subsection \<open>Witnesses\<close>

definition demo_device :: modbus_device where
  "demo_device = map_coil (map_holding_register (map_holding_register (modbus_bind (modbus_device_new ''127.0.0.1'')) 0 ''a'') 1 ''b'') 7 ''c''"

definition demo_header :: mbap where
  "demo_header = \<lparr>tid_hi = 0, tid_lo = 1, proto_hi = 0, proto_lo = 0, len_hi = 0, len_lo = 6, unit_id = 1\<rparr>"

definition demo_bus :: "unit bus" where
  "demo_bus = (transport_new, [])"

lemmas demo_simps = demo_device_def map_coil_def map_holding_register_def modbus_bind_def modbus_device_new_def
  thread_device_of_def


theorem answers_are_frames_witness:
  "\<exists>b' resp. td_handle_request DevBuild (thread_device_of demo_device) demo_header [0x07] demo_bus = Ok (b', resp)
    \<and> frame_ok demo_header 0x07 resp"
  using answers_are_frames [of DevBuild "thread_device_of demo_device" demo_header "[0x07]" demo_bus]
  by (simp add: td_handle_request_def)

theorem holding_registers_read_witness:
  "\<exists>b'. td_handle_request ReleaseBuild (thread_device_of demo_device) demo_header [0x03, u16_hi 0, u16_lo 0, u16_hi 2, u16_lo 2] demo_bus
      = Ok (b', read_response demo_header 0x03 (concat (map (reg_bytes demo_bus (\<lambda>i. if i = 0 then ''a'' else ''b'')) [0..<unat (2 :: u16)])))"
proof (rule holding_registers_read)
  fix i :: nat
  assume "i < unat (2 :: u16)"
  then have "i = 0 \<or> i = 1" by auto
  then show "hm_get (td_holding_regs (thread_device_of demo_device)) (0 + word_of_nat i) = Some (if i = 0 then ''a'' else ''b'')"
    by (auto simp: demo_simps)
qed simp_all

theorem write_then_read_witness:
  "\<exists>b1 b2. td_handle_request DevBuild (thread_device_of demo_device) demo_header [0x06, u16_hi 1, u16_lo 1, u16_hi 500, u16_lo 500] demo_bus
      = Ok (b1, echo_response demo_header 0x06 [u16_hi 1, u16_lo 1, u16_hi 500, u16_lo 500])
    \<and> td_handle_request DevBuild (thread_device_of demo_device) demo_header [0x03, u16_hi 1, u16_lo 1, 0, 1] b1
      = Ok (b2, read_response demo_header 0x03 [u16_hi 500, u16_lo 500])"
proof -
  have "hm_get (td_holding_regs (thread_device_of demo_device)) 1 = Some ''b''"
    "hm_get (td_coils (thread_device_of demo_device)) 7 = Some ''c''"
    by (simp_all add: demo_simps)
  from write_then_read [OF this] show ?thesis by blast
qed

theorem session_answers_witness:
  "handle_client DevBuild (thread_device_of demo_device) (\<lambda>_. True) 0 [[0, 1, 0], [0, 0, 6, 1, 3, 0], [0, 0, 1]] demo_bus
    = answer_all DevBuild (thread_device_of demo_device) [(demo_header, [3, 0, 0, 0, 1])] demo_bus"
proof (rule session_answers)
  have "unat (be_u16 0 6) = 6" by code_simp
  then show "list_all valid_request [(demo_header, [3, 0, 0, 0, 1])]" by (simp add: valid_request_def demo_header_def)
qed (simp_all add: segments_def request_bytes_def demo_header_def)

end
