(* ===== verification/Gcode_Syntax.thy ===== *)
theory Gcode_Syntax
  imports Hal_Value Rust_Str
begin

text \<open>
  The front end of \<^verbatim>\<open>audesys-gcode-compiler\<close>: the tokenizer (\<^verbatim>\<open>token.rs\<close>) over the bytes of the
  source, and the parser (\<^verbatim>\<open>parser.rs\<close>) that groups tokens into one command per line. The
  functions of the source advance an index into the bytes; here they return the rest of the text.
  Line numbers are \<^verbatim>\<open>u32\<close> and would only overflow after \<open>2 ^ 32\<close> lines.
\<close>

subsection \<open>Tokens\<close>

datatype gcode_error =
    ParseError u32 string
  | UnsupportedCommand u32 string
  | MissingParameter u32 string

datatype gtoken =
    TokG u32 | TokM u32 | TokX f64 | TokY f64 | TokZ f64 | TokI f64 | TokJ f64 | TokK f64 | TokR f64
  | TokF f64 | TokS f64 | TokT u32 | TokP f64 | TokLineNum u32 | TokStar | TokPercent | TokSlash | TokEOL | TokEOF

record lexed_token =
  lx_token :: gtoken
  lx_line :: u32

abbreviation lexed :: "gtoken \<Rightarrow> u32 \<Rightarrow> lexed_token" where
  "lexed t l \<equiv> \<lparr>lx_token = t, lx_line = l\<rparr>"

subsection \<open>Numbers\<close>

definition digit_value :: "char \<Rightarrow> nat" where
  "digit_value c = of_char c - 48"

definition u32_push_digit :: "nat \<Rightarrow> u32 \<Rightarrow> u32" where
  "u32_push_digit d v = word_of_nat (min (2 ^ 32 - 1) (min (2 ^ 32 - 1) (unat v * 10) + d))"

fun u32_digits :: "u32 \<Rightarrow> string \<Rightarrow> u32 \<times> string" where
  "u32_digits v [] = (v, [])"
| "u32_digits v (c # cs) = (if is_digit c then u32_digits (u32_push_digit (digit_value c) v) cs else (v, c # cs))"

definition skip_fraction :: "string \<Rightarrow> string" where
  "skip_fraction s = (case s of c # cs \<Rightarrow> if c = CHR ''.'' then dropWhile is_digit cs else s | [] \<Rightarrow> [])"

definition parse_u32 :: "string \<Rightarrow> u32 \<times> string" where
  "parse_u32 s = (case u32_digits 0 s of (v, rest) \<Rightarrow> (v, skip_fraction rest))"

fun int_digits :: "f64 \<Rightarrow> bool \<Rightarrow> string \<Rightarrow> f64 \<times> bool \<times> string" where
  "int_digits v has [] = (v, has, [])"
| "int_digits v has (c # cs) =
     (if is_digit c then int_digits (f64_add (f64_mul v (f64_of_int 10)) (f64_of_int (int (digit_value c)))) True cs
      else (v, has, c # cs))"

fun frac_digits :: "f64 \<Rightarrow> f64 \<Rightarrow> bool \<Rightarrow> string \<Rightarrow> f64 \<times> bool \<times> string" where
  "frac_digits v divisor has [] = (v, has, [])"
| "frac_digits v divisor has (c # cs) =
     (if is_digit c
      then frac_digits (f64_add v (f64_div (f64_of_int (int (digit_value c))) divisor)) (f64_mul divisor (f64_of_int 10)) True cs
      else (v, has, c # cs))"

definition parse_sign :: "string \<Rightarrow> bool \<times> string" where
  "parse_sign s = (case s of c # cs \<Rightarrow> if c = CHR ''-'' then (True, cs) else if c = CHR ''+'' then (False, cs) else (False, s)
     | [] \<Rightarrow> (False, []))"

definition parse_f64 :: "string \<Rightarrow> f64 \<times> string" where
  "parse_f64 s =
     (let (neg, s1) = parse_sign s;
          (int_part, has1, s2) = int_digits 0 False s1;
          (frac_part, has2, s3) =
            (case s2 of c # cs \<Rightarrow> if c = CHR ''.'' then frac_digits 0 (f64_of_int 10) has1 cs else (0, has1, s2)
             | [] \<Rightarrow> (0, has1, []))
      in if \<not> has2 then (0, s3)
         else (let v = f64_add int_part frac_part in (if neg then f64_neg v else v, s3)))"

lemma length_u32_digits: "length (snd (u32_digits v s)) \<le> length s"
  by (induction v s rule: u32_digits.induct) auto

lemma length_skip_fraction: "length (skip_fraction s) \<le> length s"
  by (auto simp: skip_fraction_def le_Suc_eq length_dropWhile_le split: list.split)

lemma length_parse_u32: "length (snd (parse_u32 s)) \<le> length s"
  using length_u32_digits [of 0 s] length_skip_fraction [of "snd (u32_digits 0 s)"]
  by (auto simp: parse_u32_def split: prod.split)

lemma length_int_digits: "length (snd (snd (int_digits v has s))) \<le> length s"
  by (induction v has s rule: int_digits.induct) (auto simp del: split_paired_All)

lemma length_frac_digits: "length (snd (snd (frac_digits v d has s))) \<le> length s"
  by (induction v d has s rule: frac_digits.induct) (auto simp del: split_paired_All)

lemma length_parse_sign: "length (snd (parse_sign s)) \<le> length s"
  by (auto simp: parse_sign_def split: list.split)


lemma length_parse_f64: "length (snd (parse_f64 s)) \<le> length s"
proof -
  obtain neg s1 where a: "parse_sign s = (neg, s1)" by (cases "parse_sign s")
  obtain v h s2 where b: "int_digits 0 False s1 = (v, h, s2)" by (cases "int_digits 0 False s1") auto
  have len: "length s2 \<le> length s"
    using length_int_digits [of 0 False s1] length_parse_sign [of s] a b by simp
  show ?thesis
  proof (cases s2)
    case Nil
    then show ?thesis using a b by (simp add: parse_f64_def Let_def)
  next
    case (Cons c cs)
    obtain w g s3 where d: "frac_digits 0 (f64_of_int 10) h cs = (w, g, s3)"
      by (cases "frac_digits 0 (f64_of_int 10) h cs") auto
    then have "length s3 \<le> length cs" using length_frac_digits [of 0 "f64_of_int 10" h cs] by simp
    then show ?thesis using a b d Cons len by (simp add: parse_f64_def Let_def)
  qed
qed

subsection \<open>The tokenizer\<close>

text \<open>Skipping a parenthesized comment from inside; it may nest and span lines.\<close>

fun skip_comment :: "nat \<Rightarrow> u32 \<Rightarrow> string \<Rightarrow> u32 \<times> string" where
  "skip_comment depth line [] = (line, [])"
| "skip_comment depth line (c # cs) =
     (if depth = 0 then (line, c # cs)
      else skip_comment (if c = CHR ''('' then depth + 1 else if c = CHR '')'' then depth - 1 else depth)
             (if c = CHR 0x0A then line + 1 else line) cs)"

lemma length_skip_comment: "length (snd (skip_comment d l s)) \<le> length s"
  by (induction d l s rule: skip_comment.induct) (auto simp del: split_paired_All)

definition upper_char :: "char \<Rightarrow> char" where
  "upper_char c = hd (to_upper [c])"

text \<open>The letters with a number behind them, by their capital.\<close>

definition u32_word :: "char \<Rightarrow> (u32 \<Rightarrow> gtoken) option" where
  "u32_word c =
     (if c = CHR ''N'' then Some TokLineNum else if c = CHR ''G'' then Some TokG else if c = CHR ''M'' then Some TokM
      else if c = CHR ''T'' then Some TokT else None)"

definition f64_word :: "char \<Rightarrow> (f64 \<Rightarrow> gtoken) option" where
  "f64_word c =
     (if c = CHR ''X'' then Some TokX else if c = CHR ''Y'' then Some TokY else if c = CHR ''Z'' then Some TokZ
      else if c = CHR ''I'' then Some TokI else if c = CHR ''J'' then Some TokJ else if c = CHR ''K'' then Some TokK
      else if c = CHR ''R'' then Some TokR else if c = CHR ''F'' then Some TokF else if c = CHR ''S'' then Some TokS
      else if c = CHR ''P'' then Some TokP else None)"

function gcode_scan :: "u32 \<Rightarrow> string \<Rightarrow> lexed_token list" where
  "gcode_scan line [] = [lexed TokEOF line]"
| "gcode_scan line (c # cs) =
     (if c \<in> set [CHR '' '', CHR 0x09, CHR 0x0D] then gcode_scan line cs
      else if c = CHR 0x0A then lexed TokEOL line # gcode_scan (line + 1) cs
      else if c = CHR ''%'' then lexed TokPercent line # gcode_scan line cs
      else if c = CHR ''*'' then lexed TokStar line # gcode_scan line cs
      else if c = CHR ''/'' then lexed TokSlash line # gcode_scan line cs
      else if c = CHR ''('' then gcode_scan (fst (skip_comment 1 line cs)) (snd (skip_comment 1 line cs))
      else if c = CHR '';'' then gcode_scan line (dropWhile (\<lambda>x. x \<noteq> CHR 0x0A) cs)
      else case u32_word (upper_char c) of
        Some tok \<Rightarrow> lexed (tok (fst (parse_u32 cs))) line # gcode_scan line (snd (parse_u32 cs))
      | None \<Rightarrow>
          (case f64_word (upper_char c) of
             Some tok \<Rightarrow> lexed (tok (fst (parse_f64 cs))) line # gcode_scan line (snd (parse_f64 cs))
           | None \<Rightarrow>
               if upper_char c \<in> set ''ABCDEHLQUVW'' then gcode_scan line (snd (parse_f64 cs))
               else gcode_scan line cs))"
  by pat_completeness auto

termination gcode_scan
  by (relation "measure (\<lambda>(line, s). length s)")
     (auto simp: le_imp_less_Suc length_parse_u32 length_parse_f64 length_skip_comment [unfolded One_nat_def]
        length_dropWhile_le case_prod_unfold)

declare gcode_scan.simps(2) [simp del]

definition gcode_tokenize :: "string \<Rightarrow> gcode_error + lexed_token list" where
  "gcode_tokenize source = Inr (gcode_scan 1 source)"

subsection \<open>Commands\<close>

datatype command_kind = Motion | Spindle | Modal | ProgramControl | UnknownCommand

record gcode_command =
  cmd_kind :: command_kind
  g_code :: "u32 option"
  m_code :: "u32 option"
  cmd_x :: "f64 option"
  cmd_y :: "f64 option"
  cmd_z :: "f64 option"
  cmd_i :: "f64 option"
  cmd_j :: "f64 option"
  cmd_k :: "f64 option"
  cmd_r :: "f64 option"
  cmd_f :: "f64 option"
  cmd_s :: "f64 option"
  cmd_p :: "f64 option"
  cmd_t :: "u32 option"
  cmd_line :: u32

definition command_new :: "u32 \<Rightarrow> gcode_command" where
  "command_new line = \<lparr>cmd_kind = UnknownCommand, g_code = None, m_code = None, cmd_x = None, cmd_y = None,
     cmd_z = None, cmd_i = None, cmd_j = None, cmd_k = None, cmd_r = None, cmd_f = None, cmd_s = None,
     cmd_p = None, cmd_t = None, cmd_line = line\<rparr>"

definition classify :: "gcode_command \<Rightarrow> gcode_command" where
  "classify cmd = cmd\<lparr>cmd_kind :=
     (if g_code cmd \<in> Some ` {0, 1, 2, 3} then Motion
      else if m_code cmd \<in> Some ` {3, 4, 5} then Spindle
      else if g_code cmd \<in> Some ` {17, 18, 19, 20, 21, 80, 90, 91} then Modal
      else if m_code cmd \<in> Some ` {2, 30} then ProgramControl
      else UnknownCommand)\<rparr>"

fun is_word :: "gtoken \<Rightarrow> bool" where
  "is_word (TokLineNum _) = False"
| "is_word TokStar = False"
| "is_word TokPercent = False"
| "is_word TokSlash = False"
| "is_word TokEOL = False"
| "is_word TokEOF = False"
| "is_word _ = True"

fun apply_token :: "gcode_command \<Rightarrow> gtoken \<Rightarrow> gcode_command" where
  "apply_token cmd (TokG n) = cmd\<lparr>g_code := Some n\<rparr>"
| "apply_token cmd (TokM n) = cmd\<lparr>m_code := Some n\<rparr>"
| "apply_token cmd (TokX v) = cmd\<lparr>cmd_x := Some v\<rparr>"
| "apply_token cmd (TokY v) = cmd\<lparr>cmd_y := Some v\<rparr>"
| "apply_token cmd (TokZ v) = cmd\<lparr>cmd_z := Some v\<rparr>"
| "apply_token cmd (TokI v) = cmd\<lparr>cmd_i := Some v\<rparr>"
| "apply_token cmd (TokJ v) = cmd\<lparr>cmd_j := Some v\<rparr>"
| "apply_token cmd (TokK v) = cmd\<lparr>cmd_k := Some v\<rparr>"
| "apply_token cmd (TokR v) = cmd\<lparr>cmd_r := Some v\<rparr>"
| "apply_token cmd (TokF v) = cmd\<lparr>cmd_f := Some v\<rparr>"
| "apply_token cmd (TokS v) = cmd\<lparr>cmd_s := Some v\<rparr>"
| "apply_token cmd (TokP v) = cmd\<lparr>cmd_p := Some v\<rparr>"
| "apply_token cmd (TokT n) = cmd\<lparr>cmd_t := Some n\<rparr>"
| "apply_token cmd _ = cmd"

definition gcode_parse_line :: "lexed_token list \<Rightarrow> gcode_error + gcode_command" where
  "gcode_parse_line ts =
     (case ts of
        [] \<Rightarrow> Inr (command_new 0)
      | t # _ \<Rightarrow>
          (let cmd = foldl (\<lambda>cmd t. apply_token cmd (lx_token t)) (command_new (lx_line t)) ts in
           Inr (if list_ex (\<lambda>t. is_word (lx_token t)) ts then classify cmd else cmd\<lparr>cmd_kind := UnknownCommand\<rparr>)))"

text \<open>One command for each line that has a word; the walk ends at the end of the file.\<close>

fun parse_lines :: "lexed_token list \<Rightarrow> lexed_token list \<Rightarrow> gcode_error + gcode_command list" where
  "parse_lines cur [] = Inr []"
| "parse_lines cur (t # ts) =
     (if lx_token t = TokEOL \<or> lx_token t = TokEOF
      then (let rest = (if lx_token t = TokEOF then Inr [] else parse_lines [] ts) in
            if list_ex (\<lambda>t. is_word (lx_token t)) cur
            then (case gcode_parse_line cur of
                    Inl e \<Rightarrow> Inl e
                  | Inr cmd \<Rightarrow> (case rest of Inl e \<Rightarrow> Inl e | Inr cmds \<Rightarrow> Inr (cmd # cmds)))
            else rest)
      else parse_lines (cur @ [t]) ts)"

definition parse_all :: "lexed_token list \<Rightarrow> gcode_error + gcode_command list" where
  "parse_all ts = parse_lines [] ts"

end
