(* ===== verification/Cnc_Motion.thy ===== *)
theory Cnc_Motion
  imports Hal_Ir
begin

text \<open>
  The trapezoidal velocity profile of \<^verbatim>\<open>audesys-cnc-motion\<close> (\<^verbatim>\<open>profile.rs\<close>): generation of the code
  of one linear motion. The emitters take the code so far and return the longer code; the loop
  targets are indices into that code, as in the source.
\<close>

abbreviation M_COUNTER :: u8 where "M_COUNTER \<equiv> 0"
abbreviation M_POS_X :: u8 where "M_POS_X \<equiv> 1"
abbreviation M_POS_Y :: u8 where "M_POS_Y \<equiv> 2"
abbreviation M_POS_Z :: u8 where "M_POS_Z \<equiv> 3"
abbreviation M_ZERO :: u8 where "M_ZERO \<equiv> 4"
abbreviation M_ONE :: u8 where "M_ONE \<equiv> 5"
abbreviation M_VEL :: u8 where "M_VEL \<equiv> 6"
abbreviation M_VSTEP :: u8 where "M_VSTEP \<equiv> 7"
abbreviation M_TSTEP :: u8 where "M_TSTEP \<equiv> 8"
abbreviation M_RATIO :: u8 where "M_RATIO \<equiv> 9"
abbreviation M_AXIS_STEP :: u8 where "M_AXIS_STEP \<equiv> 10"
abbreviation M_DT :: u8 where "M_DT \<equiv> 11"

record trapezoidal_profile =
  tp_dx :: f64
  tp_dy :: f64
  tp_dz :: f64
  tp_feedrate :: f64
  tp_acceleration :: f64
  tp_dt :: f64
  tp_start_x :: f64
  tp_start_y :: f64
  tp_start_z :: f64

type_synonym motion_code = "instruction list"

definition profile_distance :: "trapezoidal_profile \<Rightarrow> f64" where
  "profile_distance pf = f64_sqrt (f64_add (f64_add (f64_mul (tp_dx pf) (tp_dx pf)) (f64_mul (tp_dy pf) (tp_dy pf)))
     (f64_mul (tp_dz pf) (tp_dz pf)))"

text \<open>The threshold \<^verbatim>\<open>1e-9\<close>.\<close>

definition tiny :: f64 where
  "tiny = f64_of_ratio 1 1000000000"

definition moving :: "f64 \<Rightarrow> bool" where
  "moving d \<longleftrightarrow> f64_lt tiny (f64_abs d)"

definition emit_axis_step :: "motion_code \<Rightarrow> f64 \<Rightarrow> u8 \<Rightarrow> string \<Rightarrow> motion_code" where
  "emit_axis_step is ratio pos_reg sig =
     is @ [load_imm M_RATIO (VF64 ratio), arith Mul M_TSTEP M_RATIO M_AXIS_STEP,
           arith Add pos_reg M_AXIS_STEP pos_reg, inst Store [SignalName sig, Register pos_reg]]"

text \<open>The steps of the three axes, the first one always.\<close>

definition emit_axis_steps :: "motion_code \<Rightarrow> trapezoidal_profile \<Rightarrow> motion_code" where
  "emit_axis_steps is pf =
     (let distance = profile_distance pf;
          is1 = emit_axis_step is (f64_div (tp_dx pf) distance) M_POS_X ''axis.0.pos'';
          is2 = (if moving (tp_dy pf) then emit_axis_step is1 (f64_div (tp_dy pf) distance) M_POS_Y ''axis.1.pos'' else is1)
      in if moving (tp_dz pf) then emit_axis_step is2 (f64_div (tp_dz pf) distance) M_POS_Z ''axis.2.pos'' else is2)"

definition loop_control :: "motion_code \<Rightarrow> nat \<Rightarrow> motion_code" where
  "loop_control is loop_start =
     is @ [arith Sub M_COUNTER M_ONE M_COUNTER, cmp Gt M_COUNTER M_ZERO, jump_if (of_nat loop_start)]"

definition emit_profile_phase ::
    "motion_code \<Rightarrow> trapezoidal_profile \<Rightarrow> u32 \<Rightarrow> f64 \<Rightarrow> f64 \<Rightarrow> bool \<Rightarrow> bool \<Rightarrow> motion_code" where
  "emit_profile_phase is pf phase_cycles v_target a is_accel is_decel =
     (if phase_cycles = 0 then is else
      let dv = f64_mul a (tp_dt pf);
          v_start = (if is_accel then f64_of_int 0 else v_target);
          is1 = is @ [load_imm M_VSTEP (VF64 dv), load_imm M_VEL (VF64 v_start),
                      load_imm M_COUNTER (VF64 (f64_of_int (uint phase_cycles)))];
          is2 = emit_axis_steps (is1 @ [arith Mul M_VEL M_DT M_TSTEP]) pf;
          is3 = (if is_accel then is2 @ [arith Add M_VEL M_VSTEP M_VEL]
                 else if is_decel then is2 @ [arith Sub M_VEL M_VSTEP M_VEL] else is2)
      in loop_control is3 (length is1))"

definition emit_start_yz :: "motion_code \<Rightarrow> trapezoidal_profile \<Rightarrow> motion_code" where
  "emit_start_yz is pf =
     (let is1 = (if moving (tp_dy pf) then is @ [load_imm M_POS_Y (VF64 (tp_start_y pf))] else is)
      in if moving (tp_dz pf) then is1 @ [load_imm M_POS_Z (VF64 (tp_start_z pf))] else is1)"

text \<open>The product \<^verbatim>\<open>cycles_half * 2\<close> is checked in a development build.\<close>

definition emit_triangular_motion :: "profile \<Rightarrow> trapezoidal_profile \<Rightarrow> u32 \<Rightarrow> motion_code \<Rightarrow> motion_code outcome" where
  "emit_triangular_motion p pf cycles_half is =
     bindo (ures p (uint cycles_half * 2)) (\<lambda>total :: u32.
       let is1 = emit_start_yz is pf
             @ [load_imm M_COUNTER (VF64 (f64_of_int (uint total))), load_imm M_RATIO (VF64 (f64_of_int (uint cycles_half)))];
           is2 = emit_axis_steps (is1 @ [arith Mul M_VEL M_DT M_TSTEP]) pf @ [cmp Gt M_COUNTER M_RATIO];
           decel_start = length is2 + 3;
           is3 = is2 @ [jump_if (of_nat decel_start), arith Add M_VEL M_VSTEP M_VEL, jump (of_nat (decel_start + 1)),
                        arith Sub M_VEL M_VSTEP M_VEL]
       in Ok (loop_control is3 (length is1)))"

definition emit_g1 :: "profile \<Rightarrow> trapezoidal_profile \<Rightarrow> motion_code \<Rightarrow> motion_code outcome" where
  "emit_g1 p pf is =
     (let distance = profile_distance pf in
      if f64_lt distance tiny then Ok is else
      let feedrate = (if f64_lt (f64_of_int 0) (tp_feedrate pf) then tp_feedrate pf else f64_of_int 100);
          v_target = f64_div feedrate (f64_of_int 60);
          a = tp_acceleration pf;
          dt = tp_dt pf;
          t_accel = f64_div v_target a;
          cycles_accel = f64_ceil_u32 (f64_div t_accel dt);
          dist_accel = f64_mul (f64_mul (f64_mul (f64_of_ratio 1 2) a) t_accel) t_accel;
          dist_cruise = f64_sub distance (f64_mul (f64_of_int 2) dist_accel)
      in if f64_lt (f64_of_int 0) dist_cruise then
           (let cycles_cruise = f64_ceil_u32 (f64_div (f64_div dist_cruise v_target) dt);
                is1 = emit_start_yz (is @ [load_imm M_POS_X (VF64 (tp_start_x pf))]) pf;
                is2 = (if 0 < cycles_accel then emit_profile_phase is1 pf cycles_accel v_target a True False else is1);
                is3 = (if 0 < cycles_cruise then emit_profile_phase is2 pf cycles_cruise v_target a False False else is2)
            in Ok (if 0 < cycles_accel then emit_profile_phase is3 pf cycles_accel v_target a False True else is3))
         else
           (let v_peak = f64_sqrt (f64_mul distance a);
                t_peak = f64_div v_peak a;
                cycles_half = max 1 (f64_ceil_u32 (f64_div t_peak dt));
                dv_adj = f64_div v_peak (f64_of_int (uint cycles_half))
            in emit_triangular_motion p pf cycles_half
                 (is @ [load_imm M_VEL (VF64 (f64_of_int 0)), load_imm M_VSTEP (VF64 dv_adj),
                        load_imm M_POS_X (VF64 (tp_start_x pf))])))"

definition motion_binding :: "string \<Rightarrow> string \<Rightarrow> signal_binding" where
  "motion_binding nm sig = \<lparr>hal_signal_name = sig, program_var = nm, sb_direction = Write, hal_pin_type = TF64\<rparr>"

definition generate_trapezoidal_program :: "profile \<Rightarrow> trapezoidal_profile \<Rightarrow> hal_program outcome" where
  "generate_trapezoidal_program p pf =
     mapo (\<lambda>is. \<lparr>prog_name = ''trapezoidal_motion'',
        prog_signals = [motion_binding ''axis.0.pos'' ''axis.0.pos'', motion_binding ''axis.1.pos'' ''axis.1.pos'',
                        motion_binding ''axis.2.pos'' ''axis.2.pos''],
        prog_channels = [], instructions = is, function_table = []\<rparr>)
       (emit_g1 p pf [load_imm M_DT (VF64 (tp_dt pf)), load_imm M_ZERO (VF64 (f64_of_int 0)),
                      load_imm M_ONE (VF64 (f64_of_int 1))])"

end
