(* ===== verification/Gcode_Compiler.thy ===== *)
theory Gcode_Compiler
  imports Gcode_Syntax Cnc_Motion
begin

text \<open>
  The back end of \<^verbatim>\<open>audesys-gcode-compiler\<close> (\<^verbatim>\<open>compiler.rs\<close>, \<^verbatim>\<open>lib.rs\<close>): modal state, rapid and linear
  motion, arcs, spindle and program control. The trigonometric functions have no specified
  rounding, and neither they nor the decimal printing of a number in one error message are
  written out: they are the fields of an argument. The square root is the correctly rounded one.
\<close>

record float_env =
  fe_sin :: "f64 \<Rightarrow> f64"
  fe_cos :: "f64 \<Rightarrow> f64"
  fe_acos :: "f64 \<Rightarrow> f64"
  fe_atan2 :: "f64 \<Rightarrow> f64 \<Rightarrow> f64"
  fe_hypot :: "f64 \<Rightarrow> f64 \<Rightarrow> f64"
  fe_show :: "f64 \<Rightarrow> string"

subsection \<open>Modal state\<close>

record modal_state =
  motion_mode :: u32
  coord_mode :: u32
  unit_mode :: u32
  ms_plane :: u32
  feedrate :: f64
  spindle_rpm :: f64
  acceleration :: f64
  current_x :: f64
  current_y :: f64
  current_z :: f64
  line_number :: u32

definition modal_new :: modal_state where
  "modal_new = \<lparr>motion_mode = 0, coord_mode = 90, unit_mode = 21, ms_plane = 17, feedrate = 0, spindle_rpm = 0,
     acceleration = f64_of_int 500, current_x = 0, current_y = 0, current_z = 0, line_number = 0\<rparr>"

definition move_axis :: "bool \<Rightarrow> f64 \<Rightarrow> f64 option \<Rightarrow> f64" where
  "move_axis absolute cur target = (case target of None \<Rightarrow> cur | Some v \<Rightarrow> if absolute then v else f64_add cur v)"

definition update_position :: "modal_state \<Rightarrow> gcode_command \<Rightarrow> modal_state" where
  "update_position st cmd =
     (let absolute = (coord_mode st = 90) in
      st\<lparr>current_x := move_axis absolute (current_x st) (cmd_x cmd),
         current_y := move_axis absolute (current_y st) (cmd_y cmd),
         current_z := move_axis absolute (current_z st) (cmd_z cmd)\<rparr>)"

definition advance :: "modal_state \<Rightarrow> gcode_command \<Rightarrow> modal_state" where
  "advance st cmd =
     (let next = st\<lparr>line_number := cmd_line cmd\<rparr> in
      case cmd_kind cmd of
        Motion \<Rightarrow>
          (let n1 = (case g_code cmd of Some g \<Rightarrow> if g \<le> 3 then next\<lparr>motion_mode := g\<rparr> else next | None \<Rightarrow> next);
               n2 = update_position n1 cmd
           in case cmd_f cmd of Some f \<Rightarrow> n2\<lparr>feedrate := f\<rparr> | None \<Rightarrow> n2)
      | Spindle \<Rightarrow> (case cmd_s cmd of Some s \<Rightarrow> next\<lparr>spindle_rpm := s\<rparr> | None \<Rightarrow> next)
      | Modal \<Rightarrow>
          (case g_code cmd of
             None \<Rightarrow> next
           | Some g \<Rightarrow>
               if g \<in> {17, 18, 19} then next\<lparr>ms_plane := g\<rparr>
               else if g \<in> {20, 21} then next\<lparr>unit_mode := g\<rparr>
               else if g \<in> {90, 91} then next\<lparr>coord_mode := g\<rparr>
               else if g = 80 then next\<lparr>motion_mode := 0\<rparr>
               else next)
      | ProgramControl \<Rightarrow> next
      | UnknownCommand \<Rightarrow> next)"

subsection \<open>Emitting code\<close>

abbreviation REG_STEP :: u8 where "REG_STEP \<equiv> 0"
abbreviation REG_POS_X :: u8 where "REG_POS_X \<equiv> 2"
abbreviation REG_POS_Y :: u8 where "REG_POS_Y \<equiv> 3"
abbreviation REG_POS_Z :: u8 where "REG_POS_Z \<equiv> 4"
abbreviation REG_ZERO :: u8 where "REG_ZERO \<equiv> 5"
abbreviation REG_ONE :: u8 where "REG_ONE \<equiv> 6"

definition store_sig :: "string \<Rightarrow> u8 \<Rightarrow> instruction" where
  "store_sig nm r = inst Store [SignalName nm, Register r]"

text \<open>Store a position and enable the axis, as \<^verbatim>\<open>emit_g0\<close> does for each axis.\<close>

definition rapid_axis :: "u8 \<Rightarrow> f64 \<Rightarrow> string \<Rightarrow> string \<Rightarrow> instruction list" where
  "rapid_axis r v pos en = [load_imm r (VF64 v), store_sig pos r, load_imm REG_STEP (VBool True), store_sig en REG_STEP]"

definition f64_nonzero :: "f64 \<Rightarrow> bool" where
  "f64_nonzero v \<longleftrightarrow> f64_cmp v 0 \<noteq> Some Equal"

definition emit_g0 :: "modal_state \<Rightarrow> instruction list" where
  "emit_g0 st =
     rapid_axis REG_POS_X (current_x st) ''axis.0.pos'' ''axis.0.enable''
     @ (if f64_nonzero (current_y st) then rapid_axis REG_POS_Y (current_y st) ''axis.1.pos'' ''axis.1.enable'' else [])
     @ (if f64_nonzero (current_z st) then rapid_axis REG_POS_Z (current_z st) ''axis.2.pos'' ''axis.2.enable'' else [])"

definition emit_spindle :: "gcode_command \<Rightarrow> instruction list" where
  "emit_spindle cmd =
     (case cmd_s cmd of None \<Rightarrow> [] | Some s \<Rightarrow> [load_imm REG_STEP (VF64 s), store_sig ''spindle.rpm'' REG_STEP])
     @ (if m_code cmd = Some 3 then [load_imm REG_STEP (VBool True), store_sig ''spindle.cw'' REG_STEP]
        else if m_code cmd = Some 4 then [load_imm REG_STEP (VBool True), store_sig ''spindle.ccw'' REG_STEP]
        else if m_code cmd = Some 5 then
          [load_imm REG_STEP (VBool False), store_sig ''spindle.cw'' REG_STEP, store_sig ''spindle.ccw'' REG_STEP,
           load_imm REG_STEP (VF64 0), store_sig ''spindle.rpm'' REG_STEP]
        else [])"

definition emit_program_control :: "gcode_command \<Rightarrow> instruction list" where
  "emit_program_control cmd =
     (if m_code cmd = Some 30
      then [load_imm REG_STEP (VBool False), store_sig ''spindle.cw'' REG_STEP, store_sig ''spindle.ccw'' REG_STEP]
      else [])
     @ (if m_code cmd = Some 2 \<or> m_code cmd = Some 30 then [halt] else [])"

subsection \<open>Arcs\<close>

definition f64_pi :: f64 where
  "f64_pi = 0x400921FB54442D18"

definition CHORD_TOLERANCE :: f64 where
  "CHORD_TOLERANCE = f64_of_ratio 5 1000"

definition MAX_ANGULAR_STEP :: f64 where
  "MAX_ANGULAR_STEP = f64_div f64_pi (f64_of_int 6)"

definition calculate_arc_center ::
    "float_env \<Rightarrow> f64 \<Rightarrow> f64 \<Rightarrow> f64 \<Rightarrow> f64 \<Rightarrow> gcode_command \<Rightarrow> u32 \<Rightarrow> gcode_error + f64 \<times> f64" where
  "calculate_arc_center fe start_a start_b end_a end_b cmd pl =
     (let or0 = (\<lambda>x. case x of None \<Rightarrow> 0 | Some v \<Rightarrow> v) in
      if cmd_i cmd \<noteq> None \<or> cmd_j cmd \<noteq> None \<or> cmd_k cmd \<noteq> None then
        (if pl = 17 then Inr (f64_add start_a (or0 (cmd_i cmd)), f64_add start_b (or0 (cmd_j cmd)))
         else if pl = 18 then Inr (f64_add start_a (or0 (cmd_k cmd)), f64_add start_b (or0 (cmd_i cmd)))
         else if pl = 19 then Inr (f64_add start_a (or0 (cmd_j cmd)), f64_add start_b (or0 (cmd_k cmd)))
         else Inl (UnsupportedCommand (cmd_line cmd) (''plane G'' @ dec_string (unat pl))))
      else case cmd_r cmd of
        None \<Rightarrow> Inl (UnsupportedCommand (cmd_line cmd) ''arc missing I/J/K or R'')
      | Some radius \<Rightarrow>
          (let dx = f64_sub end_a start_a; dy = f64_sub end_b start_b;
               chord_len = f64_sqrt (f64_add (f64_mul dx dx) (f64_mul dy dy))
           in if f64_lt chord_len tiny then Inl (UnsupportedCommand (cmd_line cmd) ''zero-length arc with R'')
              else
                (let r_abs = f64_abs radius; half_chord = f64_div chord_len (f64_of_int 2) in
                 if f64_lt r_abs (f64_sub half_chord tiny)
                 then Inl (UnsupportedCommand (cmd_line cmd)
                   (''radius '' @ fe_show fe r_abs @ '' too small for chord length '' @ fe_show fe chord_len))
                 else
                   (let center_offset = f64_sqrt (f64_max (f64_sub (f64_mul r_abs r_abs) (f64_mul half_chord half_chord)) 0);
                        mid_a = f64_div (f64_add start_a end_a) (f64_of_int 2);
                        mid_b = f64_div (f64_add start_b end_b) (f64_of_int 2);
                        perp_a = f64_div (f64_neg dy) chord_len;
                        perp_b = f64_div dx chord_len;
                        sgn = (if f64_lt 0 radius then f64_of_int 1 else f64_of_int (-1))
                    in Inr (f64_add mid_a (f64_mul (f64_mul sgn perp_a) center_offset),
                            f64_add mid_b (f64_mul (f64_mul sgn perp_b) center_offset))))))"

text \<open>The axes of the plane: start, end, signals of the two arc axes and the linear axis.\<close>

record arc_axis =
  arc_start :: f64
  arc_end :: f64
  arc_pos :: string
  arc_enable :: string

definition axis_x :: "modal_state \<Rightarrow> modal_state \<Rightarrow> arc_axis" where
  "axis_x prev next = \<lparr>arc_start = current_x prev, arc_end = current_x next, arc_pos = ''axis.0.pos'', arc_enable = ''axis.0.enable''\<rparr>"

definition axis_y :: "modal_state \<Rightarrow> modal_state \<Rightarrow> arc_axis" where
  "axis_y prev next = \<lparr>arc_start = current_y prev, arc_end = current_y next, arc_pos = ''axis.1.pos'', arc_enable = ''axis.1.enable''\<rparr>"

definition axis_z :: "modal_state \<Rightarrow> modal_state \<Rightarrow> arc_axis" where
  "axis_z prev next = \<lparr>arc_start = current_z prev, arc_end = current_z next, arc_pos = ''axis.2.pos'', arc_enable = ''axis.2.enable''\<rparr>"

definition arc_axes :: "u32 \<Rightarrow> modal_state \<Rightarrow> modal_state \<Rightarrow> (arc_axis \<times> arc_axis \<times> arc_axis) option" where
  "arc_axes pl prev next =
     (if pl = 17 then Some (axis_x prev next, axis_y prev next, axis_z prev next)
      else if pl = 18 then Some (axis_z prev next, axis_x prev next, axis_y prev next)
      else if pl = 19 then Some (axis_y prev next, axis_z prev next, axis_x prev next)
      else None)"

definition two_pi :: f64 where
  "two_pi = f64_mul (f64_of_int 2) f64_pi"

definition arc_sweep :: "u32 \<Rightarrow> bool \<Rightarrow> f64 \<Rightarrow> f64 \<Rightarrow> f64" where
  "arc_sweep g full start_angle end_angle =
     (if full then (if g = 2 then f64_mul (f64_of_int (-2)) f64_pi else two_pi)
      else let s = f64_sub end_angle start_angle in
           if g = 2 then (if f64_lt 0 s then f64_sub s two_pi else s)
           else (if f64_lt s 0 then f64_add s two_pi else s))"

definition store_axis :: "arc_axis \<Rightarrow> f64 \<Rightarrow> instruction list" where
  "store_axis ax v = [load_imm REG_POS_X (VF64 v), store_sig (arc_pos ax) REG_POS_X, store_sig (arc_enable ax) REG_STEP]"

definition emit_arc ::
    "float_env \<Rightarrow> u32 \<Rightarrow> modal_state \<Rightarrow> modal_state \<Rightarrow> gcode_command \<Rightarrow> gcode_error + instruction list" where
  "emit_arc fe g prev next cmd =
     (case arc_axes (ms_plane prev) prev next of
        None \<Rightarrow> Inl (UnsupportedCommand (cmd_line cmd) (''G'' @ dec_string (unat g)))
      | Some (ax_a, ax_b, ax_l) \<Rightarrow>
          (case calculate_arc_center fe (arc_start ax_a) (arc_start ax_b) (arc_end ax_a) (arc_end ax_b) cmd (ms_plane prev) of
             Inl e \<Rightarrow> Inl e
           | Inr (center_a, center_b) \<Rightarrow>
               (let da = f64_sub (arc_start ax_a) center_a; db = f64_sub (arc_start ax_b) center_b;
                    radius = f64_sqrt (f64_add (f64_mul da da) (f64_mul db db))
                in if f64_lt radius tiny then Inl (UnsupportedCommand (cmd_line cmd) ''zero-radius arc'')
                   else
                     (let start_angle = fe_atan2 fe db da;
                          end_angle = fe_atan2 fe (f64_sub (arc_end ax_b) center_b) (f64_sub (arc_end ax_a) center_a);
                          full = f64_lt (fe_hypot fe (f64_sub (arc_end ax_a) (arc_start ax_a))
                                   (f64_sub (arc_end ax_b) (arc_start ax_b))) (f64_of_ratio 1 1000000);
                          sweep = arc_sweep g full start_angle end_angle
                      in if f64_lt (f64_abs sweep) tiny then Inr []
                         else
                           (let angular_step =
                                  (if f64_lt CHORD_TOLERANCE radius
                                   then f64_min (f64_mul (f64_of_int 2) (fe_acos fe (f64_sub (f64_of_int 1) (f64_div CHORD_TOLERANCE radius))))
                                          MAX_ANGULAR_STEP
                                   else MAX_ANGULAR_STEP);
                                num_segments = max 1 (f64_ceil_u32 (f64_div (f64_abs sweep) angular_step));
                                angle_per_segment = f64_div sweep (f64_of_int (uint num_segments));
                                linear_per_segment =
                                  f64_div (f64_sub (arc_end ax_l) (arc_start ax_l)) (f64_of_int (uint num_segments))
                            in Inr (load_imm REG_STEP (VBool True)
                                 # concat (map (\<lambda>i.
                                     let angle = f64_add start_angle (f64_mul (f64_of_int (int i)) angle_per_segment) in
                                     store_axis ax_a (f64_add center_a (f64_mul radius (fe_cos fe angle)))
                                     @ store_axis ax_b (f64_add center_b (f64_mul radius (fe_sin fe angle)))
                                     @ store_axis ax_l (f64_add (arc_start ax_l) (f64_mul (f64_of_int (int i)) linear_per_segment)))
                                   [1..<Suc (unat num_segments)])))))))"

subsection \<open>Compilation\<close>

definition f64_dt :: f64 where
  "f64_dt = f64_of_ratio 1 100"

text \<open>The code and the additional bindings of a motion; building the profile may panic.\<close>

definition emit_motion ::
    "profile \<Rightarrow> float_env \<Rightarrow> gcode_command \<Rightarrow> modal_state \<Rightarrow> (gcode_error + instruction list \<times> signal_binding list) outcome" where
  "emit_motion p fe cmd st =
     (let next = advance st cmd; g = (case g_code cmd of Some g \<Rightarrow> g | None \<Rightarrow> motion_mode st) in
      if g = 0 then Ok (Inr (emit_g0 next, []))
      else if g = 1 then
        (let dx = f64_sub (current_x next) (current_x st);
             dy = f64_sub (current_y next) (current_y st);
             dz = f64_sub (current_z next) (current_z st);
             distance = f64_sqrt (f64_add (f64_add (f64_mul dx dx) (f64_mul dy dy)) (f64_mul dz dz))
         in if \<not> (f64_lt tiny distance \<or> f64_cmp tiny distance = Some Equal) then Ok (Inr ([], []))
            else mapo (\<lambda>pr. Inr (instructions pr, prog_signals pr))
              (generate_trapezoidal_program p
                 \<lparr>tp_dx = dx, tp_dy = dy, tp_dz = dz, tp_feedrate = feedrate next, tp_acceleration = acceleration next,
                  tp_dt = f64_dt, tp_start_x = current_x st, tp_start_y = current_y st, tp_start_z = current_z st\<rparr>))
      else if g = 2 \<or> g = 3 then
        (case g_code cmd of
           None \<Rightarrow> Panic ExplicitPanic
         | Some g' \<Rightarrow> Ok (map_sum id (\<lambda>is. (is, [])) (emit_arc fe g' st next cmd)))
      else
        (case g_code cmd of
           None \<Rightarrow> Panic ExplicitPanic
         | Some g' \<Rightarrow> Ok (Inl (UnsupportedCommand (cmd_line cmd) (''G'' @ dec_string (unat g'))))))"

definition axis_signal :: "string \<Rightarrow> hal_pin_type \<Rightarrow> signal_binding" where
  "axis_signal nm ty = \<lparr>hal_signal_name = nm, program_var = map (\<lambda>c. if c = CHR ''.'' then CHR ''_'' else c) nm,
     sb_direction = Write, hal_pin_type = ty\<rparr>"

definition ensure_axis_signals :: "signal_binding list" where
  "ensure_axis_signals =
     [axis_signal ''axis.0.pos'' TF64, axis_signal ''axis.0.enable'' TBool,
      axis_signal ''axis.1.pos'' TF64, axis_signal ''axis.1.enable'' TBool,
      axis_signal ''axis.2.pos'' TF64, axis_signal ''axis.2.enable'' TBool,
      axis_signal ''spindle.rpm'' TF64, axis_signal ''spindle.cw'' TBool, axis_signal ''spindle.ccw'' TBool]"

text \<open>The code of one command, or its error.\<close>

definition emit_command ::
    "profile \<Rightarrow> float_env \<Rightarrow> gcode_command \<Rightarrow> modal_state \<Rightarrow> (gcode_error + instruction list \<times> signal_binding list) outcome" where
  "emit_command p fe cmd st =
     (case cmd_kind cmd of
        Motion \<Rightarrow> emit_motion p fe cmd st
      | Spindle \<Rightarrow> Ok (Inr (emit_spindle cmd, []))
      | Modal \<Rightarrow> Ok (Inr ([], []))
      | ProgramControl \<Rightarrow> Ok (Inr (emit_program_control cmd, []))
      | UnknownCommand \<Rightarrow>
          (case g_code cmd of
             Some g \<Rightarrow> Ok (Inl (UnsupportedCommand (cmd_line cmd) (''G'' @ dec_string (unat g))))
           | None \<Rightarrow>
               (case m_code cmd of
                  Some m \<Rightarrow> Ok (Inl (UnsupportedCommand (cmd_line cmd) (''M'' @ dec_string (unat m))))
                | None \<Rightarrow> Ok (Inr ([], [])))))"

primrec compile_loop ::
    "profile \<Rightarrow> float_env \<Rightarrow> gcode_command list \<Rightarrow> modal_state \<Rightarrow> instruction list \<times> signal_binding list
     \<Rightarrow> (gcode_error + instruction list \<times> signal_binding list) outcome" where
  "compile_loop p fe [] st acc = Ok (Inr acc)"
| "compile_loop p fe (cmd # cmds) st acc =
     bindo (emit_command p fe cmd st) (\<lambda>r.
       case r of Inl e \<Rightarrow> Ok (Inl e)
       | Inr (is, sigs) \<Rightarrow> compile_loop p fe cmds (advance st cmd) (fst acc @ is, snd acc @ sigs))"

definition compile_commands ::
    "profile \<Rightarrow> float_env \<Rightarrow> gcode_command list \<Rightarrow> modal_state \<Rightarrow> (gcode_error + hal_program) outcome" where
  "compile_commands p fe cmds st =
     mapo (map_sum id (\<lambda>(is, sigs). \<lparr>prog_name = ''gcode_program'', prog_signals = sigs, prog_channels = [],
        instructions = is, function_table = []\<rparr>))
       (compile_loop p fe cmds st
          ([load_imm REG_ZERO (VF64 0), load_imm REG_ONE (VF64 (f64_of_int 1))], ensure_axis_signals))"

definition gcode_compile :: "profile \<Rightarrow> float_env \<Rightarrow> string \<Rightarrow> (gcode_error + hal_program) outcome" where
  "gcode_compile p fe source =
     (case gcode_tokenize source of
        Inl e \<Rightarrow> Ok (Inl e)
      | Inr ts \<Rightarrow>
          (case parse_all ts of
             Inl e \<Rightarrow> Ok (Inl e)
           | Inr cmds \<Rightarrow> compile_commands p fe cmds modal_new))"

end
