(* ===== verification/Gcode_Correct.thy ===== *)
theory Gcode_Correct
  imports Gcode_Compiler Straight_Line
begin

text \<open>
  Properties of the G-code compiler: numbers are read back, programs end when they have a program
  control line, rapid motion leaves the axes where the modal state says, and three ways in which
  compiled programs go wrong.
\<close>

subsection \<open>Numbers\<close>

lemma digit_value_char: "d < 10 \<Longrightarrow> digit_value (char_of (48 + d)) = d"
  by (simp add: digit_value_def)

definition clamp32 :: "nat \<Rightarrow> u32" where
  "clamp32 n = word_of_nat (min n (2 ^ 32 - 1))"

lemma push_clamp: "u32_push_digit d (clamp32 n) = clamp32 (n * 10 + d)"
proof -
  have "unat (clamp32 n) = min n (2 ^ 32 - 1)"
    unfolding clamp32_def by (intro unat_of_nat_small) (simp add: min_def)
  moreover have "min (2 ^ 32 - 1) (min (2 ^ 32 - 1) (min n (2 ^ 32 - 1) * 10) + d) = min (n * 10 + d) (2 ^ 32 - 1)"
    by (auto simp: min_def)
  ultimately show ?thesis unfolding u32_push_digit_def by (simp only: clamp32_def)
qed

lemma u32_digits_append:
  assumes "list_all is_digit ds"
  shows "u32_digits v (ds @ s) = u32_digits (foldl (\<lambda>v c. u32_push_digit (digit_value c) v) v ds) s"
  using assms by (induction ds arbitrary: v) simp_all

lemma dec_string_value: "foldl (\<lambda>v c. u32_push_digit (digit_value c) v) (clamp32 0) (dec_string n) = clamp32 n"
proof (induction n rule: dec_string.induct)
  case (1 n)
  show ?case
  proof (cases "n < 10")
    case True
    then show ?thesis by (simp add: dec_string.simps [of n] push_clamp digit_value_char)
  next
    case False
    then show ?thesis using 1
      by (simp add: dec_string.simps [of n] push_clamp digit_value_char mult.commute)
  qed
qed

text \<open>
  The tokenizer reads numbers back. The decimal form of a number behind a word letter is read as
  that number, or as the largest 32-bit number when it is larger, and the text behind it is left
  for the next token, whatever letter the word starts with and in whatever case.
\<close>

theorem numbers_read_back:
  assumes "u32_word (upper_char c) = Some tok" and "s = [] \<or> \<not> is_digit (hd s) \<and> hd s \<noteq> CHR ''.''"
  shows "gcode_scan line (c # dec_string n @ s) = lexed (tok (word_of_nat (min n (2 ^ 32 - 1)))) line # gcode_scan line s"
proof -
  have "u32_digits (clamp32 n) s = (clamp32 n, s)" using assms(2) by (cases s) auto
  moreover have "skip_fraction s = s" using assms(2) by (cases s) (auto simp: skip_fraction_def)
  moreover have "clamp32 0 = 0" by (simp add: clamp32_def)
  ultimately have "parse_u32 (dec_string n @ s) = (clamp32 n, s)"
    using u32_digits_append [OF dec_string_digits [of n], of "clamp32 0" s] dec_string_value [of n]
    by (simp add: parse_u32_def)
  moreover have "c \<notin> {CHR '' '', CHR 0x09, CHR 0x0D, CHR 0x0A, CHR ''%'', CHR ''*'', CHR ''/'', CHR ''('', CHR '';''}"
  proof
    assume "c \<in> {CHR '' '', CHR 0x09, CHR 0x0D, CHR 0x0A, CHR ''%'', CHR ''*'', CHR ''/'', CHR ''('', CHR '';''}"
    then have "u32_word (upper_char c) = None"
      by (elim insertE emptyE) (simp_all add: u32_word_def upper_char_def to_upper_def)
    then show False using assms(1) by simp
  qed
  ultimately show ?thesis using assms(1) by (simp add: gcode_scan.simps(2) clamp32_def)
qed


subsection \<open>Programs that end\<close>

abbreviation halts :: "instruction list \<Rightarrow> bool" where
  "halts is \<equiv> list_ex (\<lambda>i. opcode i = Halt) is"

lemma axis_step_halts [simp]: "halts (emit_axis_step is v r nm) = halts is"
  by (simp add: emit_axis_step_def load_imm_def arith_def)

lemma axis_steps_halts [simp]: "halts (emit_axis_steps is pf) = halts is"
  by (simp add: emit_axis_steps_def Let_def)

lemma start_yz_halts [simp]: "halts (emit_start_yz is pf) = halts is"
  by (simp add: emit_start_yz_def load_imm_def Let_def)

lemma loop_control_halts [simp]: "halts (loop_control is n) = halts is"
  by (simp add: loop_control_def arith_def cmp_def jump_if_def)

lemma phase_halts [simp]: "halts (emit_profile_phase is pf n v a x y) = halts is"
  by (simp add: emit_profile_phase_def load_imm_def arith_def Let_def)

lemma triangular_halts:
  "emit_triangular_motion p pf n is = Ok is' \<Longrightarrow> halts is' = halts is"
  by (auto simp: emit_triangular_motion_def load_imm_def arith_def cmp_def jump_if_def jump_def Let_def outcome_simps)

lemma emit_g1_halts: "emit_g1 p pf is = Ok is' \<Longrightarrow> halts is' = halts is"
  by (auto simp: emit_g1_def Let_def load_imm_def dest!: triangular_halts split: if_splits)

lemma motion_halts:
  assumes "emit_motion p fe cmd st = Ok (Inr (is, sigs))"
  shows "\<not> halts is"
proof -
  have "\<not> halts (instructions pr)" if "generate_trapezoidal_program p pf = Ok pr" for pf pr
    using that emit_g1_halts [of p pf] by (auto simp: generate_trapezoidal_program_def outcome_simps load_imm_def)
  moreover have "\<not> halts is'" if "emit_arc fe g st next cmd = Inr is'" for g "next" is'
    using that
    by (auto simp: emit_arc_def Let_def store_axis_def store_sig_def load_imm_def list_ex_iff split: option.splits sum.splits prod.splits if_splits)
  moreover have "\<not> halts (emit_g0 next)" for "next"
    by (simp add: emit_g0_def rapid_axis_def load_imm_def store_sig_def)
  ultimately show ?thesis using assms
    by (auto simp: emit_motion_def Let_def outcome_simps map_sum_def split: if_splits option.splits sum.splits)
qed

lemma spindle_halts: "\<not> halts (emit_spindle cmd)"
  by (auto simp: emit_spindle_def load_imm_def store_sig_def split: option.splits)

definition classified :: "gcode_command \<Rightarrow> bool" where
  "classified cmd \<longleftrightarrow> cmd_kind cmd = ProgramControl \<longrightarrow> m_code cmd \<in> {Some 2, Some 30}"

lemma command_halts:
  assumes "emit_command p fe cmd st = Ok (Inr (is, sigs))" and "classified cmd"
  shows "halts is \<longleftrightarrow> cmd_kind cmd = ProgramControl"
  using assms motion_halts [of p fe cmd st] spindle_halts [of cmd]
  by (auto simp: emit_command_def emit_program_control_def halt_def classified_def
      split: command_kind.splits option.splits)

lemma compile_loop_ConsE:
  assumes "compile_loop p fe (cmd # cmds) st acc = Ok (Inr r)"
  obtains is1 s1 where "emit_command p fe cmd st = Ok (Inr (is1, s1))"
    and "compile_loop p fe cmds (advance st cmd) (fst acc @ is1, snd acc @ s1) = Ok (Inr r)"
proof (cases "emit_command p fe cmd st")
  case (Ok x)
  then show ?thesis using assms that by (cases x) (auto split: prod.splits)
qed (use assms in auto)

lemma loop_halts:
  assumes "compile_loop p fe cmds st acc = Ok (Inr (is, sigs))" and "list_all classified cmds"
  shows "halts is \<longleftrightarrow> halts (fst acc) \<or> list_ex (\<lambda>c. cmd_kind c = ProgramControl) cmds"
  using assms
proof (induction cmds arbitrary: st acc)
  case (Cons cmd cmds)
  obtain is1 s1 where c: "emit_command p fe cmd st = Ok (Inr (is1, s1))"
    and r: "compile_loop p fe cmds (advance st cmd) (fst acc @ is1, snd acc @ s1) = Ok (Inr (is, sigs))"
    using Cons.prems(1) by (rule compile_loop_ConsE)
  then show ?case using Cons.IH [OF r] Cons.prems(2) command_halts [OF c] by auto
qed simp

lemma parse_line_classified: "gcode_parse_line ts = Inr cmd \<Longrightarrow> classified cmd"
  by (auto simp: gcode_parse_line_def classified_def classify_def command_new_def Let_def split: list.splits if_splits)

lemma parse_lines_classified: "parse_lines cur ts = Inr cmds \<Longrightarrow> list_all classified cmds"
  by (induction cur ts arbitrary: cmds rule: parse_lines.induct)
     (auto simp: Let_def dest: parse_line_classified split: if_splits sum.splits)

text \<open>
  A compiled G-code program passes the executor's well-formedness check exactly when one of its
  lines is a program control line, that is, has M2 or M30 and no word that makes it a motion, a
  spindle or a modal line. An M30 on a line with G0 is dropped, and the program is not well-formed.
\<close>

theorem gcode_well_formed:
  assumes "gcode_compile p fe source = Ok (Inr pr)"
  shows "is_well_formed pr \<longleftrightarrow>
    (\<exists>cmds. parse_all (gcode_scan 1 source) = Inr cmds \<and> list_ex (\<lambda>c. cmd_kind c = ProgramControl) cmds)"
proof -
  obtain cmds where c: "parse_all (gcode_scan 1 source) = Inr cmds"
    and r: "compile_commands p fe cmds modal_new = Ok (Inr pr)"
    using assms by (auto simp: gcode_compile_def gcode_tokenize_def split: sum.splits)
  obtain r' where l: "compile_loop p fe cmds modal_new ([load_imm REG_ZERO (VF64 0), load_imm REG_ONE (VF64 (f64_of_int 1))], ensure_axis_signals) = Ok r'"
    and m: "Inr pr = map_sum id (\<lambda>(is, sigs). \<lparr>prog_name = ''gcode_program'', prog_signals = sigs, prog_channels = [],
        instructions = is, function_table = []\<rparr>) r'"
    using r by (auto simp: compile_commands_def outcome_simps)
  obtain code sigs where r': "r' = Inr (code, sigs)" using m by (cases r') auto
  have "list_all classified cmds" using c parse_lines_classified by (simp add: parse_all_def)
  from loop_halts [OF l [unfolded r'] this] c m r' show ?thesis by (simp add: is_well_formed_def load_imm_def)
qed

definition zero_env :: float_env where
  "zero_env = \<lparr>fe_sin = (\<lambda>_. 0), fe_cos = (\<lambda>_. 0), fe_acos = (\<lambda>_. 0), fe_atan2 = (\<lambda>_ _. 0), fe_hypot = (\<lambda>_ _. 0),
     fe_show = (\<lambda>_. [])\<rparr>"

lemma u32_word_examples: "u32_word (upper_char (CHR ''G'')) = Some TokG" "u32_word (upper_char (CHR ''g'')) = Some TokG"
  "u32_word (upper_char (CHR ''M'')) = Some TokM"
  by code_simp+

lemma rapid_with_m30:
  "parse_all (gcode_scan 1 ''G0 M30'') = Inr [(command_new 1)\<lparr>cmd_kind := Motion, g_code := Some 0, m_code := Some 30\<rparr>]"
  by (simp add: gcode_scan.simps(2) u32_word_examples parse_u32_def u32_push_digit_def digit_value_def skip_fraction_def
      is_digit_def parse_all_def gcode_parse_line_def command_new_def classify_def)

theorem gcode_well_formed_witness:
  "\<exists>pr. gcode_compile DevBuild zero_env ''G0 M30'' = Ok (Inr pr) \<and> \<not> is_well_formed pr"
proof -
  obtain pr where pr: "gcode_compile DevBuild zero_env ''G0 M30'' = Ok (Inr pr)"
    by (simp add: gcode_compile_def gcode_tokenize_def rapid_with_m30 compile_commands_def emit_command_def
        emit_motion_def command_new_def)
  then show ?thesis using gcode_well_formed [OF pr] by (simp add: rapid_with_m30 command_new_def)
qed

theorem numbers_read_back_witness:
  "gcode_scan 1 (CHR ''g'' # dec_string 5000000000 @ '' '') = lexed (TokG 0xFFFFFFFF) 1 # gcode_scan 1 '' ''"
  using numbers_read_back [of "CHR ''g''" TokG "'' ''" 1 5000000000]
  by (simp add: u32_word_examples is_digit_def)

subsection \<open>Rapid motion\<close>

text \<open>
  The commands that compile to straight-line stores, and what they mean for the signals: the
  reference against which the compiled code is checked.
\<close>

definition direct :: "gcode_command \<Rightarrow> bool" where
  "direct cmd \<longleftrightarrow> cmd_kind cmd = Motion \<and> g_code cmd = Some 0 \<or> cmd_kind cmd = Spindle \<or> cmd_kind cmd = Modal"

type_synonym signal_map = "string \<rightharpoonup> hal_value"

definition set_axis :: "string \<Rightarrow> string \<Rightarrow> f64 \<Rightarrow> signal_map \<Rightarrow> signal_map" where
  "set_axis pos en v sg = sg(pos \<mapsto> VF64 v, en \<mapsto> VBool True)"

definition set_nonzero :: "string \<Rightarrow> string \<Rightarrow> f64 \<Rightarrow> signal_map \<Rightarrow> signal_map" where
  "set_nonzero pos en v sg = (if f64_nonzero v then set_axis pos en v sg else sg)"

definition move_signals :: "modal_state \<Rightarrow> signal_map \<Rightarrow> signal_map" where
  "move_signals st sg =
     set_nonzero ''axis.2.pos'' ''axis.2.enable'' (current_z st)
       (set_nonzero ''axis.1.pos'' ''axis.1.enable'' (current_y st)
          (set_axis ''axis.0.pos'' ''axis.0.enable'' (current_x st) sg))"

definition spindle_signals :: "gcode_command \<Rightarrow> signal_map \<Rightarrow> signal_map" where
  "spindle_signals cmd sg =
     (let s1 = (case cmd_s cmd of None \<Rightarrow> sg | Some s \<Rightarrow> sg(''spindle.rpm'' \<mapsto> VF64 s)) in
      if m_code cmd = Some 3 then s1(''spindle.cw'' \<mapsto> VBool True)
      else if m_code cmd = Some 4 then s1(''spindle.ccw'' \<mapsto> VBool True)
      else if m_code cmd = Some 5 then s1(''spindle.cw'' \<mapsto> VBool False, ''spindle.ccw'' \<mapsto> VBool False, ''spindle.rpm'' \<mapsto> VF64 0)
      else s1)"

definition stop_signals :: "gcode_command \<Rightarrow> signal_map \<Rightarrow> signal_map" where
  "stop_signals cmd sg =
     (if m_code cmd = Some 30 then sg(''spindle.cw'' \<mapsto> VBool False, ''spindle.ccw'' \<mapsto> VBool False) else sg)"

fun meaning :: "gcode_command list \<Rightarrow> modal_state \<Rightarrow> signal_map \<Rightarrow> signal_map" where
  "meaning [] st sg = sg"
| "meaning (cmd # cmds) st sg =
     meaning cmds (advance st cmd)
       (case cmd_kind cmd of Motion \<Rightarrow> move_signals (advance st cmd) sg | Spindle \<Rightarrow> spindle_signals cmd sg | _ \<Rightarrow> sg)"

definition sig_rel :: "vm \<Rightarrow> signal_map \<Rightarrow> bool" where
  "sig_rel m sg \<longleftrightarrow> length (registers m) = REGISTER_COUNT \<and> (\<forall>nm. read_signal m nm = sg nm)"

text \<open>Data code that changes the signals by a function, from any machine state.\<close>

definition runs :: "instruction list \<Rightarrow> (signal_map \<Rightarrow> signal_map) \<Rightarrow> bool" where
  "runs code f \<longleftrightarrow> list_all (\<lambda>i. \<not> is_control (opcode i)) code
     \<and> (\<forall>p m sg. sig_rel m sg \<longrightarrow> (\<exists>m'. exec_list p m code = Ok m' \<and> sig_rel m' (f sg)))"

lemma runs_Nil [simp]: "runs [] (\<lambda>sg. sg)"
  by (simp add: runs_def)

lemma runs_append:
  assumes "runs xs f" and "runs ys g"
  shows "runs (xs @ ys) (\<lambda>sg. g (f sg))"
  unfolding runs_def
proof (intro conjI allI impI)
  show "list_all (\<lambda>i. \<not> is_control (opcode i)) (xs @ ys)" using assms by (simp add: runs_def)
  fix p m sg
  assume "sig_rel m sg"
  then obtain m1 where "exec_list p m xs = Ok m1" "sig_rel m1 (f sg)" using assms(1) unfolding runs_def by blast
  moreover then obtain m2 where "exec_list p m1 ys = Ok m2" "sig_rel m2 (g (f sg))" using assms(2) unfolding runs_def by blast
  ultimately show "\<exists>m'. exec_list p m (xs @ ys) = Ok m' \<and> sig_rel m' (g (f sg))" by (simp add: exec_list_append)
qed

lemma runs_load: "unat r < REGISTER_COUNT \<Longrightarrow> runs [load_imm r v] (\<lambda>sg. sg)"
  by (auto simp: runs_def sig_rel_def execute_instruction_def exec_load_def load_imm_def vm_defs is_control_def)

lemma runs_store: "unat r < REGISTER_COUNT \<Longrightarrow> runs [load_imm r v, store_sig nm r] (\<lambda>sg. sg(nm \<mapsto> v))"
  by (auto simp: runs_def sig_rel_def execute_instruction_def exec_load_def exec_store_def load_imm_def store_sig_def
      vm_defs is_control_def hmap_simps)

lemma runs_store2:
  "unat r < REGISTER_COUNT \<Longrightarrow> runs [load_imm r v, store_sig nm r, store_sig nm' r] (\<lambda>sg. sg(nm \<mapsto> v, nm' \<mapsto> v))"
  by (auto simp: runs_def sig_rel_def execute_instruction_def exec_load_def exec_store_def load_imm_def store_sig_def
      vm_defs is_control_def hmap_simps)

lemma rapid_runs:
  assumes "unat r < REGISTER_COUNT"
  shows "runs (rapid_axis r v pos en) (set_axis pos en v)"
  using runs_append [OF runs_store [OF assms, of "VF64 v" pos] runs_store [of REG_STEP "VBool True" en]]
  by (simp add: rapid_axis_def REGISTER_COUNT_def set_axis_def [abs_def])

lemma rapid_nonzero_runs:
  assumes "unat r < REGISTER_COUNT"
  shows "runs (if f64_nonzero v then rapid_axis r v pos en else []) (set_nonzero pos en v)"
  using rapid_runs [OF assms, of v pos en] by (simp add: set_nonzero_def [abs_def])

lemma g0_runs: "runs (emit_g0 st) (move_signals st)"
  using runs_append [OF rapid_runs [of REG_POS_X "current_x st" "''axis.0.pos''" "''axis.0.enable''"]
    runs_append [OF rapid_nonzero_runs [of REG_POS_Y "current_y st" "''axis.1.pos''" "''axis.1.enable''"]
      rapid_nonzero_runs [of REG_POS_Z "current_z st" "''axis.2.pos''" "''axis.2.enable''"]]]
  unfolding emit_g0_def move_signals_def [abs_def] by (simp add: REGISTER_COUNT_def)

lemma spindle_runs: "runs (emit_spindle cmd) (spindle_signals cmd)"
proof -
  let ?f = "\<lambda>sg. case cmd_s cmd of None \<Rightarrow> sg | Some s \<Rightarrow> sg(''spindle.rpm'' \<mapsto> VF64 s)"
  have r: "runs (case cmd_s cmd of None \<Rightarrow> [] | Some s \<Rightarrow> [load_imm REG_STEP (VF64 s), store_sig ''spindle.rpm'' REG_STEP]) ?f"
    by (cases "cmd_s cmd") (simp_all add: runs_store REGISTER_COUNT_def)
  have off: "runs [load_imm REG_STEP (VBool False), store_sig ''spindle.cw'' REG_STEP, store_sig ''spindle.ccw'' REG_STEP,
           load_imm REG_STEP (VF64 0), store_sig ''spindle.rpm'' REG_STEP]
    (\<lambda>sg. sg(''spindle.cw'' \<mapsto> VBool False, ''spindle.ccw'' \<mapsto> VBool False, ''spindle.rpm'' \<mapsto> VF64 0))"
    using runs_append [OF runs_store2 [of REG_STEP "VBool False" "''spindle.cw''" "''spindle.ccw''"]
      runs_store [of REG_STEP "VF64 0" "''spindle.rpm''"]]
    by (simp add: REGISTER_COUNT_def)
  consider "m_code cmd = Some 3" | "m_code cmd = Some 4" | "m_code cmd = Some 5"
    | "m_code cmd \<noteq> Some 3 \<and> m_code cmd \<noteq> Some 4 \<and> m_code cmd \<noteq> Some 5" by blast
  then show ?thesis
  proof cases
    case 1
    then show ?thesis using runs_append [OF r runs_store [of REG_STEP "VBool True" "''spindle.cw''"]]
      by (simp add: emit_spindle_def spindle_signals_def [abs_def] REGISTER_COUNT_def)
  next
    case 2
    then show ?thesis using runs_append [OF r runs_store [of REG_STEP "VBool True" "''spindle.ccw''"]]
      by (simp add: emit_spindle_def spindle_signals_def [abs_def] REGISTER_COUNT_def)
  next
    case 3
    then show ?thesis using runs_append [OF r off] by (simp add: emit_spindle_def spindle_signals_def [abs_def])
  next
    case 4
    then show ?thesis using r by (simp add: emit_spindle_def spindle_signals_def [abs_def])
  qed
qed

lemma direct_loop:
  assumes "list_all direct cmds"
  shows "\<exists>code f. runs code f \<and> (\<forall>sg. f sg = meaning cmds st sg)
    \<and> (\<forall>rest acc. compile_loop p fe (cmds @ rest) st acc
        = compile_loop p fe rest (foldl advance st cmds) (fst acc @ code, snd acc))"
  using assms
proof (induction cmds arbitrary: st)
  case Nil
  show ?case by (intro exI [of _ "[]"] exI [of _ "\<lambda>sg. sg"]) simp
next
  case (Cons cmd cmds)
  obtain code f where IH: "runs code f" "\<forall>sg. f sg = meaning cmds (advance st cmd) sg"
    "\<forall>rest acc. compile_loop p fe (cmds @ rest) (advance st cmd) acc
        = compile_loop p fe rest (foldl advance (advance st cmd) cmds) (fst acc @ code, snd acc)"
    using Cons.IH [of "advance st cmd"] Cons.prems by auto
  let ?g = "\<lambda>sg. case cmd_kind cmd of Motion \<Rightarrow> move_signals (advance st cmd) sg | Spindle \<Rightarrow> spindle_signals cmd sg | _ \<Rightarrow> sg"
  obtain c where c: "emit_command p fe cmd st = Ok (Inr (c, []))" "runs c ?g"
    using Cons.prems g0_runs [of "advance st cmd"] spindle_runs [of cmd]
    by (auto simp: direct_def emit_command_def emit_motion_def Let_def)
  show ?case using runs_append [OF c(2) IH(1)] IH(2,3) c(1)
    by (intro exI [of _ "c @ code"] exI [of _ "\<lambda>sg. f (?g sg)"]) simp
qed

lemma stop_runs:
  assumes "m_code stop = Some 2 \<or> m_code stop = Some 30"
  shows "\<exists>code. emit_program_control stop = code @ [halt] \<and> runs code (stop_signals stop)"
  using assms runs_store2 [of REG_STEP "VBool False" "''spindle.cw''" "''spindle.ccw''"]
  by (auto simp: emit_program_control_def stop_signals_def [abs_def] REGISTER_COUNT_def)

lemma constants_run: "runs [load_imm REG_ZERO (VF64 0), load_imm REG_ONE (VF64 (f64_of_int 1))] (\<lambda>sg. sg)"
  using runs_append [OF runs_load [of REG_ZERO "VF64 0"] runs_load [of REG_ONE "VF64 (f64_of_int 1)"]]
  by (simp add: REGISTER_COUNT_def)

lemma runs_scan:
  assumes "runs code f" and "instructions (ex_program ex) = code @ [halt]"
    and "ip (ex_vm ex) = 0" and "\<not> debug_mode (ex_debug ex)" and "vm_wf (ex_vm ex)"
  shows "\<exists>ex'. run_to_halt p ex = Some (Ok (ex', length code + 1)) \<and> read_signal (ex_vm ex') = f (read_signal (ex_vm ex))"
proof -
  have "sig_rel (ex_vm ex) (read_signal (ex_vm ex))" using assms(5) by (simp add: sig_rel_def vm_wf_def)
  then obtain m where m: "exec_list p (ex_vm ex) code = Ok m" "sig_rel m (f (read_signal (ex_vm ex)))"
    using assms(1) unfolding runs_def by blast
  have "list_all linear code" "map erase code = code" using assms(1) linear_data unfolding runs_def by blast+
  with m(1) obtain ex' where "run_to_halt p ex = Some (Ok (ex', length code + 1))" "signals (ex_vm ex') = signals m"
    using scan_linear [OF assms(2) _ assms(3,4), of p m] by auto
  then show ?thesis using m(2) by (auto simp: sig_rel_def read_signal_def)
qed


text \<open>
  Two consequences for the meaning: a rapid motion back to zero leaves the position signal of the
  second axis where it was, and M4 behind M3 leaves both directions on.
\<close>

lemma rapid_to_zero_ignored:
  assumes "\<not> f64_nonzero (current_y st)"
  shows "move_signals st sg ''axis.1.pos'' = sg ''axis.1.pos''"
  using assms by (simp add: move_signals_def set_nonzero_def set_axis_def)

lemma both_directions_on:
  assumes "m_code c1 = Some 3" and "m_code c2 = Some 4"
  shows "spindle_signals c2 (spindle_signals c1 sg) ''spindle.cw'' = Some (VBool True)
    \<and> spindle_signals c2 (spindle_signals c1 sg) ''spindle.ccw'' = Some (VBool True)"
  using assms by (simp add: spindle_signals_def Let_def split: option.split)

subsection \<open>Linear motion\<close>

text \<open>The quantities of a profile that \<^verbatim>\<open>emit_g1\<close> computes before it emits the first phase.\<close>

definition target_speed :: "trapezoidal_profile \<Rightarrow> f64" where
  "target_speed pf = f64_div (if f64_lt (f64_of_int 0) (tp_feedrate pf) then tp_feedrate pf else f64_of_int 100) (f64_of_int 60)"

definition accel_cycles :: "trapezoidal_profile \<Rightarrow> u32" where
  "accel_cycles pf = f64_ceil_u32 (f64_div (f64_div (target_speed pf) (tp_acceleration pf)) (tp_dt pf))"

definition has_cruise :: "trapezoidal_profile \<Rightarrow> bool" where
  "has_cruise pf \<longleftrightarrow>
     (let t = f64_div (target_speed pf) (tp_acceleration pf) in
      \<not> f64_lt (profile_distance pf) tiny
      \<and> f64_lt (f64_of_int 0) (f64_sub (profile_distance pf)
           (f64_mul (f64_of_int 2) (f64_mul (f64_mul (f64_mul (f64_of_ratio 1 2) (tp_acceleration pf)) t) t))))"

lemma steps_append: "emit_axis_steps is pf = is @ emit_axis_steps [] pf"
  by (simp add: emit_axis_steps_def emit_axis_step_def Let_def)

lemma phase_append:
  "\<exists>more. emit_profile_phase is pf n v a acc dec = is @ more"
  by (auto simp: emit_profile_phase_def steps_append [of "_ @ _"] loop_control_def Let_def)

text \<open>The body of the acceleration phase from the load of the speed to the comparison of the counter.\<close>

definition accel_body :: "trapezoidal_profile \<Rightarrow> instruction list" where
  "accel_body pf =
     [load_imm M_VEL (VF64 (f64_of_int 0)), load_imm M_COUNTER (VF64 (f64_of_int (uint (accel_cycles pf)))),
      arith Mul M_VEL M_DT M_TSTEP]
     @ emit_axis_steps [] pf
     @ [arith Add M_VEL M_VSTEP M_VEL, arith Sub M_COUNTER M_ONE M_COUNTER, cmp Gt M_COUNTER M_ZERO]"

definition motion_start :: "trapezoidal_profile \<Rightarrow> instruction list" where
  "motion_start pf =
     emit_start_yz [load_imm M_DT (VF64 (tp_dt pf)), load_imm M_ZERO (VF64 (f64_of_int 0)),
        load_imm M_ONE (VF64 (f64_of_int 1)), load_imm M_POS_X (VF64 (tp_start_x pf))] pf
     @ [load_imm M_VSTEP (VF64 (f64_mul (tp_acceleration pf) (tp_dt pf)))]"

lemma accel_phase:
  assumes "accel_cycles pf \<noteq> 0"
  shows "emit_profile_phase is pf (accel_cycles pf) v (tp_acceleration pf) True False =
    is @ [load_imm M_VSTEP (VF64 (f64_mul (tp_acceleration pf) (tp_dt pf)))] @ accel_body pf @ [jump_if (of_nat (length is + 3))]"
  using assms
  by (simp add: emit_profile_phase_def accel_body_def steps_append [of "_ @ _"] loop_control_def Let_def
      add.commute)

lemma emit_g1_cruise:
  assumes "has_cruise pf" and "0 < accel_cycles pf"
  shows "\<exists>more. emit_g1 p pf is = Ok (emit_profile_phase (emit_start_yz (is @ [load_imm M_POS_X (VF64 (tp_start_x pf))]) pf) pf
    (accel_cycles pf) (target_speed pf) (tp_acceleration pf) True False @ more)"
proof -
  define speed where "speed = target_speed pf"
  define t where "t = f64_div speed (tp_acceleration pf)"
  define cycles where "cycles = accel_cycles pf"
  define is1 where "is1 = emit_profile_phase (emit_start_yz (is @ [load_imm M_POS_X (VF64 (tp_start_x pf))]) pf) pf
    cycles speed (tp_acceleration pf) True False"
  have speed: "f64_div (if f64_lt (f64_of_int 0) (tp_feedrate pf) then tp_feedrate pf else f64_of_int 100) (f64_of_int 60) = speed"
    by (simp add: speed_def target_speed_def)
  have cycles: "f64_ceil_u32 (f64_div t (tp_dt pf)) = cycles"
    by (simp add: cycles_def accel_cycles_def t_def speed_def)
  have cond: "\<not> f64_lt (profile_distance pf) tiny" "f64_lt (f64_of_int 0) (f64_sub (profile_distance pf)
           (f64_mul (f64_of_int 2) (f64_mul (f64_mul (f64_mul (f64_of_ratio 1 2) (tp_acceleration pf)) t) t)))"
    using assms(1) by (simp_all add: has_cruise_def Let_def t_def speed_def)
  define n where "n = f64_ceil_u32 (f64_div (f64_div (f64_sub (profile_distance pf)
           (f64_mul (f64_of_int 2) (f64_mul (f64_mul (f64_mul (f64_of_ratio 1 2) (tp_acceleration pf)) t) t))) speed) (tp_dt pf))"
  have "0 < cycles" using assms(2) by (simp add: cycles_def)
  then have "emit_g1 p pf is = Ok (emit_profile_phase (if 0 < n then emit_profile_phase is1 pf n speed (tp_acceleration pf) False False else is1)
      pf cycles speed (tp_acceleration pf) False True)"
    using cond unfolding emit_g1_def Let_def speed t_def [symmetric] cycles is1_def n_def by simp
  moreover obtain m1 where "(if 0 < n then emit_profile_phase is1 pf n speed (tp_acceleration pf) False False else is1) = is1 @ m1"
    using phase_append [of is1 pf n speed "tp_acceleration pf" False False] by (cases "0 < n") auto
  moreover obtain m2 where "emit_profile_phase (is1 @ m1) pf cycles speed (tp_acceleration pf) False True = (is1 @ m1) @ m2"
    using phase_append by blast
  ultimately show ?thesis unfolding is1_def cycles_def speed_def by simp
qed

lemma trapezoidal_start:
  assumes "has_cruise pf" and "accel_cycles pf \<noteq> 0"
  shows "\<exists>pr post. generate_trapezoidal_program p pf = Ok pr
    \<and> instructions pr = motion_start pf @ accel_body pf @ jump_if (of_nat (length (motion_start pf) + 2)) # post"
proof -
  let ?is = "emit_start_yz [load_imm M_DT (VF64 (tp_dt pf)), load_imm M_ZERO (VF64 (f64_of_int 0)),
        load_imm M_ONE (VF64 (f64_of_int 1)), load_imm M_POS_X (VF64 (tp_start_x pf))] pf"
  have pos: "0 < accel_cycles pf" using assms(2) by (simp add: word_neq_0_conv)
  obtain more where "emit_g1 p pf [load_imm M_DT (VF64 (tp_dt pf)), load_imm M_ZERO (VF64 (f64_of_int 0)),
      load_imm M_ONE (VF64 (f64_of_int 1))]
    = Ok (emit_profile_phase ?is pf (accel_cycles pf) (target_speed pf) (tp_acceleration pf) True False @ more)"
    using emit_g1_cruise [OF assms(1) pos, of p "[load_imm M_DT (VF64 (tp_dt pf)), load_imm M_ZERO (VF64 (f64_of_int 0)),
      load_imm M_ONE (VF64 (f64_of_int 1))]"] by auto
  then show ?thesis using accel_phase [OF assms(2), of ?is "target_speed pf"]
    by (simp add: generate_trapezoidal_program_def motion_start_def add.commute)
qed

text \<open>The registers the body of the acceleration phase relies on.\<close>

definition loop_regs :: "trapezoidal_profile \<Rightarrow> vm \<Rightarrow> bool" where
  "loop_regs pf m \<longleftrightarrow> length (registers m) = REGISTER_COUNT \<and> registers m ! 11 = VF64 (tp_dt pf)
     \<and> registers m ! 4 = VF64 (f64_of_int 0) \<and> registers m ! 5 = VF64 (f64_of_int 1)
     \<and> (\<exists>v. registers m ! 7 = VF64 v)"

definition step_regs :: "trapezoidal_profile \<Rightarrow> hal_value \<Rightarrow> vm \<Rightarrow> bool" where
  "step_regs pf c m \<longleftrightarrow> loop_regs pf m \<and> registers m ! 0 = c \<and> (\<exists>v. registers m ! 8 = VF64 v)"

lemmas motion_exec_simps = execute_instruction_def exec_load_def exec_arith_binop_def exec_compare_def
  exec_store_def load_imm_def arith_def cmp_def vm_defs REGISTER_COUNT_def

lemma axis_step_exec:
  assumes "step_regs pf c m" and "r \<in> {M_POS_X, M_POS_Y, M_POS_Z}"
  shows "\<exists>m'. exec_list p m (emit_axis_step [] ratio r nm) = Ok m' \<and> step_regs pf c m'"
proof -
  obtain v where v: "registers m ! 8 = VF64 v" using assms(1) by (auto simp: step_regs_def)
  then show ?thesis using assms
    by (auto simp: emit_axis_step_def motion_exec_simps step_regs_def loop_regs_def binop_f64)
qed

lemma axis_steps_exec:
  assumes "step_regs pf c m"
  shows "\<exists>m'. exec_list p m (emit_axis_steps [] pf) = Ok m' \<and> step_regs pf c m'"
proof -
  have app: "emit_axis_step is v r nm = is @ emit_axis_step [] v r nm" for "is" v r nm by (simp add: emit_axis_step_def)
  have opt: "\<exists>m'. exec_list p m (if b then emit_axis_step [] v r nm else []) = Ok m' \<and> step_regs pf c m'"
    if "step_regs pf c m" "r \<in> {M_POS_X, M_POS_Y, M_POS_Z}" for m b v r nm
    using axis_step_exec [OF that] that(1) by (cases b) simp_all
  let ?d = "profile_distance pf"
  have code: "emit_axis_steps [] pf = emit_axis_step [] (f64_div (tp_dx pf) ?d) M_POS_X ''axis.0.pos''
      @ (if moving (tp_dy pf) then emit_axis_step [] (f64_div (tp_dy pf) ?d) M_POS_Y ''axis.1.pos'' else [])
      @ (if moving (tp_dz pf) then emit_axis_step [] (f64_div (tp_dz pf) ?d) M_POS_Z ''axis.2.pos'' else [])"
    by (simp add: emit_axis_steps_def emit_axis_step_def Let_def)
  obtain m1 where 1: "exec_list p m (emit_axis_step [] (f64_div (tp_dx pf) ?d) M_POS_X ''axis.0.pos'') = Ok m1" "step_regs pf c m1"
    using axis_step_exec [OF assms] by blast
  obtain m2 where 2: "exec_list p m1 (if moving (tp_dy pf) then emit_axis_step [] (f64_div (tp_dy pf) ?d) M_POS_Y ''axis.1.pos'' else []) = Ok m2"
    "step_regs pf c m2" using opt [OF 1(2), of M_POS_Y] by blast
  obtain m3 where 3: "exec_list p m2 (if moving (tp_dz pf) then emit_axis_step [] (f64_div (tp_dz pf) ?d) M_POS_Z ''axis.2.pos'' else []) = Ok m3"
    "step_regs pf c m3" using opt [OF 2(2), of M_POS_Z] by blast
  show ?thesis unfolding code exec_list_append using 1(1) 2(1) 3 by simp
qed

lemma accel_body_exec:
  assumes "loop_regs pf m"
    and "f64_cmp (f64_sub (f64_of_int (uint (accel_cycles pf))) (f64_of_int 1)) (f64_of_int 0) = Some Greater"
  shows "\<exists>m'. exec_list p m (accel_body pf) = Ok m' \<and> flags_zero m' \<and> loop_regs pf m'"
proof -
  let ?c = "VF64 (f64_of_int (uint (accel_cycles pf)))"
  obtain m1 where m1: "exec_list p m [load_imm M_VEL (VF64 (f64_of_int 0)), load_imm M_COUNTER ?c, arith Mul M_VEL M_DT M_TSTEP] = Ok m1"
    "step_regs pf ?c m1"
    using assms(1) by (auto simp: motion_exec_simps step_regs_def loop_regs_def binop_f64)
  obtain m2 where m2: "exec_list p m1 (emit_axis_steps [] pf) = Ok m2" "step_regs pf ?c m2"
    using axis_steps_exec [OF m1(2)] by blast
  have "\<exists>m3. exec_list p m2 [arith Add M_VEL M_VSTEP M_VEL, arith Sub M_COUNTER M_ONE M_COUNTER, cmp Gt M_COUNTER M_ZERO] = Ok m3
    \<and> flags_zero m3 \<and> loop_regs pf m3"
    using m2(2) assms(2)
    by (auto simp: motion_exec_simps step_regs_def loop_regs_def binop_f64 hal_cmp_def)
  then show ?thesis by (simp only: accel_body_def exec_list_append m1(1) m2(1) bindo.simps)
qed

lemma accel_body_linear: "list_all (\<lambda>i. \<not> is_control (opcode i)) (accel_body pf)"
  by (simp add: accel_body_def emit_axis_steps_def emit_axis_step_def load_imm_def arith_def cmp_def is_control_def Let_def)

text \<open>The profile of a linear motion.\<close>

definition linear_profile :: "gcode_command \<Rightarrow> modal_state \<Rightarrow> trapezoidal_profile" where
  "linear_profile cmd st =
     (let next = advance st cmd in
      \<lparr>tp_dx = f64_sub (current_x next) (current_x st), tp_dy = f64_sub (current_y next) (current_y st),
       tp_dz = f64_sub (current_z next) (current_z st), tp_feedrate = feedrate next, tp_acceleration = acceleration next,
       tp_dt = f64_dt, tp_start_x = current_x st, tp_start_y = current_y st, tp_start_z = current_z st\<rparr>)"

lemma emit_linear:
  assumes "cmd_kind cmd = Motion" and "g_code cmd = Some 1" and "f64_lt tiny (profile_distance (linear_profile cmd st))"
  shows "emit_command p fe cmd st = mapo (\<lambda>pr. Inr (instructions pr, prog_signals pr)) (generate_trapezoidal_program p (linear_profile cmd st))"
  using assms
  by (simp add: emit_command_def emit_motion_def linear_profile_def profile_distance_def Let_def)

lemma compile_loop_extends:
  "compile_loop p fe cmds st acc = Ok (Inr (is, sigs)) \<Longrightarrow> \<exists>more. is = fst acc @ more"
proof (induction cmds arbitrary: st acc)
  case (Cons cmd cmds)
  from Cons.prems obtain is1 s1 where "compile_loop p fe cmds (advance st cmd) (fst acc @ is1, snd acc @ s1) = Ok (Inr (is, sigs))"
    by (rule compile_loop_ConsE)
  from Cons.IH [OF this] show ?case by auto
qed auto

lemma linear_start:
  assumes "compile_commands p fe (cmd # cmds) st = Ok (Inr pr)" and "cmd_kind cmd = Motion" and "g_code cmd = Some 1"
    and pf: "pf = linear_profile cmd st" "f64_lt tiny (profile_distance pf)" "has_cruise pf" "accel_cycles pf \<noteq> 0"
  shows "\<exists>post. instructions pr = ([load_imm REG_ZERO (VF64 0), load_imm REG_ONE (VF64 (f64_of_int 1))] @ motion_start pf)
    @ accel_body pf @ jump_if (of_nat (length (motion_start pf) + 2)) # post"
proof -
  let ?init = "[load_imm REG_ZERO (VF64 0), load_imm REG_ONE (VF64 (f64_of_int 1))]"
  obtain tp post where tp: "generate_trapezoidal_program p pf = Ok tp"
    "instructions tp = motion_start pf @ accel_body pf @ jump_if (of_nat (length (motion_start pf) + 2)) # post"
    using trapezoidal_start [OF pf(3,4)] by blast
  have e: "emit_command p fe cmd st = Ok (Inr (instructions tp, prog_signals tp))"
    using emit_linear [OF assms(2,3), of st p fe] pf(1,2) tp(1) by simp
  obtain code sigs where l: "compile_loop p fe (cmd # cmds) st (?init, ensure_axis_signals) = Ok (Inr (code, sigs))" "instructions pr = code"
    using assms(1) unfolding compile_commands_def
    by (cases "compile_loop p fe (cmd # cmds) st (?init, ensure_axis_signals)") (auto simp: map_sum_def split: sum.splits prod.splits)
  then have "compile_loop p fe cmds (advance st cmd) (?init @ instructions tp, ensure_axis_signals @ prog_signals tp) = Ok (Inr (code, sigs))"
    using e by simp
  from compile_loop_extends [OF this] tp(2) l(2) show ?thesis by auto
qed

lemma motion_start_exec:
  assumes "vm_wf m"
  shows "list_all (\<lambda>i. \<not> is_control (opcode i)) (motion_start pf)
    \<and> (\<exists>m'. exec_list p m ([load_imm REG_ZERO (VF64 0), load_imm REG_ONE (VF64 (f64_of_int 1))] @ motion_start pf) = Ok m' \<and> loop_regs pf m')"
  using assms
  by (simp add: motion_start_def emit_start_yz_def motion_exec_simps is_control_def Let_def vm_wf_def loop_regs_def)

text \<open>
  C39: a program whose first line is a linear motion that takes more than one cycle to reach its
  speed never completes a scan. The targets of the loop jumps of the motion code are positions in
  the code of the motion alone; behind the two instructions that the compiler puts in front, the
  jump of the acceleration phase leads to the load of the speed and of the counter instead of to
  the first instruction of the loop, and the counter never reaches zero.
\<close>

theorem linear_motion_never_completes:
  assumes "parse_all (gcode_scan 1 source) = Inr (cmd # cmds)" and "cmd_kind cmd = Motion" and "g_code cmd = Some 1"
    and "pf = linear_profile cmd modal_new" and "f64_lt tiny (profile_distance pf)" and "has_cruise pf"
    and "f64_cmp (f64_sub (f64_of_int (uint (accel_cycles pf))) (f64_of_int 1)) (f64_of_int 0) = Some Greater"
    and "gcode_compile p fe source = Ok (Inr pr)"
    and "ex_program ex = pr" and "ip (ex_vm ex) = 0" and "\<not> debug_mode (ex_debug ex)" and "vm_wf (ex_vm ex)"
  shows "run_to_halt p ex \<noteq> Some (Ok res)"
proof -
  let ?pre = "[load_imm REG_ZERO (VF64 0), load_imm REG_ONE (VF64 (f64_of_int 1))] @ motion_start pf"
  have "f64_cmp (f64_sub (f64_of_int 0) (f64_of_int 1)) (f64_of_int 0) \<noteq> Some Greater" by code_simp
  then have n: "accel_cycles pf \<noteq> 0" using assms(7) by auto
  have "compile_commands p fe (cmd # cmds) modal_new = Ok (Inr pr)"
    using assms(1,8) by (simp add: gcode_compile_def gcode_tokenize_def)
  from linear_start [OF this assms(2-6) n] obtain post
    where code: "instructions pr = ?pre @ accel_body pf @ jump_if (of_nat (length (motion_start pf) + 2)) # post" by blast
  have len: "length (motion_start pf) < 8" by (simp add: motion_start_def emit_start_yz_def Let_def)
  then have t: "unat (of_nat (length (motion_start pf) + 2) :: u32) = length ?pre"
    by (subst unat_of_nat_small) simp_all
  obtain m where m: "exec_list p (ex_vm ex) ?pre = Ok m" "loop_regs pf m"
    using motion_start_exec [OF assms(12)] by blast
  have pre: "list_all linear ?pre" "map erase ?pre = ?pre"
    using linear_data [of ?pre] motion_start_exec [OF assms(12), of pf] by (simp_all add: load_imm_def is_control_def)
  have body: "list_all linear (accel_body pf)" "map erase (accel_body pf) = accel_body pf"
    using linear_data [OF accel_body_linear] by blast+
  let ?ex = "ex\<lparr>ex_vm := m\<rparr>"
  have start: "run_loop p 0 ex = run_loop p (length ?pre) ?ex \<and> ip m = length ?pre"
    using run_linear [of ex "[]" ?pre "accel_body pf @ jump_if (of_nat (length (motion_start pf) + 2)) # post" p m 0]
      code pre m(1) assms(9-11) by simp
  have "run_loop p (length ?pre) ?ex \<noteq> Some (Ok res)"
    using body start m(2) assms(9,11) accel_body_exec [OF _ assms(7), of _ p]
    by (intro block_loops [OF code t body(1), where P = "loop_regs pf"]) (auto simp: loop_regs_def)
  then show ?thesis using start by (simp add: run_to_halt_def)
qed

text \<open>The motion \<^verbatim>\<open>G1 X9 F600\<close> of the witness: 9 mm at 10 mm/s, with two cycles of acceleration.\<close>

lemma sample_numbers:
  "f64_of_int 0 = 0" "f64_of_int 1 = 0x3FF0000000000000" "f64_of_int 2 = 0x4000000000000000" "f64_of_int 6 = 0x4018000000000000" "f64_of_int 9 = 0x4022000000000000"
  "f64_of_int 10 = 0x4024000000000000" "f64_of_int 60 = 0x404E000000000000" "f64_of_int 500 = 0x407F400000000000" "f64_of_int 600 = 0x4082C00000000000"
  "f64_of_ratio 1 2 = 0x3FE0000000000000" "f64_of_ratio 1 100 = 0x3F847AE147AE147B" "f64_of_ratio 1 1000000000 = 0x3E112E0BE826D695"
  by (simp_all add: float_eval cong: let_weak_cong)

lemma sample_digits:
  "f64_add (f64_mul 0 0x4024000000000000) 0x4022000000000000 = 0x4022000000000000" "f64_add (f64_mul 0 0x4024000000000000) 0x4018000000000000 = 0x4018000000000000"
  "f64_add (f64_mul 0x4018000000000000 0x4024000000000000) 0 = 0x404E000000000000" "f64_add (f64_mul 0x404E000000000000 0x4024000000000000) 0 = 0x4082C00000000000"
  "f64_add 0x4022000000000000 0 = 0x4022000000000000" "f64_add 0x4082C00000000000 0 = 0x4082C00000000000"
  by (simp_all add: float_eval cong: let_weak_cong)

lemma sample_words:
  "parse_f64 (''9 F600'' @ [CHR 0x0A, CHR ''M'', CHR ''2'']) = (0x4022000000000000, '' F600'' @ [CHR 0x0A, CHR ''M'', CHR ''2''])"
  "parse_f64 [CHR ''9'', CHR 0x0A, CHR ''M'', CHR ''2''] = (0x4022000000000000, [CHR 0x0A, CHR ''M'', CHR ''2''])"
  "parse_f64 [CHR ''6'', CHR ''0'', CHR ''0'', CHR 0x0A, CHR ''M'', CHR ''2''] = (0x4082C00000000000, [CHR 0x0A, CHR ''M'', CHR ''2''])"
  by (simp_all add: parse_f64_def parse_sign_def is_digit_def digit_value_def sample_numbers sample_digits)

lemma f64_word_examples:
  "u32_word (upper_char (CHR ''X'')) = None" "f64_word (upper_char (CHR ''X'')) = Some TokX"
  "u32_word (upper_char (CHR ''F'')) = None" "f64_word (upper_char (CHR ''F'')) = Some TokF"
  by code_simp+

definition sample_source :: string where
  "sample_source = ''G1 X9 F600'' @ [CHR 0x0A] @ ''M2''"

definition sample_motion :: gcode_command where
  "sample_motion = (command_new 1)\<lparr>cmd_kind := Motion, g_code := Some 1, cmd_x := Some 0x4022000000000000, cmd_f := Some 0x4082C00000000000\<rparr>"

definition sample_stop :: gcode_command where
  "sample_stop = (command_new 2)\<lparr>cmd_kind := ProgramControl, m_code := Some 2\<rparr>"

definition sample_rapid_source :: string where
  "sample_rapid_source = ''G0 X9'' @ [CHR 0x0A] @ ''M2''"

definition sample_rapid :: gcode_command where
  "sample_rapid = (command_new 1)\<lparr>cmd_kind := Motion, g_code := Some 0, cmd_x := Some 0x4022000000000000\<rparr>"

lemma sample_rapid_parse: "parse_all (gcode_scan 1 sample_rapid_source) = Inr ([sample_rapid] @ [sample_stop])"
  by (simp add: sample_rapid_source_def gcode_scan.simps(2) u32_word_examples f64_word_examples sample_words [simplified] parse_u32_def
      u32_push_digit_def digit_value_def skip_fraction_def is_digit_def parse_all_def gcode_parse_line_def command_new_def
      classify_def sample_rapid_def sample_stop_def)

lemma executor_new_start:
  "ip (ex_vm (executor_new pr)) = 0" "\<not> debug_mode (ex_debug (executor_new pr))" "ex_program (executor_new pr) = pr"
  "vm_wf (ex_vm (executor_new pr))" "read_signal (ex_vm (executor_new pr)) nm = None"
  by (simp_all add: executor_new_def) (simp_all add: vm_new_def debug_state_new_def read_signal_def)


lemma sample_parse: "parse_all (gcode_scan 1 sample_source) = Inr [sample_motion, sample_stop]"
  by (simp add: sample_source_def gcode_scan.simps(2) u32_word_examples f64_word_examples sample_words [simplified] parse_u32_def
      u32_push_digit_def digit_value_def skip_fraction_def is_digit_def parse_all_def gcode_parse_line_def command_new_def
      classify_def sample_motion_def sample_stop_def)

definition sample_profile :: trapezoidal_profile where
  "sample_profile = \<lparr>tp_dx = 0x4022000000000000, tp_dy = 0, tp_dz = 0, tp_feedrate = 0x4082C00000000000, tp_acceleration = 0x407F400000000000,
     tp_dt = 0x3F847AE147AE147B, tp_start_x = 0, tp_start_y = 0, tp_start_z = 0\<rparr>"

lemma sample_arith:
  "f64_sub 0x4022000000000000 0 = 0x4022000000000000" "f64_sub 0 0 = 0" "f64_mul 0 0 = 0" "f64_mul 0x4022000000000000 0x4022000000000000 = 0x4054400000000000"
  "f64_add 0x4054400000000000 0 = 0x4054400000000000" "f64_sqrt 0x4054400000000000 = 0x4022000000000000" "f64_div 0x4082C00000000000 0x404E000000000000 = 0x4024000000000000"
  "f64_div 0x4024000000000000 0x407F400000000000 = 0x3F947AE147AE147B" "f64_div 0x3F947AE147AE147B 0x3F847AE147AE147B = 0x4000000000000000"
  by (simp_all add: float_eval cong: let_weak_cong)

lemma sample_linear_profile: "linear_profile sample_motion modal_new = sample_profile"
  by (simp add: linear_profile_def advance_def sample_motion_def sample_profile_def command_new_def modal_new_def Let_def
      update_position_def move_axis_def sample_arith sample_numbers f64_dt_def)

lemma sample_distance: "profile_distance sample_profile = 0x4022000000000000" "target_speed sample_profile = 0x4024000000000000"
  by (simp_all add: profile_distance_def sample_profile_def sample_arith sample_numbers target_speed_def)
     (simp_all add: float_eval sample_arith cong: let_weak_cong)

lemma sample_phases: "accel_cycles sample_profile = 2" "has_cruise sample_profile" "f64_lt tiny (profile_distance sample_profile)"
proof -
  have a: "f64_mul 0x3FE0000000000000 0x407F400000000000 = 0x406F400000000000" "f64_mul 0x406F400000000000 0x3F947AE147AE147B = 0x4014000000000000" "f64_mul 0x4014000000000000 0x3F947AE147AE147B = 0x3FB999999999999A"
    "f64_mul 0x4000000000000000 0x3FB999999999999A = 0x3FC999999999999A" "f64_sub 0x4022000000000000 0x3FC999999999999A = 0x402199999999999A"
    by (simp_all add: float_eval cong: let_weak_cong)
  show "accel_cycles sample_profile = 2"
    unfolding accel_cycles_def sample_distance by (simp add: sample_profile_def sample_arith) (simp add: float_eval cong: let_weak_cong)
  have l: "f64_lt 0 0x402199999999999A" "\<not> f64_lt 0x4022000000000000 0x3E112E0BE826D695" "f64_lt 0x3E112E0BE826D695 0x4022000000000000"
    by (simp_all add: float_eval cong: let_weak_cong)
  show "has_cruise sample_profile"
    unfolding has_cruise_def sample_distance tiny_def sample_numbers Let_def
    by (simp add: sample_profile_def sample_arith a l)
  show "f64_lt tiny (profile_distance sample_profile)"
    unfolding sample_distance tiny_def sample_numbers by (rule l(3))
qed

lemma sample_compiles: "\<exists>pr. gcode_compile DevBuild zero_env sample_source = Ok (Inr pr)"
proof -
  obtain tp where "generate_trapezoidal_program DevBuild sample_profile = Ok tp"
    using trapezoidal_start [OF sample_phases(2), of DevBuild] sample_phases(1) by auto
  then have "emit_command DevBuild zero_env sample_motion modal_new = Ok (Inr (instructions tp, prog_signals tp))"
    using emit_linear [of sample_motion modal_new DevBuild zero_env] sample_phases(3)
    by (simp add: sample_linear_profile) (simp add: sample_motion_def)
  then show ?thesis
    by (simp add: gcode_compile_def gcode_tokenize_def sample_parse compile_commands_def)
       (simp add: emit_command_def sample_stop_def)
qed

theorem linear_motion_never_completes_witness:
  "\<exists>pr. gcode_compile DevBuild zero_env sample_source = Ok (Inr pr)
    \<and> \<not> (\<exists>res. run_to_halt DevBuild (executor_new pr) = Some (Ok res))"
proof -
  obtain pr where pr: "gcode_compile DevBuild zero_env sample_source = Ok (Inr pr)" using sample_compiles by blast
  have c: "f64_cmp (f64_sub (f64_of_int (uint (accel_cycles sample_profile))) (f64_of_int 1)) (f64_of_int 0) = Some Greater"
    unfolding sample_phases(1) by (simp add: sample_numbers) (simp add: float_eval cong: let_weak_cong)
  have "run_to_halt DevBuild (executor_new pr) \<noteq> Some (Ok res)" for res
    using linear_motion_never_completes [OF sample_parse _ _ sample_linear_profile [symmetric] sample_phases(3,2) c pr
        executor_new_start(3,1,2,4)]
    by (simp add: sample_motion_def)
  then show ?thesis using pr by blast
qed

end
