(* ===== verification/Ipc_Wire.thy ===== *)
theory Ipc_Wire
  imports Hal_Encoding Rust_Str
begin

text \<open>
  The wire protocol of the controller's IPC (\<^verbatim>\<open>audesys-runtime/src/ipc.rs\<close>, copied in
  \<^verbatim>\<open>audesys-runtime-client/src/lib.rs\<close>): values, frames, roles and session tokens. A socket is the list
  of what a reader will see: a byte, or a read timeout that passes while no byte is there. The
  keyed hash of the tokens is an argument.
\<close>

subsection \<open>Text\<close>

text \<open>
  \<^verbatim>\<open>String::from_utf8_lossy\<close>: every maximal part of a byte sequence that is not UTF-8 becomes the
  replacement character.
\<close>

fun matching :: "(byte \<times> byte) list \<Rightarrow> byte list \<Rightarrow> nat" where
  "matching ((lo, hi) # rs) (b # bs) = (if byte_in lo hi b then Suc (matching rs bs) else 0)"
| "matching rs bs = 0"

definition continuation :: "byte \<times> byte \<times> nat \<Rightarrow> (byte \<times> byte) list" where
  "continuation r = (case r of (lo, hi, n) \<Rightarrow> (lo, hi) # replicate n (0x80, 0xBF))"

definition replacement :: "byte list" where
  "replacement = [0xEF, 0xBF, 0xBD]"

function utf8_lossy :: "byte list \<Rightarrow> byte list" where
  "utf8_lossy [] = []"
| "utf8_lossy (b # bs) =
     (if b < 0x80 then b # utf8_lossy bs
      else case utf8_lead b of
        None \<Rightarrow> replacement @ utf8_lossy bs
      | Some r \<Rightarrow>
          (let k = matching (continuation r) bs in
           (if k = length (continuation r) then b # take k bs else replacement) @ utf8_lossy (drop k bs)))"
  by pat_completeness auto

termination utf8_lossy
  by (relation "measure length") auto

declare utf8_lossy.simps(2) [simp del]

definition from_utf8_lossy :: "byte list \<Rightarrow> string" where
  "from_utf8_lossy bs = bytes_string (utf8_lossy bs)"

lemma utf8_scan_matching:
  "utf8_scan rs bs \<Longrightarrow> matching rs bs = length rs \<and> length rs \<le> length bs \<and> utf8_scan [] (drop (length rs) bs)"
  by (induction rs bs rule: utf8_scan.induct) auto

lemma utf8_lossy_valid: "utf8_valid bs \<Longrightarrow> utf8_lossy bs = bs"
  unfolding utf8_valid_def
proof (induction bs rule: utf8_lossy.induct)
  case (2 b bs)
  show ?case
  proof (cases "b < 0x80")
    case False
    then obtain lo hi n where r: "utf8_lead b = Some (lo, hi, n)"
      and s: "utf8_scan (continuation (lo, hi, n)) bs"
      using "2.prems" by (auto simp: continuation_def split: option.splits)
    from utf8_scan_matching [OF s] show ?thesis
      using False r "2.IH"(3) [OF False r refl] by (simp add: utf8_lossy.simps(2))
  qed (use 2 in \<open>simp add: utf8_lossy.simps(2)\<close>)
qed simp

lemma from_utf8_lossy_string: "utf8_valid (string_bytes s) \<Longrightarrow> from_utf8_lossy (string_bytes s) = s"
  by (simp add: from_utf8_lossy_def utf8_lossy_valid)

subsection \<open>Values\<close>

fun pin_type_discriminant :: "hal_pin_type \<Rightarrow> u8" where
  "pin_type_discriminant TBool = 0"
| "pin_type_discriminant TS8 = 1"
| "pin_type_discriminant TU8 = 2"
| "pin_type_discriminant TS16 = 3"
| "pin_type_discriminant TU16 = 4"
| "pin_type_discriminant TS32 = 5"
| "pin_type_discriminant TU32 = 6"
| "pin_type_discriminant TS64 = 7"
| "pin_type_discriminant TU64 = 8"
| "pin_type_discriminant TF32 = 9"
| "pin_type_discriminant TF64 = 10"
| "pin_type_discriminant TBlob = 11"
| "pin_type_discriminant TString = 12"

definition pin_type_from_disc :: "u8 \<Rightarrow> string + hal_pin_type" where
  "pin_type_from_disc d =
     (case List.find (\<lambda>t. pin_type_discriminant t = d)
             [TBool, TS8, TU8, TS16, TU16, TS32, TU32, TS64, TU64, TF32, TF64, TBlob, TString] of
        Some t \<Rightarrow> Inr t
      | None \<Rightarrow> Inl (''unknown pin type disc: '' @ dec_string (unat d)))"

lemma pin_type_from_disc_inverse [simp]: "pin_type_from_disc (pin_type_discriminant t) = Inr t"
  by (cases t) (simp_all add: pin_type_from_disc_def)

fun encode_hal_value :: "hal_value \<Rightarrow> byte list" where
  "encode_hal_value (VArray t d) = 0xFE # len_prefix d @ pin_type_discriminant t # d"
| "encode_hal_value (VBool b) = 0 # [if b then 1 else 0]"
| "encode_hal_value (VS8 n) = 1 # word_le n"
| "encode_hal_value (VU8 n) = 2 # word_le n"
| "encode_hal_value (VS16 n) = 3 # word_le n"
| "encode_hal_value (VU16 n) = 4 # word_le n"
| "encode_hal_value (VS32 n) = 5 # word_le n"
| "encode_hal_value (VU32 n) = 6 # word_le n"
| "encode_hal_value (VS64 n) = 7 # word_le n"
| "encode_hal_value (VU64 n) = 8 # word_le n"
| "encode_hal_value (VF32 n) = 9 # word_le n"
| "encode_hal_value (VF64 n) = 10 # word_le n"
| "encode_hal_value (VBlob d) = 11 # len_prefix d @ d"
| "encode_hal_value (VString s) = 12 # len_prefix (string_bytes s) @ string_bytes s"

definition need :: "byte list \<Rightarrow> nat \<Rightarrow> string + unit" where
  "need data n =
     (if length data < n then Inl (''need '' @ dec_string n @ '' bytes, have '' @ dec_string (length data)) else Inr ())"

text \<open>A value of a fixed width at the front of the buffer, and how many bytes the whole takes.\<close>

definition read_fixed ::
    "nat \<Rightarrow> ('a::len word \<Rightarrow> hal_value) \<Rightarrow> byte list \<Rightarrow> string + hal_value \<times> nat" where
  "read_fixed n mk rest = (case need rest n of Inl e \<Rightarrow> Inl e | Inr _ \<Rightarrow> Inr (mk (le_word (take n rest)), n + 1))"

definition read_len :: "byte list \<Rightarrow> string + nat" where
  "read_len rest = (case need rest 4 of Inl e \<Rightarrow> Inl e | Inr _ \<Rightarrow> Inr (unat (le_word (take 4 rest) :: u32)))"

text \<open>The error of \<^verbatim>\<open>String::from_utf8\<close> is printed by the standard library; its text is an argument.\<close>

definition decode_hal_value :: "(byte list \<Rightarrow> string) \<Rightarrow> byte list \<Rightarrow> string + hal_value \<times> nat" where
  "decode_hal_value utf8_error data =
     (case data of
        [] \<Rightarrow> Inl ''empty value data''
      | type_disc # rest \<Rightarrow>
          if type_disc = 0 then Inr (VBool (case rest of [] \<Rightarrow> False | b # _ \<Rightarrow> b \<noteq> 0), 2)
          else if type_disc = 1 then read_fixed 1 VS8 rest
          else if type_disc = 2 then read_fixed 1 VU8 rest
          else if type_disc = 3 then read_fixed 2 VS16 rest
          else if type_disc = 4 then read_fixed 2 VU16 rest
          else if type_disc = 5 then read_fixed 4 VS32 rest
          else if type_disc = 6 then read_fixed 4 VU32 rest
          else if type_disc = 7 then read_fixed 8 VS64 rest
          else if type_disc = 8 then read_fixed 8 VU64 rest
          else if type_disc = 9 then read_fixed 4 VF32 rest
          else if type_disc = 10 then read_fixed 8 VF64 rest
          else if type_disc = 11 then
            (case read_len rest of
               Inl e \<Rightarrow> Inl e
             | Inr len \<Rightarrow>
                 (case need rest (4 + len) of
                    Inl e \<Rightarrow> Inl e
                  | Inr _ \<Rightarrow> Inr (VBlob (take len (drop 4 rest)), 5 + len)))
          else if type_disc = 12 then
            (case read_len rest of
               Inl e \<Rightarrow> Inl e
             | Inr len \<Rightarrow>
                 (case need rest (4 + len) of
                    Inl e \<Rightarrow> Inl e
                  | Inr _ \<Rightarrow>
                      (case from_utf8 (take len (drop 4 rest)) of
                         None \<Rightarrow> Inl (''utf8: '' @ utf8_error (take len (drop 4 rest)))
                       | Some s \<Rightarrow> Inr (VString s, 5 + len))))
          else if type_disc = 0xFE then
            (case read_len rest of
               Inl e \<Rightarrow> Inl e
             | Inr len \<Rightarrow>
                 (case need rest (4 + 1 + len) of
                    Inl e \<Rightarrow> Inl e
                  | Inr _ \<Rightarrow>
                      (case pin_type_from_disc (rest ! 4) of
                         Inl e \<Rightarrow> Inl e
                       | Inr elem \<Rightarrow> Inr (VArray elem (take len (drop 5 rest)), 6 + len))))
          else Inl (''unknown pin type discriminant: '' @ dec_string (unat type_disc)))"

lemma read_fixed_word:
  assumes "LENGTH('a::len) = 8 * n"
  shows "read_fixed n mk (word_le (w :: 'a word) @ rest) = Inr (mk w, n + 1)"
  using assms le_word_word_le [of w] by (simp add: read_fixed_def need_def)

lemma read_len_prefix: "length d < 2 ^ 32 \<Longrightarrow> read_len (len_prefix d @ rest) = Inr (length d)"
  by (simp add: read_len_def need_def le32.dec_prefix [unfolded length_word_le] le_word_word_le unat_len32)

lemma decode_hal_value_encode:
  assumes "encodable v"
  shows "decode_hal_value utf8_error (encode_hal_value v @ rest) = Inr (v, length (encode_hal_value v))"
  using assms
  by (cases v) (auto simp: decode_hal_value_def read_fixed_word read_len_prefix need_def from_utf8_def nth_append)

subsection \<open>Frames\<close>

abbreviation STATUS_OK :: u8 where "STATUS_OK \<equiv> 0"
abbreviation STATUS_ERROR :: u8 where "STATUS_ERROR \<equiv> 1"
abbreviation TOKEN_WIRE_SIZE :: nat where "TOKEN_WIRE_SIZE \<equiv> 64"
abbreviation HEADER_SIZE :: nat where "HEADER_SIZE \<equiv> 69"

text \<open>The length is a \<^verbatim>\<open>u32\<close> sum that only overflows for payloads of almost 4 GiB; it wraps here.\<close>

definition build_response :: "u8 \<Rightarrow> u8 \<Rightarrow> byte list \<Rightarrow> byte list" where
  "build_response method_id status payload =
     word_le (6 + word_of_nat (length payload) :: u32) @ [method_id, status] @ payload"

definition build_error_response :: "u8 \<Rightarrow> string \<Rightarrow> byte list" where
  "build_error_response method_id msg = build_response method_id STATUS_ERROR (string_bytes msg)"

definition build_ok_response :: "u8 \<Rightarrow> byte list \<Rightarrow> byte list" where
  "build_ok_response method_id payload = build_response method_id STATUS_OK payload"

definition build_request :: "byte list \<Rightarrow> u8 \<Rightarrow> byte list \<Rightarrow> byte list" where
  "build_request token method_id payload =
     word_le (69 + word_of_nat (length payload) :: u32)
     @ (if TOKEN_WIRE_SIZE \<le> length token then take TOKEN_WIRE_SIZE token
        else token @ replicate (TOKEN_WIRE_SIZE - length token) 0)
     @ [method_id] @ payload"

datatype net_error = ReadTimedOut | UnexpectedEof | InvalidData string

type_synonym net = "byte option list"

abbreviation arriving :: "byte list \<Rightarrow> net" where
  "arriving bs \<equiv> map Some bs"

text \<open>\<^verbatim>\<open>read_exact\<close>: a timeout in the middle loses the bytes read so far.\<close>

fun net_read :: "nat \<Rightarrow> net \<Rightarrow> (net_error + byte list) \<times> net" where
  "net_read 0 s = (Inr [], s)"
| "net_read (Suc n) [] = (Inl UnexpectedEof, [])"
| "net_read (Suc n) (None # s) = (Inl ReadTimedOut, s)"
| "net_read (Suc n) (Some b # s) =
     (case net_read n s of (Inl e, s') \<Rightarrow> (Inl e, s') | (Inr bs, s') \<Rightarrow> (Inr (b # bs), s'))"

definition net_then ::
    "(net_error + 'a) \<times> net \<Rightarrow> ('a \<Rightarrow> net \<Rightarrow> (net_error + 'b) \<times> net) \<Rightarrow> (net_error + 'b) \<times> net" where
  "net_then r f = (case r of (Inl e, s) \<Rightarrow> (Inl e, s) | (Inr x, s) \<Rightarrow> f x s)"

definition read_frame :: "net \<Rightarrow> (net_error + byte list \<times> u8 \<times> byte list) \<times> net" where
  "read_frame s0 =
     net_then (net_read 4 s0) (\<lambda>len_bytes s1.
       let frame_len = unat (le_word len_bytes :: u32) in
       if frame_len < HEADER_SIZE then (Inl (InvalidData ''frame too short''), s1)
       else net_then (net_read TOKEN_WIRE_SIZE s1) (\<lambda>token s2.
            net_then (net_read 1 s2) (\<lambda>m s3.
            net_then (net_read (frame_len - HEADER_SIZE) s3) (\<lambda>payload s4.
              (Inr (token, hd m, payload), s4)))))"

text \<open>The reader of the client, without its error texts: method, status and payload.\<close>

definition read_raw_response :: "net \<Rightarrow> (net_error + u8 \<times> u8 \<times> byte list) \<times> net" where
  "read_raw_response s0 =
     net_then (net_read 4 s0) (\<lambda>len_bytes s1.
       let frame_len = unat (le_word len_bytes :: u32) in
       if frame_len < 6 then (Inl (InvalidData ''frame too short''), s1)
       else net_then (net_read 1 s1) (\<lambda>m s2.
            net_then (net_read 1 s2) (\<lambda>st s3.
            net_then (net_read (frame_len - 6) s3) (\<lambda>payload s4.
              (Inr (hd m, hd st, payload), s4)))))"

lemma net_read_arriving: "n = length bs \<Longrightarrow> net_read n (arriving bs @ s) = (Inr bs, s)"
  by (induction bs arbitrary: n) auto

lemma le_word_u32: "le_word (word_le (w :: u32)) = w"
  by (simp add: le_word_word_le)

lemma length_net_read: "net_read n s = (r, s') \<Longrightarrow> length s' \<le> length s"
  by (induction n s arbitrary: r s' rule: net_read.induct) (auto split: prod.splits sum.splits simp: le_Suc_eq)

lemma net_then_eq: "net_then r f = y \<longleftrightarrow> (\<exists>e s. r = (Inl e, s) \<and> y = (Inl e, s)) \<or> (\<exists>x s. r = (Inr x, s) \<and> f x s = y)"
  by (auto simp: net_then_def split: prod.splits sum.splits)

lemma unat_frame_len: "n + k < 2 ^ 32 \<Longrightarrow> unat (word_of_nat k + word_of_nat n :: u32) = k + n"
  unfolding of_nat_add [symmetric] by (rule unat_of_nat_small) simp

lemma read_frame_request:
  assumes "length token = TOKEN_WIRE_SIZE" and "length payload + 69 < 2 ^ 32"
  shows "read_frame (arriving (build_request token m payload) @ s) = (Inr (token, m, payload), s)"
proof -
  have len: "unat (69 + word_of_nat (length payload) :: u32) = 69 + length payload"
    using unat_frame_len [of "length payload" 69] assms(2) by simp
  have a: "net_read 4 (arriving (word_le w) @ s) = (Inr (word_le w), s)" for w :: u32 and s
    by (rule net_read_arriving) simp
  have b: "net_read 64 (arriving token @ s) = (Inr token, s)" for s
    using assms(1) by (intro net_read_arriving) simp
  have c: "net_read 1 (Some b # s) = (Inr [b], s)" for b s by simp
  have d: "net_read (length payload) (arriving payload @ s) = (Inr payload, s)" for s
    by (rule net_read_arriving) simp
  have code: "arriving (build_request token m payload) @ s =
    arriving (word_le (69 + word_of_nat (length payload) :: u32)) @ arriving token @ Some m # arriving payload @ s"
    using assms(1) by (simp add: build_request_def)
  show ?thesis
    unfolding read_frame_def code by (simp only: a b c d net_then_def le_word_u32 len Let_def prod.case sum.case list.sel
      if_False add_diff_cancel_left' not_add_less1)
qed

lemma read_raw_response_build:
  assumes "length payload + 6 < 2 ^ 32"
  shows "read_raw_response (arriving (build_response m st payload) @ s) = (Inr (m, st, payload), s)"
proof -
  have len: "unat (6 + word_of_nat (length payload) :: u32) = 6 + length payload"
    using unat_frame_len [of "length payload" 6] assms by simp
  have a: "net_read 4 (arriving (word_le w) @ s) = (Inr (word_le w), s)" for w :: u32 and s
    by (rule net_read_arriving) simp
  have c: "net_read 1 (Some b # s) = (Inr [b], s)" for b s by simp
  have d: "net_read (length payload) (arriving payload @ s) = (Inr payload, s)" for s
    by (rule net_read_arriving) simp
  have code: "arriving (build_response m st payload) @ s =
    arriving (word_le (6 + word_of_nat (length payload) :: u32)) @ Some m # Some st # arriving payload @ s"
    by (simp add: build_response_def)
  show ?thesis
    unfolding read_raw_response_def code by (simp only: a c d net_then_def le_word_u32 len Let_def prod.case sum.case list.sel
      if_False add_diff_cancel_left' not_add_less1)
qed

subsection \<open>Roles\<close>

datatype role = Operator | Engineer | Supervisor | Auditor | Hmi | System

fun role_to_u8 :: "role \<Rightarrow> u8" where
  "role_to_u8 Operator = 0"
| "role_to_u8 Engineer = 1"
| "role_to_u8 Supervisor = 2"
| "role_to_u8 Auditor = 3"
| "role_to_u8 Hmi = 5"
| "role_to_u8 System = 4"

definition role_from_u8 :: "u8 \<Rightarrow> role option" where
  "role_from_u8 b =
     (if b = 0 then Some Operator else if b = 1 then Some Engineer else if b = 2 then Some Supervisor
      else if b = 3 then Some Auditor else if b = 4 then Some System else None)"

lemma role_from_to: "role_from_u8 (role_to_u8 r) = (if r = Hmi then None else Some r)"
  by (cases r) (simp_all add: role_from_u8_def)

lemma role_from_u8_Some: "role_from_u8 b = Some r \<Longrightarrow> role_to_u8 r = b \<and> r \<noteq> Hmi"
  by (auto simp: role_from_u8_def split: if_splits)

type_synonym whitelist = "(role, u32 list) hmap"

definition default_whitelist :: whitelist where
  "default_whitelist = [(Supervisor, [0, 1000]), (Engineer, [1000]), (Operator, [1000, 1001]), (Auditor, [1000]), (System, [0])]"

definition is_uid_allowed :: "whitelist \<Rightarrow> role \<Rightarrow> u32 \<Rightarrow> bool" where
  "is_uid_allowed wl r uid = (case hm_get wl r of Some uids \<Rightarrow> uid \<in> set uids | None \<Rightarrow> False)"

definition can_config :: "role option \<Rightarrow> bool" where
  "can_config r \<longleftrightarrow> r \<in> {Some Engineer, Some Supervisor, Some System}"

definition can_read :: "role option \<Rightarrow> bool" where
  "can_read r \<longleftrightarrow> r \<noteq> None"

definition can_write :: "role option \<Rightarrow> bool" where
  "can_write r \<longleftrightarrow> r \<in> {Some Engineer, Some Supervisor, Some System, Some Hmi}"

subsection \<open>Session tokens\<close>

text \<open>The keyed hash: key and message to 32 bytes.\<close>

type_synonym keyed_hash = "byte list \<Rightarrow> byte list \<Rightarrow> byte list"

definition token_body :: "u64 \<Rightarrow> u8 \<Rightarrow> u64 \<Rightarrow> byte list" where
  "token_body session_id r expires = word_le session_id @ [r] @ word_le expires"

definition build_wire_token :: "keyed_hash \<Rightarrow> byte list \<Rightarrow> u64 \<Rightarrow> u8 \<Rightarrow> u64 \<Rightarrow> byte list" where
  "build_wire_token hmac secret session_id r expires =
     token_body session_id r expires @ hmac secret (token_body session_id r expires) @ replicate 15 0"

definition verify_wire_token :: "keyed_hash \<Rightarrow> byte list \<Rightarrow> u64 \<Rightarrow> byte list \<Rightarrow> string + u8" where
  "verify_wire_token hmac secret now token =
     (if length token < TOKEN_WIRE_SIZE then Inl ''token too short''
      else
        (let session_id = le_word (take 8 token) :: u64; r = token ! 8; expires = le_word (take 8 (drop 9 token)) :: u64 in
         if expires < now then Inl ''token expired''
         else if hmac secret (token_body session_id r expires) \<noteq> take 32 (drop 17 token) then Inl ''invalid token signature''
         else Inr r))"

definition hash_ok :: "keyed_hash \<Rightarrow> bool" where
  "hash_ok hmac \<longleftrightarrow> (\<forall>k m. length (hmac k m) = 32)"

lemma length_token [simp]: "hash_ok hmac \<Longrightarrow> length (build_wire_token hmac secret sid r expires) = TOKEN_WIRE_SIZE"
  by (simp add: build_wire_token_def token_body_def hash_ok_def)

lemma verify_built:
  assumes "hash_ok hmac"
  shows "verify_wire_token hmac secret now (build_wire_token hmac secret sid r expires)
    = (if expires < now then Inl ''token expired'' else Inr r)"
  using assms
  by (simp add: verify_wire_token_def Let_def)
     (simp add: build_wire_token_def token_body_def hash_ok_def le_word_word_le nth_append)

text \<open>An accepted token carries the hash of its own fields, and has not expired.\<close>

lemma accepted_token:
  assumes "verify_wire_token hmac secret now token = Inr r"
  shows "\<exists>sid expires. take 49 token = token_body sid r expires @ hmac secret (token_body sid r expires) \<and> now \<le> expires"
proof -
  let ?sid = "le_word (take 8 token) :: u64" and ?exp = "le_word (take 8 (drop 9 token)) :: u64"
  have a: "64 \<le> length token" "\<not> ?exp < now" "r = token ! 8"
    "hmac secret (token_body ?sid r ?exp) = take 32 (drop 17 token)"
    using assms by (auto simp: verify_wire_token_def Let_def split: if_splits)
  have b: "token_body ?sid r ?exp = take 17 token"
  proof -
    have "take 17 token = take 8 token @ [token ! 8] @ take 8 (drop 9 token)"
      using a(1) take_add [of 8 9 token] take_add [of 1 8 "drop 8 token"] take_Suc_conv_app_nth [of 0 "drop 8 token"]
      by (simp add: hd_drop_conv_nth)
    then show ?thesis using a(1,3) by (simp add: token_body_def word_le_le_word)
  qed
  have "take 49 token = take 17 token @ take 32 (drop 17 token)" using take_add [of 17 32 token] by simp
  then show ?thesis using a(2,4) b by (metis linorder_not_less)
qed

end
