(* ===== verification/Ipc_Server.thy ===== *)
theory Ipc_Server
  imports Ipc_Wire Engine
begin

text \<open>
  The IPC server of \<^verbatim>\<open>audesys-runtime/src/ipc.rs\<close>: authentication, the request handlers and the loop
  over one connection. The engine is shared with the cycle thread and with the other connections;
  a request is handled as one step. What the operating system answers while a request is handled
  (clock, random numbers, credentials of the peer, duplication of a socket, the health text) is an
  argument, and so are the decoders of programs and layouts and the derived debug formats.
\<close>

record session_info =
  session_id :: u64
  sess_role :: role
  expires_at_ms :: u64

record ipc_env =
  ie_hash :: keyed_hash
  token_secret :: "byte list"
  ie_whitelist :: whitelist
  ie_deser :: decoder
  ie_utf8_error :: "byte list \<Rightarrow> string"
  ie_yaml_error :: "string \<Rightarrow> string option"
  ie_debug_value :: "hal_value \<Rightarrow> string"

record ipc_os =
  os_now_ms :: u64
  os_random :: u64
  os_instant :: nat
  os_peer :: "string + i32 \<times> u32 \<times> u32"
  os_clone_error :: "string option"
  os_health :: string

text \<open>Subscriptions: by signal, the session and the connection of the subscriber.\<close>

type_synonym subscriptions = "(string, (u64 \<times> nat) list) hmap"

record ('cb, 'w) ipc_state =
  ipc_engine :: "('cb, 'w) engine"
  ipc_subs :: subscriptions

record connection =
  conn_id :: nat
  conn_session :: "session_info option"
  next_session_id :: u64

subsection \<open>Replies\<close>

text \<open>
  The state, the frames written, and whether the handler runs to the end of the loop body: the
  branches with a \<^verbatim>\<open>continue\<close> do not.
\<close>

type_synonym 'st reply = "'st \<times> byte list list \<times> bool"

abbreviation refuse :: "u8 \<Rightarrow> string \<Rightarrow> 'st \<Rightarrow> 'st reply" where
  "refuse m msg st \<equiv> (st, [build_error_response m msg], False)"

abbreviation fail :: "u8 \<Rightarrow> string \<Rightarrow> 'st \<Rightarrow> 'st reply" where
  "fail m msg st \<equiv> (st, [build_error_response m msg], True)"

abbreviation done_ok :: "u8 \<Rightarrow> byte list \<Rightarrow> 'st \<Rightarrow> 'st reply" where
  "done_ok m payload st \<equiv> (st, [build_ok_response m payload], True)"

definition set_engine :: "('cb, 'w) ipc_state \<Rightarrow> ('cb, 'w) engine \<Rightarrow> ('cb, 'w) ipc_state" where
  "set_engine st e = st\<lparr>ipc_engine := e\<rparr>"

text \<open>The answer to an operation of the engine that may fail.\<close>

definition engine_reply ::
    "u8 \<Rightarrow> string \<Rightarrow> ('cb, 'w) ipc_state \<Rightarrow> ('cb, 'w) engine \<times> (string + 'a) \<Rightarrow> ('cb, 'w) ipc_state reply" where
  "engine_reply m msg st r =
     (case r of
        (e, Inr _) \<Rightarrow> done_ok m (string_bytes msg) (set_engine st e)
      | (e, Inl err) \<Rightarrow> fail m err (set_engine st e))"

subsection \<open>Requests about signals\<close>

definition on_config ::
    "ipc_os \<Rightarrow> u8 \<Rightarrow> string \<Rightarrow> byte list \<Rightarrow> ('cb, 'w) ipc_state \<Rightarrow> ('cb, 'w) ipc_state reply" where
  "on_config os m method payload st =
     engine_reply m ''queued'' st
       (engine_queue_config (ipc_engine st)
          \<lparr>cmd_id = os_random os, cmd_method = method, cmd_params = payload, queued_at = os_instant os\<rparr>)"

definition on_read_signal :: "byte list \<Rightarrow> ('cb, 'w) ipc_state \<Rightarrow> ('cb, 'w) ipc_state reply" where
  "on_read_signal payload st =
     (let e = ipc_engine st in
      case mw_read_signal (eng_middleware e) (from_utf8_lossy payload) of
        (mw, Some (v, _)) \<Rightarrow> done_ok 3 (encode_hal_value v) (set_engine st (e\<lparr>eng_middleware := mw\<rparr>))
      | (mw, None) \<Rightarrow> fail 3 ''signal not found'' (set_engine st (e\<lparr>eng_middleware := mw\<rparr>)))"

definition timestamp_of :: "u64 \<Rightarrow> timestamp" where
  "timestamp_of now = \<lparr>ts_secs = now div 1000, ts_micros = ucast ((now mod 1000) * 1000)\<rparr>"

definition on_write_signal ::
    "ipc_env \<Rightarrow> ipc_os \<Rightarrow> byte list \<Rightarrow> ('cb, 'w) ipc_state \<Rightarrow> ('cb, 'w) ipc_state reply" where
  "on_write_signal env os payload st =
     (if length payload < 2 then refuse 4 ''payload too short'' st
      else
        (let name_len = unat (le_word (take 2 payload) :: u16) in
         if length payload < 2 + name_len then refuse 4 ''payload truncated'' st
         else
           (let signal_name = from_utf8_lossy (take name_len (drop 2 payload)) in
            case decode_hal_value (ie_utf8_error env) (drop (2 + name_len) payload) of
              Inl err \<Rightarrow> refuse 4 err st
            | Inr (v, _) \<Rightarrow>
                (let e = ipc_engine st; mw = fst (mw_publish_signal (eng_middleware e) signal_name v (timestamp_of (os_now_ms os)))
                 in done_ok 4 (string_bytes ''ok'') (set_engine st (e\<lparr>eng_middleware := mw\<rparr>))))))"

text \<open>The counts are cast to 16 bits.\<close>

definition encode_snapshot :: "(string \<times> hal_value \<times> timestamp) list \<Rightarrow> byte list" where
  "encode_snapshot sigs =
     word_le (word_of_nat (length sigs) :: u16)
     @ concat (map (\<lambda>(nm, v, ts). word_le (word_of_nat (length nm) :: u16) @ string_bytes nm @ encode_hal_value v) sigs)"

definition on_snapshot :: "byte list \<Rightarrow> ('cb, 'w) ipc_state \<Rightarrow> ('cb, 'w) ipc_state reply" where
  "on_snapshot payload st =
     done_ok 6 (encode_snapshot (mw_snapshot_signals (eng_middleware (ipc_engine st)) (from_utf8_lossy payload))) st"

subsection \<open>Requests about the program\<close>

definition set_executor :: "('cb, 'w) ipc_state \<Rightarrow> executor \<Rightarrow> ('cb, 'w) ipc_state" where
  "set_executor st ex = set_engine st ((ipc_engine st)\<lparr>eng_executor := Some ex\<rparr>)"

definition be_u32 :: "byte list \<Rightarrow> u32" where
  "be_u32 bs = le_word (rev (take 4 bs))"

definition on_breakpoint ::
    "u8 \<Rightarrow> (executor \<Rightarrow> nat \<Rightarrow> executor \<times> bool) \<Rightarrow> byte list \<Rightarrow> ('cb, 'w) ipc_state \<Rightarrow> ('cb, 'w) ipc_state reply" where
  "on_breakpoint m change payload st =
     (if length payload < 4 then refuse m ''need 4 bytes IP'' st
      else
        (case eng_executor (ipc_engine st) of
           Some ex \<Rightarrow> done_ok m (string_bytes ''ok'') (set_executor st (fst (change ex (unat (be_u32 payload)))))
         | None \<Rightarrow> fail m ''no program loaded'' st))"

fun joined :: "string \<Rightarrow> string list \<Rightarrow> string" where
  "joined sep [] = []"
| "joined sep [x] = x"
| "joined sep (x # y # ys) = x @ sep @ joined sep (y # ys)"

definition on_list_breakpoints :: "('cb, 'w) ipc_state \<Rightarrow> ('cb, 'w) ipc_state reply" where
  "on_list_breakpoints st =
     (case eng_executor (ipc_engine st) of
        Some ex \<Rightarrow> done_ok 0x0E (string_bytes (joined '','' (map dec_string (list_breakpoints ex)))) st
      | None \<Rightarrow> refuse 0x0E ''no program loaded'' st)"

text \<open>The register index is not checked: the machine's own check panics in the connection's thread.\<close>

definition on_read_registers ::
    "ipc_env \<Rightarrow> byte list \<Rightarrow> ('cb, 'w) ipc_state \<Rightarrow> ('cb, 'w) ipc_state reply outcome" where
  "on_read_registers env payload st =
     (case payload of
        [] \<Rightarrow> Ok (refuse 0x0F ''need register index'' st)
      | idx # _ \<Rightarrow>
          (case eng_executor (ipc_engine st) of
             Some ex \<Rightarrow>
               mapo (\<lambda>v. done_ok 0x0F (string_bytes (''r'' @ dec_string (unat idx) @ ''='' @ ie_debug_value env v)) st)
                 (read_register (ex_vm ex) idx)
           | None \<Rightarrow> Ok (refuse 0x0F ''no program loaded'' st)))"

definition show_bool :: "bool \<Rightarrow> string" where
  "show_bool b = (if b then ''true'' else ''false'')"

definition on_debug_state :: "('cb, 'w) ipc_state \<Rightarrow> ('cb, 'w) ipc_state reply" where
  "on_debug_state st =
     (let (debug, bps, trace_len) =
            (case eng_executor (ipc_engine st) of
               Some ex \<Rightarrow> (is_debug_enabled ex, list_breakpoints ex, length (trace_buffer (ex_debug ex)))
             | None \<Rightarrow> (False, [], 0))
      in done_ok 0x10 (string_bytes
           ([CHR 0x7B, CHR 0x22] @ ''debug_mode'' @ [CHR 0x22] @ '':'' @ show_bool debug
            @ '','' @ [CHR 0x22] @ ''paused'' @ [CHR 0x22] @ '':'' @ show_bool (paused (ipc_engine st))
            @ '','' @ [CHR 0x22] @ ''breakpoints'' @ [CHR 0x22] @ '':['' @ joined '', '' (map dec_string bps) @ '']''
            @ '','' @ [CHR 0x22] @ ''trace_len'' @ [CHR 0x22] @ '':'' @ dec_string trace_len @ [CHR 0x7D])) st)"

definition on_deploy_layout ::
    "ipc_env \<Rightarrow> byte list \<Rightarrow> ('cb, 'w) ipc_state \<Rightarrow> ('cb, 'w) ipc_state reply" where
  "on_deploy_layout env payload st =
     (if payload = [] then refuse 0x17 ''empty payload'' st
      else (case deploy_hmi_layout (ie_utf8_error env) (ie_yaml_error env) (ipc_engine st) payload of
              (e, Inr g) \<Rightarrow> done_ok 0x17 (word_le g) (set_engine st e)
            | (e, Inl err) \<Rightarrow> fail 0x17 err (set_engine st e)))"

definition on_get_layout :: "('cb, 'w) ipc_state \<Rightarrow> ('cb, 'w) ipc_state reply" where
  "on_get_layout st =
     (case hmi_layout (ipc_engine st) of
        Some (yaml, g) \<Rightarrow> done_ok 0x18 (word_le g @ yaml) st
      | None \<Rightarrow> fail 0x18 ''no layout deployed'' st)"

subsection \<open>Subscriptions\<close>

definition drop_session :: "u64 \<Rightarrow> (u64 \<times> nat) list \<Rightarrow> (u64 \<times> nat) list" where
  "drop_session sid xs = filter (\<lambda>(s, _). s \<noteq> sid) xs"

definition session_sid :: "connection \<Rightarrow> u64" where
  "session_sid c = (case conn_session c of Some s \<Rightarrow> session_id s | None \<Rightarrow> 0)"

definition on_subscribe ::
    "ipc_os \<Rightarrow> connection \<Rightarrow> byte list \<Rightarrow> ('cb, 'w) ipc_state \<Rightarrow> ('cb, 'w) ipc_state reply" where
  "on_subscribe os c payload st =
     (let nm = from_utf8_lossy payload in
      if nm = [] then refuse 0x14 ''empty signal name'' st
      else (case os_clone_error os of
              None \<Rightarrow>
                (let old = (case hm_get (ipc_subs st) nm of Some xs \<Rightarrow> xs | None \<Rightarrow> []) in
                 done_ok 0x14 (string_bytes ''subscribed'')
                   (st\<lparr>ipc_subs := hm_insert nm (old @ [(session_sid c, conn_id c)]) (ipc_subs st)\<rparr>))
            | Some err \<Rightarrow> fail 0x14 err st))"

definition on_unsubscribe ::
    "connection \<Rightarrow> byte list \<Rightarrow> ('cb, 'w) ipc_state \<Rightarrow> ('cb, 'w) ipc_state reply" where
  "on_unsubscribe c payload st =
     (let nm = from_utf8_lossy payload in
      if nm = [] then refuse 0x15 ''empty signal name'' st
      else
        (let subs = (case hm_get (ipc_subs st) nm of
                       None \<Rightarrow> ipc_subs st
                     | Some xs \<Rightarrow>
                         (let left = drop_session (session_sid c) xs in
                          if left = [] then hm_remove nm (ipc_subs st) else hm_insert nm left (ipc_subs st)))
         in done_ok 0x15 (string_bytes ''unsubscribed'') (st\<lparr>ipc_subs := subs\<rparr>)))"

text \<open>The block at the end of the loop body, which runs after every request that reaches it.\<close>

definition cleanup :: "u64 \<Rightarrow> subscriptions \<Rightarrow> subscriptions" where
  "cleanup sid subs = filter (\<lambda>(_, xs). xs \<noteq> []) (map (\<lambda>(nm, xs). (nm, drop_session sid xs)) subs)"

subsection \<open>Authentication\<close>

definition show_i32 :: "i32 \<Rightarrow> string" where
  "show_i32 n = (if sint n < 0 then ''-'' @ dec_string (nat (- sint n)) else dec_string (nat (sint n)))"

fun show_role :: "role \<Rightarrow> string" where
  "show_role Operator = ''Operator''"
| "show_role Engineer = ''Engineer''"
| "show_role Supervisor = ''Supervisor''"
| "show_role Auditor = ''Auditor''"
| "show_role Hmi = ''Hmi''"
| "show_role System = ''System''"

definition token_ttl :: "role \<Rightarrow> u64" where
  "token_ttl r = (if r = Supervisor then 86400000 else 3600000)"

text \<open>The frames written, the next session number, and the session when there is one.\<close>

definition handle_auth ::
    "ipc_env \<Rightarrow> ipc_os \<Rightarrow> byte list \<Rightarrow> u64 \<Rightarrow> byte list list \<times> u64 \<times> session_info option" where
  "handle_auth env os payload next =
     (if length payload < 5 then ([build_error_response 1 ''need 5 bytes (pid + role)''], next, None)
      else
        (let client_pid = le_word (take 4 payload) :: u32; role_byte = payload ! 4 in
         case role_from_u8 role_byte of
           None \<Rightarrow> ([build_error_response 1 (''unknown role byte: '' @ dec_string (unat role_byte))], next, None)
         | Some requested \<Rightarrow>
             (case os_peer os of
                Inl err \<Rightarrow> ([build_error_response 1 (''SO_PEERCRED: '' @ err)], next, None)
              | Inr (peer_pid, peer_uid, _) \<Rightarrow>
                  if ucast peer_pid \<noteq> client_pid
                  then ([build_error_response 1 (''pid mismatch: claimed '' @ dec_string (unat client_pid)
                           @ '', actual '' @ show_i32 peer_pid)], next, None)
                  else if \<not> is_uid_allowed (ie_whitelist env) requested peer_uid
                  then ([build_error_response 1 (''uid '' @ dec_string (unat peer_uid) @ '' not allowed for ''
                           @ show_role requested)], next, None)
                  else
                    (let expires = os_now_ms os + token_ttl requested;
                         token = build_wire_token (ie_hash env) (token_secret env) next (role_to_u8 requested) expires
                     in ([build_ok_response 1 token], next + 1,
                         Some \<lparr>session_id = next, sess_role = requested, expires_at_ms = expires\<rparr>)))))"

definition on_auth ::
    "ipc_env \<Rightarrow> ipc_os \<Rightarrow> connection \<Rightarrow> byte list \<Rightarrow> connection \<times> byte list list" where
  "on_auth env os c payload =
     (case handle_auth env os payload (next_session_id c) of
        (out, next, None) \<Rightarrow> (c\<lparr>next_session_id := next\<rparr>, out)
      | (out, next, Some s) \<Rightarrow>
          (c\<lparr>next_session_id := next, conn_session := Some s\<rparr>,
           out @ [build_ok_response 1 (build_wire_token (ie_hash env) (token_secret env) (session_id s)
                    (role_to_u8 (sess_role s)) (expires_at_ms s))]))"

subsection \<open>Dispatch\<close>

abbreviation role_of :: "connection \<Rightarrow> role option" where
  "role_of c \<equiv> map_option sess_role (conn_session c)"

text \<open>The methods that need the right to configure; one needs the right to write, the others to read.\<close>

definition config_methods :: "u8 list" where
  "config_methods = [0x02, 0x07, 0x08, 0x09, 0x0A, 0x0B, 0x0C, 0x0D, 0x11, 0x12, 0x13, 0x17]"

definition read_methods :: "u8 list" where
  "read_methods = [0x03, 0x05, 0x06, 0x0E, 0x0F, 0x10, 0x14, 0x15, 0x18]"

definition permitted :: "role option \<Rightarrow> u8 \<Rightarrow> bool" where
  "permitted r m =
     (if m \<in> set config_methods then can_config r
      else if m = 0x04 then can_write r
      else if m \<in> set read_methods then can_read r else True)"

definition hex_digit :: "nat \<Rightarrow> char" where
  "hex_digit n = (if n < 10 then char_of (48 + n) else char_of (87 + n))"

text \<open>A request with the rights it needs.\<close>

definition handle_method ::
    "ipc_env \<Rightarrow> ipc_os \<Rightarrow> connection \<Rightarrow> u8 \<Rightarrow> byte list \<Rightarrow> ('cb, 'w) ipc_state \<Rightarrow> ('cb, 'w) ipc_state reply outcome" where
  "handle_method env os c m payload st =
     (let e = ipc_engine st in
      if m = 0x02 then Ok (on_config os m ''configureComponent'' payload st)
      else if m = 0x03 then Ok (on_read_signal payload st)
      else if m = 0x04 then Ok (on_write_signal env os payload st)
      else if m = 0x05 then Ok (done_ok m (string_bytes (os_health os)) st)
      else if m = 0x06 then Ok (on_snapshot payload st)
      else if m = 0x07 then Ok (engine_reply m ''loaded'' st (load_hal_program (ie_deser env) e payload))
      else if m = 0x08 then Ok (on_config os m ''loadHalConfig'' payload st)
      else if m = 0x09 then Ok (done_ok m (string_bytes ''paused'') (set_engine st (engine_pause e)))
      else if m = 0x0A then Ok (done_ok m (string_bytes ''resumed'') (set_engine st (engine_resume e)))
      else if m = 0x0B then Ok (done_ok m (string_bytes ''stepped'') (set_engine st (step_cycle e)))
      else if m = 0x0C then Ok (on_breakpoint m add_breakpoint payload st)
      else if m = 0x0D then Ok (on_breakpoint m remove_breakpoint payload st)
      else if m = 0x0E then Ok (on_list_breakpoints st)
      else if m = 0x0F then on_read_registers env payload st
      else if m = 0x10 then Ok (on_debug_state st)
      else if m = 0x11 then Ok (engine_reply m ''ready'' st (prepare_swap (ie_deser env) e payload))
      else if m = 0x12 then Ok (engine_reply m ''committed'' st (commit_swap e))
      else if m = 0x13 then Ok (done_ok m (string_bytes ''cancelled'') (set_engine st (rollback_swap e)))
      else if m = 0x14 then Ok (on_subscribe os c payload st)
      else if m = 0x15 then Ok (on_unsubscribe c payload st)
      else if m = 0x17 then Ok (on_deploy_layout env payload st)
      else if m = 0x18 then Ok (on_get_layout st)
      else Ok (fail m (''unknown method_id: 0x'' @ [hex_digit (unat m div 16), hex_digit (unat m mod 16)]) st))"

text \<open>The check of the token before a request of a session: the answer of a refused request.\<close>

definition token_check ::
    "ipc_env \<Rightarrow> ipc_os \<Rightarrow> connection \<Rightarrow> byte list \<Rightarrow> u8 \<Rightarrow> (byte list \<times> connection) option" where
  "token_check env os c token m =
     (case conn_session c of
        None \<Rightarrow> None
      | Some sess \<Rightarrow>
          if m = 1 then Some (build_error_response 1 ''already authenticated'', c)
          else (case verify_wire_token (ie_hash env) (token_secret env) (os_now_ms os) token of
                  Inl err \<Rightarrow> Some (build_error_response m (''auth: '' @ err), c)
                | Inr role_byte \<Rightarrow>
                    if role_from_u8 role_byte \<noteq> Some (sess_role sess)
                    then Some (build_error_response m ''role mismatch'', c)
                    else if expires_at_ms sess < os_now_ms os
                    then Some (build_error_response m ''token expired'', c\<lparr>conn_session := None\<rparr>)
                    else None))"

definition finish ::
    "connection \<Rightarrow> ('cb, 'w) ipc_state reply \<Rightarrow> ('cb, 'w) ipc_state \<times> connection \<times> byte list list" where
  "finish c r =
     (case r of (st, out, to_end) \<Rightarrow>
        ((if to_end then case conn_session c of Some s \<Rightarrow> st\<lparr>ipc_subs := cleanup (session_id s) (ipc_subs st)\<rparr> | None \<Rightarrow> st
          else st), c, out))"

definition handle_message ::
    "ipc_env \<Rightarrow> ipc_os \<Rightarrow> ('cb, 'w) ipc_state \<Rightarrow> connection \<Rightarrow> byte list \<times> u8 \<times> byte list
     \<Rightarrow> (('cb, 'w) ipc_state \<times> connection \<times> byte list list) outcome" where
  "handle_message env os st c msg =
     (case msg of (token, m, payload) \<Rightarrow>
        (case token_check env os c token m of
           Some (answer, c') \<Rightarrow> Ok (st, c', [answer])
         | None \<Rightarrow>
             if m = 1 then (case on_auth env os c payload of (c', out) \<Rightarrow> Ok (finish c' (st, out, True)))
             else if \<not> permitted (role_of c) m then Ok (st, c, [build_error_response m ''unauthorized''])
             else mapo (finish c) (handle_method env os c m payload st)))"

subsection \<open>The connection\<close>

lemma net_read_shorter:
  assumes "net_read (Suc n) s = (r, s')" and "s \<noteq> []"
  shows "length s' < length s"
proof (cases s)
  case (Cons x xs)
  then show ?thesis using assms(1) length_net_read [of n xs]
    by (cases x) (auto split: prod.splits sum.splits simp: less_Suc_eq_le)
qed (use assms in simp)

lemma read_frame_shorter:
  assumes "read_frame s = (r, s')" and "s \<noteq> []"
  shows "length s' < length s"
proof -
  obtain r1 s1 where 1: "net_read 4 s = (r1, s1)" by fastforce
  then have "length s1 < length s" using net_read_shorter [of 3 s r1 s1] assms(2) by simp
  moreover have "length s' \<le> length s1"
    using assms(1) 1 unfolding read_frame_def
    by (auto simp: net_then_eq Let_def dest!: length_net_read split: if_splits)
  ultimately show ?thesis by simp
qed

lemma read_frame_Nil: "read_frame [] = (Inl UnexpectedEof, [])"
  by (simp add: read_frame_def net_then_def eval_nat_numeral)

text \<open>
  The loop over a connection; \<open>os\<close> answers for the requests in turn. A timeout while nothing is
  there is ignored, every other read error ends the loop. It ends with the stream at the latest.
\<close>

function handle_connection ::
    "ipc_env \<Rightarrow> (nat \<Rightarrow> ipc_os) \<Rightarrow> nat \<Rightarrow> ('cb, 'w) ipc_state \<Rightarrow> connection \<Rightarrow> net
     \<Rightarrow> (('cb, 'w) ipc_state \<times> byte list list) outcome" where
  "handle_connection env os k st c s =
     (if s = [] then Ok (st, [])
      else case read_frame s of
        (Inl ReadTimedOut, s') \<Rightarrow> handle_connection env os k st c s'
      | (Inl _, s') \<Rightarrow> Ok (st, [])
      | (Inr fr, s') \<Rightarrow>
          bindo (handle_message env (os k) st c fr) (\<lambda>(st1, c1, out).
            mapo (\<lambda>(st2, outs). (st2, out @ outs)) (handle_connection env os (k + 1) st1 c1 s')))"
  by pat_completeness auto

termination handle_connection
  by (relation "measure (\<lambda>(env, os, k, st, c, s). length s)") (auto intro: read_frame_shorter [OF sym])

declare handle_connection.simps [simp del]

text \<open>A new connection: the counter of session numbers starts at one for each.\<close>

definition connection_new :: "nat \<Rightarrow> connection" where
  "connection_new n = \<lparr>conn_id = n, conn_session = None, next_session_id = 1\<rparr>"

definition ipc_server_new :: "('cb, 'w) engine \<Rightarrow> ('cb, 'w) ipc_state" where
  "ipc_server_new e = \<lparr>ipc_engine = e, ipc_subs = []\<rparr>"

end
