(* ===== verification/Signal_Push.thy ===== *)
theory Signal_Push
  imports Ipc_Server
begin

text \<open>
  The push of subscribed signals to connected clients: the JSON of a value and the push frame of
  \<^verbatim>\<open>audesys-runtime/src/ipc.rs\<close>, and the push phase of the engine's cycle in
  \<^verbatim>\<open>audesys-runtime/src/engine.rs\<close>, which reads the subscriptions of the IPC server. The scientific
  format of floating-point numbers is an argument.
\<close>

record float_format =
  show_e32 :: "f32 \<Rightarrow> string"
  show_e64 :: "f64 \<Rightarrow> string"

definition show_int :: "int \<Rightarrow> string" where
  "show_int i = (if i < 0 then ''-'' @ dec_string (nat (- i)) else dec_string (nat i))"

abbreviation dquote :: char where
  "dquote \<equiv> CHR 0x22"

abbreviation backslash :: char where
  "backslash \<equiv> CHR 0x5C"

definition replace_char :: "char \<Rightarrow> string \<Rightarrow> string \<Rightarrow> string" where
  "replace_char c new s = concat (map (\<lambda>x. if x = c then new else [x]) s)"

definition hex_string :: "byte list \<Rightarrow> string" where
  "hex_string bs = concat (map (\<lambda>b. [hex_digit (unat b div 16), hex_digit (unat b mod 16)]) bs)"

fun show_pin_type :: "hal_pin_type \<Rightarrow> string" where
  "show_pin_type TBool = ''Bool''"
| "show_pin_type TS8 = ''S8''"
| "show_pin_type TU8 = ''U8''"
| "show_pin_type TS16 = ''S16''"
| "show_pin_type TU16 = ''U16''"
| "show_pin_type TS32 = ''S32''"
| "show_pin_type TU32 = ''U32''"
| "show_pin_type TS64 = ''S64''"
| "show_pin_type TU64 = ''U64''"
| "show_pin_type TF32 = ''F32''"
| "show_pin_type TF64 = ''F64''"
| "show_pin_type TBlob = ''Blob''"
| "show_pin_type TString = ''String''"

definition json_escape :: "string \<Rightarrow> string" where
  "json_escape s = replace_char dquote [backslash, dquote] (replace_char backslash [backslash, backslash] s)"

definition quoted :: "string \<Rightarrow> string" where
  "quoted s = dquote # s @ [dquote]"

fun hal_value_to_json :: "float_format \<Rightarrow> hal_value \<Rightarrow> string" where
  "hal_value_to_json fm (VBool v) = show_bool v"
| "hal_value_to_json fm (VS8 v) = show_int (sint v)"
| "hal_value_to_json fm (VU8 v) = show_int (uint v)"
| "hal_value_to_json fm (VS16 v) = show_int (sint v)"
| "hal_value_to_json fm (VU16 v) = show_int (uint v)"
| "hal_value_to_json fm (VS32 v) = show_int (sint v)"
| "hal_value_to_json fm (VU32 v) = show_int (uint v)"
| "hal_value_to_json fm (VS64 v) = show_int (sint v)"
| "hal_value_to_json fm (VU64 v) = show_int (uint v)"
| "hal_value_to_json fm (VF32 v) = show_e32 fm v"
| "hal_value_to_json fm (VF64 v) = show_e64 fm v"
| "hal_value_to_json fm (VBlob data) = quoted (hex_string data)"
| "hal_value_to_json fm (VString s) = quoted (json_escape s)"
| "hal_value_to_json fm (VArray t data) =
     ''{'' @ quoted ''type'' @ '':'' @ quoted (show_pin_type t) @ '','' @ quoted ''data'' @ '':'' @ quoted (hex_string data) @ ''}''"

definition build_push_frame :: "float_format \<Rightarrow> string \<Rightarrow> hal_value \<Rightarrow> byte list" where
  "build_push_frame fm nm v =
     build_response 0x16 0 (string_bytes
       (''{'' @ quoted ''signal'' @ '':'' @ quoted nm @ '','' @ quoted ''value'' @ '':'' @ hal_value_to_json fm v @ ''}''))"

text \<open>The frames written, each with the connection it is written to.\<close>

definition push_phase :: "float_format \<Rightarrow> ('cb, 'w) ipc_state \<Rightarrow> (nat \<times> byte list) list" where
  "push_phase fm st =
     (let snapshot = map (\<lambda>s. (snap_name s, snap_value s)) (list_snapshots (eng_signals (ipc_engine st)))
      in concat (map (\<lambda>(nm, streams).
           case map_of snapshot nm of
             Some v \<Rightarrow> map (\<lambda>(_, cn). (cn, build_push_frame fm nm v)) streams
           | None \<Rightarrow> []) (ipc_subs st)))"

subsection \<open>Escaped strings\<close>

text \<open>The reader of a JSON string literal, from behind its opening quote; other escapes are not written.\<close>

fun json_string :: "string \<Rightarrow> (string \<times> string) option" where
  "json_string [] = None"
| "json_string (c # cs) =
     (if c = dquote then Some ([], cs)
      else if c = backslash
      then (case cs of [] \<Rightarrow> None | d # ds \<Rightarrow> map_option (\<lambda>(s, rest). (d # s, rest)) (json_string ds))
      else map_option (\<lambda>(s, rest). (c # s, rest)) (json_string cs))"

lemma json_escape_Cons:
  "json_escape (c # s) = (if c = dquote \<or> c = backslash then [backslash, c] else [c]) @ json_escape s"
  by (simp add: json_escape_def replace_char_def)

lemma json_escape_Nil [simp]: "json_escape [] = []"
  by (simp add: json_escape_def replace_char_def)

lemma json_escape_read: "json_string (json_escape s @ dquote # rest) = Some (s, rest)"
  by (induction s) (auto simp: json_escape_Cons)

lemma string_json_read: "json_string (tl (hal_value_to_json fm (VString s))) = Some (s, [])"
  by (simp add: quoted_def json_escape_read)

subsection \<open>Who is pushed to\<close>

lemma push_phase_subscribed:
  assumes "(cn, fr) \<in> set (push_phase fm st)"
  shows "\<exists>nm streams sid. (nm, streams) \<in> set (ipc_subs st) \<and> (sid, cn) \<in> set streams"
  using assms by (fastforce simp: push_phase_def Let_def split: option.splits)

text \<open>
  No request leaves a subscription behind when there was none before: the one it makes is removed
  at the end of the same pass of the loop.
\<close>

lemma handle_method_subs:
  assumes "handle_method env os c m payload st = Ok (r, out, b)" and "ipc_subs st = []" and "ipc_subs r \<noteq> []"
  shows "m = 0x14 \<and> b \<and> (\<exists>nm. ipc_subs r = [(nm, [(session_sid c, conn_id c)])])"
  using assms
  by (auto simp: handle_method_def on_config_def engine_reply_def on_read_signal_def on_write_signal_def on_snapshot_def
      on_breakpoint_def on_list_breakpoints_def on_read_registers_def on_debug_state_def on_subscribe_def on_unsubscribe_def
      on_deploy_layout_def on_get_layout_def set_engine_def set_executor_def Let_def outcome_simps
      split: if_splits option.splits sum.splits prod.splits list.splits)

lemma finish_subs_Nil:
  assumes "finish c (st, out, b) = (st', c', out')" and "ipc_subs st = []"
  shows "ipc_subs st' = []"
  using assms by (auto simp: finish_def cleanup_def split: if_splits option.splits)

lemma handle_message_subs:
  assumes "handle_message env os st c (token, m, payload) = Ok (st', c', out)" and "ipc_subs st = []"
  shows "ipc_subs st' = []"
proof (cases "token_check env os c token m = None \<and> m \<noteq> 1 \<and> permitted (role_of c) m")
  case True
  obtain r o1 b where h: "handle_method env os c m payload st = Ok (r, o1, b)" "finish c (r, o1, b) = (st', c', out)"
    using assms(1) True by (auto simp: handle_message_def outcome_simps)
  show ?thesis
  proof (cases "ipc_subs r = []")
    case False
    then obtain nm where m: "m = 0x14" b "ipc_subs r = [(nm, [(session_sid c, conn_id c)])]"
      using handle_method_subs [OF h(1) assms(2)] by blast
    then obtain s where "conn_session c = Some s"
      using True by (auto simp: permitted_def config_methods_def read_methods_def can_read_def split: if_splits)
    then show ?thesis using h(2) m(2,3) by (auto simp: finish_def cleanup_def drop_session_def session_sid_def)
  qed (use finish_subs_Nil [OF h(2)] in blast)
next
  case False
  then show ?thesis using assms
    by (auto simp: handle_message_def split: if_splits option.splits prod.splits dest: finish_subs_Nil)
qed

subsection \<open>The server with all its connections\<close>

text \<open>
  The accept loop and the threads it spawns: a new connection, a request on any connection, or a
  change of the shared engine by anyone else.
\<close>

inductive server_step ::
    "ipc_env \<Rightarrow> ('cb, 'w) ipc_state \<times> (nat \<Rightarrow> connection) \<Rightarrow> ('cb, 'w) ipc_state \<times> (nat \<Rightarrow> connection) \<Rightarrow> bool"
  for env where
  accept: "server_step env (st, cs) (st, cs(n := connection_new n))"
| request: "handle_message env os st (cs n) (token, m, payload) = Ok (st', c', out)
    \<Longrightarrow> server_step env (st, cs) (st', cs(n := c'))"
| others: "server_step env (st, cs) (set_engine st e, cs)"

lemma server_step_subs: "server_step env s s' \<Longrightarrow> ipc_subs (fst s) = [] \<Longrightarrow> ipc_subs (fst s') = []"
  by (induction rule: server_step.induct) (auto simp: set_engine_def dest: handle_message_subs)

end
