(* ===== verification/Runtime_Client.thy ===== *)
theory Runtime_Client
  imports Ipc_Wire
begin

text \<open>
  The synchronous IPC client of \<^verbatim>\<open>audesys-runtime-client/src/lib.rs\<close>. The peer is a function of the
  bytes the client writes: it answers with its next state and the bytes it writes back, which join
  what the client has not read yet.
\<close>

record client =
  session_token :: "byte list option"
  inbox :: net

type_synonym 's peer = "'s \<Rightarrow> byte list \<Rightarrow> 's \<times> byte list"

type_synonym ('s, 'a) call = "'s \<times> client \<Rightarrow> (string + 'a) \<times> 's \<times> client"

definition client_connect :: client where
  "client_connect = \<lparr>session_token = None, inbox = []\<rparr>"

definition is_authenticated :: "client \<Rightarrow> bool" where
  "is_authenticated cl \<longleftrightarrow> session_token cl \<noteq> None"

fun show_io_error :: "net_error \<Rightarrow> string" where
  "show_io_error UnexpectedEof = ''failed to fill whole buffer''"
| "show_io_error ReadTimedOut = ''Resource temporarily unavailable (os error 11)''"
| "show_io_error (InvalidData msg) = msg"

definition hex_byte :: "u8 \<Rightarrow> string" where
  "hex_byte b = (let d = (\<lambda>n. if n < 10 then char_of (48 + n) else char_of (87 + n)) in
     ''0x'' @ [d (unat b div 16), d (unat b mod 16)])"

definition client_read ::
    "string \<Rightarrow> nat \<Rightarrow> net \<Rightarrow> (byte list \<Rightarrow> net \<Rightarrow> (string + 'a) \<times> net) \<Rightarrow> (string + 'a) \<times> net" where
  "client_read what n s f =
     (case net_read n s of
        (Inl e, s') \<Rightarrow> (Inl (''read '' @ what @ '': '' @ show_io_error e), s')
      | (Inr bs, s') \<Rightarrow> f bs s')"

definition client_read_response :: "net \<Rightarrow> (string + u8 \<times> u8 \<times> byte list) \<times> net" where
  "client_read_response s0 =
     client_read ''length'' 4 s0 (\<lambda>len_bytes s1.
       let frame_len = unat (le_word len_bytes :: u32) in
       if frame_len < 6 then (Inl (''response frame too short: '' @ dec_string frame_len), s1)
       else client_read ''method_id'' 1 s1 (\<lambda>m s2.
            client_read ''status'' 1 s2 (\<lambda>st s3.
            client_read ''payload'' (frame_len - 6) s3 (\<lambda>payload s4.
              if hd st \<noteq> STATUS_OK
              then (Inl (''server error (method='' @ hex_byte (hd m) @ ''): '' @ from_utf8_lossy payload), s4)
              else (Inr (hd m, hd st, payload), s4)))))"

definition send_request :: "'s peer \<Rightarrow> u8 \<Rightarrow> byte list \<Rightarrow> ('s, byte list) call" where
  "send_request srv m payload w =
     (case w of (s, cl) \<Rightarrow>
        let token = (case session_token cl of Some t \<Rightarrow> t | None \<Rightarrow> replicate TOKEN_WIRE_SIZE 0);
            (s', out) = srv s (build_request token m payload)
        in case client_read_response (inbox cl @ arriving out) of
             (Inl e, rest) \<Rightarrow> (Inl e, s', cl\<lparr>inbox := rest\<rparr>)
           | (Inr (_, _, resp), rest) \<Rightarrow> (Inr resp, s', cl\<lparr>inbox := rest\<rparr>))"

definition with_answer :: "('s, 'a) call \<Rightarrow> ('a \<Rightarrow> string + 'b) \<Rightarrow> ('s, 'b) call" where
  "with_answer f g w = (case f w of (Inl e, w') \<Rightarrow> (Inl e, w') | (Inr x, w') \<Rightarrow> (g x, w'))"

text \<open>A request whose answer is text. The text of a decoding error is an argument.\<close>

definition text_request :: "(byte list \<Rightarrow> string) \<Rightarrow> 's peer \<Rightarrow> u8 \<Rightarrow> byte list \<Rightarrow> ('s, string) call" where
  "text_request utf8_error srv m payload =
     with_answer (send_request srv m payload)
       (\<lambda>resp. case from_utf8 resp of Some t \<Rightarrow> Inr t | None \<Rightarrow> Inl (''utf8: '' @ utf8_error resp))"

definition client_authenticate :: "'s peer \<Rightarrow> u32 \<Rightarrow> role \<Rightarrow> ('s, unit) call" where
  "client_authenticate srv pid r w =
     (case w of (s, cl) \<Rightarrow>
        let (s', out) = srv s (build_request (replicate TOKEN_WIRE_SIZE 0) 1 (word_le pid @ [role_to_u8 r]))
        in case client_read_response (inbox cl @ arriving out) of
             (Inl e, rest) \<Rightarrow> (Inl (''auth recv: '' @ e), s', cl\<lparr>inbox := rest\<rparr>)
           | (Inr (m, st, resp), rest) \<Rightarrow>
               if m \<noteq> 1 \<or> st \<noteq> STATUS_OK then (Inl (''auth rejected: '' @ from_utf8_lossy resp), s', cl\<lparr>inbox := rest\<rparr>)
               else if length resp < TOKEN_WIRE_SIZE
               then (Inl (''auth token too short: '' @ dec_string (length resp) @ '' bytes''), s', cl\<lparr>inbox := rest\<rparr>)
               else (Inr (), s', cl\<lparr>session_token := Some (take TOKEN_WIRE_SIZE resp), inbox := rest\<rparr>))"

subsection \<open>Calls\<close>

definition client_load_program :: "(byte list \<Rightarrow> string) \<Rightarrow> 's peer \<Rightarrow> byte list \<Rightarrow> ('s, string) call" where
  "client_load_program utf8_error srv bytes = text_request utf8_error srv 0x07 bytes"

definition client_load_hal_config :: "(byte list \<Rightarrow> string) \<Rightarrow> 's peer \<Rightarrow> byte list \<Rightarrow> ('s, string) call" where
  "client_load_hal_config utf8_error srv yaml = text_request utf8_error srv 0x08 yaml"

definition client_config_command :: "(byte list \<Rightarrow> string) \<Rightarrow> 's peer \<Rightarrow> byte list \<Rightarrow> ('s, string) call" where
  "client_config_command utf8_error srv cmd_bytes = text_request utf8_error srv 0x02 cmd_bytes"

definition client_health_query :: "(byte list \<Rightarrow> string) \<Rightarrow> 's peer \<Rightarrow> ('s, string) call" where
  "client_health_query utf8_error srv = text_request utf8_error srv 0x05 []"

definition client_pause :: "(byte list \<Rightarrow> string) \<Rightarrow> 's peer \<Rightarrow> ('s, string) call" where
  "client_pause utf8_error srv = text_request utf8_error srv 0x09 []"

definition client_resume :: "(byte list \<Rightarrow> string) \<Rightarrow> 's peer \<Rightarrow> ('s, string) call" where
  "client_resume utf8_error srv = text_request utf8_error srv 0x0A []"

definition client_step_cycle :: "(byte list \<Rightarrow> string) \<Rightarrow> 's peer \<Rightarrow> ('s, string) call" where
  "client_step_cycle utf8_error srv = text_request utf8_error srv 0x0B []"

definition client_set_breakpoint :: "(byte list \<Rightarrow> string) \<Rightarrow> 's peer \<Rightarrow> u32 \<Rightarrow> ('s, string) call" where
  "client_set_breakpoint utf8_error srv n = text_request utf8_error srv 0x0C (rev (word_le n))"

definition client_clear_breakpoint :: "(byte list \<Rightarrow> string) \<Rightarrow> 's peer \<Rightarrow> u32 \<Rightarrow> ('s, string) call" where
  "client_clear_breakpoint utf8_error srv n = text_request utf8_error srv 0x0D (rev (word_le n))"

definition client_list_breakpoints :: "(byte list \<Rightarrow> string) \<Rightarrow> 's peer \<Rightarrow> ('s, string) call" where
  "client_list_breakpoints utf8_error srv = text_request utf8_error srv 0x0E []"

definition client_read_register :: "(byte list \<Rightarrow> string) \<Rightarrow> 's peer \<Rightarrow> u8 \<Rightarrow> ('s, string) call" where
  "client_read_register utf8_error srv idx = text_request utf8_error srv 0x0F [idx]"

definition client_debug_state :: "(byte list \<Rightarrow> string) \<Rightarrow> 's peer \<Rightarrow> ('s, string) call" where
  "client_debug_state utf8_error srv = text_request utf8_error srv 0x10 []"

definition client_prepare_swap :: "(byte list \<Rightarrow> string) \<Rightarrow> 's peer \<Rightarrow> byte list \<Rightarrow> ('s, string) call" where
  "client_prepare_swap utf8_error srv program_bytes = text_request utf8_error srv 0x11 program_bytes"

definition client_commit_swap :: "(byte list \<Rightarrow> string) \<Rightarrow> 's peer \<Rightarrow> ('s, string) call" where
  "client_commit_swap utf8_error srv = text_request utf8_error srv 0x12 []"

definition client_rollback_swap :: "(byte list \<Rightarrow> string) \<Rightarrow> 's peer \<Rightarrow> ('s, string) call" where
  "client_rollback_swap utf8_error srv = text_request utf8_error srv 0x13 []"

definition client_read_signal :: "(byte list \<Rightarrow> string) \<Rightarrow> 's peer \<Rightarrow> string \<Rightarrow> ('s, hal_value) call" where
  "client_read_signal utf8_error srv nm =
     with_answer (send_request srv 0x03 (string_bytes nm)) (\<lambda>resp. map_sum id fst (decode_hal_value utf8_error resp))"

definition client_write_signal :: "'s peer \<Rightarrow> string \<Rightarrow> hal_value \<Rightarrow> ('s, unit) call" where
  "client_write_signal srv nm v =
     with_answer (send_request srv 0x04
         (word_le (word_of_nat (length nm) :: u16) @ string_bytes nm @ encode_hal_value v)) (\<lambda>_. Inr ())"

definition client_subscribe_signal :: "'s peer \<Rightarrow> string \<Rightarrow> ('s, unit) call" where
  "client_subscribe_signal srv nm = with_answer (send_request srv 0x14 (string_bytes nm)) (\<lambda>_. Inr ())"

definition client_unsubscribe_signal :: "'s peer \<Rightarrow> string \<Rightarrow> ('s, unit) call" where
  "client_unsubscribe_signal srv nm = with_answer (send_request srv 0x15 (string_bytes nm)) (\<lambda>_. Inr ())"

definition too_short :: "byte list \<Rightarrow> string" where
  "too_short resp = ''response too short: '' @ dec_string (length resp) @ '' bytes''"

definition client_deploy_hmi_layout :: "'s peer \<Rightarrow> byte list \<Rightarrow> ('s, u64) call" where
  "client_deploy_hmi_layout srv yaml =
     with_answer (send_request srv 0x17 yaml)
       (\<lambda>resp. if length resp < 8 then Inl (too_short resp) else Inr (le_word (take 8 resp)))"

definition client_get_hmi_layout :: "'s peer \<Rightarrow> ('s, byte list \<times> u64) call" where
  "client_get_hmi_layout srv =
     with_answer (send_request srv 0x18 [])
       (\<lambda>resp. if length resp < 8 then Inl (too_short resp) else Inr (drop 8 resp, le_word (take 8 resp)))"

text \<open>The entries of a snapshot: the buffer may end early, which the bounds checks report.\<close>

primrec snapshot_entries ::
    "(byte list \<Rightarrow> string) \<Rightarrow> nat \<Rightarrow> byte list \<Rightarrow> string + (string \<times> hal_value) list" where
  "snapshot_entries utf8_error 0 data = Inr []"
| "snapshot_entries utf8_error (Suc n) data =
     (if length data < 2 then Inl ''snapshot: truncated name_len''
      else
        (let name_len = unat (le_word (take 2 data) :: u16); rest = drop 2 data in
         if length rest < name_len then Inl ''snapshot: truncated name''
         else
           (case decode_hal_value utf8_error (drop name_len rest) of
              Inl e \<Rightarrow> Inl e
            | Inr (v, consumed) \<Rightarrow>
                (case snapshot_entries utf8_error n (drop (name_len + consumed) rest) of
                   Inl e \<Rightarrow> Inl e
                 | Inr es \<Rightarrow> Inr ((from_utf8_lossy (take name_len rest), v) # es)))))"

definition decode_snapshot_response :: "(byte list \<Rightarrow> string) \<Rightarrow> byte list \<Rightarrow> string + (string \<times> hal_value) list" where
  "decode_snapshot_response utf8_error data =
     (if length data < 2 then Inl ''snapshot response too short''
      else snapshot_entries utf8_error (unat (le_word (take 2 data) :: u16)) (drop 2 data))"

definition client_signal_snapshot ::
    "(byte list \<Rightarrow> string) \<Rightarrow> 's peer \<Rightarrow> string \<Rightarrow> ('s, (string \<times> hal_value) list) call" where
  "client_signal_snapshot utf8_error srv pat =
     with_answer (send_request srv 0x06 (string_bytes pat)) (decode_snapshot_response utf8_error)"

text \<open>Reading an unsolicited frame.\<close>

definition client_read_raw_frame :: "client \<Rightarrow> (net_error + u8 \<times> byte list) \<times> client" where
  "client_read_raw_frame cl =
     (case read_raw_response (inbox cl) of
        (Inl e, rest) \<Rightarrow> (Inl e, cl\<lparr>inbox := rest\<rparr>)
      | (Inr (m, _, payload), rest) \<Rightarrow> (Inr (m, payload), cl\<lparr>inbox := rest\<rparr>))"

subsection \<open>Lemmas\<close>

lemma client_read_response_ok:
  assumes "length payload + 6 < 2 ^ 32"
  shows "client_read_response (arriving (build_response m st payload) @ s) =
    (if st \<noteq> STATUS_OK then Inl (''server error (method='' @ hex_byte m @ ''): '' @ from_utf8_lossy payload)
     else Inr (m, st, payload), s)"
proof -
  have len: "unat (6 + word_of_nat (length payload) :: u32) = 6 + length payload"
    using unat_frame_len [of "length payload" 6] assms by simp
  have a: "net_read 4 (arriving (word_le w) @ s) = (Inr (word_le w), s)" for w :: u32 and s
    by (rule net_read_arriving) simp
  have c: "net_read 1 (Some b # s) = (Inr [b], s)" for b s by simp
  have d: "net_read (length payload) (arriving payload @ s) = (Inr payload, s)" for s
    by (rule net_read_arriving) simp
  have code: "arriving (build_response m st payload) @ s =
    arriving (word_le (6 + word_of_nat (length payload) :: u32)) @ Some m # Some st # arriving payload @ s"
    by (simp add: build_response_def)
  show ?thesis
    unfolding client_read_response_def client_read_def code
    by (simp only: a c d le_word_u32 len Let_def prod.case sum.case list.sel if_False add_diff_cancel_left' not_add_less1)
       simp
qed

text \<open>A call on a connection in step: nothing is left from earlier answers.\<close>

lemma send_request_ok:
  assumes "srv s (build_request (case session_token cl of Some t \<Rightarrow> t | None \<Rightarrow> replicate TOKEN_WIRE_SIZE 0) m payload)
      = (s', build_ok_response m resp @ later)"
    and "inbox cl = []" and "length resp + 6 < 2 ^ 32"
  shows "send_request srv m payload (s, cl) = (Inr resp, s', cl\<lparr>inbox := arriving later\<rparr>)"
  using assms client_read_response_ok [OF assms(3), of m STATUS_OK "arriving later"]
  by (simp add: send_request_def Let_def build_ok_response_def)

end
