(* ===== verification/Ipc_Correct.thy ===== *)
theory Ipc_Correct
  imports Signal_Push Runtime_Client
begin

text \<open>
  Properties of the IPC: which requests may change anything, what a client reads back over the
  whole path from its call to the middleware, and the ways in which sessions go wrong.
\<close>

subsection \<open>Rights\<close>

lemma token_check_None:
  assumes "token_check env os c token m = None" and "conn_session c = Some sess"
  shows "m \<noteq> 1 \<and> verify_wire_token (ie_hash env) (token_secret env) (os_now_ms os) token = Inr (role_to_u8 (sess_role sess))
    \<and> os_now_ms os \<le> expires_at_ms sess"
  using assms role_from_u8_Some
  by (auto simp: token_check_def split: if_splits sum.splits)

lemma finish_engine: "finish c (st, out, b) = (st', c', out') \<Longrightarrow> ipc_engine st' = ipc_engine st \<and> c' = c \<and> out' = out"
  by (auto simp: finish_def split: if_splits option.splits)

text \<open>A request that is not refused comes from a session with the right, and carries its token.\<close>

lemma handled_request:
  assumes "handle_message env os st c (token, m, payload) = Ok (st', c', out)" and "ipc_engine st' \<noteq> ipc_engine st"
  shows "\<exists>sess b r. conn_session c = Some sess \<and> permitted (Some (sess_role sess)) m \<and> m \<noteq> 1
    \<and> verify_wire_token (ie_hash env) (token_secret env) (os_now_ms os) token = Inr (role_to_u8 (sess_role sess))
    \<and> os_now_ms os \<le> expires_at_ms sess
    \<and> handle_method env os c m payload st = Ok (r, out, b) \<and> ipc_engine st' = ipc_engine r"
proof (cases "token_check env os c token m")
  case None
  have m: "m \<noteq> 1"
  proof
    assume "m = 1"
    then have "\<exists>c1 o1. finish c1 (st, o1, True) = (st', c', out)"
      using assms(1) None by (auto simp: handle_message_def split: prod.splits)
    then show False using assms(2) finish_engine by blast
  qed
  have p: "permitted (role_of c) m" using assms None m by (auto simp: handle_message_def split: if_splits)
  then obtain r o1 b where h: "handle_method env os c m payload st = Ok (r, o1, b)" "finish c (r, o1, b) = (st', c', out)"
    using assms(1) None m by (auto simp: handle_message_def outcome_simps)
  have e: "ipc_engine st' = ipc_engine r" "o1 = out" using finish_engine [OF h(2)] by auto
  have "conn_session c \<noteq> None"
  proof
    assume "conn_session c = None"
    then have "m \<notin> set config_methods" "m \<noteq> 4" "m \<notin> set read_methods"
      using p by (auto simp: permitted_def can_config_def can_write_def can_read_def split: if_splits)
    then have "ipc_engine r = ipc_engine st"
      using h(1) m by (auto simp: handle_method_def config_methods_def read_methods_def Let_def)
    then show False using e(1) assms(2) by simp
  qed
  then obtain sess where "conn_session c = Some sess" by blast
  then show ?thesis using token_check_None [OF None] p h(1) e by auto
qed (use assms in \<open>auto simp: handle_message_def\<close>)

text \<open>
  C5: nothing changes without the right. A request that changes anything in the engine comes on a
  connection with a session whose role has the right to the method, and it carries a token whose
  hash is the keyed hash of its own fields, whose role is the role of the session and which has
  not expired; nor has the session.
\<close>

theorem no_change_without_right:
  assumes "handle_message env os st c (token, m, payload) = Ok (st', c', out)" and "ipc_engine st' \<noteq> ipc_engine st"
  shows "\<exists>sess sid expires. conn_session c = Some sess \<and> permitted (Some (sess_role sess)) m
    \<and> take 49 token = token_body sid (role_to_u8 (sess_role sess)) expires
        @ ie_hash env (token_secret env) (token_body sid (role_to_u8 (sess_role sess)) expires)
    \<and> os_now_ms os \<le> expires \<and> os_now_ms os \<le> expires_at_ms sess"
  using handled_request [OF assms] accepted_token by blast

text \<open>The methods open to every session leave everything but the middleware's books alone.\<close>

lemma read_method_effect:
  assumes "handle_method env os c m payload st = Ok (r, out, b)" and "m \<in> set read_methods"
  shows "\<exists>mw. ipc_engine r = (ipc_engine st)\<lparr>eng_middleware := mw\<rparr>
    \<and> (\<forall>nm. snd (mw_read_signal mw nm) = snd (mw_read_signal (eng_middleware (ipc_engine st)) nm))"
proof -
  have id: "\<exists>mw. ipc_engine st = (ipc_engine st)\<lparr>eng_middleware := mw\<rparr>
    \<and> (\<forall>nm. snd (mw_read_signal mw nm) = snd (mw_read_signal (eng_middleware (ipc_engine st)) nm))"
    by (intro exI [of _ "eng_middleware (ipc_engine st)"]) simp
  show ?thesis
  proof (cases "m = 3")
    case True
    obtain mw v where mw: "mw_read_signal (eng_middleware (ipc_engine st)) (from_utf8_lossy payload) = (mw, v)" by fastforce
    then have "ipc_engine r = (ipc_engine st)\<lparr>eng_middleware := mw\<rparr>"
      using assms(1) True by (auto simp: handle_method_def on_read_signal_def set_engine_def Let_def split: option.splits)
    moreover have "snd (mw_read_signal mw nm) = snd (mw_read_signal (eng_middleware (ipc_engine st)) nm)" for nm
      using mw by (auto simp: mw_read_signal_def tr_read_signal_def split: prod.splits)
    ultimately show ?thesis by blast
  next
    case False
    then have "ipc_engine r = ipc_engine st"
      using assms by (auto simp: handle_method_def read_methods_def on_snapshot_def on_list_breakpoints_def on_read_registers_def
          on_debug_state_def on_subscribe_def on_unsubscribe_def on_get_layout_def Let_def outcome_simps
          split: option.splits list.splits if_splits prod.splits)
    then show ?thesis using id by simp
  qed
qed

text \<open>
  C9: operators and auditors cannot change anything. Whatever request arrives on a connection with
  such a session, or with none, the engine keeps its program, its signal registry, its pending
  swap, its queue and its pause state, and every signal of the middleware keeps its value.
\<close>

theorem read_only_roles:
  assumes "handle_message env os st c (token, m, payload) = Ok (st', c', out)"
    and "role_of c \<in> {None, Some Operator, Some Auditor}"
  shows "\<exists>mw. ipc_engine st' = (ipc_engine st)\<lparr>eng_middleware := mw\<rparr>
    \<and> (\<forall>nm. snd (mw_read_signal mw nm) = snd (mw_read_signal (eng_middleware (ipc_engine st)) nm))"
proof (cases "ipc_engine st' = ipc_engine st")
  case True
  then show ?thesis by (intro exI [of _ "eng_middleware (ipc_engine st)"]) simp
next
  case False
  obtain sess b r where h: "conn_session c = Some sess" "permitted (Some (sess_role sess)) m" "m \<noteq> 1"
    "handle_method env os c m payload st = Ok (r, out, b)" "ipc_engine st' = ipc_engine r"
    using handled_request [OF assms(1) False] by blast
  have role: "sess_role sess = Operator \<or> sess_role sess = Auditor" using assms(2) h(1) by auto
  show ?thesis
  proof (cases "m \<in> set read_methods")
    case True
    then show ?thesis using read_method_effect [OF h(4)] h(5) by simp
  next
    case no: False
    have "m \<notin> set config_methods" "m \<noteq> 4"
      using h(2) role by (auto simp: permitted_def can_config_def can_write_def split: if_splits)
    then have "ipc_engine r = ipc_engine st"
      using h(3,4) no by (auto simp: handle_method_def config_methods_def read_methods_def Let_def)
    then show ?thesis using False h(5) by simp
  qed
qed

subsection \<open>From the client's call to the middleware\<close>

text \<open>Names and values that fit the fields of a request.\<close>

definition name_ok :: "string \<Rightarrow> bool" where
  "name_ok nm \<longleftrightarrow> utf8_valid (string_bytes nm) \<and> length nm < 2 ^ 16"

definition value_ok :: "hal_value \<Rightarrow> bool" where
  "value_ok v \<longleftrightarrow> encodable v \<and> length (encode_hal_value v) < 2 ^ 31"

abbreviation write_payload :: "string \<Rightarrow> hal_value \<Rightarrow> byte list" where
  "write_payload nm v \<equiv> word_le (word_of_nat (length nm) :: u16) @ string_bytes nm @ encode_hal_value v"

text \<open>Any number of writes, and whether all succeeded.\<close>

fun client_writes :: "'s peer \<Rightarrow> (string \<times> hal_value) list \<Rightarrow> 's \<times> client \<Rightarrow> bool \<times> 's \<times> client" where
  "client_writes srv [] w = (True, w)"
| "client_writes srv ((nm, v) # xs) w =
     (case client_write_signal srv nm v w of
        (Inl _, w') \<Rightarrow> (False, w')
      | (Inr _, w') \<Rightarrow> client_writes srv xs w')"

text \<open>
  What the client relies on: a peer that answers writes and reads of signals with one frame each
  and keeps the last value written.
\<close>

locale signal_peer =
  fixes srv :: "'s peer" and token :: "byte list"
    and ready :: "'s \<Rightarrow> bool" and signal_value :: "'s \<Rightarrow> string \<Rightarrow> hal_value option"
  assumes answer_write: "ready s \<Longrightarrow> name_ok nm \<Longrightarrow> value_ok v \<Longrightarrow>
      \<exists>s'. srv s (build_request token 4 (write_payload nm v)) = (s', build_ok_response 4 (string_bytes ''ok''))
        \<and> ready s' \<and> signal_value s' = (signal_value s)(nm \<mapsto> v)"
    and answer_read: "ready s \<Longrightarrow> name_ok nm \<Longrightarrow> signal_value s nm = Some v \<Longrightarrow>
      \<exists>s'. srv s (build_request token 3 (string_bytes nm)) = (s', build_ok_response 3 (encode_hal_value v))
        \<and> ready s' \<and> signal_value s' = signal_value s"
begin

lemma client_write:
  assumes "ready s" "session_token cl = Some token" "inbox cl = []" "name_ok nm" "value_ok v"
  shows "\<exists>s'. client_write_signal srv nm v (s, cl) = (Inr (), s', cl) \<and> ready s' \<and> signal_value s' = (signal_value s)(nm \<mapsto> v)"
proof -
  obtain s' where s: "srv s (build_request token 4 (write_payload nm v)) = (s', build_ok_response 4 (string_bytes ''ok'') @ [])"
    "ready s'" "signal_value s' = (signal_value s)(nm \<mapsto> v)"
    using answer_write [OF assms(1,4,5)] by auto
  have "send_request srv 4 (write_payload nm v) (s, cl) = (Inr (string_bytes ''ok''), s', cl\<lparr>inbox := arriving []\<rparr>)"
    using s(1) assms(2,3) by (intro send_request_ok) simp_all
  then show ?thesis using s(2,3) assms(3) by (simp add: client_write_signal_def with_answer_def)
qed

lemma client_read:
  assumes "ready s" "session_token cl = Some token" "inbox cl = []" "name_ok nm" "signal_value s nm = Some v" "value_ok v"
  shows "\<exists>s'. client_read_signal utf8_error srv nm (s, cl) = (Inr v, s', cl) \<and> ready s' \<and> signal_value s' = signal_value s"
proof -
  obtain s' where s: "srv s (build_request token 3 (string_bytes nm)) = (s', build_ok_response 3 (encode_hal_value v) @ [])"
    "ready s'" "signal_value s' = signal_value s"
    using answer_read [OF assms(1,4,5)] by auto
  have "send_request srv 3 (string_bytes nm) (s, cl) = (Inr (encode_hal_value v), s', cl\<lparr>inbox := arriving []\<rparr>)"
    using s(1) assms(2,3,6) by (intro send_request_ok) (simp_all add: value_ok_def)
  then show ?thesis using s(2,3) assms(3,6) decode_hal_value_encode [of v utf8_error "[]"]
    by (simp add: client_read_signal_def with_answer_def value_ok_def)
qed

lemma writes_keep:
  assumes "ready s" "session_token cl = Some token" "inbox cl = []" "\<forall>(nm, v) \<in> set xs. name_ok nm \<and> value_ok v"
  shows "\<exists>s'. client_writes srv xs (s, cl) = (True, s', cl) \<and> ready s' \<and> signal_value s' = signal_value s ++ map_of (rev xs)"
  using assms
proof (induction xs arbitrary: s)
  case (Cons x xs)
  obtain nm v where x: "x = (nm, v)" by (cases x)
  obtain s1 where 1: "client_write_signal srv nm v (s, cl) = (Inr (), s1, cl)" "ready s1"
    "signal_value s1 = (signal_value s)(nm \<mapsto> v)"
    using client_write [of s cl nm v] Cons.prems x by auto
  obtain s2 where 2: "client_writes srv xs (s1, cl) = (True, s2, cl)" "ready s2" "signal_value s2 = signal_value s1 ++ map_of (rev xs)"
    using Cons.IH [of s1] Cons.prems 1(2) by auto
  have "signal_value s2 = signal_value s ++ map_of (rev (x # xs))"
    unfolding 2(3) 1(3) x by simp
  moreover have "client_writes srv (x # xs) (s, cl) = (True, s2, cl)" unfolding x using 1(1) 2(1) by simp
  ultimately show ?case using 2(2) by blast
qed simp

end

text \<open>The server as a peer: one pass of the loop of a connection for each request.\<close>

definition serve ::
    "ipc_env \<Rightarrow> (nat \<Rightarrow> ipc_os) \<Rightarrow> (('cb, 'w) ipc_state \<times> connection \<times> nat) peer" where
  "serve env os s bytes =
     (case s of (st, c, k) \<Rightarrow>
        (case read_frame (arriving bytes) of
           (Inr fr, _) \<Rightarrow>
             (case handle_message env (os k) st c fr of
                Ok (st', c', out) \<Rightarrow> ((st', c', k + 1), concat out)
              | Panic _ \<Rightarrow> (s, []))
         | (Inl _, _) \<Rightarrow> (s, [])))"

lemma connection_step:
  assumes "length token = TOKEN_WIRE_SIZE" and "length payload + 69 < 2 ^ 32"
  shows "handle_connection env os k st c (arriving (build_request token m payload) @ s) =
    bindo (handle_message env (os k) st c (token, m, payload)) (\<lambda>(st1, c1, out).
      mapo (\<lambda>(st2, outs). (st2, out @ outs)) (handle_connection env os (k + 1) st1 c1 s))"
proof -
  have "build_request token m payload \<noteq> []" by (simp add: build_request_def)
  then show ?thesis
    using read_frame_request [OF assms, of m s] by (subst handle_connection.simps) simp
qed

definition session_ready :: "ipc_env \<Rightarrow> (nat \<Rightarrow> ipc_os) \<Rightarrow> session_info \<Rightarrow> ('cb, 'w) ipc_state \<times> connection \<times> nat \<Rightarrow> bool" where
  "session_ready env os sess s \<longleftrightarrow> hash_ok (ie_hash env) \<and> sess_role sess \<in> {Engineer, Supervisor, System}
     \<and> conn_session (fst (snd s)) = Some sess \<and> (\<forall>k \<ge> snd (snd s). os_now_ms (os k) \<le> expires_at_ms sess)"

definition session_wire_token :: "ipc_env \<Rightarrow> session_info \<Rightarrow> byte list" where
  "session_wire_token env sess =
     build_wire_token (ie_hash env) (token_secret env) (session_id sess) (role_to_u8 (sess_role sess)) (expires_at_ms sess)"

definition server_value :: "('cb, 'w) ipc_state \<times> connection \<times> nat \<Rightarrow> string \<Rightarrow> hal_value option" where
  "server_value s nm = map_option fst (snd (mw_read_signal (eng_middleware (ipc_engine (fst s))) nm))"

lemma serve_request:
  assumes "session_ready env os sess (st, c, k)" and "permitted (Some (sess_role sess)) m" and "m \<noteq> 1"
    and "length payload + 69 < 2 ^ 32" and "handle_method env (os k) c m payload st = Ok (r, out, b)"
  shows "\<exists>st'. serve env os (st, c, k) (build_request (session_wire_token env sess) m payload) = ((st', c, k + 1), concat out)
    \<and> ipc_engine st' = ipc_engine r"
proof -
  have len: "length (session_wire_token env sess) = TOKEN_WIRE_SIZE"
    using assms(1) by (simp add: session_wire_token_def session_ready_def)
  have now: "\<not> expires_at_ms sess < os_now_ms (os k)" using assms(1) by (auto simp: session_ready_def)
  have "role_from_u8 (role_to_u8 (sess_role sess)) = Some (sess_role sess)"
    using assms(1) by (auto simp: session_ready_def role_from_to)
  then have "token_check env (os k) c (session_wire_token env sess) m = None"
    using assms(1,3) now by (simp add: token_check_def session_wire_token_def session_ready_def verify_built)
  then have "handle_message env (os k) st c (session_wire_token env sess, m, payload) = Ok (finish c (r, out, b))"
    using assms(1,2,3,5) by (simp add: handle_message_def session_ready_def)
  then show ?thesis
    using read_frame_request [OF len assms(4), of m "[]"] finish_engine [of c r out b]
    by (cases "finish c (r, out, b)") (simp add: serve_def)
qed

lemma on_write_payload:
  assumes "name_ok nm" and "value_ok v"
  shows "on_write_signal env os (write_payload nm v) st =
    (let e = ipc_engine st; mw = fst (mw_publish_signal (eng_middleware e) nm v (timestamp_of (os_now_ms os)))
     in done_ok 4 (string_bytes ''ok'') (set_engine st (e\<lparr>eng_middleware := mw\<rparr>)))"
proof -
  have n: "unat (word_of_nat (length nm) :: u16) = length nm"
    using assms(1) by (intro unat_of_nat_small) (simp add: name_ok_def)
  have l: "le_word (word_le (w :: u16)) = w" for w by (simp add: le_word_word_le)
  show ?thesis
    using assms decode_hal_value_encode [of v "ie_utf8_error env" "[]"] from_utf8_lossy_string [of nm]
    by (simp add: on_write_signal_def n l name_ok_def value_ok_def Let_def)
qed

interpretation ipc: signal_peer "serve env os" "session_wire_token env sess" "session_ready env os sess" server_value
  for env os sess
proof
  fix s :: "('cb, 'w) ipc_state \<times> connection \<times> nat" and nm v
  assume r: "session_ready env os sess s" and nm: "name_ok nm" and v: "value_ok v"
  obtain st c k where s: "s = (st, c, k)" by (cases s)
  have p: "permitted (Some (sess_role sess)) 4"
    using r by (auto simp: permitted_def config_methods_def can_write_def session_ready_def)
  have h: "handle_method env (os k) c 4 (write_payload nm v) st = Ok (on_write_signal env (os k) (write_payload nm v) st)"
    by (simp add: handle_method_def)
  have len: "length (write_payload nm v) + 69 < 2 ^ 32" using nm v by (simp add: name_ok_def value_ok_def)
  from serve_request [OF r [unfolded s] p _ len h [unfolded on_write_payload [OF nm v] Let_def]]
  obtain st' where st': "serve env os s (build_request (session_wire_token env sess) 4 (write_payload nm v)) =
      ((st', c, k + 1), build_ok_response 4 (string_bytes ''ok''))"
    "ipc_engine st' = (ipc_engine st)\<lparr>eng_middleware :=
       fst (mw_publish_signal (eng_middleware (ipc_engine st)) nm v (timestamp_of (os_now_ms (os k))))\<rparr>"
    using s by (auto simp: set_engine_def)
  have "server_value (st', c, k + 1) = (server_value s)(nm \<mapsto> v)"
    using st'(2) s by (auto simp: server_value_def mw.read_publish)
  moreover have "session_ready env os sess (st', c, k + 1)" using r s by (simp add: session_ready_def)
  ultimately show "\<exists>s'. serve env os s (build_request (session_wire_token env sess) 4 (write_payload nm v)) =
      (s', build_ok_response 4 (string_bytes ''ok'')) \<and> session_ready env os sess s' \<and> server_value s' = (server_value s)(nm \<mapsto> v)"
    using st'(1) by blast
next
  fix s :: "('cb, 'w) ipc_state \<times> connection \<times> nat" and nm v
  assume r: "session_ready env os sess s" and nm: "name_ok nm" and v: "server_value s nm = Some v"
  obtain st c k where s: "s = (st, c, k)" by (cases s)
  have p: "permitted (Some (sess_role sess)) 3"
    by (simp add: permitted_def config_methods_def can_read_def)
  obtain mw ts where mw: "mw_read_signal (eng_middleware (ipc_engine st)) nm = (mw, Some (v, ts))"
    using v s by (cases "mw_read_signal (eng_middleware (ipc_engine st)) nm") (auto simp: server_value_def)
  have h: "handle_method env (os k) c 3 (string_bytes nm) st =
      Ok (done_ok 3 (encode_hal_value v) (set_engine st ((ipc_engine st)\<lparr>eng_middleware := mw\<rparr>)))"
    using mw nm from_utf8_lossy_string [of nm] by (simp add: handle_method_def on_read_signal_def name_ok_def Let_def)
  have len: "length (string_bytes nm) + 69 < 2 ^ 32" using nm by (simp add: name_ok_def)
  from serve_request [OF r [unfolded s] p _ len h]
  obtain st' where st': "serve env os s (build_request (session_wire_token env sess) 3 (string_bytes nm)) =
      ((st', c, k + 1), build_ok_response 3 (encode_hal_value v))"
    "ipc_engine st' = (ipc_engine st)\<lparr>eng_middleware := mw\<rparr>"
    using s by (auto simp: set_engine_def)
  have "server_value (st', c, k + 1) = server_value s"
    using st'(2) s mw mw.read_read [of "eng_middleware (ipc_engine st)" nm] by (auto simp: server_value_def)
  moreover have "session_ready env os sess (st', c, k + 1)" using r s by (simp add: session_ready_def)
  ultimately show "\<exists>s'. serve env os s (build_request (session_wire_token env sess) 3 (string_bytes nm)) =
      (s', build_ok_response 3 (encode_hal_value v)) \<and> session_ready env os sess s' \<and> server_value s' = server_value s"
    using st'(1) by blast
qed


subsection \<open>Snapshots\<close>

lemma snapshot_entries_encode:
  assumes "\<forall>(nm, v, ts) \<in> set sigs. name_ok nm \<and> encodable v"
  shows "snapshot_entries utf8_error (length sigs)
      (concat (map (\<lambda>(nm, v, ts). word_le (word_of_nat (length nm) :: u16) @ string_bytes nm @ encode_hal_value v) sigs))
    = Inr (map (\<lambda>(nm, v, ts). (nm, v)) sigs)"
  using assms
proof (induction sigs)
  case (Cons x sigs)
  obtain nm v ts where x: "x = (nm, v, ts)" by (cases x)
  have n: "unat (word_of_nat (length nm) :: u16) = length nm" using Cons.prems x by (simp add: name_ok_def unat_of_nat)
  have nm: "from_utf8_lossy (string_bytes nm) = nm" using Cons.prems x by (auto simp: name_ok_def intro: from_utf8_lossy_string)
  show ?case using Cons decode_hal_value_encode [of v utf8_error] by (simp add: x n nm le_word_word_le Let_def)
qed simp

text \<open>
  C30: what a snapshot request answers is what the client gets. The client decodes the server's
  encoding of up to 65535 signals to exactly those signals, in order, with their values.
\<close>

theorem snapshot_roundtrip:
  assumes "length sigs < 2 ^ 16" and "\<forall>(nm, v, ts) \<in> set sigs. name_ok nm \<and> encodable v"
  shows "decode_snapshot_response utf8_error (encode_snapshot sigs) = Inr (map (\<lambda>(nm, v, ts). (nm, v)) sigs)"
proof -
  have "unat (word_of_nat (length sigs) :: u16) = length sigs" using assms(1) by (simp add: unat_of_nat)
  then show ?thesis using snapshot_entries_encode [OF assms(2), of utf8_error]
    by (simp add: decode_snapshot_response_def encode_snapshot_def le_word_word_le)
qed

subsection \<open>Sessions that go wrong\<close>

lemma word_le_one: "word_le (1 :: u64) = [1, 0, 0, 0, 0, 0, 0, 0]"
  by code_simp

lemma token_as_value:
  "decode_hal_value utf8_error (build_wire_token hash secret 1 r expires) = Inr (VS8 0, 2)"
  by (simp add: build_wire_token_def token_body_def word_le_one decode_hal_value_def read_fixed_def need_def le_word_def)

text \<open>
  The authentication of a new connection writes the token twice: once in \<^verbatim>\<open>handle_auth\<close> and once in
  the loop.
\<close>

lemma authentication_answers:
  assumes "os_peer (os k) = Inr (peer_pid, uid, gid)" and "ucast peer_pid = (pid :: u32)"
    and "is_uid_allowed (ie_whitelist env) r uid" and "r \<noteq> Hmi" and "hash_ok (ie_hash env)"
  shows "\<exists>s' token. serve env os (st, connection_new n, k)
      (build_request (replicate TOKEN_WIRE_SIZE 0) 1 (word_le pid @ [role_to_u8 r]))
        = (s', build_ok_response 1 token @ build_ok_response 1 token)
    \<and> token = build_wire_token (ie_hash env) (token_secret env) 1 (role_to_u8 r) (os_now_ms (os k) + token_ttl r)"
proof -
  let ?payload = "word_le pid @ [role_to_u8 r]"
  have frame: "read_frame (arriving (build_request (replicate TOKEN_WIRE_SIZE 0) 1 ?payload)) =
      (Inr (replicate TOKEN_WIRE_SIZE 0, 1, ?payload), [])"
    using read_frame_request [of "replicate TOKEN_WIRE_SIZE 0" ?payload 1 "[]"] by simp
  have pl: "le_word (take 4 ?payload) = pid" "?payload ! 4 = role_to_u8 r" "\<not> length ?payload < 5"
    by (simp_all add: le_word_u32 nth_append)
  have "handle_message env (os k) st (connection_new n) (replicate TOKEN_WIRE_SIZE 0, 1, ?payload) =
      Ok (finish (connection_new n\<lparr>next_session_id := 2, conn_session := Some \<lparr>session_id = 1, sess_role = r,
            expires_at_ms = os_now_ms (os k) + token_ttl r\<rparr>\<rparr>)
        (st, [build_ok_response 1 (build_wire_token (ie_hash env) (token_secret env) 1 (role_to_u8 r) (os_now_ms (os k) + token_ttl r)),
              build_ok_response 1 (build_wire_token (ie_hash env) (token_secret env) 1 (role_to_u8 r) (os_now_ms (os k) + token_ttl r))], True))"
    using assms pl by (simp add: handle_message_def token_check_def on_auth_def handle_auth_def connection_new_def role_from_to Let_def)
  then show ?thesis using frame by (simp add: serve_def finish_def split: prod.splits)
qed

text \<open>
  C26: after it has authenticated on a new connection, a client reads a wrong value. Whatever signal
  it asks for and whatever the server holds, its first \<^verbatim>\<open>read_signal\<close> takes the second copy of the
  authentication answer for the answer to its request, and returns the signed byte 0: the first two
  bytes of the token, read as a value. The answer to the request is left for the next call.
\<close>

theorem first_read_after_authentication:
  assumes "os_peer (os k) = Inr (peer_pid, uid, gid)" and "ucast peer_pid = (pid :: u32)"
    and "is_uid_allowed (ie_whitelist env) r uid" and "r \<noteq> Hmi" and "hash_ok (ie_hash env)"
  shows "\<exists>s1 s2 cl1 cl2. client_authenticate (serve env os) pid r ((st, connection_new n, k), client_connect) = (Inr (), s1, cl1)
    \<and> client_read_signal utf8_error (serve env os) nm (s1, cl1) = (Inr (VS8 0), s2, cl2)"
proof -
  obtain s1 token where a: "serve env os (st, connection_new n, k)
      (build_request (replicate TOKEN_WIRE_SIZE 0) 1 (word_le pid @ [role_to_u8 r]))
        = (s1, build_ok_response 1 token @ build_ok_response 1 token)"
    "token = build_wire_token (ie_hash env) (token_secret env) 1 (role_to_u8 r) (os_now_ms (os k) + token_ttl r)"
    using authentication_answers [where os = os and k = k, OF assms, of st n] by blast
  have len: "length token = TOKEN_WIRE_SIZE" using a(2) assms(5) by simp
  define cl1 where "cl1 = \<lparr>session_token = Some token, inbox = arriving (build_ok_response 1 token)\<rparr>"
  have resp: "client_read_response (arriving (build_ok_response 1 token) @ s) = (Inr (1, STATUS_OK, token), s)" for s
    using client_read_response_ok [of token 1 STATUS_OK s] len by (simp add: build_ok_response_def)
  have 1: "client_authenticate (serve env os) pid r ((st, connection_new n, k), client_connect) = (Inr (), s1, cl1)"
    using a(1) resp len by (simp add: client_authenticate_def client_connect_def cl1_def Let_def)
  obtain s2 out where "serve env os s1 (build_request token 3 (string_bytes nm)) = (s2, out)" by fastforce
  then have "client_read_signal utf8_error (serve env os) nm (s1, cl1) = (Inr (VS8 0), s2, cl1\<lparr>inbox := arriving out\<rparr>)"
    using resp a(2) by (simp add: client_read_signal_def with_answer_def send_request_def cl1_def Let_def token_as_value)
  then show ?thesis using 1 by blast
qed


text \<open>A session of the role \<^verbatim>\<open>Hmi\<close> cannot be had: its code is not one the server decodes.\<close>

lemma hmi_cannot_authenticate:
  assumes "length payload = 5" and "payload ! 4 = role_to_u8 Hmi"
  shows "handle_auth env os payload next = ([build_error_response 1 (''unknown role byte: '' @ dec_string 5)], next, None)"
  using assms by (simp add: handle_auth_def role_from_u8_def)

text \<open>The session number of a token is not compared with the session.\<close>

lemma foreign_token_accepted:
  assumes "hash_ok (ie_hash env)" and "conn_session c = Some sess" and "sess_role sess \<noteq> Hmi"
    and "os_now_ms os \<le> expires_at_ms sess" and "os_now_ms os \<le> expires" and "m \<noteq> 1"
  shows "token_check env os c (build_wire_token (ie_hash env) (token_secret env) other (role_to_u8 (sess_role sess)) expires) m = None"
  using assms by (auto simp: token_check_def verify_built role_from_to)

text \<open>A register index out of range ends the thread of the connection.\<close>

lemma register_index_panics:
  assumes "16 \<le> unat idx" and "eng_executor (ipc_engine st) = Some ex"
  shows "on_read_registers env (idx # rest) st = Panic AssertionFailed"
  using assms by (simp add: on_read_registers_def read_register_def REGISTER_COUNT_def)

subsection \<open>Witnesses\<close>

definition demo_ipc_env :: ipc_env where
  "demo_ipc_env = \<lparr>ie_hash = (\<lambda>_ _. replicate 32 7), token_secret = [1], ie_whitelist = default_whitelist,
     ie_deser = (\<lambda>_. Inl []), ie_utf8_error = (\<lambda>_. []), ie_yaml_error = (\<lambda>_. None), ie_debug_value = (\<lambda>_. [])\<rparr>"

definition demo_ipc_os :: ipc_os where
  "demo_ipc_os = \<lparr>os_now_ms = 5, os_random = 0, os_instant = 0, os_peer = Inr (42, 1000, 0), os_clone_error = None, os_health = ''Healthy''\<rparr>"

definition demo_session :: session_info where
  "demo_session = \<lparr>session_id = 1, sess_role = Engineer, expires_at_ms = 100\<rparr>"

definition demo_ipc_state :: "(nat, nat) ipc_state" where
  "demo_ipc_state = ipc_server_new (engine_new
     \<lparr>mw_transport = transport_new, mw_discovery = discovery_new, mw_qos = qos_new, mw_audit = [], start_time = 0\<rparr> [])"

definition demo_connection :: connection where
  "demo_connection = (connection_new 0)\<lparr>conn_session := Some demo_session\<rparr>"

lemmas demo_ipc_defs = demo_ipc_env_def demo_ipc_os_def demo_session_def demo_ipc_state_def demo_connection_def connection_new_def ipc_server_new_def

lemma demo_ready: "session_ready demo_ipc_env (\<lambda>_. demo_ipc_os) demo_session (demo_ipc_state, demo_connection, 0)"
  by (simp add: session_ready_def demo_ipc_defs hash_ok_def)

lemma demo_token_check:
  "m \<noteq> 1 \<Longrightarrow> token_check demo_ipc_env demo_ipc_os demo_connection (session_wire_token demo_ipc_env demo_session) m = None"
  using foreign_token_accepted [of demo_ipc_env demo_connection demo_session demo_ipc_os 100 m 1]
  by (simp add: session_wire_token_def demo_ipc_defs hash_ok_def)

lemma demo_permitted: "permitted (role_of demo_connection) m"
  by (simp add: permitted_def demo_ipc_defs can_config_def can_write_def can_read_def)

text \<open>An engineer pauses the engine.\<close>

lemma demo_pause:
  "\<exists>st' c' out. handle_message demo_ipc_env demo_ipc_os demo_ipc_state demo_connection
      (session_wire_token demo_ipc_env demo_session, 9, []) = Ok (st', c', out)
    \<and> ipc_engine st' \<noteq> ipc_engine demo_ipc_state"
proof -
  have "paused (engine_pause (ipc_engine demo_ipc_state)) \<noteq> paused (ipc_engine demo_ipc_state)"
    by (simp add: demo_ipc_defs engine_pause_def engine_new_def)
  then have "engine_pause (ipc_engine demo_ipc_state) \<noteq> ipc_engine demo_ipc_state" by metis
  then show ?thesis
    using demo_token_check [of 9] demo_permitted [of 9]
    by (auto simp: handle_message_def handle_method_def set_engine_def finish_def demo_connection_def Let_def)
qed

theorem no_change_without_right_witness:
  "\<exists>sess. conn_session demo_connection = Some sess \<and> permitted (Some (sess_role sess)) 9
    \<and> os_now_ms demo_ipc_os \<le> expires_at_ms sess"
  using demo_pause no_change_without_right [of demo_ipc_env demo_ipc_os demo_ipc_state demo_connection
      "session_wire_token demo_ipc_env demo_session" 9 "[]"]
  by blast

theorem read_only_roles_witness:
  "\<exists>st' c' out mw. handle_message demo_ipc_env demo_ipc_os demo_ipc_state (connection_new 0) ([], 9, []) = Ok (st', c', out)
    \<and> ipc_engine st' = (ipc_engine demo_ipc_state)\<lparr>eng_middleware := mw\<rparr>"
proof -
  have h: "handle_message demo_ipc_env demo_ipc_os demo_ipc_state (connection_new 0) ([], 9, []) =
      Ok (demo_ipc_state, connection_new 0, [build_error_response 9 ''unauthorized''])"
    by (simp add: handle_message_def token_check_def connection_new_def permitted_def config_methods_def can_config_def)
  then show ?thesis using read_only_roles [OF h] by (auto simp: connection_new_def)
qed


theorem snapshot_roundtrip_witness:
  "decode_snapshot_response (\<lambda>_. []) (encode_snapshot [(''x'', VU16 7, timestamp_of 5), (''y'', VBool True, timestamp_of 6)])
    = Inr [(''x'', VU16 7), (''y'', VBool True)]"
proof -
  have "name_ok ''x''" "name_ok ''y''" by (simp add: name_ok_def, code_simp)+
  then show ?thesis
    using snapshot_roundtrip [of "[(''x'', VU16 7, timestamp_of 5), (''y'', VBool True, timestamp_of 6)]" "\<lambda>_. []"] by simp
qed

theorem first_read_after_authentication_witness:
  "\<exists>s1 s2 cl1 cl2. client_authenticate (serve demo_ipc_env (\<lambda>_. demo_ipc_os)) 42 Engineer
      ((demo_ipc_state, connection_new 0, 0), client_connect) = (Inr (), s1, cl1)
    \<and> client_read_signal (\<lambda>_. []) (serve demo_ipc_env (\<lambda>_. demo_ipc_os)) ''x'' (s1, cl1) = (Inr (VS8 0), s2, cl2)"
  using first_read_after_authentication [of "\<lambda>_. demo_ipc_os" 0 42 1000 0 42 demo_ipc_env Engineer demo_ipc_state 0 "\<lambda>_. []" "''x''"]
  by (simp add: demo_ipc_defs hash_ok_def is_uid_allowed_def default_whitelist_def)

text \<open>A client subscribes to a signal and is told so.\<close>

lemma demo_subscribe:
  "handle_message demo_ipc_env demo_ipc_os demo_ipc_state demo_connection
      (session_wire_token demo_ipc_env demo_session, 0x14, string_bytes ''x'')
    = Ok (demo_ipc_state, demo_connection, [build_ok_response 0x14 (string_bytes ''subscribed'')])"
proof -
  have "from_utf8_lossy (string_bytes ''x'') = ''x''" by (rule from_utf8_lossy_string) code_simp
  then show ?thesis
    using demo_token_check [of "0x14"] demo_permitted [of "0x14"]
    by (simp add: handle_message_def handle_method_def on_subscribe_def session_sid_def finish_def cleanup_def drop_session_def
        demo_ipc_os_def demo_connection_def connection_new_def demo_ipc_state_def ipc_server_new_def Let_def)
qed


end
