(* ===== verification/Fbd_Compiler.thy ===== *)
theory Fbd_Compiler
  imports Rust_Str "HOL-Library.List_Lexorder" "HOL-Library.Char_ord"
begin

text \<open>
  The function block diagram compiler \<^verbatim>\<open>audesys-fbd-compiler/src/lib.rs\<close>, from its text format to
  instruction list text. Sources are ASCII. A \<^verbatim>\<open>BTreeMap\<close> is an association list in the order of
  its keys, which is the order of their bytes.
\<close>

datatype fb_kind =
    FbTon | FbTof | FbTp | FbCtu | FbCtd | FbCtud | FbSr | FbRs | FbRTrig | FbFTrig

definition fb_kinds :: "(string \<times> fb_kind) list" where
  "fb_kinds = [(''TON'', FbTon), (''TOF'', FbTof), (''TP'', FbTp), (''CTU'', FbCtu), (''CTD'', FbCtd),
     (''CTUD'', FbCtud), (''SR'', FbSr), (''RS'', FbRs), (''R_TRIG'', FbRTrig), (''F_TRIG'', FbFTrig)]"

definition fb_kind_from_str :: "string \<Rightarrow> fb_kind option" where
  "fb_kind_from_str s = map_of fb_kinds s"

fun fb_il_name :: "fb_kind \<Rightarrow> string" where
  "fb_il_name FbTon = ''TON''"
| "fb_il_name FbTof = ''TOF''"
| "fb_il_name FbTp = ''TP''"
| "fb_il_name FbCtu = ''CTU''"
| "fb_il_name FbCtd = ''CTD''"
| "fb_il_name FbCtud = ''CTUD''"
| "fb_il_name FbSr = ''SR''"
| "fb_il_name FbRs = ''RS''"
| "fb_il_name FbRTrig = ''R_TRIG''"
| "fb_il_name FbFTrig = ''F_TRIG''"

type_synonym btree = "(string \<times> string) list"

fun bt_insert :: "string \<Rightarrow> string \<Rightarrow> btree \<Rightarrow> btree" where
  "bt_insert k v [] = [(k, v)]"
| "bt_insert k v ((k1, v1) # t) =
     (if k < k1 then (k, v) # (k1, v1) # t else if k = k1 then (k, v) # t else (k1, v1) # bt_insert k v t)"

record fb_block =
  fb_name :: string
  fb_kind :: fb_kind
  fb_inputs :: btree
  fb_outputs :: btree

subsection \<open>Parser\<close>

definition fbd_tokenize :: "string \<Rightarrow> string list" where
  "fbd_tokenize source =
     filter (\<lambda>l. l \<noteq> [] \<and> \<not> starts_with l '';'' \<and> \<not> starts_with l ''//'') (map trim (str_lines source))"

definition split_dot :: "string \<Rightarrow> (string \<times> string) option" where
  "split_dot s = split_once ''.'' s"

definition parse_assignment :: "string \<Rightarrow> (string \<times> string) option" where
  "parse_assignment line = map_option (\<lambda>(l, r). (trim l, trim r)) (split_once '':='' line)"

definition has_block :: "string \<Rightarrow> fb_block list \<Rightarrow> bool" where
  "has_block nm blocks \<longleftrightarrow> list_ex (\<lambda>b. fb_name b = nm) blocks"

text \<open>The first block with the name is changed.\<close>

primrec update_block :: "string \<Rightarrow> (fb_block \<Rightarrow> fb_block) \<Rightarrow> fb_block list \<Rightarrow> fb_block list" where
  "update_block nm f [] = []"
| "update_block nm f (b # bs) = (if fb_name b = nm then f b # bs else b # update_block nm f bs)"

type_synonym fbd_state = "fb_block list \<times> (string \<times> string) list"

definition block_statement :: "string \<Rightarrow> string \<Rightarrow> fbd_state \<Rightarrow> string + fbd_state" where
  "block_statement line rest st =
     (case st of (blocks, outputs) \<Rightarrow>
        (case split_whitespace rest of
           nm # kind_str # _ \<Rightarrow>
             (case fb_kind_from_str kind_str of
                None \<Rightarrow> Inl (''unknown block kind: '' @ kind_str)
              | Some kind \<Rightarrow>
                  if has_block nm blocks then Inl (''duplicate block name: '' @ nm)
                  else Inr (blocks @ [\<lparr>fb_name = nm, fb_kind = kind, fb_inputs = [], fb_outputs = []\<rparr>], outputs))
         | _ \<Rightarrow> Inl (''malformed BLOCK statement: '' @ line)))"

definition wiring_statement :: "string \<Rightarrow> string \<Rightarrow> fbd_state \<Rightarrow> string + fbd_state" where
  "wiring_statement lhs rhs st =
     (case st of (blocks, outputs) \<Rightarrow>
        (case split_dot lhs of
           Some (block_name, pin) \<Rightarrow>
             if has_block block_name blocks
             then Inr (update_block block_name (\<lambda>b. b\<lparr>fb_inputs := bt_insert pin rhs (fb_inputs b)\<rparr>) blocks, outputs)
             else Inl (''unknown block in wiring: '' @ block_name)
         | None \<Rightarrow>
             (case split_dot rhs of
                Some (src_block, src_pin) \<Rightarrow>
                  if has_block lhs blocks
                  then Inl (''invalid wiring: lhs '' @ CHR 0x27 # lhs @ CHR 0x27 # '' is a block name, expected output variable'')
                  else if \<not> has_block src_block blocks then Inl (''unknown block in output wiring: '' @ src_block)
                  else Inr (blocks, outputs @ [(lhs, src_block @ ''.'' @ src_pin)])
              | None \<Rightarrow> Inr (blocks, outputs @ [(lhs, rhs)]))))"

definition fbd_line :: "string \<Rightarrow> fbd_state \<Rightarrow> string + fbd_state" where
  "fbd_line l st =
     (let line = trim_end l in
      if line = [] then Inr st
      else
        (case strip_prefix line ''BLOCK '' of
           Some rest \<Rightarrow> block_statement line rest st
         | None \<Rightarrow>
             (case parse_assignment line of
                Some (lhs, rhs) \<Rightarrow> wiring_statement (trim lhs) (trim rhs) st
              | None \<Rightarrow> Inl (''unrecognized statement: '' @ line))))"

primrec fbd_lines :: "string list \<Rightarrow> fbd_state \<Rightarrow> string + fbd_state" where
  "fbd_lines [] st = Inr st"
| "fbd_lines (l # ls) st = (case fbd_line l st of Inl e \<Rightarrow> Inl e | Inr st1 \<Rightarrow> fbd_lines ls st1)"

definition store_output :: "fb_block list \<Rightarrow> string \<times> string \<Rightarrow> fb_block list" where
  "store_output blocks out =
     (case split_dot (snd out) of
        Some (src_block, src_pin) \<Rightarrow>
          update_block src_block (\<lambda>b. b\<lparr>fb_outputs := bt_insert (fst out) src_pin (fb_outputs b)\<rparr>) blocks
      | None \<Rightarrow> blocks)"

definition parse_blocks :: "string list \<Rightarrow> string + fb_block list" where
  "parse_blocks lines =
     (case fbd_lines lines ([], []) of
        Inl e \<Rightarrow> Inl e
      | Inr (blocks, outputs) \<Rightarrow>
          (let blocks1 = foldl store_output blocks outputs in
           if blocks1 = [] then Inl ''no function blocks found'' else Inr blocks1))"

subsection \<open>Code generator\<close>

definition block_text :: "fb_block \<Rightarrow> string" where
  "block_text b =
     ''; BLOCK '' @ fb_name b @ '' '' @ fb_il_name (fb_kind b) @ newline
     @ concat (map (\<lambda>(pin, v). ''LD '' @ v @ newline @ ''ST '' @ fb_name b @ ''.'' @ pin @ newline) (fb_inputs b))
     @ ''CAL '' @ fb_name b @ newline"

definition output_text :: "fb_block \<Rightarrow> string" where
  "output_text b =
     concat (map (\<lambda>(target, pin). newline @ ''; Output '' @ target @ newline
       @ ''LD '' @ fb_name b @ ''.'' @ pin @ newline @ ''ST '' @ target @ newline) (fb_outputs b))"

definition generate_il :: "fb_block list \<Rightarrow> string" where
  "generate_il blocks =
     trim_end (foldl (\<lambda>il b. il @ (if il \<noteq> [] then newline else []) @ block_text b) [] blocks
               @ concat (map output_text blocks))"

definition fbd_compile :: "string \<Rightarrow> string + string" where
  "fbd_compile source =
     (let lines = fbd_tokenize source in
      if lines = [] then Inl ''empty FBD source''
      else (case parse_blocks lines of Inl e \<Rightarrow> Inl e | Inr blocks \<Rightarrow> Inr (generate_il blocks)))"

end
