(* ===== verification/Fbd_Correct.thy ===== *)
theory Fbd_Correct
  imports Fbd_Compiler Il_Text Il_Correct
begin

text \<open>
  The function block compiler together with the instruction list compiler and the executor. The
  text is read back as the intended statements, but a compiled diagram stops at its first block:
  the call of a block has no label to go to and is resolved to the final halt.
\<close>

subsection \<open>Statements of a diagram\<close>

definition input_ops :: "fb_block \<Rightarrow> il_op list" where
  "input_ops b = concat (map (\<lambda>(pin, v). [(''LD'', v), (''ST'', fb_name b @ ''.'' @ pin)]) (fb_inputs b))"

definition block_ops :: "fb_block \<Rightarrow> il_op list" where
  "block_ops b = input_ops b @ [(''CAL'', fb_name b)]"

definition output_ops :: "fb_block \<Rightarrow> il_op list" where
  "output_ops b = concat (map (\<lambda>(target, pin). [(''LD'', fb_name b @ ''.'' @ pin), (''ST'', target)]) (fb_outputs b))"

definition diagram_ops :: "fb_block list \<Rightarrow> il_op list" where
  "diagram_ops bs = concat (map block_ops bs) @ concat (map output_ops bs)"

text \<open>The lines of the text: operations, comments and blank lines.\<close>

datatype il_line = Op il_op | Comment string

fun line_text :: "il_line \<Rightarrow> string" where
  "line_text (Op mv) = op_line mv"
| "line_text (Comment c) = c"

fun line_ops :: "il_line \<Rightarrow> il_op list" where
  "line_ops (Op mv) = [mv]"
| "line_ops (Comment _) = []"

definition comment_ok :: "string \<Rightarrow> bool" where
  "comment_ok c \<longleftrightarrow> c = [] \<or> (take 2 c = ''; '' \<and> CHR 0x0A \<notin> set c \<and> \<not> is_ws (last c))"

fun il_line_ok :: "il_line \<Rightarrow> bool" where
  "il_line_ok (Op mv) = op_ok mv"
| "il_line_ok (Comment c) = comment_ok c"

definition block_lines :: "fb_block \<Rightarrow> il_line list" where
  "block_lines b = Comment (''; BLOCK '' @ fb_name b @ '' '' @ fb_il_name (fb_kind b)) # map Op (block_ops b)"

definition output_lines :: "fb_block \<Rightarrow> il_line list" where
  "output_lines b = concat (map (\<lambda>(target, pin).
     [Comment [], Comment (''; Output '' @ target), Op (''LD'', fb_name b @ ''.'' @ pin), Op (''ST'', target)]) (fb_outputs b))"

definition diagram_lines :: "fb_block list \<Rightarrow> il_line list" where
  "diagram_lines bs =
     (case bs of [] \<Rightarrow> [] | b # bs' \<Rightarrow> block_lines b @ concat (map (\<lambda>b. Comment [] # block_lines b) bs'))
     @ concat (map output_lines bs)"

abbreviation lines_text :: "il_line list \<Rightarrow> string" where
  "lines_text ls \<equiv> concat (map (\<lambda>l. line_text l @ newline) ls)"

lemma map_op_text: "lines_text (map Op (input_ops b)) =
    concat (map (\<lambda>(pin, v). ''LD '' @ v @ newline @ ''ST '' @ fb_name b @ ''.'' @ pin @ newline) (fb_inputs b))"
proof -
  have "lines_text (map Op (concat (map (\<lambda>(pin, v). [(''LD'', v), (''ST'', fb_name b @ ''.'' @ pin)]) xs))) =
      concat (map (\<lambda>(pin, v). ''LD '' @ v @ newline @ ''ST '' @ fb_name b @ ''.'' @ pin @ newline) xs)" for xs
    by (induction xs) (auto simp: op_line_def)
  then show ?thesis by (simp add: input_ops_def)
qed

lemma block_text_lines: "block_text b = lines_text (block_lines b)"
  using map_op_text [of b] by (simp add: block_text_def block_lines_def block_ops_def op_line_def)

lemma output_text_lines: "output_text b = lines_text (output_lines b)"
proof -
  have "concat (map (\<lambda>(target, pin). newline @ ''; Output '' @ target @ newline
       @ ''LD '' @ fb_name b @ ''.'' @ pin @ newline @ ''ST '' @ target @ newline) xs)
    = lines_text (concat (map (\<lambda>(target, pin).
       [Comment [], Comment (''; Output '' @ target), Op (''LD'', fb_name b @ ''.'' @ pin), Op (''ST'', target)]) xs))" for xs
    by (induction xs) (auto simp: op_line_def)
  then show ?thesis by (simp add: output_text_def output_lines_def)
qed

lemma blocks_text_lines:
  assumes "il \<noteq> []"
  shows "foldl (\<lambda>il b. il @ (if il \<noteq> [] then newline else []) @ block_text b) il bs
    = il @ lines_text (concat (map (\<lambda>b. Comment [] # block_lines b) bs))"
  using assms by (induction bs arbitrary: il) (simp_all add: block_text_lines)

lemma generate_lines: "generate_il bs = trim_end (lines_text (diagram_lines bs))"
proof -
  have o: "concat (map output_text bs) = lines_text (concat (map output_lines bs))" for bs
    by (induction bs) (simp_all add: output_text_lines)
  show ?thesis
  proof (cases bs)
    case (Cons b bs')
    have "block_text b \<noteq> []" by (simp add: block_text_def)
    from blocks_text_lines [OF this, of bs'] show ?thesis
      using o [of bs] by (simp add: generate_il_def diagram_lines_def Cons block_text_lines)
  qed (simp add: generate_il_def diagram_lines_def)
qed

lemma output_lines_ops: "concat (map line_ops (output_lines b)) = output_ops b"
proof -
  have "concat (map line_ops (concat (map (\<lambda>(target, pin).
      [Comment [], Comment (''; Output '' @ target), Op (''LD'', fb_name b @ ''.'' @ pin), Op (''ST'', target)]) xs)))
    = concat (map (\<lambda>(target, pin). [(''LD'', fb_name b @ ''.'' @ pin), (''ST'', target)]) xs)" for xs
    by (induction xs) auto
  then show ?thesis by (simp add: output_lines_def output_ops_def)
qed

lemma block_lines_ops: "concat (map line_ops (block_lines b)) = block_ops b"
  by (simp add: block_lines_def comp_def)

lemma diagram_lines_ops: "concat (map line_ops (diagram_lines bs)) = diagram_ops bs"
proof -
  have 1: "concat (map line_ops (concat (map (\<lambda>b. Comment [] # block_lines b) bs))) = concat (map block_ops bs)" for bs
    by (induction bs) (simp_all add: block_lines_ops)
  have 2: "concat (map line_ops (concat (map output_lines bs))) = concat (map output_ops bs)" for bs
    by (induction bs) (simp_all add: output_lines_ops)
  show ?thesis by (cases bs) (simp_all add: diagram_lines_def diagram_ops_def 1 2 block_lines_ops output_lines_ops)
qed

subsection \<open>Reading the text\<close>

lemma line_tokens_comment: "comment_ok c \<Longrightarrow> line_tokens c = []"
proof (cases "c = []")
  case True
  then show ?thesis by (simp add: line_tokens_def trim_def)
next
  case False
  assume "comment_ok c"
  then have c: "take 2 c = ''; ''" "\<not> is_ws (last c)" using False by (auto simp: comment_ok_def)
  then obtain d where d: "c = CHR '';'' # CHR '' '' # d" by (cases c; cases "tl c") auto
  have w: "is_ws CHR '' ''" "\<not> is_ws CHR '';''" by code_simp+
  obtain xs x where x: "c = xs @ [x]" "\<not> is_ws x" using c(2) False by (cases c rule: rev_cases) auto
  have "dropWhile is_ws c = c" using w d by simp
  then have "trim c = c" using x by (simp add: trim_def)
  moreover have "remove_inline_comments c = CHR '';'' # remove_comments False (CHR '' '' # d)"
    by (simp add: d remove_inline_comments_def)
  moreover have "\<exists>e. remove_comments False (CHR '' '' # d) = CHR '' '' # e" by (cases d) auto
  moreover have "parse_mnemonic (to_upper '';'') = None" by code_simp
  ultimately show ?thesis using w d by (auto simp: line_tokens_def split_whitespace_def Let_def)
qed

lemma line_text_line:
  assumes "il_line_ok l"
  shows "CHR 0x0A \<notin> set (line_text l) \<and> (line_text l = [] \<or> last (line_text l) \<noteq> CHR 0x0D)"
proof (cases l)
  case (Op mv)
  then show ?thesis using line_tokens_op(2) [of mv] assms by (simp add: line_ok_def)
next
  case (Comment c)
  have "is_ws CHR 0x0D" by code_simp
  then show ?thesis using assms Comment by (auto simp: comment_ok_def)
qed

lemma parse_lines:
  "list_all il_line_ok ls \<Longrightarrow> parse (concat (map (line_tokens \<circ> line_text) ls)) = map op_stmt (concat (map line_ops ls))"
proof (induction ls)
  case (Cons l ls)
  show ?case
  proof (cases l)
    case (Op mv)
    obtain t mk where t: "line_tokens (op_line mv) = [t, TkIdent (snd mv)]" "operand_stmt t = Some mk" "mk (snd mv) = op_stmt mv"
      using line_tokens_op(1) [of mv] Cons.prems Op by auto
    then show ?thesis using Cons Op by (simp add: expect_ident_def)
  next
    case (Comment c)
    then show ?thesis using Cons by (simp add: line_tokens_comment)
  qed
qed simp

lemma word_ends: "word_ok w \<Longrightarrow> w \<noteq> [] \<and> \<not> is_ws (last w) \<and> CHR 0x0A \<notin> set w"
proof -
  have "is_ws CHR 0x0A" by code_simp
  then show "word_ok w \<Longrightarrow> w \<noteq> [] \<and> \<not> is_ws (last w) \<and> CHR 0x0A \<notin> set w"
    by (auto simp: word_ok_def list_all_iff dest: last_in_set)
qed

lemma parse_diagram:
  assumes "ls \<noteq> []" and "list_all il_line_ok ls" and "last ls = Op mv"
  shows "parse (tokenize (trim_end (lines_text ls))) = map op_stmt (concat (map line_ops ls))"
proof -
  obtain xs where ls: "ls = xs @ [Op mv]" using assms(1,3) by (metis append_butlast_last_id)
  have mv: "op_ok mv" using assms(2) ls by simp
  have last: "op_line mv \<noteq> []" "\<not> is_ws (last (op_line mv))"
    using mv word_ends [of "snd mv"] by (auto simp: op_ok_def op_line_def)
  have "trim_end (lines_text ls) = lines_text xs @ op_line mv"
    using trim_end_last [OF last, of "lines_text xs"] ls by simp
  moreover have "str_lines (concat (map (\<lambda>l. l @ newline) (map line_text xs)) @ op_line mv) = map line_text xs @ [op_line mv]"
    using assms(2) ls line_tokens_op(2) [OF mv] line_text_line
    by (intro str_lines_terminated) (auto simp: list_all_iff)
  ultimately have "tokenize (trim_end (lines_text ls)) = concat (map (line_tokens \<circ> line_text) ls)"
    using ls by (simp add: tokenize_def comp_def)
  then show ?thesis using parse_lines [OF assms(2)] by simp
qed

subsection \<open>What the text needs\<close>

lemma block_lines_ok:
  assumes "list_all op_ok (block_ops b)"
  shows "list_all il_line_ok (block_lines b)"
proof -
  have "CHR 0x0A \<notin> set (fb_name b)" using assms word_ends by (auto simp: block_ops_def op_ok_def)
  moreover have "list_all (\<lambda>c. \<not> is_ws c) ''NFPUDRSG''" by code_simp
  then have "CHR 0x0A \<notin> set (fb_il_name k) \<and> \<not> is_ws (last (fb_il_name k)) \<and> fb_il_name k \<noteq> []" for k
    by (cases k) simp_all
  ultimately show ?thesis using assms by (auto simp: block_lines_def list_all_iff comment_ok_def)
qed

lemma output_lines_ok:
  assumes "list_all op_ok (output_ops b)"
  shows "list_all il_line_ok (output_lines b)"
proof -
  have "list_all il_line_ok (concat (map (\<lambda>(target, pin). [Comment [], Comment (''; Output '' @ target),
      Op (''LD'', fb_name b @ ''.'' @ pin), Op (''ST'', target)]) xs))"
    if "list_all op_ok (concat (map (\<lambda>(target, pin). [(''LD'', fb_name b @ ''.'' @ pin), (''ST'', target)]) xs))" for xs
    using that
  proof (induction xs)
    case (Cons x xs)
    then have "word_ok (fst x)" by (auto simp: op_ok_def split: prod.splits)
    then show ?case using Cons word_ends [of "fst x"] by (auto simp: comment_ok_def split: prod.splits)
  qed simp
  then show ?thesis using assms by (simp add: output_lines_def output_ops_def)
qed

lemma last_output_line: "concat (map output_lines bs) = [] \<or> (\<exists>mv. last (concat (map output_lines bs)) = Op mv)"
proof (induction bs)
  case (Cons b bs)
  have "output_lines b = [] \<or> (\<exists>mv. last (output_lines b) = Op mv)"
    by (cases "fb_outputs b" rule: rev_cases) (auto simp: output_lines_def split: prod.splits)
  then show ?case using Cons by (auto simp: last_append simp del: concat_eq_Nil_conv)
qed simp

lemma generated_statements:
  assumes "bs \<noteq> []" and "list_all op_ok (diagram_ops bs)"
  shows "parse (tokenize (generate_il bs)) = map op_stmt (diagram_ops bs)"
proof -
  obtain b bs' where bs: "bs = b # bs'" using assms(1) by (cases bs) auto
  have ok: "\<forall>b \<in> set bs. list_all op_ok (block_ops b) \<and> list_all op_ok (output_ops b)"
    using assms(2) by (auto simp: diagram_ops_def list_all_iff)
  then have all: "list_all il_line_ok (diagram_lines bs)"
    using block_lines_ok output_lines_ok
    by (fastforce simp: diagram_lines_def bs list_all_iff comment_ok_def)
  have bl: "\<exists>mv. last (block_lines b) = Op mv \<and> block_lines b \<noteq> []" for b
    by (simp add: block_lines_def block_ops_def)
  have "\<exists>mv. last (block_lines b @ concat (map (\<lambda>b. Comment [] # block_lines b) bs')) = Op mv"
    using bl by (cases bs' rule: rev_cases) (auto simp: last_append)
  then have "\<exists>mv. last (diagram_lines bs) = Op mv"
    using last_output_line [of bs] unfolding diagram_lines_def bs list.case by (metis last_append append_Nil2)
  moreover have "diagram_lines bs \<noteq> []" by (simp add: diagram_lines_def bs block_lines_def)
  ultimately show ?thesis using parse_diagram all by (metis generate_lines diagram_lines_ops)
qed

text \<open>Nothing of the statements depends on the kind of a block: it only goes into a comment.\<close>

lemma kind_is_lost:
  assumes "bs \<noteq> []" and "list_all op_ok (diagram_ops bs)"
  shows "il_compile (generate_il (map (\<lambda>b. b\<lparr>fb_kind := k b\<rparr>) bs)) = il_compile (generate_il bs)"
proof -
  have "block_ops (b\<lparr>fb_kind := x\<rparr>) = block_ops b" "output_ops (b\<lparr>fb_kind := x\<rparr>) = output_ops b" for b x
    by (simp_all add: block_ops_def input_ops_def output_ops_def)
  then have e: "diagram_ops (map (\<lambda>b. b\<lparr>fb_kind := k b\<rparr>) bs) = diagram_ops bs"
    by (simp add: diagram_ops_def comp_def)
  have "parse (tokenize (generate_il (map (\<lambda>b. b\<lparr>fb_kind := k b\<rparr>) bs))) = parse (tokenize (generate_il bs))"
    using generated_statements [of "map (\<lambda>b. b\<lparr>fb_kind := k b\<rparr>) bs"] generated_statements [of bs] assms e by simp
  then show ?thesis by (simp add: il_compile_def)
qed

subsection \<open>A call without a label\<close>

definition no_labels :: "il_statement list \<Rightarrow> bool" where
  "no_labels ss \<longleftrightarrow> list_all (\<lambda>s. \<forall>nm. s \<noteq> SLabel nm) ss"

lemma get_var_reg_frame:
  "get_var_reg cg nm = Ok (cg1, r) \<Longrightarrow> cg_instructions cg1 = cg_instructions cg \<and> labels cg1 = labels cg \<and> label_refs cg1 = label_refs cg"
  by (auto simp: get_var_reg_def Let_def split: option.splits if_splits)

lemma with_reg_frame:
  "with_reg cg nm code = Ok cg' \<Longrightarrow> \<exists>is. cg_instructions cg' = cg_instructions cg @ is \<and> labels cg' = labels cg \<and> label_refs cg' = label_refs cg"
  by (auto simp: with_reg_def emit_all_def outcome_simps dest!: get_var_reg_frame)

definition extends :: "codegen \<Rightarrow> codegen \<Rightarrow> bool" where
  "extends cg cg' \<longleftrightarrow> labels cg' = labels cg \<and> (\<exists>is. cg_instructions cg' = cg_instructions cg @ is)
     \<and> (\<exists>rs. label_refs cg' = label_refs cg @ rs \<and> (\<forall>r \<in> set rs. current_ip cg \<le> fst r))"

lemma with_reg_extends: "with_reg cg nm code = Ok cg' \<Longrightarrow> extends cg cg'"
  by (auto simp: extends_def dest!: with_reg_frame)

lemma compile_stmt_extends:
  assumes "compile_stmt cg s = Ok cg'" and "\<forall>nm. s \<noteq> SLabel nm"
  shows "extends cg cg'"
proof (cases s)
  case (SCmp op v)
  then obtain cg1 where 1: "with_reg cg v (\<lambda>r. [cmp (cmp_opcode op) CR_REG r]) = Ok cg1" "cg' = materialize_cr_from_flags cg1"
    using assms(1) by (auto simp: outcome_simps)
  then show ?thesis using with_reg_extends [OF 1(1)]
    by (auto simp: extends_def materialize_cr_from_flags_def emit_all_def Let_def)
qed (use assms in \<open>auto simp: extends_def emit_all_def add_ref_def emit_bool_test_and_jump_def Let_def dest!: with_reg_frame\<close>)

lemma compile_stmts_extends: "compile_stmts cg ss = Ok cg' \<Longrightarrow> no_labels ss \<Longrightarrow> extends cg cg'"
proof (induction ss arbitrary: cg)
  case Nil
  then show ?case by (simp add: extends_def)
next
  case (Cons s ss)
  obtain cg1 where c1: "compile_stmt cg s = Ok cg1" and c2: "compile_stmts cg1 ss = Ok cg'"
    using Cons.prems(1) by (auto simp: outcome_simps)
  have "extends cg cg1" "extends cg1 cg'"
    using compile_stmt_extends [OF c1] Cons.IH [OF c2] Cons.prems(2) by (auto simp: no_labels_def)
  then show ?case by (fastforce simp: extends_def)
qed

lemma compile_stmts_append:
  "compile_stmts cg (xs @ ys) = bindo (compile_stmts cg xs) (\<lambda>cg1. compile_stmts cg1 ys)"
  by (induction xs arbitrary: cg) (simp_all add: bindo_assoc)

lemma backpatch_prefix:
  assumes "\<forall>r \<in> set rs. n \<le> fst r"
  shows "take n (foldl (backpatch lbls) is rs) = take n is \<and> length (foldl (backpatch lbls) is rs) = length is"
  using assms by (induction rs arbitrary: "is") (auto simp: backpatch_def Let_def)

lemma halt_kept: "is ! j = halt \<Longrightarrow> foldl (backpatch lbls) is rs ! j = halt"
proof (induction rs arbitrary: "is")
  case (Cons r rs)
  have "backpatch lbls is r ! j = halt"
    using Cons.prems
    by (cases "fst r < length is"; cases "fst r = j") (simp_all add: backpatch_def Let_def patch_def halt_def inst_def list_update_beyond)
  then show ?case using Cons.IH by simp
qed simp

lemma call_to_halt:
  assumes "instructions (ex_program ex) = pre @ call t # post @ [halt]" and "unat t = length pre + length post + 1"
    and "list_all linear pre" and "ip (ex_vm ex) = 0" and "\<not> debug_mode (ex_debug ex)"
    and "exec_list p (ex_vm ex) (map erase pre) = Ok m"
  shows "\<exists>ex'. run_to_halt p ex = Some (Ok (ex', length pre + 2)) \<and> signals (ex_vm ex') = signals m"
proof -
  let ?ex1 = "ex\<lparr>ex_vm := m\<rparr>"
  let ?m = "set_ip (push_call_ip m (length pre + 1)) (unat t)"
  let ?ex2 = "ex\<lparr>ex_vm := ?m\<rparr>"
  have loop: "run_loop p 0 ex = run_loop p (length pre) ?ex1" and at: "ip m = length pre"
    using run_linear [of ex "[]" pre "call t # post @ [halt]" p m 0] assms by simp_all
  have "step p ?ex1 = Ok (?ex2, Continue)"
    using at assms(1,5)
    by (simp add: step_def Let_def record_trace_def nth_append call_def execute_instruction_def exec_call_def is_jump_def)
  then have loop2: "run_loop p 0 ex = run_loop p (length pre + 1) ?ex2" using loop run_loop_Continue by simp
  have "instructions (ex_program ex) ! unat t = halt" "unat t < length (instructions (ex_program ex))"
    unfolding assms(1,2) by (simp_all add: nth_append)
  then obtain n where "step p ?ex2 = Ok (?ex2\<lparr>ex_vm := ?m\<lparr>ip := n\<rparr>\<rparr>, Halted)"
    using halt_step [of ?ex2 p] assms(5) by (auto simp: set_ip_def)
  from run_loop_stop [OF this] loop2 show ?thesis
    by (auto simp: run_to_halt_def set_ip_def push_call_ip_def)
qed

text \<open>The compiled code of statements with a call and no labels.\<close>

lemma compile_first_call:
  assumes "compile_ast (ss @ SCall nm # rest) = Ok code" and "list_all in_fragment ss" and "no_labels (ss @ rest)"
  shows "\<exists>is post. code = (load_imm TRUE_REG (VBool True) # is) @ call (of_nat (length code - 1)) # post @ [halt]
    \<and> list_all (\<lambda>i. \<not> is_control (opcode i)) is
    \<and> (\<forall>p m st. il_rel m st \<longrightarrow> (\<exists>m'. exec_list p m is = Ok m' \<and> il_rel m' (il_run ss st)))"
proof -
  let ?cg = "emit_all codegen_new [load_imm TRUE_REG (VBool True)]"
  obtain cg1 cg where c1: "compile_stmts ?cg ss = Ok cg1"
    and c2: "compile_stmts (add_ref (emit_all cg1 [call 0]) (current_ip cg1) nm) rest = Ok cg"
    and code: "code = foldl (backpatch (labels cg)) (cg_instructions cg @ [halt]) (label_refs cg)"
    using assms(1) by (auto simp: compile_ast_def compile_stmts_append outcome_simps Let_def emit_all_def)
  have "cg_inv ?cg" by (simp add: cg_inv_def codegen_new_def emit_all_def)
  then obtain "is" where i: "cg_instructions cg1 = load_imm TRUE_REG (VBool True) # is" "label_refs cg1 = []"
    "list_all (\<lambda>i. \<not> is_control (opcode i)) is"
    "\<forall>p m st. il_rel m st \<longrightarrow> (\<exists>m'. exec_list p m is = Ok m' \<and> il_rel m' (il_run ss st))"
    using compile_stmts_correct [OF c1 assms(2)] by (auto simp: emit_all_def codegen_new_def)
  let ?n = "Suc (length is)"
  have l1: "labels cg1 = []"
    using compile_stmts_extends [OF c1] assms(3) by (simp add: extends_def no_labels_def emit_all_def codegen_new_def)
  obtain post0 rs where e: "cg_instructions cg = (load_imm TRUE_REG (VBool True) # is) @ call 0 # post0"
    "label_refs cg = (?n, nm) # rs" "\<forall>r \<in> set rs. Suc ?n \<le> fst r" "labels cg = []"
    using compile_stmts_extends [OF c2] assms(3) i(1,2) l1 by (auto simp: extends_def no_labels_def emit_all_def add_ref_def)
  let ?c0 = "cg_instructions cg @ [halt]"
  let ?c1 = "(load_imm TRUE_REG (VBool True) # is) @ call (of_nat (length ?c0 - 1)) # post0 @ [halt]"
  have b1: "backpatch [] ?c0 (?n, nm) = ?c1"
    unfolding backpatch_def e(1) by (simp add: Let_def nth_append list_update_append patch_def call_def)
  have b2: "code = foldl (backpatch []) ?c1 rs" using code e(2,4) b1 by simp
  have p: "take (Suc ?n) code = take (Suc ?n) ?c1" "length code = length ?c1"
    using backpatch_prefix [OF e(3), of "[]" ?c1] b2 by auto
  have "code ! (length ?c1 - 1) = halt"
    unfolding b2 by (rule halt_kept) (simp add: nth_append)
  then have last: "last code = halt" using p(2) by (subst last_conv_nth) auto
  have "drop (Suc ?n) code \<noteq> []" using p(2) by simp
  then have "drop (Suc ?n) code = butlast (drop (Suc ?n) code) @ [halt]"
    using last by (metis append_butlast_last_id last_drop drop_eq_Nil leI)
  moreover have "take (Suc ?n) code = (load_imm TRUE_REG (VBool True) # is) @ [call (of_nat (length code - 1))]"
    using p e(1) by simp
  ultimately have "code = ((load_imm TRUE_REG (VBool True) # is) @ [call (of_nat (length code - 1))])
      @ butlast (drop (Suc ?n) code) @ [halt]"
    by (metis append_take_drop_id)
  then show ?thesis using i(3,4) by (metis append.assoc append_Cons append_Nil)
qed

subsection \<open>A diagram stops at its first block\<close>

abbreviation input_stmts :: "fb_block \<Rightarrow> il_statement list" where
  "input_stmts b \<equiv> map op_stmt (input_ops b)"

lemma input_stmts_fragment: "list_all in_fragment (input_stmts b)"
proof -
  have "list_all in_fragment (map op_stmt (concat (map (\<lambda>(pin, v). [(''LD'', v), (''ST'', fb_name b @ ''.'' @ pin)]) xs)))" for xs
    by (induction xs) auto
  then show ?thesis by (simp add: input_ops_def)
qed

lemma ops_no_labels: "no_labels (map op_stmt ops)"
  by (auto simp: no_labels_def list_all_iff split: if_splits)

lemma diagram_stmts:
  "map op_stmt (diagram_ops (b # bs)) = input_stmts b @ SCall (fb_name b)
     # map op_stmt (concat (map block_ops bs) @ concat (map output_ops (b # bs)))"
  by (simp add: diagram_ops_def block_ops_def)

text \<open>
  C14: a compiled diagram never gets past its first block. When the names of a diagram are words,
  the program that the two compilers make of it returns, and the only signals it has written are the input
  pins of the first block: no block is evaluated, no other input is wired, and every output
  variable keeps its value, whatever the kinds of the blocks.
\<close>

theorem diagram_stops_at_first_block:
  assumes "fbd_compile src = Inr il" and "parse_blocks (fbd_tokenize src) = Inr (b # bs)"
    and "list_all op_ok (diagram_ops (b # bs))"
    and "il_compile il = Ok pr" and "length (instructions pr) < 2 ^ 32"
    and "ex_program ex = pr" and "ip (ex_vm ex) = 0" and "vm_wf (ex_vm ex)" and "\<not> debug_mode (ex_debug ex)"
  shows "\<exists>ex' n. run_to_halt p ex = Some (Ok (ex', n))
    \<and> read_signal (ex_vm ex') = snd (il_run (input_stmts b) (registers (ex_vm ex) ! 14, read_signal (ex_vm ex)))"
proof -
  let ?st = "(registers (ex_vm ex) ! 14, read_signal (ex_vm ex))"
  have "il = generate_il (b # bs)" using assms(1,2) by (auto simp: fbd_compile_def Let_def split: if_splits)
  then have "parse (tokenize il) = map op_stmt (diagram_ops (b # bs))"
    using generated_statements assms(3) by simp
  then have c: "compile_ast (input_stmts b @ SCall (fb_name b)
      # map op_stmt (concat (map block_ops bs) @ concat (map output_ops (b # bs)))) = Ok (instructions pr)"
    using il_compile_ast [OF assms(4)] diagram_stmts by simp
  have "no_labels (input_stmts b @ map op_stmt (concat (map block_ops bs) @ concat (map output_ops (b # bs))))"
    unfolding map_append [symmetric] by (rule ops_no_labels)
  then obtain "is" post where code: "instructions pr = (load_imm TRUE_REG (VBool True) # is)
      @ call (of_nat (length (instructions pr) - 1)) # post @ [halt]"
    and data: "list_all (\<lambda>i. \<not> is_control (opcode i)) is"
    and run: "\<forall>p m st. il_rel m st \<longrightarrow> (\<exists>m'. exec_list p m is = Ok m' \<and> il_rel m' (il_run (input_stmts b) st))"
    using compile_first_call [OF c input_stmts_fragment] by blast
  have r0: "il_rel (ex_vm ex) ?st" using assms(8) by (simp add: il_rel_def vm_wf_def)
  obtain m1 where m1: "exec_list p (ex_vm ex) [load_imm TRUE_REG (VBool True)] = Ok m1" "il_rel m1 ?st"
    using load_true_rel [OF r0] by blast
  obtain m2 where m2: "exec_list p m1 is = Ok m2" "il_rel m2 (il_run (input_stmts b) ?st)" using run m1(2) by blast
  let ?pre = "load_imm TRUE_REG (VBool True) # is"
  have lin: "list_all linear ?pre" "map erase ?pre = ?pre"
    using data linear_data [of ?pre] by (simp_all add: load_imm_def inst_def is_control_def)
  have x: "exec_list p (ex_vm ex) (map erase ?pre) = Ok m2"
    unfolding lin(2) using exec_list_append [of p "ex_vm ex" "[load_imm TRUE_REG (VBool True)]" "is"] m1(1) m2(1) by simp
  have len: "length (instructions pr) = length ?pre + length post + 2" using arg_cong [OF code, of length] by simp
  then have t: "unat (of_nat (length (instructions pr) - 1) :: u32) = length ?pre + length post + 1"
    using assms(5) by (subst unat_of_nat_small) simp_all
  from call_to_halt [OF code [folded assms(6)] t [folded assms(6)] lin(1) assms(7,9) x]
  have "\<exists>ex'. run_to_halt p ex = Some (Ok (ex', length ?pre + 2)) \<and> signals (ex_vm ex') = signals m2" .
  then show ?thesis using m2(2) by (auto simp: il_rel_def read_signal_def fun_eq_iff)
qed

text \<open>A timer with one input and one output.\<close>

definition timer_source :: string where
  "timer_source = ''BLOCK t1 TON'' @ newline @ newline @ ''t1.IN := x'' @ newline @ ''y := t1.Q''"

definition timer_block :: fb_block where
  "timer_block = \<lparr>fb_name = ''t1'', fb_kind = FbTon, fb_inputs = [(''IN'', ''x'')], fb_outputs = [(''y'', ''Q'')]\<rparr>"

lemma timer_source_parse: "parse_blocks (fbd_tokenize timer_source) = Inr [timer_block]" "fbd_tokenize timer_source \<noteq> []"
  by code_simp+

lemma timer_ops: "list_all op_ok (diagram_ops [timer_block])"
  by code_simp

lemma timer_statements: "map op_stmt (diagram_ops [timer_block]) =
    [SLoad ''x'', SStore ''t1.IN'', SCall ''t1'', SLoad ''t1.Q'', SStore ''y'']"
  by code_simp

lemma timer_compiles: "\<exists>pr. il_compile (generate_il [timer_block]) = Ok pr \<and> length (instructions pr) = 9"
proof -
  have "mapo length (compile_ast [SLoad ''x'', SStore ''t1.IN'', SCall ''t1'', SLoad ''t1.Q'', SStore ''y'']) = Ok 9"
    by code_simp
  then show ?thesis using generated_statements [OF _ timer_ops] timer_statements
    by (auto simp: il_compile_def outcome_simps hal_program_new_def)
qed

theorem diagram_stops_at_first_block_witness:
  "\<exists>pr ex' n. il_compile (generate_il [timer_block]) = Ok pr \<and> run_to_halt DevBuild (executor_new pr) = Some (Ok (ex', n))
    \<and> read_signal (ex_vm ex') = [''t1.IN'' \<mapsto> VBool False]"
proof -
  obtain pr where pr: "il_compile (generate_il [timer_block]) = Ok pr" "length (instructions pr) = 9"
    using timer_compiles by blast
  have c: "fbd_compile timer_source = Inr (generate_il [timer_block])"
    using timer_source_parse by (simp add: fbd_compile_def)
  have none: "read_signal vm_new = Map.empty" by (simp add: fun_eq_iff read_signal_def vm_new_def)
  have "vm_wf vm_new" by simp
  then have "\<exists>ex' n. run_to_halt DevBuild (executor_new pr) = Some (Ok (ex', n))
    \<and> read_signal (ex_vm ex') = snd (il_run (input_stmts timer_block)
        (registers (ex_vm (executor_new pr)) ! 14, read_signal (ex_vm (executor_new pr))))"
    using pr(2) by (intro diagram_stops_at_first_block [OF c timer_source_parse(1) timer_ops pr(1)])
      (simp_all add: executor_new_def vm_new_def debug_state_new_def)
  moreover have "input_stmts timer_block = [SLoad ''x'', SStore ''t1.IN'']" by (simp add: timer_block_def input_ops_def)
  ultimately show ?thesis using pr by (auto simp: il_run_def executor_new_def none sig_value_def)
qed

end
