(* ===== verification/Runtime_Health.thy ===== *)
theory Runtime_Health
  imports Runtime_Metrics Rust_Str
begin

text \<open>
  Health checks and the audit log of \<^verbatim>\<open>audesys-runtime-common/src/types.rs\<close> and the health endpoint of
  \<^verbatim>\<open>audesys-runtime/src/health.rs\<close>. A check answers in a world, its argument; the endpoint is the
  function from the request line to the bytes written.
\<close>

subsection \<open>Health checks\<close>

datatype health_status = Healthy | Degraded string | Unhealthy string | Starting | Stopping

record 'w health_check =
  hc_name :: string
  hc_check :: "'w \<Rightarrow> health_status"
  hc_interval_ms :: u64

type_synonym 'w health_registry = "'w health_check list"

definition health_registry_new :: "'w health_registry" where
  "health_registry_new = []"

definition register_check :: "'w health_registry \<Rightarrow> 'w health_check \<Rightarrow> 'w health_registry" where
  "register_check reg c = reg @ [c]"

definition run_all :: "'w \<Rightarrow> 'w health_registry \<Rightarrow> (string \<times> health_status) list" where
  "run_all w reg = map (\<lambda>c. (hc_name c, hc_check c w)) reg"

text \<open>The loop with its three accumulators.\<close>

fun aggregate_loop :: "bool \<Rightarrow> bool \<Rightarrow> string option \<Rightarrow> 'w \<Rightarrow> 'w health_registry \<Rightarrow> health_status" where
  "aggregate_loop starting stopping reason w [] =
     (case reason of
        Some r \<Rightarrow> Degraded r
      | None \<Rightarrow> if starting then Starting else if stopping then Stopping else Healthy)"
| "aggregate_loop starting stopping reason w (c # cs) =
     (case hc_check c w of
        Unhealthy r \<Rightarrow> Unhealthy r
      | Degraded r \<Rightarrow> aggregate_loop starting stopping (Some r) w cs
      | Starting \<Rightarrow> aggregate_loop True stopping reason w cs
      | Stopping \<Rightarrow> aggregate_loop starting True reason w cs
      | Healthy \<Rightarrow> aggregate_loop starting stopping reason w cs)"

definition aggregate :: "'w \<Rightarrow> 'w health_registry \<Rightarrow> health_status" where
  "aggregate w reg = aggregate_loop False False None w reg"

subsection \<open>The health endpoint\<close>

abbreviation crlf :: string where
  "crlf \<equiv> [CHR 0x0D, CHR 0x0A]"

abbreviation quote :: string where
  "quote \<equiv> [CHR 0x22]"

definition counter_line :: "string \<Rightarrow> u64 \<Rightarrow> string" where
  "counter_line nm v = nm @ '' '' @ dec_string (unat v) @ newline"

definition jitter_line :: "nat \<times> u64 \<Rightarrow> string" where
  "jitter_line iv =
     (if 0 < snd iv
      then ''audesys_cycle_jitter_us{offset='' @ quote @ dec_string (fst iv) @ quote @ ''} '' @ dec_string (unat (snd iv)) @ newline
      else [])"

definition prometheus_text :: "runtime_metrics \<Rightarrow> string" where
  "prometheus_text m =
     counter_line ''audesys_cycles_completed'' (cycles_completed m)
     @ counter_line ''audesys_signals_published'' (rm_signals_published m)
     @ counter_line ''audesys_config_changes_applied'' (config_changes_applied m)
     @ counter_line ''audesys_child_restarts'' (child_restarts m)
     @ counter_line ''audesys_health_check_failures'' (health_check_failures m)
     @ concat (map jitter_line (enumerate 0 (ring_read (cycle_jitter_us m))))"

text \<open>The export of the counters themselves (\<^verbatim>\<open>metrics.rs\<close>), under other names.\<close>

definition export_prometheus :: "runtime_metrics \<Rightarrow> string" where
  "export_prometheus m =
     counter_line ''audesys_runtime_cycles_completed_total'' (cycles_completed m)
     @ counter_line ''audesys_runtime_signals_published_total'' (rm_signals_published m)
     @ counter_line ''audesys_runtime_config_changes_total'' (config_changes_applied m)
     @ counter_line ''audesys_runtime_child_restarts_total'' (child_restarts m)
     @ counter_line ''audesys_runtime_health_failures_total'' (health_check_failures m)"

fun health_status_str :: "health_status \<Rightarrow> string" where
  "health_status_str Healthy = ''healthy''"
| "health_status_str (Degraded _) = ''degraded''"
| "health_status_str (Unhealthy _) = ''unhealthy''"
| "health_status_str Starting = ''starting''"
| "health_status_str Stopping = ''stopping''"

definition ok_response :: "string \<Rightarrow> string \<Rightarrow> string" where
  "ok_response content_type body =
     ''HTTP/1.1 200 OK'' @ crlf @ ''Content-Type: '' @ content_type @ crlf @ ''Connection: close'' @ crlf
     @ ''Content-Length: '' @ dec_string (length body) @ crlf @ crlf @ body"

text \<open>The path of the request line; the line is empty when the peer closed or the read failed.\<close>

definition request_path :: "string \<Rightarrow> string" where
  "request_path line = (case split_whitespace line of _ # p # _ \<Rightarrow> p | _ \<Rightarrow> ''/'')"

definition health_json :: "health_status \<Rightarrow> string" where
  "health_json st =
     ''{'' @ quote @ ''status'' @ quote @ '':'' @ quote @ health_status_str st @ quote @ '',''
     @ quote @ ''module'' @ quote @ '':'' @ quote @ ''audesys-runtime'' @ quote @ ''}''"

definition health_answer :: "runtime_metrics option \<Rightarrow> 'w \<Rightarrow> 'w health_registry \<Rightarrow> string \<Rightarrow> string" where
  "health_answer metrics w reg line =
     (if request_path line = ''/metrics''
      then (case metrics of
              Some m \<Rightarrow> ok_response ''text/plain; version=0.0.4'' (prometheus_text m)
            | None \<Rightarrow> ''HTTP/1.1 404 Not Found'' @ crlf @ crlf)
      else ok_response ''application/json'' (health_json (aggregate w reg)))"

subsection \<open>Audit log\<close>

record source_id =
  process_name :: string
  source_pid :: u32

datatype audit_result = Allowed | Denied string | Failed string

record audit_record =
  audit_time :: u64
  actor :: source_id
  audit_action :: string
  audit_target :: string
  audit_outcome :: audit_result

type_synonym memory_audit_log = "audit_record list"

definition audit_log :: "memory_audit_log \<Rightarrow> audit_record \<Rightarrow> memory_audit_log" where
  "audit_log log e = log @ [e]"

definition audit_query :: "memory_audit_log \<Rightarrow> source_id \<Rightarrow> nat \<Rightarrow> memory_audit_log" where
  "audit_query log src limit = take limit (filter (\<lambda>e. actor e = src) (rev log))"

definition audit_query_all :: "memory_audit_log \<Rightarrow> nat \<Rightarrow> memory_audit_log" where
  "audit_query_all log limit = take limit (rev log)"

record authorizer =
  auth_role :: string
  allowed_actions :: "string list"

definition can :: "authorizer \<Rightarrow> string \<Rightarrow> bool" where
  "can a action \<longleftrightarrow> list_ex (\<lambda>x. x = action) (allowed_actions a)"

subsection \<open>The aggregate is the worst answer\<close>

fun is_unhealthy :: "health_status \<Rightarrow> bool" where
  "is_unhealthy (Unhealthy _) = True"
| "is_unhealthy _ = False"

fun is_degraded :: "health_status \<Rightarrow> bool" where
  "is_degraded (Degraded _) = True"
| "is_degraded _ = False"

text \<open>The order of the documentation, worst first; among equals the first failure, the last degradation.\<close>

definition worst :: "health_status list \<Rightarrow> health_status" where
  "worst ss =
     (case find is_unhealthy ss of
        Some s \<Rightarrow> s
      | None \<Rightarrow>
          (case find is_degraded (rev ss) of
             Some s \<Rightarrow> s
           | None \<Rightarrow> if Starting \<in> set ss then Starting else if Stopping \<in> set ss then Stopping else Healthy))"

lemma find_snoc: "find P (xs @ ys) = (case find P xs of None \<Rightarrow> find P ys | Some x \<Rightarrow> Some x)"
  by (induction xs) auto

lemma aggregate_loop_worst:
  "aggregate_loop starting stopping reason w reg =
     (case find is_unhealthy (map (\<lambda>c. hc_check c w) reg) of
        Some s \<Rightarrow> s
      | None \<Rightarrow>
          (case find is_degraded (rev (map (\<lambda>c. hc_check c w) reg)) of
             Some s \<Rightarrow> s
           | None \<Rightarrow>
               (case reason of
                  Some r \<Rightarrow> Degraded r
                | None \<Rightarrow>
                    if starting \<or> Starting \<in> set (map (\<lambda>c. hc_check c w) reg) then Starting
                    else if stopping \<or> Stopping \<in> set (map (\<lambda>c. hc_check c w) reg) then Stopping else Healthy)))"
proof (induction reg arbitrary: starting stopping reason)
  case Nil
  then show ?case by simp
next
  case (Cons c cs)
  show ?case
    by (cases "hc_check c w")
       (auto simp: Cons.IH find_snoc split: option.split)
qed

text \<open>
  The aggregate of the health checks is the worst of their answers in the documented order:
  unhealthy, degraded, starting, stopping, healthy; the reason is that of the first failed check,
  or of the last degraded one.
\<close>

theorem aggregate_is_worst: "aggregate w reg = worst (map snd (run_all w reg))"
  by (simp add: aggregate_def aggregate_loop_worst worst_def run_all_def comp_def split: option.split)

text \<open>The length field of an answer of the endpoint is the length of its body.\<close>

lemma health_answer_frame:
  assumes "request_path line \<noteq> ''/metrics'' \<or> metrics \<noteq> None"
  shows "\<exists>head body. health_answer metrics w reg line = head @ ''Content-Length: '' @ dec_string (length body) @ crlf @ crlf @ body"
proof -
  have "ok_response ct body = (''HTTP/1.1 200 OK'' @ crlf @ ''Content-Type: '' @ ct @ crlf @ ''Connection: close'' @ crlf)
      @ ''Content-Length: '' @ dec_string (length body) @ crlf @ crlf @ body" for ct body
    by (simp add: ok_response_def)
  then have f: "\<exists>head body'. ok_response ct body = head @ ''Content-Length: '' @ dec_string (length body') @ crlf @ crlf @ body'" for ct body
    by blast
  have "\<exists>ct body. health_answer metrics w reg line = ok_response ct body"
    using assms by (cases metrics) (auto simp: health_answer_def)
  then show ?thesis using f by metis
qed

lemma query_latest:
  assumes "actor e = src" and "0 < n"
  shows "hd (audit_query (audit_log log e) src n) = e \<and> hd (audit_query_all (audit_log log e) n) = e"
  using assms by (cases n) (simp_all add: audit_query_def audit_query_all_def audit_log_def)

end
