(* ===== verification/Runtime_Config.thy ===== *)
theory Runtime_Config
  imports Inproc_Qos Rust_Str
begin

text \<open>
  The runtime's configuration and the watcher of its file (\<^verbatim>\<open>audesys-runtime/src/config.rs\<close>). The file
  system and the YAML parser are arguments: what a poll finds as the modification time, and the
  configuration the file holds or the error of reading it. A poll happens at an instant.
\<close>

record child_config =
  child_name :: string
  child_program :: string
  child_args :: "string list"

record runtime_config =
  hal_config_path :: string
  health_port :: u16
  cycle_interval_ms :: u64
  children :: "child_config list"
  startup_lock_level :: string
  shutdown_timeout_ms :: u64

definition runtime_config_default :: runtime_config where
  "runtime_config_default = \<lparr>hal_config_path = ''config/hal.yaml'', health_port = 9100, cycle_interval_ms = 10,
     children = [], startup_lock_level = ''none'', shutdown_timeout_ms = 5000\<rparr>"

definition valid_levels :: "string list" where
  "valid_levels = [''none'', ''load'', ''config'', ''params'', ''run'', ''all'']"

text \<open>The derived debug format of the list of levels.\<close>

fun debug_list :: "string list \<Rightarrow> string" where
  "debug_list [] = []"
| "debug_list [x] = CHR 0x22 # x @ [CHR 0x22]"
| "debug_list (x # y # ys) = CHR 0x22 # x @ [CHR 0x22] @ '', '' @ debug_list (y # ys)"

definition validate :: "runtime_config \<Rightarrow> string + unit" where
  "validate c =
     (if cycle_interval_ms c = 0 then Inl ''cycle_interval_ms must be positive''
      else if startup_lock_level c \<notin> set valid_levels
      then Inl (''Invalid startup_lock_level '' @ CHR 0x27 # startup_lock_level c @ CHR 0x27 # ''. Must be one of: [''
                @ debug_list valid_levels @ '']'')
      else if shutdown_timeout_ms c = 0 then Inl ''shutdown_timeout_ms must be positive''
      else Inr ())"

definition diff_commands :: "nat \<Rightarrow> runtime_config \<Rightarrow> runtime_config \<Rightarrow> config_command list" where
  "diff_commands now c previous =
     (let path = (if hal_config_path c \<noteq> hal_config_path previous
                  then [\<lparr>cmd_id = 1, cmd_method = ''loadComponent'', cmd_params = string_bytes (hal_config_path c), queued_at = now\<rparr>]
                  else []);
          next_id = (if hal_config_path c \<noteq> hal_config_path previous then 2 else 1)
      in path @ (if cycle_interval_ms c \<noteq> cycle_interval_ms previous
                 then [\<lparr>cmd_id = next_id, cmd_method = ''setCycleInterval'', cmd_params = word_le (cycle_interval_ms c), queued_at = now\<rparr>]
                 else []))"

subsection \<open>The watcher\<close>

text \<open>The last modification time seen and the last configuration loaded.\<close>

record config_watcher =
  last_mtime :: "nat option"
  last_config :: runtime_config

definition watcher_new :: config_watcher where
  "watcher_new = \<lparr>last_mtime = None, last_config = runtime_config_default\<rparr>"

record file_poll =
  poll_mtime :: "nat option"
  poll_load :: "string + runtime_config"
  poll_now :: nat

text \<open>
  One pass of the polling loop: the watcher afterwards and the commands put into the channel. The
  receiving end stays open.
\<close>

definition watcher_poll :: "config_watcher \<Rightarrow> file_poll \<Rightarrow> config_watcher \<times> config_command list" where
  "watcher_poll wt p =
     (case poll_mtime p of
        None \<Rightarrow> (wt, [])
      | Some t \<Rightarrow>
          if last_mtime wt = Some t then (wt, [])
          else
            (let wt1 = wt\<lparr>last_mtime := Some t\<rparr> in
             case poll_load p of
               Inl _ \<Rightarrow> (wt1, [])
             | Inr cfg \<Rightarrow> (wt1\<lparr>last_config := cfg\<rparr>, diff_commands (poll_now p) cfg (last_config wt))))"

primrec watcher_run :: "config_watcher \<Rightarrow> file_poll list \<Rightarrow> config_watcher \<times> config_command list" where
  "watcher_run wt [] = (wt, [])"
| "watcher_run wt (p # ps) =
     (case watcher_poll wt p of (wt1, out) \<Rightarrow> case watcher_run wt1 ps of (wt2, outs) \<Rightarrow> (wt2, out @ outs))"

subsection \<open>What the commands amount to\<close>

text \<open>A receiver that applies the commands to the two values they are about.\<close>

definition apply_command :: "string \<times> u64 \<Rightarrow> config_command \<Rightarrow> string \<times> u64" where
  "apply_command s c =
     (if cmd_method c = ''loadComponent'' then (bytes_string (cmd_params c), snd s)
      else if cmd_method c = ''setCycleInterval'' then (fst s, le_word (cmd_params c)) else s)"

abbreviation tracked :: "runtime_config \<Rightarrow> string \<times> u64" where
  "tracked c \<equiv> (hal_config_path c, cycle_interval_ms c)"

lemma diff_commands_apply: "foldl apply_command (tracked previous) (diff_commands now c previous) = tracked c"
  by (simp add: diff_commands_def apply_command_def le_word_word_le Let_def)

lemma watcher_poll_tracks:
  assumes "watcher_poll wt p = (wt', cmds)"
  shows "foldl apply_command (tracked (last_config wt)) cmds = tracked (last_config wt')"
  using assms diff_commands_apply
  by (auto simp: watcher_poll_def Let_def split: option.splits if_splits sum.splits)

text \<open>
  The commands of the watcher are enough. Whatever the polls find, applying all the commands
  sent so far, in order, to the values the receiver started with gives the component path and the
  cycle interval of the last configuration the watcher has loaded.
\<close>

theorem watcher_tracks_file:
  assumes "watcher_run wt ps = (wt', cmds)"
  shows "foldl apply_command (tracked (last_config wt)) cmds = tracked (last_config wt')"
  using assms
proof (induction ps arbitrary: wt cmds)
  case (Cons p ps)
  obtain wt1 out where 1: "watcher_poll wt p = (wt1, out)" by fastforce
  obtain outs where 2: "watcher_run wt1 ps = (wt', outs)" "cmds = out @ outs"
    using Cons.prems 1 by (auto split: prod.splits)
  show ?case using watcher_poll_tracks [OF 1] Cons.IH [OF 2(1)] 2(2) by simp
qed simp

definition fast_config :: runtime_config where
  "fast_config = runtime_config_default\<lparr>hal_config_path := ''hal2.yaml'', cycle_interval_ms := 2\<rparr>"

theorem watcher_tracks_file_witness:
  "foldl apply_command (''config/hal.yaml'', 10)
     (snd (watcher_run watcher_new [\<lparr>poll_mtime = None, poll_load = Inl [], poll_now = 0\<rparr>,
        \<lparr>poll_mtime = Some 7, poll_load = Inr fast_config, poll_now = 1\<rparr>,
        \<lparr>poll_mtime = Some 7, poll_load = Inr runtime_config_default, poll_now = 2\<rparr>])) = (''hal2.yaml'', 2)"
proof -
  let ?ps = "[\<lparr>poll_mtime = None, poll_load = Inl [], poll_now = 0\<rparr>, \<lparr>poll_mtime = Some 7, poll_load = Inr fast_config, poll_now = 1\<rparr>,
    \<lparr>poll_mtime = Some 7, poll_load = Inr runtime_config_default, poll_now = 2\<rparr>]"
  have "last_config (fst (watcher_run watcher_new ?ps)) = fast_config"
    by (simp add: watcher_poll_def watcher_new_def Let_def)
  moreover have "tracked (last_config watcher_new) = (''config/hal.yaml'', 10)"
    by (simp add: watcher_new_def runtime_config_default_def)
  ultimately show ?thesis
    using watcher_tracks_file [of watcher_new ?ps "fst (watcher_run watcher_new ?ps)" "snd (watcher_run watcher_new ?ps)"]
    by (simp add: fast_config_def runtime_config_default_def)
qed

text \<open>
  The modification time is noted before the file is read: a file that could not be read is not
  read again until it changes once more.
\<close>

lemma failed_reload_not_retried:
  assumes "poll_mtime p = Some t" and "last_mtime wt \<noteq> Some t" and "poll_load p = Inl err"
    and "\<forall>q \<in> set ps. poll_mtime q = Some t"
  shows "watcher_run wt (p # ps) = (wt\<lparr>last_mtime := Some t\<rparr>, [])"
proof -
  have "watcher_run wt1 ps = (wt1, [])" if "last_mtime wt1 = Some t" for wt1
    using assms(4) that by (induction ps) (auto simp: watcher_poll_def)
  then show ?thesis using assms(1-3) by (simp add: watcher_poll_def Let_def)
qed

text \<open>The watcher does not validate: a cycle interval of zero is sent on.\<close>

lemma invalid_interval_is_sent:
  assumes "poll_mtime p = Some t" and "last_mtime wt \<noteq> Some t" and "poll_load p = Inr c"
    and "cycle_interval_ms c = 0" and "cycle_interval_ms (last_config wt) \<noteq> 0"
  shows "validate c \<noteq> Inr () \<and> snd (foldl apply_command (tracked (last_config wt)) (snd (watcher_poll wt p))) = 0"
  using assms diff_commands_apply [of "last_config wt" "poll_now p" c] by (simp add: validate_def watcher_poll_def Let_def)

end
