(* ===== verification/Simulation.thy ===== *)
theory Simulation
  imports Engine_Cycle Rust_Str
begin

text \<open>
  The simulation harness of \<^verbatim>\<open>audesys-runtime/src/simulation.rs\<close>. The transport the harness injects
  signals into is the one inside the engine's middleware, so the harness has no transport of its
  own here. The cycles that the engine's thread runs meanwhile are those of the engine; sleeping is
  not modelled. The debug format of floating-point and composite values and the parser of
  floating-point numbers are arguments, and so is the largest 32-bit float.
\<close>

datatype fault_kind = Timeout | OutOfRange | Disconnect

record active_fault =
  fault_of :: fault_kind
  fault_signal :: string
  start_cycle :: u64
  duration_cycles :: u64

record ('cb, 'w) harness =
  sim_engine :: "('cb, 'w) engine"
  sim_faults :: "active_fault list"
  sim_cycle_ms :: u64
  sim_started :: bool

definition build_inproc_stack :: "nat \<Rightarrow> ('cb, 'w) inproc_middleware" where
  "build_inproc_stack now = \<lparr>mw_transport = transport_new, mw_discovery = discovery_new, mw_qos = qos_new, mw_audit = [],
     start_time = now\<rparr>"

definition harness_new :: "nat \<Rightarrow> u64 \<Rightarrow> ('cb, 'w) harness" where
  "harness_new now cycle_ms =
     \<lparr>sim_engine = engine_new (build_inproc_stack now) lifecycle_new, sim_faults = [], sim_cycle_ms = cycle_ms, sim_started = False\<rparr>"

abbreviation upd_engine :: "(('cb, 'w) engine \<Rightarrow> ('cb, 'w) engine) \<Rightarrow> ('cb, 'w) harness \<Rightarrow> ('cb, 'w) harness" where
  "upd_engine f h \<equiv> h\<lparr>sim_engine := f (sim_engine h)\<rparr>"

subsection \<open>Signals\<close>

definition sim_register_signal ::
    "('cb, 'w) harness \<Rightarrow> string \<Rightarrow> hal_pin_type \<Rightarrow> hal_value \<Rightarrow> write_strategy \<Rightarrow> ('cb, 'w) harness \<times> (string + unit)" where
  "sim_register_signal h nm t v s =
     (case register_signal (sim_engine h) (signal_def_new nm t v s) of (e, r) \<Rightarrow> (h\<lparr>sim_engine := e\<rparr>, r))"

definition set_signal :: "('cb, 'w) harness \<Rightarrow> string \<Rightarrow> hal_value \<Rightarrow> ('cb, 'w) harness" where
  "set_signal h nm v =
     (let mw = eng_middleware (sim_engine h);
          t = fst (publish_signal (mw_transport mw) nm v \<lparr>ts_secs = 0, ts_micros = 0\<rparr>)
      in upd_engine (\<lambda>e. e\<lparr>eng_middleware := mw\<lparr>mw_transport := t\<rparr>\<rparr>) h)"

definition get_signal :: "('cb, 'w) harness \<Rightarrow> string \<Rightarrow> hal_value option" where
  "get_signal h nm = map_option fst (snd (tr_read_signal (mw_transport (eng_middleware (sim_engine h))) nm))"

definition sim_signal_snapshot :: "('cb, 'w) harness \<Rightarrow> (string \<times> hal_value) list" where
  "sim_signal_snapshot h = signal_snapshot (sim_engine h)"

subsection \<open>Control\<close>

definition sim_start :: "('cb, 'w) harness \<Rightarrow> ('cb, 'w) harness" where
  "sim_start h = (if sim_started h then h else upd_engine engine_start h\<lparr>sim_started := True\<rparr>)"

definition sim_stop :: "('cb, 'w) harness \<Rightarrow> ('cb, 'w) harness" where
  "sim_stop h = upd_engine engine_stop h\<lparr>sim_started := False\<rparr>"

definition sim_pause :: "('cb, 'w) harness \<Rightarrow> ('cb, 'w) harness" where
  "sim_pause h = upd_engine engine_pause h"

definition sim_resume :: "('cb, 'w) harness \<Rightarrow> ('cb, 'w) harness" where
  "sim_resume h = upd_engine engine_resume h"

definition sim_step_cycle :: "('cb, 'w) harness \<Rightarrow> ('cb, 'w) harness" where
  "sim_step_cycle h = upd_engine step_cycle h"

subsection \<open>Faults\<close>

definition inject_fault :: "('cb, 'w) harness \<Rightarrow> fault_kind \<Rightarrow> string \<Rightarrow> u64 \<Rightarrow> u64 \<Rightarrow> ('cb, 'w) harness" where
  "inject_fault h k nm start dur =
     h\<lparr>sim_faults := sim_faults h @ [\<lparr>fault_of = k, fault_signal = nm, start_cycle = start, duration_cycles = dur\<rparr>]\<rparr>"

definition clear_faults :: "('cb, 'w) harness \<Rightarrow> ('cb, 'w) harness" where
  "clear_faults h = h\<lparr>sim_faults := []\<rparr>"

text \<open>The end of a fault is computed with checked or wrapping addition, after the first comparison.\<close>

definition fault_active :: "profile \<Rightarrow> u64 \<Rightarrow> active_fault \<Rightarrow> bool outcome" where
  "fault_active p current f =
     (if start_cycle f \<le> current
      then mapo (\<lambda>end. current < end) (ures p (uint (start_cycle f) + uint (duration_cycles f)))
      else Ok False)"

primrec filter_faults :: "profile \<Rightarrow> u64 \<Rightarrow> active_fault list \<Rightarrow> active_fault list outcome" where
  "filter_faults p current [] = Ok []"
| "filter_faults p current (f # fs) =
     bindo (fault_active p current f) (\<lambda>b. mapo (\<lambda>fs'. if b then f # fs' else fs') (filter_faults p current fs))"

definition active_faults :: "profile \<Rightarrow> ('cb, 'w) harness \<Rightarrow> active_fault list outcome" where
  "active_faults p h = filter_faults p (cycle_count (sim_engine h)) (sim_faults h)"

text \<open>The value an out-of-range fault gives, for the types it knows.\<close>

definition out_of_range :: "f32 \<Rightarrow> hal_value \<Rightarrow> hal_value option" where
  "out_of_range f32_max v =
     (case v of
        VF32 _ \<Rightarrow> Some (VF32 f32_max)
      | VU32 _ \<Rightarrow> Some (VU32 (- 1))
      | VS32 _ \<Rightarrow> Some (VS32 0x7FFFFFFF)
      | VBool b \<Rightarrow> Some (VBool (\<not> b))
      | _ \<Rightarrow> None)"

fun resolve_loop :: "f32 \<Rightarrow> active_fault list \<Rightarrow> string \<Rightarrow> hal_value \<Rightarrow> hal_value \<times> bool" where
  "resolve_loop f32_max [] nm v = (v, True)"
| "resolve_loop f32_max (f # fs) nm v =
     (if fault_signal f \<noteq> nm then resolve_loop f32_max fs nm v
      else case fault_of f of
        OutOfRange \<Rightarrow> (case out_of_range f32_max v of Some m \<Rightarrow> resolve_loop f32_max fs nm m | None \<Rightarrow> (v, True))
      | _ \<Rightarrow> (v, False))"

definition resolve_fault :: "f32 \<Rightarrow> profile \<Rightarrow> ('cb, 'w) harness \<Rightarrow> string \<Rightarrow> hal_value \<Rightarrow> (hal_value \<times> bool) outcome" where
  "resolve_fault f32_max p h nm v = mapo (\<lambda>fs. resolve_loop f32_max fs nm v) (active_faults p h)"

subsection \<open>Scenes\<close>

record value_format =
  debug_f32 :: "f32 \<Rightarrow> string"
  debug_f64 :: "f64 \<Rightarrow> string"
  debug_other :: "hal_value \<Rightarrow> string"
  read_f32 :: "string \<Rightarrow> f32 option"
  read_f64 :: "string \<Rightarrow> f64 option"

definition debug_int :: "string \<Rightarrow> int \<Rightarrow> string" where
  "debug_int nm i = nm @ ''('' @ (if i < 0 then CHR ''-'' # dec_string (nat (- i)) else dec_string (nat i)) @ '')''"

fun debug_value :: "value_format \<Rightarrow> hal_value \<Rightarrow> string" where
  "debug_value fm (VBool b) = ''Bool('' @ (if b then ''true'' else ''false'') @ '')''"
| "debug_value fm (VS8 v) = debug_int ''S8'' (sint v)"
| "debug_value fm (VU8 v) = debug_int ''U8'' (uint v)"
| "debug_value fm (VS16 v) = debug_int ''S16'' (sint v)"
| "debug_value fm (VU16 v) = debug_int ''U16'' (uint v)"
| "debug_value fm (VS32 v) = debug_int ''S32'' (sint v)"
| "debug_value fm (VU32 v) = debug_int ''U32'' (uint v)"
| "debug_value fm (VS64 v) = debug_int ''S64'' (sint v)"
| "debug_value fm (VU64 v) = debug_int ''U64'' (uint v)"
| "debug_value fm (VF32 v) = ''F32('' @ debug_f32 fm v @ '')''"
| "debug_value fm (VF64 v) = ''F64('' @ debug_f64 fm v @ '')''"
| "debug_value fm v = debug_other fm v"

definition enclosed :: "string \<Rightarrow> string \<Rightarrow> string option" where
  "enclosed p s =
     (case strip_prefix s p of
        Some r \<Rightarrow> if r \<noteq> [] \<and> last r = CHR '')'' then Some (butlast r) else None
      | None \<Rightarrow> None)"

definition parse_u32_text :: "string \<Rightarrow> u32 option" where
  "parse_u32_text s = (case parse_unsigned s of Some n \<Rightarrow> if n < 2 ^ 32 then Some (of_nat n) else None | None \<Rightarrow> None)"

definition parse_i32_text :: "string \<Rightarrow> i32 option" where
  "parse_i32_text s =
     (case parse_signed s of Some i \<Rightarrow> if - (2 ^ 31) \<le> i \<and> i < 2 ^ 31 then Some (word_of_int i) else None | None \<Rightarrow> None)"

definition parse_hal_value :: "value_format \<Rightarrow> string \<Rightarrow> hal_value option" where
  "parse_hal_value fm text =
     (let s = trim text in
      case enclosed ''Bool('' s of
        Some inner \<Rightarrow> Some (VBool (inner = ''true''))
      | None \<Rightarrow>
          (case enclosed ''U32('' s of
             Some inner \<Rightarrow> map_option VU32 (parse_u32_text inner)
           | None \<Rightarrow>
               (case enclosed ''S32('' s of
                  Some inner \<Rightarrow> map_option VS32 (parse_i32_text inner)
                | None \<Rightarrow>
                    (case enclosed ''F32('' s of
                       Some inner \<Rightarrow> map_option VF32 (read_f32 fm inner)
                     | None \<Rightarrow>
                         (case enclosed ''F64('' s of
                            Some inner \<Rightarrow> map_option VF64 (read_f64 fm inner)
                          | None \<Rightarrow> None)))))"

type_synonym scene_frame = "(string \<times> string) list"

definition record_frame :: "value_format \<Rightarrow> ('cb, 'w) harness \<Rightarrow> scene_frame" where
  "record_frame fm h = map (\<lambda>(nm, v). (nm, debug_value fm v)) (sim_signal_snapshot h)"

text \<open>The injections of one scene, in some order of the map, before the step is requested.\<close>

definition play_frame :: "value_format \<Rightarrow> scene_frame \<Rightarrow> ('cb, 'w) harness \<Rightarrow> ('cb, 'w) harness" where
  "play_frame fm scene h =
     sim_step_cycle (foldl (\<lambda>h (nm, text). case parse_hal_value fm text of Some v \<Rightarrow> set_signal h nm v | None \<Rightarrow> h) h scene)"

text \<open>
  What the engine thread does while the harness sleeps is an argument, a function for each sleep; the
  time slept is given to it.
\<close>

type_synonym ('cb, 'w) sleeping = "u64 \<Rightarrow> ('cb, 'w) harness \<Rightarrow> ('cb, 'w) harness"

definition run_for :: "('cb, 'w) sleeping \<Rightarrow> u64 \<Rightarrow> ('cb, 'w) harness \<Rightarrow> ('cb, 'w) harness" where
  "run_for slept ms h = sim_stop (slept ms (sim_start h))"

definition run_cycles :: "profile \<Rightarrow> ('cb, 'w) sleeping \<Rightarrow> u64 \<Rightarrow> ('cb, 'w) harness \<Rightarrow> ('cb, 'w) harness outcome" where
  "run_cycles p slept n h =
     bindo (ures p (uint (sim_cycle_ms h) * uint n)) (\<lambda>ms :: u64.
       mapo (\<lambda>runtime. run_for slept runtime h) (ures p (uint ms + 20)))"

record scene =
  scene_name :: string
  scene_cycle_ms :: u64
  scene_signal_names :: "string list"
  scene_frames :: "scene_frame list"

primrec record_loop ::
    "profile \<Rightarrow> value_format \<Rightarrow> ('cb, 'w) sleeping list \<Rightarrow> ('cb, 'w) harness \<Rightarrow> (('cb, 'w) harness \<times> scene_frame list) outcome" where
  "record_loop p fm [] h = Ok (h, [])"
| "record_loop p fm (slept # ss) h =
     bindo (ures p (uint (sim_cycle_ms h) + 5)) (\<lambda>ms.
       let h1 = slept ms (sim_step_cycle h)
       in mapo (\<lambda>(h2, fs). (h2, record_frame fm h1 # fs)) (record_loop p fm ss h1))"

definition sim_record ::
    "profile \<Rightarrow> value_format \<Rightarrow> ('cb, 'w) sleeping list \<Rightarrow> string \<Rightarrow> ('cb, 'w) harness \<Rightarrow> (('cb, 'w) harness \<times> scene) outcome" where
  "sim_record p fm ss nm h =
     mapo (\<lambda>(h1, fs). (h1, \<lparr>scene_name = nm, scene_cycle_ms = sim_cycle_ms h,
        scene_signal_names = map fst (sim_signal_snapshot h), scene_frames = fs\<rparr>)) (record_loop p fm ss h)"

primrec play_loop ::
    "profile \<Rightarrow> value_format \<Rightarrow> u64 \<Rightarrow> (scene_frame \<times> ('cb, 'w) sleeping) list \<Rightarrow> ('cb, 'w) harness \<Rightarrow> ('cb, 'w) harness outcome" where
  "play_loop p fm cms [] h = Ok h"
| "play_loop p fm cms (f # fs) h =
     bindo (ures p (uint cms + 5)) (\<lambda>ms. play_loop p fm cms fs (snd f ms (play_frame fm (fst f) h)))"

definition sim_play ::
    "profile \<Rightarrow> value_format \<Rightarrow> ('cb, 'w) sleeping list \<Rightarrow> scene \<Rightarrow> ('cb, 'w) harness \<Rightarrow> ('cb, 'w) harness outcome" where
  "sim_play p fm ss sc h =
     mapo sim_stop (play_loop p fm (scene_cycle_ms sc) (zip (scene_frames sc) ss) (sim_start h))"

subsection \<open>Injection\<close>

definition zero_time :: timestamp where
  "zero_time = \<lparr>ts_secs = 0, ts_micros = 0\<rparr>"

lemma set_signal_middleware:
  "sim_engine (set_signal h nm v) = (sim_engine h)\<lparr>eng_middleware := fst (mw_publish_signal (eng_middleware (sim_engine h)) nm v zero_time)\<rparr>"
  by (simp add: set_signal_def mw_publish_signal_def zero_time_def Let_def split: prod.split)

lemma read_set_signal:
  "snd (mw_read_signal (eng_middleware (sim_engine (set_signal h nm v))) nm') =
     (if nm' = nm then Some (v, zero_time) else snd (mw_read_signal (eng_middleware (sim_engine h)) nm'))"
  by (simp add: set_signal_middleware mw.read_publish)

text \<open>What is injected is read back from the transport.\<close>

lemma get_set_signal: "get_signal (set_signal h nm v) nm' = (if nm' = nm then Some v else get_signal h nm')"
  using read_set_signal [of h nm v nm'] by (auto simp: get_signal_def mw_read_signal_def split: prod.splits)

lemma eng_signals_set_signal [simp]: "eng_signals (sim_engine (set_signal h nm v)) = eng_signals (sim_engine h)"
  by (simp add: set_signal_middleware)

subsection \<open>Reading the debug format\<close>

lemma enclosed_app: "enclosed p (p @ s @ '')'') = Some s"
  by (simp add: enclosed_def strip_prefix_def starts_with_def)

lemma trim_enclosed:
  assumes "p \<noteq> []" and "\<not> is_ws (hd p)"
  shows "trim (p @ s @ '')'') = p @ s @ '')''"
proof -
  have "\<not> is_ws CHR '')''" by code_simp
  moreover have "dropWhile is_ws (p @ s @ '')'') = p @ s @ '')''" using assms by (cases p) auto
  ultimately show ?thesis by (simp add: trim_def)
qed

lemma not_ws: "\<not> is_ws CHR ''B''" "\<not> is_ws CHR ''U''" "\<not> is_ws CHR ''S''"
  by code_simp+

lemma parse_bool: "parse_hal_value fm (debug_value fm (VBool b)) = Some (VBool b)"
  using trim_enclosed [of "''Bool(''"] enclosed_app [of "''Bool(''"] not_ws by (auto simp: parse_hal_value_def)

lemma unat_less_u32: "unat (w :: u32) < 2 ^ 32"
  by (rule order_less_le_trans [OF unsigned_less]) simp

lemma parse_u32: "parse_hal_value fm (debug_value fm (VU32 w)) = Some (VU32 w)"
proof -
  have "parse_u32_text (dec_string (unat w)) = Some w"
    using unat_less_u32 [of w] by (simp add: parse_u32_text_def parse_unsigned_dec)
  moreover have "debug_value fm (VU32 w) = ''U32('' @ dec_string (unat w) @ '')''" by (simp add: debug_int_def flip: nat_uint_eq)
  ultimately show ?thesis
    using trim_enclosed [of "''U32(''"] enclosed_app [of "''U32(''"] not_ws
    by (simp add: parse_hal_value_def enclosed_def strip_prefix_def starts_with_def)
qed

lemma parse_s32: "parse_hal_value fm (debug_value fm (VS32 w)) = Some (VS32 w)"
proof -
  let ?t = "if sint w < 0 then CHR ''-'' # dec_string (nat (- sint w)) else dec_string (nat (sint w))"
  have "parse_signed ?t = Some (sint w)" using parse_signed_dec by auto
  moreover have "- (2 ^ 31) \<le> sint w" "sint w < 2 ^ 31" using sint_ge [of w] sint_lt [of w] by simp_all
  ultimately have "parse_i32_text ?t = Some w" by (simp add: parse_i32_text_def)
  moreover have "debug_value fm (VS32 w) = ''S32('' @ ?t @ '')''" by (simp add: debug_int_def)
  ultimately show ?thesis
    using trim_enclosed [of "''S32(''" ?t] enclosed_app [of "''S32(''" ?t] not_ws
    by (simp add: parse_hal_value_def enclosed_def strip_prefix_def starts_with_def)
qed

text \<open>The values a scene keeps, whatever the formats of the other types.\<close>

fun replayable :: "hal_value \<Rightarrow> bool" where
  "replayable (VBool _) = True"
| "replayable (VU32 _) = True"
| "replayable (VS32 _) = True"
| "replayable _ = False"

lemma parse_replayable: "replayable v \<Longrightarrow> parse_hal_value fm (debug_value fm v) = Some v"
  by (cases v) (simp_all only: replayable.simps parse_bool parse_u32 parse_s32)

text \<open>Every other integer type is recorded and then skipped when the scene is played.\<close>

lemma integers_lost:
  "parse_hal_value fm (debug_value fm (VU16 7)) = None" "parse_hal_value fm (debug_value fm (VS64 (- 7))) = None"
  by (simp_all add: parse_hal_value_def debug_int_def) code_simp+

subsection \<open>Playing a scene\<close>

abbreviation play_one :: "value_format \<Rightarrow> ('cb, 'w) harness \<Rightarrow> string \<times> string \<Rightarrow> ('cb, 'w) harness" where
  "play_one fm \<equiv> \<lambda>h (nm, text). case parse_hal_value fm text of Some v \<Rightarrow> set_signal h nm v | None \<Rightarrow> h"

lemma play_signals: "eng_signals (sim_engine (foldl (play_one fm) h scene)) = eng_signals (sim_engine h)"
  by (induction scene arbitrary: h) (auto split: option.split)

lemma play_read:
  assumes "distinct (map fst scene)" and "(nm, text) \<in> set scene" and "parse_hal_value fm text = Some v"
  shows "snd (mw_read_signal (eng_middleware (sim_engine (foldl (play_one fm) h scene))) nm) = Some (v, zero_time)"
  using assms(1,2)
proof (induction scene rule: rev_induct)
  case (snoc x scene)
  obtain nm' text' where x: "x = (nm', text')" by (cases x)
  show ?case
  proof (cases "nm' = nm")
    case True
    then have "text' = text" using snoc.prems x by (auto simp: image_iff)
    then show ?thesis using True x assms(3) by (simp add: read_set_signal)
  next
    case False
    then have "(nm, text) \<in> set scene" using snoc.prems(2) x by auto
    then show ?thesis using False x snoc.IH snoc.prems(1) by (simp add: read_set_signal split: option.split)
  qed
qed simp

text \<open>
  Playing a recorded scene restores the recorded values. In whatever order the map is
  enumerated, after its injections the next read barrier gives every monitored signal of the played
  engine the value it had when the scene was recorded, for boolean and 32-bit integer values.
\<close>

theorem playback_restores:
  assumes "registry_wf (eng_signals (sim_engine h'))"
    and "distinct (map fst scene)" and "set scene = set (record_frame fm h)"
    and "(nm, v) \<in> set (sim_signal_snapshot h)" and "replayable v"
    and "strategy_at (eng_signals (sim_engine h')) nm = Some Monitored"
  shows "value_at (eng_signals (read_barrier (sim_engine (play_frame fm scene h')))) nm = Some v"
proof -
  let ?e = "sim_engine (foldl (play_one fm) h' scene)"
  have e: "sim_engine (play_frame fm scene h') = step_cycle ?e" by (simp add: play_frame_def sim_step_cycle_def)
  have d: "(nm, debug_value fm v) \<in> set scene" using assms(3,4) by (force simp: record_frame_def)
  have r: "snd (mw_read_signal (eng_middleware (step_cycle ?e)) nm) = Some (v, zero_time)"
    using play_read [OF assms(2) d parse_replayable [OF assms(5)], of h'] by (simp add: step_cycle_def)
  have s: "eng_signals (step_cycle ?e) = eng_signals (sim_engine h')" by (simp add: step_cycle_def play_signals)
  show ?thesis using read_barrier_updates [of "step_cycle ?e" nm] assms(1,6) r s by (simp add: e)
qed

text \<open>
  Recording does not start the engine: when its thread does not run, every frame of a recording is
  the state at its beginning.
\<close>

lemma record_frame_step [simp]: "record_frame fm (sim_step_cycle h) = record_frame fm h"
  by (simp add: record_frame_def sim_signal_snapshot_def sim_step_cycle_def step_cycle_def signal_snapshot_def)

lemma record_without_thread:
  assumes "record_loop p fm (replicate n (\<lambda>_ h. h)) h = Ok (h1, fs)"
  shows "fs = replicate n (record_frame fm h)"
  using assms
proof (induction n arbitrary: h h1 fs)
  case (Suc n)
  obtain ms :: u64 where "ures p (uint (sim_cycle_ms h) + 5) = Ok ms"
    using Suc.prems by (cases "ures p (uint (sim_cycle_ms h) + 5) :: u64 outcome") auto
  then obtain fs' where r: "record_loop p fm (replicate n (\<lambda>_ h. h)) (sim_step_cycle h) = Ok (h1, fs')"
      and fs: "fs = record_frame fm (sim_step_cycle h) # fs'"
    using Suc.prems by (cases "record_loop p fm (replicate n (\<lambda>_ h. h)) (sim_step_cycle h)") auto
  then show ?case using Suc.IH [OF r] by simp
qed simp

subsection \<open>Faults\<close>

text \<open>A fault on a type the out-of-range case does not know hides every later fault on the signal.\<close>

lemma unknown_type_hides_faults:
  assumes "fault_of f = OutOfRange" and "fault_signal f = nm" and "out_of_range f32_max v = None"
  shows "resolve_loop f32_max (f # fs) nm v = (v, True)"
  using assms by simp

lemma filter_faults_window:
  assumes "\<forall>f \<in> set fs. uint (start_cycle f) + uint (duration_cycles f) < 2 ^ 64"
  shows "filter_faults p now fs = Ok (filter (\<lambda>f. start_cycle f \<le> now \<and> uint now < uint (start_cycle f) + uint (duration_cycles f)) fs)"
  using assms
proof (induction fs)
  case (Cons f fs)
  have "fault_active p now f = Ok (start_cycle f \<le> now \<and> uint now < uint (start_cycle f) + uint (duration_cycles f))"
  proof -
    let ?e = "uint (start_cycle f) + uint (duration_cycles f)"
    have b: "0 \<le> ?e" "?e < 2 ^ 64" using Cons.prems by simp_all
    then have u: "uint (word_of_int ?e :: u64) = ?e" by (simp add: uint_word_of_int_eq take_bit_int_eq_self del: of_int_add)
    have "ures p ?e = Ok (word_of_int ?e :: u64)" using u by (simp add: ures_def Let_def del: of_int_add)
    then show ?thesis using u by (simp add: fault_active_def word_less_def del: of_int_add)
  qed
  then show ?case using Cons by simp
qed simp

text \<open>
  A signal with an active timeout or disconnect fault and no out-of-range fault before it is
  suppressed; one without a fault passes unchanged.
\<close>

lemma resolve_suppresses:
  assumes "f \<in> set fs" and "fault_signal f = nm" and "fault_of f \<noteq> OutOfRange"
    and "\<forall>g \<in> set fs. fault_signal g = nm \<longrightarrow> fault_of g \<noteq> OutOfRange"
  shows "resolve_loop f32_max fs nm v = (v, False)"
  using assms by (induction fs) (auto split: fault_kind.split)

lemma resolve_untouched: "\<forall>f \<in> set fs. fault_signal f \<noteq> nm \<Longrightarrow> resolve_loop f32_max fs nm v = (v, True)"
  by (induction fs) auto

text \<open>
  Faults on a signal without an out-of-range fault act exactly in their windows. As long as no
  window reaches past the largest cycle number, a value passes unchanged unless the current cycle
  lies in the window of a timeout or disconnect fault of the signal, in which case it is
  suppressed.
\<close>

theorem faults_act_in_window:
  assumes "\<forall>f \<in> set (sim_faults h). uint (start_cycle f) + uint (duration_cycles f) < 2 ^ 64"
    and "\<forall>f \<in> set (sim_faults h). fault_signal f = nm \<longrightarrow> fault_of f \<noteq> OutOfRange"
  shows "resolve_fault f32_max p h nm v = Ok (v, \<not> (\<exists>f \<in> set (sim_faults h). fault_signal f = nm
    \<and> start_cycle f \<le> cycle_count (sim_engine h)
    \<and> uint (cycle_count (sim_engine h)) < uint (start_cycle f) + uint (duration_cycles f)))"
proof -
  let ?now = "cycle_count (sim_engine h)"
  let ?fs = "filter (\<lambda>f. start_cycle f \<le> ?now \<and> uint ?now < uint (start_cycle f) + uint (duration_cycles f)) (sim_faults h)"
  have r: "resolve_fault f32_max p h nm v = Ok (resolve_loop f32_max ?fs nm v)"
    using filter_faults_window [OF assms(1), of p ?now] by (simp add: resolve_fault_def active_faults_def)
  show ?thesis
  proof (cases "\<exists>f \<in> set ?fs. fault_signal f = nm")
    case True
    then have "resolve_loop f32_max ?fs nm v = (v, False)" using assms(2) by (auto intro: resolve_suppresses)
    then show ?thesis using True r by auto
  next
    case False
    then have "resolve_loop f32_max ?fs nm v = (v, True)" by (intro resolve_untouched) blast
    then show ?thesis using False r by auto
  qed
qed

subsection \<open>Witnesses\<close>

definition demo_sim :: "hal_value \<Rightarrow> (nat, nat) harness" where
  "demo_sim v = fst (sim_register_signal (harness_new 0 1) ''x'' TU32 v Monitored)"

lemma demo_sim_signals: "eng_signals (sim_engine (demo_sim v)) = [(''x'', signal_def_new ''x'' TU32 v Monitored)]"
  by (simp add: demo_sim_def sim_register_signal_def register_signal_def register_def harness_new_def engine_new_def
      registry_new_def signal_def_new_def)

lemma demo_sim_snapshot: "sim_signal_snapshot (demo_sim v) = [(''x'', v)]"
  by (simp add: sim_signal_snapshot_def signal_snapshot_def demo_sim_signals list_snapshots_def snapshots_by_strategy_def
      filter_admits_def snapshot_of_def signal_def_new_def)

definition demo_format :: value_format where
  "demo_format = \<lparr>debug_f32 = \<lambda>_. [], debug_f64 = \<lambda>_. [], debug_other = \<lambda>_. [], read_f32 = \<lambda>_. None, read_f64 = \<lambda>_. None\<rparr>"

theorem playback_restores_witness:
  "value_at (eng_signals (read_barrier (sim_engine (play_frame demo_format
     (record_frame demo_format (demo_sim (VU32 42))) (demo_sim (VU32 0)))))) ''x'' = Some (VU32 42)"
proof (rule playback_restores [where h = "demo_sim (VU32 42)" and fm = demo_format])
  show "registry_wf (eng_signals (sim_engine (demo_sim (VU32 0))))"
    unfolding demo_sim_signals by (simp add: registry_wf_def hm_wf_def signal_def_new_def)
  show "distinct (map fst (record_frame demo_format (demo_sim (VU32 42))))"
    by (simp add: record_frame_def demo_sim_snapshot)
  show "strategy_at (eng_signals (sim_engine (demo_sim (VU32 0)))) ''x'' = Some Monitored"
    unfolding demo_sim_signals by (simp add: signal_def_new_def)
qed (simp_all add: demo_sim_snapshot)

theorem faults_act_in_window_witness:
  "resolve_fault 0 DevBuild (inject_fault (demo_sim (VU32 0)) Timeout ''x'' 0 5) ''x'' (VU32 3) = Ok (VU32 3, False)"
proof -
  have "cycle_count (sim_engine (demo_sim (VU32 0))) = 0" "sim_faults (demo_sim (VU32 0)) = []"
    by (simp_all add: demo_sim_def sim_register_signal_def register_signal_def register_def harness_new_def engine_new_def
        registry_new_def)
  then show ?thesis
    using faults_act_in_window [of "inject_fault (demo_sim (VU32 0)) Timeout ''x'' 0 5" "''x''" 0 DevBuild "VU32 3"]
    by (simp add: inject_fault_def)
qed

end
