(* ===== verification/Modbus_Adapter.thy ===== *)
theory Modbus_Adapter
  imports Inproc_Transport Rust_Str
begin

text \<open>
  The Modbus adapter \<^verbatim>\<open>audesys-modbus\<close>: register mapping, the checks of the client and the poll
  loop between a device and the transport. What libmodbus does with a device is an argument, a
  record of functions on a device state; a negative return value is an error text here.
\<close>

unbundle bit_operations_syntax

subsection \<open>Errors\<close>

datatype modbus_error =
    MbConnection string | MbIo string | MbProtocol string | MbTimeout string | MbInvalidAddress u16
  | MbInvalidData string | MbNotConnected | MbUnsupported string | MbInternal string

fun modbus_hal_error :: "modbus_error \<Rightarrow> hal_error" where
  "modbus_hal_error (MbTimeout msg) = Internal (''Modbus timeout: '' @ msg)"
| "modbus_hal_error (MbConnection msg) = Execution ''modbus_connect'' msg"
| "modbus_hal_error (MbIo msg) = Execution ''modbus_io'' msg"
| "modbus_hal_error (MbProtocol msg) = Execution ''modbus_protocol'' msg"
| "modbus_hal_error (MbInvalidAddress a) = Execution ''modbus_address'' (dec_string (unat a))"
| "modbus_hal_error (MbInvalidData msg) = Execution ''modbus_data'' msg"
| "modbus_hal_error MbNotConnected = Execution ''modbus_op'' ''not connected''"
| "modbus_hal_error (MbUnsupported msg) = Execution ''modbus_unsupported'' msg"
| "modbus_hal_error (MbInternal msg) = Execution ''modbus_internal'' msg"

subsection \<open>Register mapping\<close>

datatype register_type = RtU16 | RtS16 | RtU32 | RtS32 | RtF32 | RtF64 | RtCoil | RtArrayU16

definition coils_to_halvalue :: "byte list \<Rightarrow> hal_value" where
  "coils_to_halvalue coils =
     (case coils of [] \<Rightarrow> VBool False | [c] \<Rightarrow> VBool (c \<noteq> 0) | _ \<Rightarrow> VArray TBool coils)"

definition need_registers :: "nat \<Rightarrow> string \<Rightarrow> u16 list \<Rightarrow> (u16 list \<Rightarrow> hal_value) \<Rightarrow> modbus_error + hal_value" where
  "need_registers n nm regs f =
     (if length regs < n
      then Inl (MbInvalidData (''need '' @ dec_string n @ '' registers for '' @ nm @ '', got '' @ dec_string (length regs)))
      else Inr (f regs))"

definition two_words :: "u16 list \<Rightarrow> u32" where
  "two_words regs = (push_bit 16 (ucast (regs ! 0)) OR ucast (regs ! 1))"

definition four_words :: "u16 list \<Rightarrow> u64" where
  "four_words regs =
     (push_bit 48 (ucast (regs ! 0)) OR push_bit 32 (ucast (regs ! 1)) OR push_bit 16 (ucast (regs ! 2)) OR ucast (regs ! 3))"

fun registers_to_halvalue :: "u16 list \<Rightarrow> register_type \<Rightarrow> modbus_error + hal_value" where
  "registers_to_halvalue regs RtU16 =
     (if regs = [] then Inl (MbInvalidData ''empty register slice for U16'') else Inr (VU16 (regs ! 0)))"
| "registers_to_halvalue regs RtS16 =
     (if regs = [] then Inl (MbInvalidData ''empty register slice for S16'') else Inr (VS16 (regs ! 0)))"
| "registers_to_halvalue regs RtU32 = need_registers 2 ''U32'' regs (\<lambda>r. VU32 (two_words r))"
| "registers_to_halvalue regs RtS32 = need_registers 2 ''S32'' regs (\<lambda>r. VS32 (two_words r))"
| "registers_to_halvalue regs RtF32 = need_registers 2 ''F32'' regs (\<lambda>r. VF32 (two_words r))"
| "registers_to_halvalue regs RtF64 = need_registers 4 ''F64'' regs (\<lambda>r. VF64 (four_words r))"
| "registers_to_halvalue regs RtCoil = Inr (coils_to_halvalue (concat (map word_le regs)))"
| "registers_to_halvalue regs RtArrayU16 = Inr (VArray TU16 (concat (map word_le regs)))"

definition split2 :: "u32 \<Rightarrow> u16 list" where
  "split2 bits = [ucast (drop_bit 16 bits), ucast bits]"

definition split4 :: "u64 \<Rightarrow> u16 list" where
  "split4 bits = [ucast (drop_bit 48 bits), ucast (drop_bit 32 bits), ucast (drop_bit 16 bits), ucast bits]"

fun byte_pairs :: "byte list \<Rightarrow> u16 list" where
  "byte_pairs (a # b # bs) = le_word [a, b] # byte_pairs bs"
| "byte_pairs _ = []"

definition paired :: "string \<Rightarrow> string \<Rightarrow> byte list \<Rightarrow> modbus_error + u16 list \<times> register_type" where
  "paired what unit bs =
     (if length bs mod 2 \<noteq> 0 then Inl (MbInvalidData (what @ dec_string (length bs) @ '' not a multiple of 2'' @ unit))
      else Inr (byte_pairs bs, RtArrayU16))"

fun halvalue_to_registers :: "(hal_pin_type \<Rightarrow> string) \<Rightarrow> hal_value \<Rightarrow> modbus_error + u16 list \<times> register_type" where
  "halvalue_to_registers dbg (VBool v) = Inr ([if v then 1 else 0], RtCoil)"
| "halvalue_to_registers dbg (VS8 v) = Inr ([scast v], RtS16)"
| "halvalue_to_registers dbg (VU8 v) = Inr ([ucast v], RtU16)"
| "halvalue_to_registers dbg (VS16 v) = Inr ([v], RtS16)"
| "halvalue_to_registers dbg (VU16 v) = Inr ([v], RtU16)"
| "halvalue_to_registers dbg (VS32 v) = Inr (split2 v, RtS32)"
| "halvalue_to_registers dbg (VU32 v) = Inr (split2 v, RtU32)"
| "halvalue_to_registers dbg (VS64 v) = Inr (split4 v, RtF64)"
| "halvalue_to_registers dbg (VU64 v) = Inr (split4 v, RtF64)"
| "halvalue_to_registers dbg (VF32 v) = Inr (split2 v, RtF32)"
| "halvalue_to_registers dbg (VF64 v) = Inr (split4 v, RtF64)"
| "halvalue_to_registers dbg (VBlob v) = paired ''Blob length '' '' (u16)'' v"
| "halvalue_to_registers dbg (VArray t data) =
     (if t \<noteq> TU16 then Inl (MbUnsupported (''Array element type '' @ dbg t @ '' not supported for Modbus''))
      else paired ''Array data length '' [] data)"
| "halvalue_to_registers dbg (VString s) = paired ''String length '' [] (string_bytes s)"

subsection \<open>Client\<close>

record 'd modbus_lib =
  lib_new_tcp :: "string \<Rightarrow> u16 \<Rightarrow> 'd option"
  lib_new_rtu :: "string \<Rightarrow> i32 \<Rightarrow> byte \<Rightarrow> byte \<Rightarrow> byte \<Rightarrow> 'd option"
  lib_set_slave :: "byte \<Rightarrow> 'd \<Rightarrow> 'd \<times> string option"
  lib_set_response_timeout :: "nat \<Rightarrow> 'd \<Rightarrow> 'd"
  lib_close :: "'d \<Rightarrow> 'd"
  lib_connect :: "'d \<Rightarrow> 'd \<times> string option"
  lib_read_registers :: "u16 \<Rightarrow> u16 \<Rightarrow> 'd \<Rightarrow> 'd \<times> (string + u16 list)"
  lib_read_input_registers :: "u16 \<Rightarrow> u16 \<Rightarrow> 'd \<Rightarrow> 'd \<times> (string + u16 list)"
  lib_read_bits :: "u16 \<Rightarrow> u16 \<Rightarrow> 'd \<Rightarrow> 'd \<times> (string + byte list)"
  lib_read_input_bits :: "u16 \<Rightarrow> u16 \<Rightarrow> 'd \<Rightarrow> 'd \<times> (string + byte list)"
  lib_write_register :: "u16 \<Rightarrow> u16 \<Rightarrow> 'd \<Rightarrow> 'd \<times> string option"
  lib_write_registers :: "u16 \<Rightarrow> u16 list \<Rightarrow> 'd \<Rightarrow> 'd \<times> string option"
  lib_write_bit :: "u16 \<Rightarrow> bool \<Rightarrow> 'd \<Rightarrow> 'd \<times> string option"

record 'd modbus_client =
  mc_ctx :: 'd
  mc_connected :: bool

type_synonym ('d, 'a) client_call = "'d modbus_client \<Rightarrow> 'd modbus_client \<times> (modbus_error + 'a)"

text \<open>\<^verbatim>\<open>CString::new\<close> refuses a text with a zero byte.\<close>

definition c_string :: "string \<Rightarrow> modbus_error + string" where
  "c_string s =
     (if CHR 0x00 \<in> set s
      then Inl (MbConnection (''nul byte found in provided data at position: '' @ dec_string (length (takeWhile (\<lambda>c. c \<noteq> CHR 0x00) s))))
      else Inr s)"

definition new_context :: "string \<Rightarrow> 'd option \<Rightarrow> modbus_error + 'd modbus_client" where
  "new_context kind ctx =
     (case ctx of
        None \<Rightarrow> Inl (MbConnection (''failed to create '' @ kind @ '' context''))
      | Some d \<Rightarrow> Inr \<lparr>mc_ctx = d, mc_connected = False\<rparr>)"

definition new_tcp :: "'d modbus_lib \<Rightarrow> string \<Rightarrow> u16 \<Rightarrow> modbus_error + 'd modbus_client" where
  "new_tcp lib host port =
     (case c_string host of Inl e \<Rightarrow> Inl e | Inr h \<Rightarrow> new_context ''TCP'' (lib_new_tcp lib h port))"

definition new_rtu :: "'d modbus_lib \<Rightarrow> string \<Rightarrow> u32 \<Rightarrow> u32 \<Rightarrow> byte \<Rightarrow> byte \<Rightarrow> modbus_error + 'd modbus_client" where
  "new_rtu lib device baud parity data_bits stop_bits =
     (case c_string device of
        Inl e \<Rightarrow> Inl e
      | Inr h \<Rightarrow> new_context ''RTU'' (lib_new_rtu lib h baud (ucast parity) data_bits stop_bits))"

definition set_slave :: "'d modbus_lib \<Rightarrow> byte \<Rightarrow> ('d, unit) client_call" where
  "set_slave lib i c =
     (case lib_set_slave lib i (mc_ctx c) of
        (d, Some err) \<Rightarrow> (c\<lparr>mc_ctx := d\<rparr>, Inl (MbProtocol err))
      | (d, None) \<Rightarrow> (c\<lparr>mc_ctx := d\<rparr>, Inr ()))"

definition mc_connect :: "'d modbus_lib \<Rightarrow> ('d, unit) client_call" where
  "mc_connect lib c =
     (case lib_connect lib (mc_ctx c) of
        (d, Some err) \<Rightarrow> (c\<lparr>mc_ctx := d\<rparr>, Inl (MbConnection err))
      | (d, None) \<Rightarrow> (c\<lparr>mc_ctx := lib_set_response_timeout lib 1 d, mc_connected := True\<rparr>, Inr ()))"

definition mc_disconnect :: "'d modbus_lib \<Rightarrow> 'd modbus_client \<Rightarrow> 'd modbus_client" where
  "mc_disconnect lib c =
     (if mc_connected c then c\<lparr>mc_connected := False, mc_ctx := lib_close lib (mc_ctx c)\<rparr> else c)"

definition checked :: "('d, 'a) client_call \<Rightarrow> ('d, 'a) client_call" where
  "checked f c = (if mc_connected c then f c else (c, Inl MbNotConnected))"

definition lib_read :: "('d \<Rightarrow> 'd \<times> (string + 'a)) \<Rightarrow> ('a \<Rightarrow> 'b) \<Rightarrow> ('d, 'b) client_call" where
  "lib_read f g c =
     (case f (mc_ctx c) of
        (d, Inl err) \<Rightarrow> (c\<lparr>mc_ctx := d\<rparr>, Inl (MbIo err))
      | (d, Inr x) \<Rightarrow> (c\<lparr>mc_ctx := d\<rparr>, Inr (g x)))"

definition lib_write :: "('d \<Rightarrow> 'd \<times> string option) \<Rightarrow> ('d, unit) client_call" where
  "lib_write f c =
     (case f (mc_ctx c) of
        (d, Some err) \<Rightarrow> (c\<lparr>mc_ctx := d\<rparr>, Inl (MbIo err))
      | (d, None) \<Rightarrow> (c\<lparr>mc_ctx := d\<rparr>, Inr ()))"

definition bad_count :: "nat \<Rightarrow> nat \<Rightarrow> modbus_error" where
  "bad_count n limit = MbInvalidData (''count '' @ dec_string n @ '' not in 1..='' @ dec_string limit)"

text \<open>The library's limits: 125 registers for a read, 123 for a write.\<close>

definition read_registers :: "(u16 \<Rightarrow> u16 \<Rightarrow> 'd \<Rightarrow> 'd \<times> (string + u16 list)) \<Rightarrow> u16 \<Rightarrow> u16 \<Rightarrow> ('d, u16 list) client_call" where
  "read_registers f a count =
     checked (\<lambda>c. if count = 0 \<or> 125 < count then (c, Inl (bad_count (unat count) 125))
                  else lib_read (f a count) (take (unat count)) c)"

definition read_bits :: "(u16 \<Rightarrow> u16 \<Rightarrow> 'd \<Rightarrow> 'd \<times> (string + byte list)) \<Rightarrow> u16 \<Rightarrow> u16 \<Rightarrow> ('d, bool list) client_call" where
  "read_bits f a count =
     checked (\<lambda>c. if count = 0 then (c, Inl (MbInvalidData ''count must be > 0''))
                  else lib_read (f a count) (\<lambda>bs. map (\<lambda>b. b \<noteq> 0) (take (unat count) bs)) c)"

definition write_single_coil :: "'d modbus_lib \<Rightarrow> u16 \<Rightarrow> bool \<Rightarrow> ('d, unit) client_call" where
  "write_single_coil lib a v = checked (lib_write (lib_write_bit lib a v))"

definition write_single_register :: "'d modbus_lib \<Rightarrow> u16 \<Rightarrow> u16 \<Rightarrow> ('d, unit) client_call" where
  "write_single_register lib a v = checked (lib_write (lib_write_register lib a v))"

definition write_multiple_registers :: "'d modbus_lib \<Rightarrow> u16 \<Rightarrow> u16 list \<Rightarrow> ('d, unit) client_call" where
  "write_multiple_registers lib a vs =
     checked (\<lambda>c. if vs = [] \<or> 123 < length vs then (c, Inl (bad_count (length vs) 123))
                  else lib_write (lib_write_registers lib a vs) c)"

subsection \<open>Adapter\<close>

datatype register_mapping_type = MtCoil | MtDiscreteInput | MtHoldingRegister | MtInputRegister

datatype signal_direction = DirRead | DirWrite

record register_mapping =
  map_signal :: string
  map_type :: register_mapping_type
  map_address :: u16
  map_count :: u16
  map_direction :: signal_direction

text \<open>A \<^verbatim>\<open>char\<close> of Rust, the parity, is its code point.\<close>

datatype connection_config =
    Tcp (tcp_host: string) (tcp_port: u16)
  | Rtu (rtu_device: string) (rtu_baud: u32) (rtu_parity: u32) (rtu_data_bits: byte) (rtu_stop_bits: byte) (rtu_slave_id: byte)

record modbus_config =
  cfg_connection :: connection_config
  cfg_mappings :: "register_mapping list"
  cfg_poll_interval_ms :: u64

record ('d, 'cb) modbus_adapter =
  ma_client :: "'d modbus_client"
  ma_transport :: "'cb inproc_transport"
  ma_mappings :: "register_mapping list"
  ma_cache :: "(string, sample) hmap"
  ma_shutdown :: bool
  ma_interval :: u64

definition open_client :: "'d modbus_lib \<Rightarrow> connection_config \<Rightarrow> modbus_error + 'd modbus_client" where
  "open_client lib conf =
     (let connected = (\<lambda>c. case mc_connect lib c of (_, Inl e) \<Rightarrow> Inl e | (c1, Inr _) \<Rightarrow> Inr c1)
      in case conf of
           Tcp host port \<Rightarrow> (case new_tcp lib host port of Inl e \<Rightarrow> Inl e | Inr c \<Rightarrow> connected c)
         | Rtu device baud parity data_bits stop_bits slave \<Rightarrow>
             (case new_rtu lib device baud parity data_bits stop_bits of
                Inl e \<Rightarrow> Inl e
              | Inr c \<Rightarrow> (case set_slave lib slave c of (_, Inl e) \<Rightarrow> Inl e | (c1, Inr _) \<Rightarrow> connected c1)))"

definition adapter_new :: "'d modbus_lib \<Rightarrow> modbus_config \<Rightarrow> 'cb inproc_transport \<Rightarrow> modbus_error + ('d, 'cb) modbus_adapter" where
  "adapter_new lib conf t =
     (case open_client lib (cfg_connection conf) of
        Inl e \<Rightarrow> Inl e
      | Inr c \<Rightarrow> Inr \<lparr>ma_client = c, ma_transport = t, ma_mappings = cfg_mappings conf, ma_cache = [],
                     ma_shutdown = False, ma_interval = cfg_poll_interval_ms conf\<rparr>)"

type_synonym ('d, 'cb) poll = "('d, 'cb) modbus_adapter \<times> (modbus_error + unit)"

definition device_value :: "'d modbus_lib \<Rightarrow> register_mapping \<Rightarrow> ('d, hal_value) client_call" where
  "device_value lib mp c =
     (let coils = (\<lambda>bs. Inr (coils_to_halvalue (map (\<lambda>b. if b then 1 else 0) bs)));
          first = (\<lambda>regs. registers_to_halvalue regs RtU16);
          run = (\<lambda>r f. case r of (c1, Inl e) \<Rightarrow> (c1, Inl e) | (c1, Inr x) \<Rightarrow> (c1, f x))
      in case map_type mp of
           MtCoil \<Rightarrow> (case read_bits (lib_read_bits lib) (map_address mp) (map_count mp) c of
                        (c1, Inl e) \<Rightarrow> (c1, Inl e) | (c1, Inr bs) \<Rightarrow> (c1, coils bs))
         | MtDiscreteInput \<Rightarrow> (case read_bits (lib_read_input_bits lib) (map_address mp) (map_count mp) c of
                        (c1, Inl e) \<Rightarrow> (c1, Inl e) | (c1, Inr bs) \<Rightarrow> (c1, coils bs))
         | MtHoldingRegister \<Rightarrow> run (read_registers (lib_read_registers lib) (map_address mp) (map_count mp) c) first
         | MtInputRegister \<Rightarrow> run (read_registers (lib_read_input_registers lib) (map_address mp) (map_count mp) c) first)"

definition poll_read :: "'d modbus_lib \<Rightarrow> timestamp \<Rightarrow> register_mapping \<Rightarrow> ('d, 'cb) modbus_adapter \<Rightarrow> ('d, 'cb) poll" where
  "poll_read lib ts mp a =
     (case device_value lib mp (ma_client a) of
        (c, Inl e) \<Rightarrow> (a\<lparr>ma_client := c\<rparr>, Inl e)
      | (c, Inr v) \<Rightarrow>
          (a\<lparr>ma_client := c, ma_transport := fst (publish_signal (ma_transport a) (map_signal mp) v ts),
             ma_cache := hm_insert (map_signal mp) (v, ts) (ma_cache a)\<rparr>, Inr ()))"

definition write_registers :: "'d modbus_lib \<Rightarrow> u16 \<Rightarrow> u16 list \<Rightarrow> ('d, unit) client_call" where
  "write_registers lib a regs =
     (if length regs = 1 then write_single_register lib a (regs ! 0) else write_multiple_registers lib a regs)"

definition poll_write ::
    "(hal_pin_type \<Rightarrow> string) \<Rightarrow> 'd modbus_lib \<Rightarrow> register_mapping \<Rightarrow> ('d, 'cb) modbus_adapter \<Rightarrow> ('d, 'cb) poll" where
  "poll_write dbg lib mp a =
     (case tr_read_signal (ma_transport a) (map_signal mp) of
        (t, None) \<Rightarrow> (a\<lparr>ma_transport := t\<rparr>, Inr ())
      | (t, Some (v, ts)) \<Rightarrow>
          (let a1 = a\<lparr>ma_transport := t\<rparr>;
               unchanged = (case hm_get (ma_cache a) (map_signal mp) of Some (cv, _) \<Rightarrow> hal_eq cv v | None \<Rightarrow> False)
           in if unchanged then (a1, Inr ())
              else case halvalue_to_registers dbg v of
                Inl e \<Rightarrow> (a1, Inl e)
              | Inr (regs, _) \<Rightarrow>
                  (case write_registers lib (map_address mp) regs (ma_client a) of
                     (c, Inl e) \<Rightarrow> (a1\<lparr>ma_client := c\<rparr>, Inl e)
                   | (c, Inr _) \<Rightarrow> (a1\<lparr>ma_client := c, ma_cache := hm_insert (map_signal mp) (v, ts) (ma_cache a)\<rparr>, Inr ()))))"

text \<open>One pass over the mappings; errors are printed and skipped.\<close>

definition poll_one ::
    "(hal_pin_type \<Rightarrow> string) \<Rightarrow> 'd modbus_lib \<Rightarrow> timestamp \<Rightarrow> ('d, 'cb) modbus_adapter \<Rightarrow> register_mapping \<Rightarrow> ('d, 'cb) modbus_adapter" where
  "poll_one dbg lib ts a mp =
     fst (case map_direction mp of DirRead \<Rightarrow> poll_read lib ts mp a | DirWrite \<Rightarrow> poll_write dbg lib mp a)"

definition poll_pass ::
    "(hal_pin_type \<Rightarrow> string) \<Rightarrow> 'd modbus_lib \<Rightarrow> timestamp \<Rightarrow> ('d, 'cb) modbus_adapter \<Rightarrow> ('d, 'cb) modbus_adapter" where
  "poll_pass dbg lib ts a = foldl (poll_one dbg lib ts) a (ma_mappings a)"

definition adapter_stop :: "('d, 'cb) modbus_adapter \<Rightarrow> ('d, 'cb) modbus_adapter" where
  "adapter_stop a = a\<lparr>ma_shutdown := True\<rparr>"

text \<open>
  The thread: a pass for each reading of the clock until the shutdown flag is up. Between two passes
  other threads publish signals and may raise the flag, the function of each reading.
\<close>

primrec poll_loop ::
    "(hal_pin_type \<Rightarrow> string) \<Rightarrow> 'd modbus_lib \<Rightarrow> (timestamp \<times> (('d, 'cb) modbus_adapter \<Rightarrow> ('d, 'cb) modbus_adapter)) list
      \<Rightarrow> ('d, 'cb) modbus_adapter \<Rightarrow> ('d, 'cb) modbus_adapter" where
  "poll_loop dbg lib [] a = a"
| "poll_loop dbg lib (p # ps) a =
     (if ma_shutdown a then a else poll_loop dbg lib ps (snd p (poll_pass dbg lib (fst p) a)))"

subsection \<open>Registers hold values\<close>

lemma two_words_split2: "two_words (split2 w) = w"
  by (rule bit_word_eqI) (auto simp: two_words_def split2_def bit_simps)

lemma four_words_split4: "four_words (split4 w) = w"
proof (rule bit_word_eqI)
  fix n assume "n < LENGTH(64)"
  then show "bit (four_words (split4 w)) n \<longleftrightarrow> bit w n"
    by (cases "n < 16"; cases "n < 32"; cases "n < 48") (auto simp: four_words_def split4_def bit_simps)
qed

lemma length_split [simp]: "length (split2 w2) = 2" "length (split4 w4) = 4"
  by (simp_all add: split2_def split4_def)

lemma byte_pairs_le: "length bs mod 2 = 0 \<Longrightarrow> concat (map word_le (byte_pairs bs)) = bs"
proof (induction bs rule: byte_pairs.induct)
  case (1 a b bs)
  have "word_le (le_word [a, b] :: u16) = [a, b]" by (rule word_le_le_word) simp_all
  then show ?case using 1 by simp
qed auto

text \<open>The values whose registers determine them.\<close>

fun native :: "hal_value \<Rightarrow> bool" where
  "native (VS16 _) = True"
| "native (VU16 _) = True"
| "native (VS32 _) = True"
| "native (VU32 _) = True"
| "native (VF32 _) = True"
| "native (VF64 _) = True"
| "native (VArray t _) = (t = TU16)"
| "native _ = False"



text \<open>A boolean is not: its register is read as an array of two.\<close>

lemma bool_not_restored:
  "halvalue_to_registers dbg (VBool True) = Inr ([1], RtCoil)" "registers_to_halvalue [1] RtCoil = Inr (VArray TBool [1, 0])"
  by (simp, code_simp)

subsection \<open>Polling\<close>

definition cached_same :: "('d, 'cb) modbus_adapter \<Rightarrow> string \<Rightarrow> hal_value \<Rightarrow> bool" where
  "cached_same a nm v = (case hm_get (ma_cache a) nm of Some (cv, _) \<Rightarrow> hal_eq cv v | None \<Rightarrow> False)"

lemma poll_write_cases:
  assumes "snd (tr_read_signal (ma_transport a) (map_signal mp)) = Some (v, ts)"
    and "poll_write dbg lib mp a = (a1, Inr ())"
  shows "(if cached_same a (map_signal mp) v then ma_client a1 = ma_client a \<and> ma_cache a1 = ma_cache a
      else (\<exists>regs t. halvalue_to_registers dbg v = Inr (regs, t)
        \<and> write_registers lib (map_address mp) regs (ma_client a) = (ma_client a1, Inr ()))
        \<and> ma_cache a1 = hm_insert (map_signal mp) (v, ts) (ma_cache a))
    \<and> snd (tr_read_signal (ma_transport a1) (map_signal mp)) = Some (v, ts)"
proof -
  obtain t where t: "tr_read_signal (ma_transport a) (map_signal mp) = (t, Some (v, ts))"
    using assms(1) by (cases "tr_read_signal (ma_transport a) (map_signal mp)") auto
  have "snd (tr_read_signal t (map_signal mp)) = Some (v, ts)"
    using inproc.read_read [of "ma_transport a" "map_signal mp" "map_signal mp"] t by simp
  then show ?thesis using assms(2) t
    by (auto simp: poll_write_def cached_same_def Let_def split: if_splits sum.splits prod.splits option.splits)
qed

text \<open>
  C20: a changed value is written once. A poll of a write mapping that succeeds leaves the device
  alone when the value is the cached one and otherwise writes the registers of the value; in both
  cases the next poll leaves the device alone as long as the signal does not change, unless the
  value is not equal to itself.
\<close>

theorem changes_written_once:
  assumes "snd (tr_read_signal (ma_transport a) (map_signal mp)) = Some (v, ts)"
    and "poll_write dbg lib mp a = (a1, Inr ())" and "hal_eq v v"
  shows "(if cached_same a (map_signal mp) v then ma_client a1 = ma_client a
      else \<exists>regs t. halvalue_to_registers dbg v = Inr (regs, t)
        \<and> write_registers lib (map_address mp) regs (ma_client a) = (ma_client a1, Inr ()))
    \<and> (\<exists>a2. poll_write dbg lib mp a1 = (a2, Inr ()) \<and> ma_client a2 = ma_client a1)"
proof -
  note c = poll_write_cases [OF assms(1,2)]
  have "cached_same a1 (map_signal mp) v"
    using c assms(3) by (cases "cached_same a (map_signal mp) v") (auto simp: cached_same_def)
  moreover obtain t where "tr_read_signal (ma_transport a1) (map_signal mp) = (t, Some (v, ts))"
    using c by (cases "tr_read_signal (ma_transport a1) (map_signal mp)") auto
  ultimately have "\<exists>a2. poll_write dbg lib mp a1 = (a2, Inr ()) \<and> ma_client a2 = ma_client a1"
    by (simp add: poll_write_def cached_same_def Let_def)
  then show ?thesis using c by (auto split: if_splits)
qed

text \<open>A device of sixteen-bit registers, for the examples.\<close>

definition demo_lib :: "(u16 \<Rightarrow> u16) modbus_lib" where
  "demo_lib = \<lparr>lib_new_tcp = \<lambda>h p. Some (\<lambda>_. 0), lib_new_rtu = \<lambda>h b p d s. None,
     lib_set_slave = \<lambda>i d. (d, None), lib_set_response_timeout = \<lambda>n d. d, lib_close = \<lambda>d. d,
     lib_connect = \<lambda>d. (d, None),
     lib_read_registers = \<lambda>a n d. (d, Inr (map (\<lambda>i. d (a + of_nat i)) [0..<unat n])),
     lib_read_input_registers = \<lambda>a n d. (d, Inl ''unsupported''),
     lib_read_bits = \<lambda>a n d. (d, Inl ''unsupported''), lib_read_input_bits = \<lambda>a n d. (d, Inl ''unsupported''),
     lib_write_register = \<lambda>a v d. (d(a := v), None),
     lib_write_registers = \<lambda>a vs d. (foldl (\<lambda>d (i, v). d(a + of_nat i := v)) d (enumerate 0 vs), None),
     lib_write_bit = \<lambda>a v d. (d, None)\<rparr>"

definition demo_mapping :: register_mapping where
  "demo_mapping = \<lparr>map_signal = ''speed'', map_type = MtHoldingRegister, map_address = 4, map_count = 1, map_direction = DirWrite\<rparr>"

definition demo_adapter :: "(u16 \<Rightarrow> u16, nat) modbus_adapter" where
  "demo_adapter = \<lparr>ma_client = \<lparr>mc_ctx = \<lambda>_. 0, mc_connected = True\<rparr>,
     ma_transport = fst (publish_signal transport_new ''speed'' (VU16 7) \<lparr>ts_secs = 1, ts_micros = 0\<rparr>),
     ma_mappings = [demo_mapping], ma_cache = [], ma_shutdown = False, ma_interval = 100\<rparr>"

theorem changes_written_once_witness:
  "\<exists>a1 a2. poll_write (\<lambda>_. []) demo_lib demo_mapping demo_adapter = (a1, Inr ()) \<and> mc_ctx (ma_client a1) 4 = 7
    \<and> poll_write (\<lambda>_. []) demo_lib demo_mapping a1 = (a2, Inr ()) \<and> ma_client a2 = ma_client a1"
proof -
  have r: "snd (tr_read_signal (ma_transport demo_adapter) (map_signal demo_mapping)) = Some (VU16 7, \<lparr>ts_secs = 1, ts_micros = 0\<rparr>)"
    by (simp add: demo_adapter_def demo_mapping_def inproc.read_publish)
  then obtain t where t: "tr_read_signal (ma_transport demo_adapter) (map_signal demo_mapping) = (t, Some (VU16 7, \<lparr>ts_secs = 1, ts_micros = 0\<rparr>))"
    by (cases "tr_read_signal (ma_transport demo_adapter) (map_signal demo_mapping)") auto
  have e: "hal_eq (VU16 7) (VU16 7)" by (simp add: hal_eq_def)
  obtain a1 where p: "poll_write (\<lambda>_. []) demo_lib demo_mapping demo_adapter = (a1, Inr ())" "mc_ctx (ma_client a1) 4 = 7"
    using t by (simp add: poll_write_def demo_adapter_def demo_mapping_def demo_lib_def write_registers_def
        write_single_register_def checked_def lib_write_def)
  from changes_written_once [OF r p(1) e] p show ?thesis by blast
qed

text \<open>A value that is not a number is written again at every poll.\<close>

lemma fcmp_val_equal: "fcmp_val x y = Some Equal \<Longrightarrow> fcmp_val y y = Some Equal"
  by (cases y) (cases x; simp add: int_cmp_def)+

lemma hal_eq_f32: "hal_eq x (VF32 w) \<Longrightarrow> hal_eq (VF32 w) (VF32 w)"
  by (cases x) (auto simp: hal_eq_def f32_cmp_def intro: fcmp_val_equal)

lemma nan_written_every_poll:
  assumes "snd (tr_read_signal (ma_transport a) (map_signal mp)) = Some (VF32 w, ts)" and "\<not> hal_eq (VF32 w) (VF32 w)"
    and "poll_write dbg lib mp a = (a1, Inr ())"
  shows "write_registers lib (map_address mp) (split2 w) (ma_client a) = (ma_client a1, Inr ())"
proof -
  have "\<not> cached_same a (map_signal mp) (VF32 w)"
    using assms(2) hal_eq_f32 by (auto simp: cached_same_def split: option.splits)
  then show ?thesis using poll_write_cases [OF assms(1,3)] by auto
qed

text \<open>A register mapping publishes the first register only, whatever its count.\<close>

lemma only_first_register:
  assumes "map_type mp = MtHoldingRegister" and "mc_connected (ma_client a)" and "0 < map_count mp" and "map_count mp \<le> 125"
    and "lib_read_registers lib (map_address mp) (map_count mp) (mc_ctx (ma_client a)) = (d, Inr (r # rs))"
  shows "snd (tr_read_signal (ma_transport (fst (poll_read lib ts mp a))) (map_signal mp)) = Some (VU16 r, ts)"
proof -
  obtain k where "unat (map_count mp) = Suc k" using assms(3) by (cases "unat (map_count mp)") (auto simp: word_less_nat_alt)
  then have "device_value lib mp (ma_client a) = ((ma_client a)\<lparr>mc_ctx := d\<rparr>, Inr (VU16 r))"
    using assms by (simp add: device_value_def read_registers_def checked_def lib_read_def not_less Let_def)
  then show ?thesis by (simp add: poll_read_def inproc.read_publish)
qed

end
