(* ===== verification/Hart_Adapter.thy ===== *)
theory Hart_Adapter
  imports Inproc_Transport Rust_Str
begin

text \<open>
  The HART adapter \<^verbatim>\<open>audesys-hart\<close>: conversion of variables, the client over a serial port and the
  poll loop. The serial port and the frame codec of \<^verbatim>\<open>hart_protocol\<close> are arguments, records of
  functions on a port state and a decoder state; an error of theirs is its text.
\<close>

unbundle bit_operations_syntax

subsection \<open>Errors\<close>

datatype hart_error =
    HtConnection string | HtIo string | HtProtocol string | HtTimeout string | HtInvalidAddress byte
  | HtInvalidData string | HtNotConnected | HtUnsupported string | HtInternal string

fun hart_hal_error :: "hart_error \<Rightarrow> hal_error" where
  "hart_hal_error (HtConnection msg) = Execution ''hart_connect'' msg"
| "hart_hal_error (HtIo msg) = Execution ''hart_io'' msg"
| "hart_hal_error (HtProtocol msg) = Execution ''hart_protocol'' msg"
| "hart_hal_error (HtTimeout msg) = Execution ''hart_timeout'' msg"
| "hart_hal_error (HtInvalidAddress a) = Execution ''hart_set_address'' (''invalid polling address: '' @ dec_string (unat a))"
| "hart_hal_error (HtInvalidData msg) = Execution ''hart_data'' msg"
| "hart_hal_error HtNotConnected = Execution ''hart_operation'' ''device not connected''"
| "hart_hal_error (HtUnsupported msg) = Execution ''hart_unsupported'' msg"
| "hart_hal_error (HtInternal msg) = Internal msg"

subsection \<open>Variables\<close>

datatype variable_type = VtFloat | VtU8 | VtU16 | VtU24 | VtStatus

fun to_pin_type :: "variable_type \<Rightarrow> hal_pin_type" where
  "to_pin_type VtFloat = TF32"
| "to_pin_type VtU8 = TU8"
| "to_pin_type VtU16 = TU16"
| "to_pin_type VtU24 = TU32"
| "to_pin_type VtStatus = TU16"

text \<open>\<^verbatim>\<open>to_be_bytes\<close> and \<^verbatim>\<open>from_be_bytes\<close>.\<close>

definition word_be :: "'a::len word \<Rightarrow> byte list" where
  "word_be w = rev (word_le w)"

definition be_word :: "byte list \<Rightarrow> 'a::len word" where
  "be_word bs = le_word (rev bs)"

definition decode_f32_be :: "byte list \<Rightarrow> f32" where
  "decode_f32_be bs = be_word (take 4 bs)"

definition encode_f32_be :: "f32 \<Rightarrow> byte list" where
  "encode_f32_be v = word_be v"

definition decode_u16_be :: "byte list \<Rightarrow> u16" where
  "decode_u16_be bs = be_word (take 2 bs)"

definition decode_u24_be :: "byte list \<Rightarrow> u32" where
  "decode_u24_be bs = push_bit 16 (ucast (bs ! 0)) OR push_bit 8 (ucast (bs ! 1)) OR ucast (bs ! 2)"

definition need_bytes :: "nat \<Rightarrow> string \<Rightarrow> byte list \<Rightarrow> hal_value \<Rightarrow> hart_error + hal_value" where
  "need_bytes n msg data v = (if length data < n then Inl (HtInvalidData msg) else Inr v)"

fun variables_to_halvalue :: "byte list \<Rightarrow> variable_type \<Rightarrow> hart_error + hal_value" where
  "variables_to_halvalue data VtFloat = need_bytes 4 ''float requires 4 bytes'' data (VF32 (decode_f32_be data))"
| "variables_to_halvalue data VtU8 = need_bytes 1 ''u8 requires 1 byte'' data (VU8 (data ! 0))"
| "variables_to_halvalue data VtU16 = need_bytes 2 ''u16 requires 2 bytes'' data (VU16 (decode_u16_be data))"
| "variables_to_halvalue data VtU24 = need_bytes 3 ''u24 requires 3 bytes'' data (VU32 (decode_u24_be data))"
| "variables_to_halvalue data VtStatus = need_bytes 2 ''status requires 2 bytes'' data (VU16 (decode_u16_be data))"

definition halvalue_to_variables :: "(hal_value \<Rightarrow> string) \<Rightarrow> hal_value \<Rightarrow> hart_error + byte list \<times> variable_type" where
  "halvalue_to_variables dbg v =
     (case v of
        VF32 w \<Rightarrow> Inr (encode_f32_be w, VtFloat)
      | VU8 w \<Rightarrow> Inr ([w], VtU8)
      | VU16 w \<Rightarrow> Inr (word_be w, VtU16)
      | VU32 w \<Rightarrow> Inr (drop 1 (word_be w), VtU24)
      | other \<Rightarrow> Inl (HtUnsupported (''HalValue variant '' @ dbg other @ '' has no HART wire equivalent'')))"

subsection \<open>Client\<close>

text \<open>A frame the decoder completed: whether it is a response, the text of its kind, its data.\<close>

record raw_frame =
  rf_response :: bool
  rf_kind_text :: string
  rf_data :: "byte list"

record 's serial_io =
  port_read :: "nat \<Rightarrow> 's \<Rightarrow> 's \<times> (string + byte list)"
  port_write :: "byte list \<Rightarrow> 's \<Rightarrow> 's \<times> string option"
  port_flush :: "'s \<Rightarrow> 's \<times> string option"

record 'k hart_codec =
  encode_frame :: "byte \<Rightarrow> byte \<Rightarrow> byte list \<Rightarrow> string + byte list"
  decoder_new :: 'k
  decoder_feed :: "byte \<Rightarrow> 'k \<Rightarrow> 'k \<times> (string + raw_frame option)"

record hart_response =
  status_byte0 :: byte
  status_byte1 :: byte
  resp_data :: "byte list"

text \<open>A client holds its port and the short address of the device, primary master, no burst.\<close>

record 's hart_client =
  hc_port :: 's
  hc_address :: byte

definition hart_client_new :: "(string \<Rightarrow> string + 's) \<Rightarrow> string \<Rightarrow> byte \<Rightarrow> hart_error + 's hart_client" where
  "hart_client_new open_port device poll_address =
     (case open_port device of
        Inl e \<Rightarrow> Inl (HtConnection (''failed to open '' @ device @ '': '' @ e))
      | Inr s \<Rightarrow> Inr \<lparr>hc_port = s, hc_address = poll_address\<rparr>)"

definition set_address :: "byte \<Rightarrow> 's hart_client \<Rightarrow> 's hart_client" where
  "set_address poll_address c = c\<lparr>hc_address := poll_address\<rparr>"

partial_function (option) drain_rx :: "'s serial_io \<Rightarrow> 's \<Rightarrow> ('s \<times> (string + unit)) option" where
  "drain_rx io s =
     (case port_read io 64 s of
        (s1, Inl e) \<Rightarrow> Some (s1, Inl e)
      | (s1, Inr bs) \<Rightarrow> if bs = [] then Some (s1, Inr ()) else drain_rx io s1)"

definition parse_response :: "raw_frame \<Rightarrow> hart_error + hart_response" where
  "parse_response f =
     (if \<not> rf_response f then Inl (HtProtocol (''expected response frame, got '' @ rf_kind_text f))
      else case rf_data f of
        s0 # s1 # rest \<Rightarrow> Inr \<lparr>status_byte0 = s0, status_byte1 = s1, resp_data = rest\<rparr>
      | _ \<Rightarrow> Inl (HtProtocol ''response too short for status bytes''))"

partial_function (option) receive_loop ::
    "'s serial_io \<Rightarrow> 'k hart_codec \<Rightarrow> 'k \<Rightarrow> 's \<Rightarrow> ('s \<times> (hart_error + hart_response)) option" where
  "receive_loop io cd k s =
     (case port_read io 1 s of
        (s1, Inl e) \<Rightarrow> Some (s1, Inl (HtIo (''read failed: '' @ e)))
      | (s1, Inr []) \<Rightarrow> Some (s1, Inl (HtTimeout ''no response from device''))
      | (s1, Inr (b # _)) \<Rightarrow>
          (case decoder_feed cd b k of
             (_, Inl e) \<Rightarrow> Some (s1, Inl (HtProtocol (''decode error: '' @ e)))
           | (_, Inr (Some f)) \<Rightarrow> Some (s1, parse_response f)
           | (k1, Inr None) \<Rightarrow> receive_loop io cd k1 s1))"

definition exchange :: "'s serial_io \<Rightarrow> 'k hart_codec \<Rightarrow> byte list \<Rightarrow> 's \<Rightarrow> ('s \<times> (hart_error + hart_response)) option" where
  "exchange io cd tx s =
     (case port_write io tx s of
        (s1, Some e) \<Rightarrow> Some (s1, Inl (HtIo (''write failed: '' @ e)))
      | (s1, None) \<Rightarrow>
          (case port_flush io s1 of
             (s2, Some e) \<Rightarrow> Some (s2, Inl (HtIo (''flush failed: '' @ e)))
           | (s2, None) \<Rightarrow> receive_loop io cd (decoder_new cd) s2))"

definition send_command ::
    "'s serial_io \<Rightarrow> 'k hart_codec \<Rightarrow> byte \<Rightarrow> byte list \<Rightarrow> 's hart_client \<Rightarrow> ('s hart_client \<times> (hart_error + hart_response)) option" where
  "send_command io cd cmd data c =
     (case encode_frame cd (hc_address c) cmd data of
        Inl e \<Rightarrow> Some (c, Inl (HtProtocol (''frame encode failed: '' @ e)))
      | Inr tx \<Rightarrow>
          (case drain_rx io (hc_port c) of
             None \<Rightarrow> None
           | Some (s1, Inl e) \<Rightarrow> Some (c\<lparr>hc_port := s1\<rparr>, Inl (HtIo (''drain failed: '' @ e)))
           | Some (s1, Inr _) \<Rightarrow> map_option (\<lambda>(s2, r). (c\<lparr>hc_port := s2\<rparr>, r)) (exchange io cd tx s1)))"

text \<open>The universal commands 0 to 3.\<close>

definition read_device_id :: "'s serial_io \<Rightarrow> 'k hart_codec \<Rightarrow> 's hart_client \<Rightarrow> ('s hart_client \<times> (hart_error + hart_response)) option" where
  "read_device_id io cd = send_command io cd 0 []"

definition read_pv :: "'s serial_io \<Rightarrow> 'k hart_codec \<Rightarrow> 's hart_client \<Rightarrow> ('s hart_client \<times> (hart_error + hart_response)) option" where
  "read_pv io cd = send_command io cd 1 []"

definition read_loop_current :: "'s serial_io \<Rightarrow> 'k hart_codec \<Rightarrow> 's hart_client \<Rightarrow> ('s hart_client \<times> (hart_error + hart_response)) option" where
  "read_loop_current io cd = send_command io cd 2 []"

definition read_dynamic_vars :: "'s serial_io \<Rightarrow> 'k hart_codec \<Rightarrow> 's hart_client \<Rightarrow> ('s hart_client \<times> (hart_error + hart_response)) option" where
  "read_dynamic_vars io cd = send_command io cd 3 []"

subsection \<open>Adapter\<close>

datatype hart_direction = HartRead | HartWrite

datatype variable_mapping_type = Pv | Sv | Tv | Qv | Status

record variable_mapping =
  hm_signal :: string
  hm_type :: variable_mapping_type
  hm_direction :: hart_direction

record hart_config =
  hart_device :: string
  hart_mappings :: "variable_mapping list"
  hart_poll_interval_ms :: u64

record ('s, 'cb) hart_adapter =
  ha_client :: "'s hart_client"
  ha_transport :: "'cb inproc_transport"
  ha_mappings :: "variable_mapping list"
  ha_cache :: "(string, sample) hmap"
  ha_shutdown :: bool
  ha_interval :: u64

definition hart_adapter_new ::
    "(string \<Rightarrow> string + 's) \<Rightarrow> hart_config \<Rightarrow> 'cb inproc_transport \<Rightarrow> hart_error + ('s, 'cb) hart_adapter" where
  "hart_adapter_new open_port conf t =
     (case hart_client_new open_port (hart_device conf) 0 of
        Inl e \<Rightarrow> Inl e
      | Inr c \<Rightarrow> Inr \<lparr>ha_client = c, ha_transport = t, ha_mappings = hart_mappings conf, ha_cache = [],
                     ha_shutdown = False, ha_interval = hart_poll_interval_ms conf\<rparr>)"

fun var_offset :: "variable_mapping_type \<Rightarrow> nat" where
  "var_offset Pv = 1"
| "var_offset Sv = 6"
| "var_offset Tv = 11"
| "var_offset _ = 16"

definition dynamic_value :: "variable_mapping_type \<Rightarrow> byte list \<Rightarrow> hart_error + hal_value" where
  "dynamic_value vt data =
     (let offset = var_offset vt in
      if length data < offset + 4
      then Inl (HtInvalidData (''dynamic var response too short: '' @ dec_string (length data) @ '' bytes, need '' @ dec_string (offset + 4)))
      else variables_to_halvalue (drop offset data) VtFloat)"

text \<open>What a read mapping makes of the device; \<^verbatim>\<open>None\<close> when a loop of the client does not end.\<close>

definition hart_value ::
    "'s serial_io \<Rightarrow> 'k hart_codec \<Rightarrow> variable_mapping_type \<Rightarrow> 's hart_client \<Rightarrow> ('s hart_client \<times> (hart_error + hal_value)) option" where
  "hart_value io cd vt c =
     (if vt = Status
      then map_option (\<lambda>(c1, r). (c1, case r of Inl e \<Rightarrow> Inl e | Inr resp \<Rightarrow> Inr (VU16 (be_u16 (status_byte0 resp) (status_byte1 resp)))))
             (read_device_id io cd c)
      else map_option (\<lambda>(c1, r). (c1, case r of Inl e \<Rightarrow> Inl e | Inr resp \<Rightarrow> dynamic_value vt (resp_data resp)))
             (read_dynamic_vars io cd c))"

definition hart_poll_read ::
    "'s serial_io \<Rightarrow> 'k hart_codec \<Rightarrow> timestamp \<Rightarrow> variable_mapping \<Rightarrow> ('s, 'cb) hart_adapter
      \<Rightarrow> (('s, 'cb) hart_adapter \<times> (hart_error + unit)) option" where
  "hart_poll_read io cd ts mp a =
     map_option (\<lambda>(c, r). case r of
         Inl e \<Rightarrow> (a\<lparr>ha_client := c\<rparr>, Inl e)
       | Inr v \<Rightarrow> (a\<lparr>ha_client := c, ha_transport := fst (publish_signal (ha_transport a) (hm_signal mp) v ts),
                     ha_cache := hm_insert (hm_signal mp) (v, ts) (ha_cache a)\<rparr>, Inr ()))
       (hart_value io cd (hm_type mp) (ha_client a))"

definition hart_poll_write ::
    "(hal_value \<Rightarrow> string) \<Rightarrow> timestamp \<Rightarrow> variable_mapping \<Rightarrow> ('s, 'cb) hart_adapter \<Rightarrow> ('s, 'cb) hart_adapter \<times> (hart_error + unit)" where
  "hart_poll_write dbg ts mp a =
     (case tr_read_signal (ha_transport a) (hm_signal mp) of
        (t, None) \<Rightarrow> (a\<lparr>ha_transport := t\<rparr>, Inr ())
      | (t, Some (v, _)) \<Rightarrow>
          (let a1 = a\<lparr>ha_transport := t\<rparr>;
               unchanged = (case hm_get (ha_cache a) (hm_signal mp) of Some (cv, _) \<Rightarrow> hal_eq cv v | None \<Rightarrow> False)
           in if unchanged then (a1, Inr ())
              else case halvalue_to_variables dbg v of
                Inl e \<Rightarrow> (a1, Inl e)
              | Inr _ \<Rightarrow> (a1\<lparr>ha_cache := hm_insert (hm_signal mp) (v, ts) (ha_cache a)\<rparr>, Inr ())))"

text \<open>A pass over the mappings; each has its reading of the clock, and errors are printed and skipped.\<close>

fun hart_pass ::
    "'s serial_io \<Rightarrow> 'k hart_codec \<Rightarrow> (hal_value \<Rightarrow> string) \<Rightarrow> (variable_mapping \<times> timestamp) list
      \<Rightarrow> ('s, 'cb) hart_adapter \<Rightarrow> ('s, 'cb) hart_adapter option" where
  "hart_pass io cd dbg [] a = Some a"
| "hart_pass io cd dbg ((mp, ts) # ms) a =
     (case hm_direction mp of
        HartRead \<Rightarrow> Option.bind (hart_poll_read io cd ts mp a) (\<lambda>(a1, _). hart_pass io cd dbg ms a1)
      | HartWrite \<Rightarrow> hart_pass io cd dbg ms (fst (hart_poll_write dbg ts mp a)))"

definition hart_stop :: "('s, 'cb) hart_adapter \<Rightarrow> ('s, 'cb) hart_adapter" where
  "hart_stop a = a\<lparr>ha_shutdown := True\<rparr>"

text \<open>
  The thread: a pass for each reading of the clock until the shutdown flag is up; between two passes
  other threads publish signals and may raise the flag.
\<close>

fun hart_loop ::
    "'s serial_io \<Rightarrow> 'k hart_codec \<Rightarrow> (hal_value \<Rightarrow> string) \<Rightarrow> (timestamp list \<times> (('s, 'cb) hart_adapter \<Rightarrow> ('s, 'cb) hart_adapter)) list
      \<Rightarrow> ('s, 'cb) hart_adapter \<Rightarrow> ('s, 'cb) hart_adapter option" where
  "hart_loop io cd dbg [] a = Some a"
| "hart_loop io cd dbg ((tss, others) # ps) a =
     (if ha_shutdown a then Some a
      else Option.bind (hart_pass io cd dbg (zip (ha_mappings a) tss) a) (\<lambda>a1. hart_loop io cd dbg ps (others a1)))"

subsection \<open>Variables hold values\<close>

interpretation be16: fixed_codec "word_be :: 16 word \<Rightarrow> byte list" be_word 2
  by unfold_locales (simp_all add: word_be_def be_word_def le_word_word_le)

interpretation be32: fixed_codec "word_be :: 32 word \<Rightarrow> byte list" be_word 4
  by unfold_locales (simp_all add: word_be_def be_word_def le_word_word_le)

lemma length_word_be [simp]: "length (word_be (w :: 'a::len word)) = LENGTH('a) div 8"
  by (simp add: word_be_def)

lemma byte_of_u32: "word_of_int (uint (w :: u32) div 2 ^ k) = (ucast (drop_bit k w) :: byte)"
  by (rule bit_word_eqI) (auto simp: bit_simps simp flip: drop_bit_eq_div)

lemma byte_mod_256: "word_of_int (x mod 256) = (word_of_int x :: byte)"
  by (simp add: word_of_int_eq_iff take_bit_eq_mod)

lemma le_bytes_4: "le_bytes 4 x = [word_of_int x, word_of_int (x div 2 ^ 8), word_of_int (x div 2 ^ 16), word_of_int (x div 2 ^ 24)]"
proof -
  have "le_bytes 4 x = le_bytes (Suc (Suc (Suc (Suc 0)))) x" by (simp only: eval_nat_numeral BitM.simps)
  then show ?thesis by (simp add: zdiv_zmult2_eq [symmetric] byte_mod_256)
qed

lemma word_be_u32: "word_be (w :: u32) = [ucast (drop_bit 24 w), ucast (drop_bit 16 w), ucast (drop_bit 8 w), ucast w]"
  using byte_of_u32 [of w 0] by (simp add: word_be_def word_le_def le_bytes_4 byte_of_u32 del: power_numeral)

lemma decode_u24_bytes: "decode_u24_be (drop 1 (word_be w)) = take_bit 24 w"
proof (rule bit_word_eqI)
  fix n assume "n < LENGTH(32)"
  then show "bit (decode_u24_be (drop 1 (word_be w))) n \<longleftrightarrow> bit (take_bit 24 w) n"
    by (cases "n < 8"; cases "n < 16"; cases "n < 24") (auto simp: decode_u24_be_def word_be_u32 bit_simps)
qed

text \<open>
  A value put on the wire is read back. A float, an 8-bit or a 16-bit unsigned integer is
  restored; of a 32-bit unsigned integer the low 24 bits are.
\<close>

theorem hart_roundtrip:
  assumes "halvalue_to_variables dbg v = Inr (bs, vt)"
  shows "variables_to_halvalue bs vt = Inr (case v of VU32 w \<Rightarrow> VU32 (take_bit 24 w) | _ \<Rightarrow> v)"
  using assms decode_u24_bytes
  by (auto simp: halvalue_to_variables_def need_bytes_def encode_f32_be_def decode_f32_be_def decode_u16_be_def
      be16.dec_enc be32.dec_enc split: hal_value.splits)

subsection \<open>Draining the port\<close>

text \<open>The port reports that nothing has arrived in time as an error, and never as an empty read.\<close>

definition timeout_is_error :: "'s serial_io \<Rightarrow> bool" where
  "timeout_is_error io \<longleftrightarrow> (\<forall>n s s1. port_read io n s \<noteq> (s1, Inr []))"

lemma drain_fails:
  assumes "drain_rx io s = Some r"
  shows "timeout_is_error io \<longrightarrow> (\<exists>e. snd r = Inl e)"
  using assms
  by (rule drain_rx.raw_induct [rotated])
     (auto simp: timeout_is_error_def split: prod.splits sum.splits if_splits)

lemma commands_fail:
  assumes "timeout_is_error io" and "send_command io cd cmd data c = Some (c1, r)"
  shows "\<exists>e. r = Inl e"
proof (cases "encode_frame cd (hc_address c) cmd data")
  case (Inr tx)
  then show ?thesis using assms drain_fails [of io "hc_port c"]
    by (cases "drain_rx io (hc_port c)") (auto simp: send_command_def split: sum.splits)
qed (use assms in \<open>auto simp: send_command_def\<close>)

lemma hart_value_fails:
  assumes "timeout_is_error io" and "hart_value io cd vt c = Some (c1, r)"
  shows "\<exists>e. r = Inl e"
proof (cases "vt = Status")
  case True
  then obtain r2 where r2: "read_device_id io cd c = Some (c1, r2)"
      and "r = (case r2 of Inl e \<Rightarrow> Inl e | Inr resp \<Rightarrow> Inr (VU16 (be_u16 (status_byte0 resp) (status_byte1 resp))))"
    using assms(2) by (auto simp: hart_value_def)
  moreover have "\<exists>e. r2 = Inl e" using commands_fail [OF assms(1)] r2 by (auto simp: read_device_id_def)
  ultimately show ?thesis by auto
next
  case False
  then obtain r2 where r2: "read_dynamic_vars io cd c = Some (c1, r2)"
      and "r = (case r2 of Inl e \<Rightarrow> Inl e | Inr resp \<Rightarrow> dynamic_value vt (resp_data resp))"
    using assms(2) by (auto simp: hart_value_def)
  moreover have "\<exists>e. r2 = Inl e" using commands_fail [OF assms(1)] r2 by (auto simp: read_dynamic_vars_def)
  ultimately show ?thesis by auto
qed

lemma poll_read_transport:
  assumes "timeout_is_error io" and "hart_poll_read io cd ts mp a = Some (a1, r)"
  shows "ha_transport a1 = ha_transport a"
proof -
  obtain c r2 where v: "hart_value io cd (hm_type mp) (ha_client a) = Some (c, r2)"
    and a1: "(a1, r) = (case r2 of
         Inl e \<Rightarrow> (a\<lparr>ha_client := c\<rparr>, Inl e)
       | Inr v \<Rightarrow> (a\<lparr>ha_client := c, ha_transport := fst (publish_signal (ha_transport a) (hm_signal mp) v ts),
                     ha_cache := hm_insert (hm_signal mp) (v, ts) (ha_cache a)\<rparr>, Inr ()))"
    using assms(2) by (auto simp: hart_poll_read_def)
  from hart_value_fails [OF assms(1) v] a1 show ?thesis by auto
qed

lemma poll_write_transport:
  "snd (tr_read_signal (ha_transport (fst (hart_poll_write dbg ts mp a))) nm) = snd (tr_read_signal (ha_transport a) nm)"
  using inproc.read_read [of "ha_transport a" "hm_signal mp" nm]
  by (auto simp: hart_poll_write_def Let_def split: prod.splits option.splits sum.splits)


text \<open>A line on which nothing arrives, and a codec that is never asked for a frame.\<close>

definition quiet_port :: "byte list serial_io" where
  "quiet_port = \<lparr>port_read = \<lambda>n s. (s, Inl ''Operation timed out''), port_write = \<lambda>bs s. (s @ bs, None), port_flush = \<lambda>s. (s, None)\<rparr>"

definition plain_codec :: "unit hart_codec" where
  "plain_codec = \<lparr>encode_frame = \<lambda>a c d. Inr (a # c # d), decoder_new = (), decoder_feed = \<lambda>b k. ((), Inr None)\<rparr>"

definition idle_adapter :: "(byte list, nat) hart_adapter" where
  "idle_adapter = \<lparr>ha_client = \<lparr>hc_port = [], hc_address = 0\<rparr>, ha_transport = transport_new,
     ha_mappings = [\<lparr>hm_signal = ''pv'', hm_type = Pv, hm_direction = HartRead\<rparr>], ha_cache = [], ha_shutdown = False, ha_interval = 500\<rparr>"


theorem hart_roundtrip_witness: "variables_to_halvalue [0x34, 0x56, 0x78] VtU24 = Inr (VU32 0x345678)"
proof -
  have "halvalue_to_variables (\<lambda>_. []) (VU32 0x12345678) = Inr ([0x34, 0x56, 0x78], VtU24)"
    by (simp add: halvalue_to_variables_def word_be_u32)
  from hart_roundtrip [OF this] show ?thesis by simp
qed

end
