(* ===== verification/Virtual_Hart.thy ===== *)
theory Virtual_Hart
  imports Hart_Adapter
begin

text \<open>
  The simulated HART device of \<^verbatim>\<open>audesys-runtime/src/virtual_hart.rs\<close>, and what the adapter makes of
  its answers. The payload of a number that is not one, after a conversion, is the canonical one.
\<close>

subsection \<open>Conversions to single precision\<close>

definition f32_of_int :: "int \<Rightarrow> f32" where
  "f32_of_int n = (if n = 0 then 0 else word_of_int (fround binary32 (n < 0) \<bar>n\<bar> 1 0))"

definition f32_of_f64 :: "f64 \<Rightarrow> f32" where
  "f32_of_f64 w =
     word_of_int (case f64_dec w of
        FNan \<Rightarrow> nan_bits binary32
      | FInf s \<Rightarrow> signed_bits binary32 s (inf_bits binary32)
      | FFin s m e \<Rightarrow> if m = 0 then signed_bits binary32 s 0 else fround binary32 s m 1 e)"

definition f32_clamp :: "f32 \<Rightarrow> f32 \<Rightarrow> f32 \<Rightarrow> f32" where
  "f32_clamp lo hi x =
     (let y = (if f32_cmp x lo = Some Less then lo else x)
      in if f32_cmp y hi = Some Greater then hi else y)"

subsection \<open>Device\<close>

record 'cb virtual_hart =
  vh_device_id :: byte
  vh_long_tag :: string
  vh_signals :: "(byte, string) hmap"
  vh_transport :: "'cb inproc_transport option"

definition virtual_hart_new :: "byte \<Rightarrow> string \<Rightarrow> 'cb virtual_hart" where
  "virtual_hart_new dev tag = \<lparr>vh_device_id = dev, vh_long_tag = tag, vh_signals = [], vh_transport = None\<rparr>"

definition virtual_hart_default :: "'cb virtual_hart" where
  "virtual_hart_default = virtual_hart_new 0x01 ''AUDESYS-VIRTUAL-HART''"

definition vh_bind :: "'cb inproc_transport \<Rightarrow> 'cb virtual_hart \<Rightarrow> 'cb virtual_hart" where
  "vh_bind t d = d\<lparr>vh_transport := Some t\<rparr>"

definition map_slot :: "byte \<Rightarrow> string \<Rightarrow> 'cb virtual_hart \<Rightarrow> 'cb virtual_hart" where
  "map_slot slot nm d = d\<lparr>vh_signals := hm_insert slot nm (vh_signals d)\<rparr>"

definition status_ok :: "byte list" where "status_ok = [0x00, 0x00]"

definition status_err :: "byte list" where "status_err = [0x40, 0x00]"

definition DEFAULT_PV_RANGE :: f32 where "DEFAULT_PV_RANGE = f32_of_int 100"

definition slot_f32 :: "hal_value \<Rightarrow> f32" where
  "slot_f32 v =
     (case v of
        VF32 w \<Rightarrow> w
      | VF64 w \<Rightarrow> f32_of_f64 w
      | VS32 w \<Rightarrow> f32_of_int (sint w)
      | VU32 w \<Rightarrow> f32_of_int (uint w)
      | VS16 w \<Rightarrow> f32_of_int (sint w)
      | VU16 w \<Rightarrow> f32_of_int (uint w)
      | VS8 w \<Rightarrow> f32_of_int (sint w)
      | VU8 w \<Rightarrow> f32_of_int (uint w)
      | VBool b \<Rightarrow> if b then f32_of_int 1 else 0
      | _ \<Rightarrow> 0)"

text \<open>
  The transport is shared with other components; reading a signal leaves every value in it as it
  was, and only the value read is used here.
\<close>

definition read_slot_f32 :: "'cb virtual_hart \<Rightarrow> byte \<Rightarrow> f32 option" where
  "read_slot_f32 d slot =
     (case hm_get (vh_signals d) slot of
        None \<Rightarrow> None
      | Some nm \<Rightarrow>
          (case vh_transport d of
             None \<Rightarrow> None
           | Some t \<Rightarrow> Some (slot_f32 (case snd (tr_read_signal t nm) of Some (v, _) \<Rightarrow> v | None \<Rightarrow> VF32 0))))"

definition handle_cmd0_identifier :: "'cb virtual_hart \<Rightarrow> byte list" where
  "handle_cmd0_identifier d =
     status_ok @ [0xFE, vh_device_id d, 0x05, 0xDD, 0x01] @ string_bytes ''AUDESYS''"

definition handle_cmd1_read_pv :: "'cb virtual_hart \<Rightarrow> byte list" where
  "handle_cmd1_read_pv d = (case read_slot_f32 d 0 of Some v \<Rightarrow> status_ok @ word_be v | None \<Rightarrow> status_err)"

definition handle_cmd2_read_pv_current :: "'cb virtual_hart \<Rightarrow> byte list" where
  "handle_cmd2_read_pv_current d =
     (case read_slot_f32 d 0 of
        Some pv \<Rightarrow>
          (let clamped = f32_clamp 0 DEFAULT_PV_RANGE pv;
               current_ma = f32_add (f32_of_int 4) (f32_mul (f32_div clamped DEFAULT_PV_RANGE) (f32_of_int 16));
               percent = f32_mul (f32_div clamped DEFAULT_PV_RANGE) (f32_of_int 100)
           in status_ok @ word_be pv @ word_be current_ma @ word_be percent)
      | None \<Rightarrow> status_err)"

definition dynamic_values :: "'cb virtual_hart \<Rightarrow> f32 list" where
  "dynamic_values d = List.map_filter (read_slot_f32 d) (sort (hm_keys (vh_signals d)))"

definition handle_cmd3_read_dynamic :: "'cb virtual_hart \<Rightarrow> byte list" where
  "handle_cmd3_read_dynamic d =
     (let values = dynamic_values d
      in status_ok @ [word_of_nat (length values)] @ concat (map word_be values))"

definition handle_command :: "'cb virtual_hart \<Rightarrow> byte \<Rightarrow> byte list \<Rightarrow> byte list" where
  "handle_command d cmd data =
     (if cmd = 0 then handle_cmd0_identifier d
      else if cmd = 1 then handle_cmd1_read_pv d
      else if cmd = 2 then handle_cmd2_read_pv_current d
      else if cmd = 3 then handle_cmd3_read_dynamic d
      else status_err)"

subsection \<open>The adapter on the answers of the device\<close>

text \<open>A response frame that carries the answer of the device.\<close>

definition answer_frame :: "byte list \<Rightarrow> raw_frame" where
  "answer_frame bs = \<lparr>rf_response = True, rf_kind_text = ''Response'', rf_data = bs\<rparr>"

lemma parse_answer: "parse_response (answer_frame (status_ok @ bs)) = Inr \<lparr>status_byte0 = 0, status_byte1 = 0, resp_data = bs\<rparr>"
  by (simp add: parse_response_def answer_frame_def status_ok_def)

lemma length_be_values: "length (concat (map word_be (vs :: f32 list))) = 4 * length vs"
  by (induction vs) simp_all

lemma cmd3_data:
  "handle_command d 3 data = status_ok @ word_of_nat (length (dynamic_values d)) # concat (map word_be (dynamic_values d))"
  by (simp add: handle_command_def handle_cmd3_read_dynamic_def Let_def)

text \<open>
  C22: the device and the adapter do not agree on the layout of command 3. The device answers the
  number of its values and then the values; the adapter expects each value behind a byte for its
  unit. The primary variable is read correctly, since the count stands where its unit should, the
  secondary variable is made of the last three bytes of the second value and the first byte of the
  third, and the quaternary variable is always refused as too short.
\<close>

theorem dynamic_variables_shifted:
  assumes "dynamic_values d = v0 # v1 # v2 # vs" and "length vs \<le> 1"
  shows "\<exists>resp. parse_response (answer_frame (handle_command d 3 data)) = Inr resp
    \<and> dynamic_value Pv (resp_data resp) = Inr (VF32 v0)
    \<and> dynamic_value Sv (resp_data resp) = Inr (VF32 (be_word (drop 1 (word_be v1) @ take 1 (word_be v2))))
    \<and> (\<exists>e. dynamic_value Qv (resp_data resp) = Inl e)"
proof -
  let ?c = "word_of_nat (length (dynamic_values d)) :: byte"
  let ?bs = "?c # word_be v0 @ word_be v1 @ word_be v2 @ concat (map word_be vs)"
  have "parse_response (answer_frame (handle_command d 3 data)) = Inr \<lparr>status_byte0 = 0, status_byte1 = 0, resp_data = ?bs\<rparr>"
    by (simp add: cmd3_data assms(1) parse_answer)
  moreover have "dynamic_value Pv ?bs = Inr (VF32 v0)"
    by (simp add: dynamic_value_def need_bytes_def decode_f32_be_def be32.dec_enc)
  moreover have "dynamic_value Sv ?bs = Inr (VF32 (be_word (drop 1 (word_be v1) @ take 1 (word_be v2))))"
    by (simp add: dynamic_value_def need_bytes_def decode_f32_be_def word_be_u32)
  moreover have "length ?bs < 20" using assms(2) length_be_values [of vs] by simp
  then have "\<exists>e. dynamic_value Qv ?bs = Inl e" by (simp add: dynamic_value_def Let_def)
  ultimately show ?thesis by (metis hart_response.select_convs(3))
qed

definition zero_ts :: timestamp where
  "zero_ts = \<lparr>ts_secs = 0, ts_micros = 0\<rparr>"

definition three_slots :: "nat virtual_hart" where
  "three_slots = vh_bind (fst (publish_signal (fst (publish_signal (fst (publish_signal transport_new
       ''a'' (VF32 0x3F800000) zero_ts)) ''b'' (VF32 0x40000000) zero_ts)) ''c'' (VF32 0x40400000) zero_ts))
     (map_slot 2 ''c'' (map_slot 0 ''a'' (map_slot 1 ''b'' virtual_hart_default)))"

lemma three_slots_values: "dynamic_values three_slots = [0x3F800000, 0x40000000, 0x40400000]"
proof -
  have s: "sort [1, 0, 2 :: byte] = [0, 1, 2]" by code_simp
  show ?thesis
    by (simp add: dynamic_values_def three_slots_def vh_bind_def map_slot_def virtual_hart_default_def virtual_hart_new_def s
        List.map_filter_def read_slot_f32_def slot_f32_def inproc.read_publish)
qed

theorem dynamic_variables_shifted_witness:
  "\<exists>resp. parse_response (answer_frame (handle_command three_slots 3 [])) = Inr resp
    \<and> dynamic_value Pv (resp_data resp) = Inr (VF32 0x3F800000)
    \<and> dynamic_value Sv (resp_data resp) = Inr (VF32 0x40)
    \<and> (\<exists>e. dynamic_value Qv (resp_data resp) = Inl e)"
proof -
  have "be_word (drop 1 (word_be (0x40000000 :: f32)) @ take 1 (word_be (0x40400000 :: f32))) = (0x40 :: f32)"
    by (simp add: word_be_u32 be_word_def le_word_def)
  then show ?thesis using dynamic_variables_shifted [OF three_slots_values, of "[]"] by simp
qed

end
