(* ===== verification/St_Syntax.thy ===== *)
theory St_Syntax
  imports Hal_Value Rust_Str
begin

text \<open>
  The lexer of the structured text compiler (\<^verbatim>\<open>audesys-hal-binding-gen/src/lexer.rs\<close>), with the types
  its tokens name. The source is ASCII text. The lexer of the source advances a position; here its
  functions return the rest of the text.
\<close>

subsection \<open>Tokens\<close>

datatype var_type =
    TyInt | TyReal | TyBool | TyDInt | TyLReal | TyByte | TyWord | TyDWord | TySInt | TyUSInt | TyUInt | TyULInt | TyLInt
  | TyTime | TyDate | TyTOD | TyDT | TyString | TyArray | TyTon | TyTof | TyTp | TyCtu | TyCtd | TyCtud | TySr | TyRs | TyRTrig | TyFTrig

datatype st_keyword =
    KwProgram | KwEndProgram | KwVar | KwEndVar | KwIf | KwThen | KwElse | KwEndIf | KwWhile | KwDo | KwEndWhile | KwFor | KwTo | KwBy
  | KwEndFor | KwCase | KwOf | KwEndCase | KwRepeat | KwUntil | KwEndRepeat | KwReturn | KwExit | KwFunction | KwEndFunction
  | KwFunctionBlock | KwEndFunctionBlock | KwVarInput | KwVarOutput | KwVarInOut | KwAnd | KwOr | KwNot | KwMod | KwXor

datatype st_symbol =
    SyAssign | SyPlus | SyMinus | SyStar | SySlash | SyEqual | SyNotEqual | SyGreater | SyLess | SyGreaterEq | SyLessEq
  | SySemicolon | SyColon | SyLParen | SyRParen | SyComma | SyLBracket | SyRBracket | SyDotDot | SyDot

text \<open>The variants of \<^verbatim>\<open>Token\<close>, in its groups; a type keyword is named by the type it stands for.\<close>

datatype st_token =
    Keyword st_keyword | TypeKeyword var_type | Symbol st_symbol
  | Identifier string | IntegerLiteral i64 | RealLiteral f64

record token_info =
  tk_token :: st_token
  tk_line :: nat
  tk_col :: nat

datatype lex_error = UnexpectedChar char nat nat | UnterminatedString nat nat

subsection \<open>Lexer\<close>

definition keyword_table :: "(string \<times> st_token) list" where
  "keyword_table =
     [(''PROGRAM'', Keyword KwProgram), (''END_PROGRAM'', Keyword KwEndProgram), (''VAR'', Keyword KwVar), (''END_VAR'', Keyword KwEndVar),
      (''IF'', Keyword KwIf), (''THEN'', Keyword KwThen), (''ELSE'', Keyword KwElse), (''END_IF'', Keyword KwEndIf),
      (''WHILE'', Keyword KwWhile), (''DO'', Keyword KwDo), (''END_WHILE'', Keyword KwEndWhile), (''FOR'', Keyword KwFor),
      (''TO'', Keyword KwTo), (''BY'', Keyword KwBy), (''END_FOR'', Keyword KwEndFor), (''CASE'', Keyword KwCase),
      (''OF'', Keyword KwOf), (''END_CASE'', Keyword KwEndCase), (''REPEAT'', Keyword KwRepeat), (''UNTIL'', Keyword KwUntil),
      (''END_REPEAT'', Keyword KwEndRepeat), (''RETURN'', Keyword KwReturn), (''EXIT'', Keyword KwExit), (''FUNCTION'', Keyword KwFunction),
      (''END_FUNCTION'', Keyword KwEndFunction), (''FUNCTION_BLOCK'', Keyword KwFunctionBlock),
      (''END_FUNCTION_BLOCK'', Keyword KwEndFunctionBlock), (''VAR_INPUT'', Keyword KwVarInput), (''VAR_OUTPUT'', Keyword KwVarOutput),
      (''VAR_IN_OUT'', Keyword KwVarInOut), (''AND'', Keyword KwAnd), (''OR'', Keyword KwOr), (''NOT'', Keyword KwNot),
      (''MOD'', Keyword KwMod), (''XOR'', Keyword KwXor), (''INT'', TypeKeyword TyInt), (''REAL'', TypeKeyword TyReal),
      (''BOOL'', TypeKeyword TyBool), (''DINT'', TypeKeyword TyDInt), (''LREAL'', TypeKeyword TyLReal), (''BYTE'', TypeKeyword TyByte),
      (''WORD'', TypeKeyword TyWord), (''DWORD'', TypeKeyword TyDWord), (''SINT'', TypeKeyword TySInt), (''USINT'', TypeKeyword TyUSInt),
      (''UINT'', TypeKeyword TyUInt), (''ULINT'', TypeKeyword TyULInt), (''LINT'', TypeKeyword TyLInt), (''TIME'', TypeKeyword TyTime),
      (''DATE'', TypeKeyword TyDate), (''TOD'', TypeKeyword TyTOD), (''DT'', TypeKeyword TyDT), (''STRING'', TypeKeyword TyString),
      (''ARRAY'', TypeKeyword TyArray), (''TON'', TypeKeyword TyTon), (''TOF'', TypeKeyword TyTof), (''TP'', TypeKeyword TyTp),
      (''CTU'', TypeKeyword TyCtu), (''CTD'', TypeKeyword TyCtd), (''CTUD'', TypeKeyword TyCtud), (''SR'', TypeKeyword TySr),
      (''RS'', TypeKeyword TyRs), (''R_TRIG'', TypeKeyword TyRTrig), (''F_TRIG'', TypeKeyword TyFTrig)]"

definition match_keyword :: "string \<Rightarrow> st_token" where
  "match_keyword s = (case map_of keyword_table s of Some t \<Rightarrow> t | None \<Rightarrow> Identifier s)"

text \<open>The inside of a comment; an open comment ends with the text.\<close>

fun skip_st_comment :: "nat \<Rightarrow> nat \<Rightarrow> nat \<Rightarrow> string \<Rightarrow> nat \<times> nat \<times> string" where
  "skip_st_comment 0 line col cs = (line, col, cs)"
| "skip_st_comment (Suc depth) line col [] = (line, col, [])"
| "skip_st_comment (Suc depth) line col (c # cs) =
     (case cs of
        d # ds \<Rightarrow>
          if c = CHR ''('' \<and> d = CHR ''*'' then skip_st_comment (Suc (Suc depth)) line (col + 2) ds
          else if c = CHR ''*'' \<and> d = CHR '')'' then skip_st_comment depth line (col + 2) ds
          else if c = CHR 0x0A then skip_st_comment (Suc depth) (line + 1) 1 cs
          else skip_st_comment (Suc depth) line (col + 1) cs
      | [] \<Rightarrow> if c = CHR 0x0A then (line + 1, 1, []) else (line, col + 1, []))"

text \<open>Digits of a number with at most one dot, which must be followed by a digit.\<close>

fun scan_number :: "bool \<Rightarrow> string \<Rightarrow> string \<times> bool \<times> string" where
  "scan_number real [] = ([], real, [])"
| "scan_number real (c # cs) =
     (if is_digit c then (case scan_number real cs of (s, r, rest) \<Rightarrow> (c # s, r, rest))
      else if c = CHR ''.'' \<and> \<not> real \<and> cs \<noteq> [] \<and> is_digit (hd cs)
      then (case scan_number True cs of (s, r, rest) \<Rightarrow> (c # s, r, rest))
      else ([], real, c # cs))"

definition real_value :: "string \<Rightarrow> f64" where
  "real_value s =
     (let whole = takeWhile is_digit s; frac = drop (length whole + 1) s; n = decimal_value (whole @ frac)
      in if n = 0 then 0 else f64_of_ratio (int n) (10 ^ length frac))"

definition integer_value :: "string \<Rightarrow> i64" where
  "integer_value s = (let n = decimal_value s in if n < 2 ^ 63 then word_of_nat n else 0)"

definition number_token :: "string \<Rightarrow> bool \<Rightarrow> st_token" where
  "number_token s real = (if real then RealLiteral (real_value s) else IntegerLiteral (integer_value s))"

definition is_ident_char :: "char \<Rightarrow> bool" where
  "is_ident_char c \<longleftrightarrow> is_alpha c \<or> is_digit c \<or> c = CHR ''_''"

definition symbol2 :: "char \<Rightarrow> char \<Rightarrow> st_symbol option" where
  "symbol2 c d =
     (if c = CHR '':'' \<and> d = CHR ''='' then Some SyAssign
      else if c = CHR ''<'' \<and> d = CHR ''>'' then Some SyNotEqual
      else if c = CHR ''<'' \<and> d = CHR ''='' then Some SyLessEq
      else if c = CHR ''>'' \<and> d = CHR ''='' then Some SyGreaterEq
      else if c = CHR ''.'' \<and> d = CHR ''.'' then Some SyDotDot
      else None)"

definition symbol_table :: "(char \<times> st_symbol) list" where
  "symbol_table =
     [(CHR '':'', SyColon), (CHR ''<'', SyLess), (CHR ''>'', SyGreater), (CHR ''+'', SyPlus), (CHR ''-'', SyMinus), (CHR ''*'', SyStar),
      (CHR ''/'', SySlash), (CHR ''='', SyEqual), (CHR '';'', SySemicolon), (CHR ''('', SyLParen), (CHR '')'', SyRParen),
      (CHR '','', SyComma), (CHR ''['', SyLBracket), (CHR '']'', SyRBracket), (CHR ''.'', SyDot)]"

lemma length_skip_st_comment: "length (snd (snd (skip_st_comment depth line col cs))) \<le> length cs"
proof (induction depth line col cs rule: skip_st_comment.induct)
  case (3 depth line col c cs)
  show ?case
  proof (cases cs)
    case (Cons d ds)
    have e: "skip_st_comment (Suc depth) line col (c # cs) =
      (if c = CHR ''('' \<and> d = CHR ''*'' then skip_st_comment (Suc (Suc depth)) line (col + 2) ds
       else if c = CHR ''*'' \<and> d = CHR '')'' then skip_st_comment depth line (col + 2) ds
       else if c = CHR 0x0A then skip_st_comment (Suc depth) (line + 1) 1 cs
       else skip_st_comment (Suc depth) line (col + 1) cs)"
      by (simp only: skip_st_comment.simps Cons list.case)
    show ?thesis unfolding e using 3 [OF Cons] Cons by (auto simp del: skip_st_comment.simps)
  qed simp
qed simp_all

lemma length_scan_number: "length (snd (snd (scan_number real cs))) \<le> length cs"
  by (induction real cs rule: scan_number.induct) (auto simp: case_prod_beta)

lemma scan_shorter: "(s, r, rest) = scan_number real cs \<Longrightarrow> length rest \<le> length cs"
  using length_scan_number [of real cs] by (metis snd_conv)

definition info :: "st_token \<Rightarrow> nat \<Rightarrow> nat \<Rightarrow> token_info" where
  "info t line col = \<lparr>tk_token = t, tk_line = line, tk_col = col\<rparr>"

function lex_from :: "nat \<Rightarrow> nat \<Rightarrow> string \<Rightarrow> lex_error + token_info list" where
  "lex_from line col [] = Inr []"
| "lex_from line col (c # cs) =
     (if c = CHR 0x0A then lex_from (line + 1) 1 cs
      else if c = CHR '' '' \<or> c = CHR 0x0D \<or> c = CHR 0x09 then lex_from line (col + 1) cs
      else if c = CHR ''('' \<and> take 1 cs = ''*''
      then (let r = skip_st_comment 1 line (col + 2) (drop 1 cs) in lex_from (fst r) (fst (snd r)) (snd (snd r)))
      else case (case cs of d # _ \<Rightarrow> symbol2 c d | [] \<Rightarrow> None) of
        Some s \<Rightarrow> map_sum id (\<lambda>ts. info (Symbol s) line col # ts) (lex_from line (col + 2) (drop 1 cs))
      | None \<Rightarrow>
          (case map_of symbol_table c of
             Some s \<Rightarrow> map_sum id (\<lambda>ts. info (Symbol s) line col # ts) (lex_from line (col + 1) cs)
           | None \<Rightarrow>
               if is_alpha c \<or> c = CHR ''_''
               then (let ident = c # takeWhile is_ident_char cs
                     in map_sum id (\<lambda>ts. info (match_keyword ident) line col # ts)
                          (lex_from line (col + length ident) (dropWhile is_ident_char cs)))
               else if is_digit c
               then (case scan_number False cs of (s, real, rest) \<Rightarrow>
                       map_sum id (\<lambda>ts. info (number_token (c # s) real) line col # ts)
                         (lex_from line (col + Suc (length s)) rest))
               else Inl (UnexpectedChar c line col)))"
  by pat_completeness auto
termination
  by (relation "measure (\<lambda>x. length (snd (snd x)))")
     (auto simp: le_imp_less_Suc length_dropWhile_le dest!: scan_shorter
        intro!: le_imp_less_Suc le_trans [OF length_skip_st_comment])

definition st_tokenize :: "string \<Rightarrow> lex_error + token_info list" where
  "st_tokenize source = lex_from 1 1 source"

end
