(* ===== verification/St_Parser.thy ===== *)
theory St_Parser
  imports St_Syntax
begin

text \<open>
  The parser of structured text (\<^verbatim>\<open>audesys-hal-binding-gen/src/parser.rs\<close>). The state of the source's
  parser, tokens and a position, is the list of the tokens that are left. A result is \<open>None\<close> when the
  fuel is used up, and otherwise an error or a value with the tokens behind it.
\<close>

subsection \<open>Abstract syntax\<close>

datatype bin_op = BAdd | BSub | BMul | BDiv | BEq | BNeq | BGt | BLt | BGte | BLte | BAnd | BOr | BMod | BXor

datatype unary_op = UNeg | UNot

datatype expr =
    IntLiteral i64 | RealLit f64 | BoolLiteral bool | Variable string
  | Binary expr bin_op expr | Unary unary_op expr | ArrayAccess string expr | FieldAccess string string

datatype statement =
    Assign string expr
  | If expr "statement list" "statement list"
  | While expr "statement list"
  | For string expr expr "expr option" "statement list"
  | Case string "(i64 list \<times> statement list) list" "statement list"
  | Repeat "statement list" expr
  | Return
  | Exit
  | FunCall string "expr list"
  | ArrayAssign string expr expr

text \<open>The fields \<^verbatim>\<open>array_bounds\<close> and \<^verbatim>\<open>string_len\<close> of a declaration are always \<^verbatim>\<open>None\<close> and are left out.\<close>

record st_variable =
  var_name :: string
  var_type :: var_type

record function_def =
  fn_name :: string
  return_type :: var_type
  fn_variables :: "st_variable list"
  input_params :: "st_variable list"
  output_params :: "st_variable list"
  inout_params :: "st_variable list"
  fn_body :: "statement list"

record st_program =
  prog_name :: string
  prog_variables :: "st_variable list"
  prog_body :: "statement list"
  prog_functions :: "function_def list"

datatype parse_error =
    UnexpectedToken st_token nat nat
  | UnexpectedEof
  | ExpectedToken st_token nat nat
  | RedefinedVariable string nat

subsection \<open>Token access\<close>

type_synonym tokens = "token_info list"
type_synonym 'a parsed = "(parse_error + 'a \<times> tokens) option"

abbreviation ok :: "'a \<Rightarrow> tokens \<Rightarrow> 'a parsed" where
  "ok x ts \<equiv> Some (Inr (x, ts))"

abbreviation err :: "parse_error \<Rightarrow> 'a parsed" where
  "err e \<equiv> Some (Inl e)"

definition pbind :: "'a parsed \<Rightarrow> ('a \<Rightarrow> tokens \<Rightarrow> 'b parsed) \<Rightarrow> 'b parsed" where
  "pbind r f = (case r of None \<Rightarrow> None | Some (Inl e) \<Rightarrow> Some (Inl e) | Some (Inr (x, ts)) \<Rightarrow> f x ts)"

definition peek :: "tokens \<Rightarrow> st_token option" where
  "peek ts = (case ts of [] \<Rightarrow> None | t # _ \<Rightarrow> Some (tk_token t))"

definition unexpected :: "token_info \<Rightarrow> parse_error" where
  "unexpected t = UnexpectedToken (tk_token t) (tk_line t) (tk_col t)"

definition expect :: "st_token \<Rightarrow> tokens \<Rightarrow> unit parsed" where
  "expect tok ts =
     (case ts of
        [] \<Rightarrow> err UnexpectedEof
      | t # rest \<Rightarrow> if tk_token t = tok then ok () rest else err (unexpected t))"

definition expect_ident :: "tokens \<Rightarrow> (string \<times> nat) parsed" where
  "expect_ident ts =
     (case ts of
        [] \<Rightarrow> err UnexpectedEof
      | t # rest \<Rightarrow> (case tk_token t of Identifier nm \<Rightarrow> ok (nm, tk_line t) rest | _ \<Rightarrow> err (unexpected t)))"

text \<open>Expect several tokens in a row.\<close>

primrec expects :: "st_token list \<Rightarrow> tokens \<Rightarrow> unit parsed" where
  "expects [] ts = ok () ts"
| "expects (k # ks) ts = pbind (expect k ts) (\<lambda>_. expects ks)"

abbreviation "kw k \<equiv> Keyword k"
abbreviation "sy s \<equiv> Symbol s"

subsection \<open>Expressions\<close>

fun precedence :: "bin_op \<Rightarrow> nat" where
  "precedence BOr = 1"
| "precedence BXor = 1"
| "precedence BAnd = 2"
| "precedence BEq = 3"
| "precedence BNeq = 3"
| "precedence BGt = 3"
| "precedence BLt = 3"
| "precedence BGte = 3"
| "precedence BLte = 3"
| "precedence BAdd = 4"
| "precedence BSub = 4"
| "precedence BMul = 5"
| "precedence BDiv = 5"
| "precedence BMod = 5"

definition binop_table :: "(st_token \<times> bin_op) list" where
  "binop_table =
     [(sy SyPlus, BAdd), (sy SyMinus, BSub), (sy SyStar, BMul), (sy SySlash, BDiv), (sy SyEqual, BEq), (sy SyNotEqual, BNeq),
      (sy SyGreater, BGt), (sy SyLess, BLt), (sy SyGreaterEq, BGte), (sy SyLessEq, BLte), (kw KwAnd, BAnd), (kw KwOr, BOr),
      (kw KwMod, BMod), (kw KwXor, BXor)]"

definition token_to_binop :: "st_token \<Rightarrow> bin_op option" where
  "token_to_binop t = map_of binop_table t"

fun parse_expr_prec :: "nat \<Rightarrow> nat \<Rightarrow> tokens \<Rightarrow> expr parsed"
and expr_loop :: "nat \<Rightarrow> nat \<Rightarrow> expr \<Rightarrow> tokens \<Rightarrow> expr parsed"
and parse_unary :: "nat \<Rightarrow> tokens \<Rightarrow> expr parsed"
and parse_primary :: "nat \<Rightarrow> tokens \<Rightarrow> expr parsed" where
  "parse_expr_prec 0 m ts = None"
| "parse_expr_prec (Suc n) m ts = pbind (parse_unary n ts) (\<lambda>l. expr_loop n m l)"
| "expr_loop 0 m l ts = None"
| "expr_loop (Suc n) m l ts =
     (case Option.bind (peek ts) token_to_binop of
        None \<Rightarrow> ok l ts
      | Some op \<Rightarrow>
          if m \<le> precedence op
          then pbind (parse_expr_prec n (precedence op + 1) (tl ts)) (\<lambda>r. expr_loop n m (Binary l op r))
          else ok l ts)"
| "parse_unary 0 ts = None"
| "parse_unary (Suc n) ts =
     (if peek ts = Some (sy SyMinus) then pbind (parse_unary n (tl ts)) (\<lambda>e. ok (Unary UNeg e))
      else if peek ts = Some (kw KwNot) then pbind (parse_unary n (tl ts)) (\<lambda>e. ok (Unary UNot e))
      else parse_primary n ts)"
| "parse_primary 0 ts = None"
| "parse_primary (Suc n) ts =
     (case ts of
        [] \<Rightarrow> err UnexpectedEof
      | t # ts1 \<Rightarrow>
          (case tk_token t of
             IntegerLiteral i \<Rightarrow> ok (IntLiteral i) ts1
           | RealLiteral r \<Rightarrow> ok (RealLit r) ts1
           | Identifier nm \<Rightarrow>
               if nm = ''TRUE'' then ok (BoolLiteral True) ts1
               else if nm = ''FALSE'' then ok (BoolLiteral False) ts1
               else if peek ts1 = Some (sy SyLBracket)
               then pbind (parse_expr_prec n 0 (tl ts1)) (\<lambda>i ts2. pbind (expect (sy SyRBracket) ts2) (\<lambda>_. ok (ArrayAccess nm i)))
               else if peek ts1 = Some (sy SyDot)
               then pbind (expect_ident (tl ts1)) (\<lambda>(field, _). ok (FieldAccess nm field))
               else ok (Variable nm) ts1
           | Symbol s \<Rightarrow>
               if s = SyLParen
               then pbind (parse_expr_prec n 0 ts1) (\<lambda>e ts2. pbind (expect (sy SyRParen) ts2) (\<lambda>_. ok e))
               else err (unexpected t)
           | _ \<Rightarrow> err (unexpected t)))"

definition parse_expression :: "nat \<Rightarrow> tokens \<Rightarrow> expr parsed" where
  "parse_expression n = parse_expr_prec n 0"

subsection \<open>Declarations\<close>

fun parse_var_type :: "nat \<Rightarrow> tokens \<Rightarrow> var_type parsed" where
  "parse_var_type 0 ts = None"
| "parse_var_type (Suc n) ts =
     (case ts of
        [] \<Rightarrow> err UnexpectedEof
      | t # ts1 \<Rightarrow>
          (case tk_token t of
             TypeKeyword ty \<Rightarrow>
               if ty = TyString
               then (if peek ts1 = Some (sy SyLParen)
                     then (case Option.bind (peek (tl ts1)) (\<lambda>k. case k of IntegerLiteral i \<Rightarrow> Some i | _ \<Rightarrow> None) of
                             Some _ \<Rightarrow> pbind (expect (sy SyRParen) (tl (tl ts1))) (\<lambda>_. ok TyString)
                           | None \<Rightarrow> err UnexpectedEof)
                     else ok TyString ts1)
               else if ty = TyArray
               then pbind (expect (sy SyLBracket) ts1) (\<lambda>_ ts2.
                    pbind (parse_expression n ts2) (\<lambda>_ ts3.
                    pbind (expect (sy SyDotDot) ts3) (\<lambda>_ ts4.
                    pbind (parse_expression n ts4) (\<lambda>_ ts5.
                    pbind (expects [sy SyRBracket, kw KwOf] ts5) (\<lambda>_ ts6.
                    pbind (parse_var_type n ts6) (\<lambda>_. ok TyArray))))))
               else if ty = TyTof then err (unexpected t)
               else ok ty ts1
           | _ \<Rightarrow> err (unexpected t)))"

text \<open>Declarations up to \<^verbatim>\<open>END_VAR\<close>, behind those of the block read so far.\<close>

fun parse_decls :: "nat \<Rightarrow> st_variable list \<Rightarrow> tokens \<Rightarrow> st_variable list parsed" where
  "parse_decls 0 vars ts = None"
| "parse_decls (Suc n) vars ts =
     (if peek ts = Some (kw KwEndVar) then ok vars ts
      else pbind (expect_ident ts) (\<lambda>(nm, line) ts1.
           pbind (expect (sy SyColon) ts1) (\<lambda>_ ts2.
           pbind (parse_var_type n ts2) (\<lambda>ty ts3.
           pbind (expect (sy SySemicolon) ts3) (\<lambda>_ ts4.
             if nm \<in> var_name ` set vars then err (RedefinedVariable nm line)
             else parse_decls n (vars @ [\<lparr>var_name = nm, var_type = ty\<rparr>]) ts4)))))"

definition parse_var_block :: "nat \<Rightarrow> tokens \<Rightarrow> st_variable list parsed" where
  "parse_var_block n ts =
     pbind (expect (kw KwVar) ts) (\<lambda>_ ts1.
     pbind (parse_decls n [] ts1) (\<lambda>vars ts2.
     pbind (expect (kw KwEndVar) ts2) (\<lambda>_ ts3.
       ok vars (if peek ts3 = Some (sy SySemicolon) then tl ts3 else ts3))))"

definition parse_param_block :: "nat \<Rightarrow> st_keyword \<Rightarrow> tokens \<Rightarrow> st_variable list parsed" where
  "parse_param_block n start ts =
     pbind (expect (kw start) ts) (\<lambda>_ ts1.
     pbind (parse_decls n [] ts1) (\<lambda>vars ts2.
     pbind (expects [kw KwEndVar, sy SySemicolon] ts2) (\<lambda>_. ok vars)))"

subsection \<open>Statements\<close>

definition at_stop :: "(st_token \<Rightarrow> bool) \<Rightarrow> tokens \<Rightarrow> bool" where
  "at_stop stop ts = (case peek ts of Some k \<Rightarrow> stop k | None \<Rightarrow> False)"

fun parse_case_values :: "tokens \<Rightarrow> i64 list parsed" where
  "parse_case_values [] = err UnexpectedEof"
| "parse_case_values (t # ts) =
     (case tk_token t of
        IntegerLiteral i \<Rightarrow>
          if peek ts = Some (sy SyColon) then ok [i] (tl ts)
          else if peek ts = Some (sy SyComma) then pbind (parse_case_values (tl ts)) (\<lambda>vs. ok (i # vs))
          else err (ExpectedToken (sy SyColon) (case ts of [] \<Rightarrow> 0 | u # _ \<Rightarrow> tk_line u) (case ts of [] \<Rightarrow> 0 | u # _ \<Rightarrow> tk_col u))
      | _ \<Rightarrow> err (unexpected t))"

text \<open>Further arguments of a call, each behind a comma.\<close>

fun parse_more_args :: "nat \<Rightarrow> tokens \<Rightarrow> expr list parsed" where
  "parse_more_args 0 ts = None"
| "parse_more_args (Suc n) ts =
     (if peek ts = Some (sy SyComma)
      then pbind (parse_expression n (tl ts)) (\<lambda>e ts1. pbind (parse_more_args n ts1) (\<lambda>es. ok (e # es)))
      else ok [] ts)"

definition parse_args :: "nat \<Rightarrow> tokens \<Rightarrow> expr list parsed" where
  "parse_args n ts =
     (if peek ts = Some (sy SyRParen) then ok [] ts
      else pbind (parse_expression n ts) (\<lambda>e ts1. pbind (parse_more_args n ts1) (\<lambda>es. ok (e # es))))"

definition parse_ident_stmt :: "nat \<Rightarrow> tokens \<Rightarrow> statement parsed" where
  "parse_ident_stmt n ts =
     pbind (expect_ident ts) (\<lambda>(nm, _) ts1.
       if peek ts1 = Some (sy SyLBracket)
       then pbind (parse_expression n (tl ts1)) (\<lambda>i ts2.
            pbind (expects [sy SyRBracket, sy SyAssign] ts2) (\<lambda>_ ts3.
            pbind (parse_expression n ts3) (\<lambda>v ts4.
            pbind (expect (sy SySemicolon) ts4) (\<lambda>_. ok (ArrayAssign nm i v)))))
       else if peek ts1 = Some (sy SyAssign)
       then pbind (parse_expression n (tl ts1)) (\<lambda>v ts2. pbind (expect (sy SySemicolon) ts2) (\<lambda>_. ok (Assign nm v)))
       else if peek ts1 = Some (sy SyLParen)
       then pbind (parse_args n (tl ts1)) (\<lambda>args ts2.
            pbind (expects [sy SyRParen, sy SySemicolon] ts2) (\<lambda>_. ok (FunCall nm args)))
       else err (UnexpectedToken (Identifier []) 0 0))"

definition parse_step :: "nat \<Rightarrow> tokens \<Rightarrow> expr option parsed" where
  "parse_step n ts =
     (if peek ts = Some (kw KwBy) then pbind (parse_expression n (tl ts)) (\<lambda>e. ok (Some e)) else ok None ts)"

text \<open>
  Every block of the source is read up to one of its stop tokens, which stays. The statements are
  given the function that reads the blocks inside them; the keyword in front is already read.
\<close>

type_synonym block_parser = "(st_token \<Rightarrow> bool) \<Rightarrow> tokens \<Rightarrow> statement list parsed"

definition parse_else :: "block_parser \<Rightarrow> st_keyword \<Rightarrow> tokens \<Rightarrow> statement list parsed" where
  "parse_else blk end ts =
     (if peek ts = Some (kw KwElse) then blk (\<lambda>k. k = kw end) (tl ts) else ok [] ts)"

definition parse_if :: "block_parser \<Rightarrow> nat \<Rightarrow> tokens \<Rightarrow> statement parsed" where
  "parse_if blk n ts =
     pbind (parse_expression n ts) (\<lambda>c ts1.
     pbind (expect (kw KwThen) ts1) (\<lambda>_ ts2.
     pbind (blk (\<lambda>k. k = kw KwElse \<or> k = kw KwEndIf) ts2) (\<lambda>a ts3.
     pbind (parse_else blk KwEndIf ts3) (\<lambda>b ts4.
     pbind (expects [kw KwEndIf, sy SySemicolon] ts4) (\<lambda>_. ok (If c a b))))))"

definition parse_while :: "block_parser \<Rightarrow> nat \<Rightarrow> tokens \<Rightarrow> statement parsed" where
  "parse_while blk n ts =
     pbind (parse_expression n ts) (\<lambda>c ts1.
     pbind (expect (kw KwDo) ts1) (\<lambda>_ ts2.
     pbind (blk (\<lambda>k. k = kw KwEndWhile) ts2) (\<lambda>b ts3.
     pbind (expects [kw KwEndWhile, sy SySemicolon] ts3) (\<lambda>_. ok (While c b)))))"

definition parse_for :: "block_parser \<Rightarrow> nat \<Rightarrow> tokens \<Rightarrow> statement parsed" where
  "parse_for blk n ts =
     pbind (expect_ident ts) (\<lambda>(v, _) ts1.
     pbind (expect (sy SyAssign) ts1) (\<lambda>_ ts2.
     pbind (parse_expression n ts2) (\<lambda>a ts3.
     pbind (expect (kw KwTo) ts3) (\<lambda>_ ts4.
     pbind (parse_expression n ts4) (\<lambda>b ts5.
     pbind (parse_step n ts5) (\<lambda>st ts6.
     pbind (expect (kw KwDo) ts6) (\<lambda>_ ts7.
     pbind (blk (\<lambda>k. k = kw KwEndFor) ts7) (\<lambda>body ts8.
     pbind (expects [kw KwEndFor, sy SySemicolon] ts8) (\<lambda>_. ok (For v a b st body))))))))))"

definition case_body_end :: "st_token \<Rightarrow> bool" where
  "case_body_end k \<longleftrightarrow> k = kw KwElse \<or> k = kw KwEndCase \<or> (case k of IntegerLiteral _ \<Rightarrow> True | _ \<Rightarrow> False)"

primrec parse_cases :: "block_parser \<Rightarrow> nat \<Rightarrow> tokens \<Rightarrow> (i64 list \<times> statement list) list parsed" where
  "parse_cases blk 0 ts = None"
| "parse_cases blk (Suc n) ts =
     (if at_stop (\<lambda>k. k = kw KwEndCase \<or> k = kw KwElse) ts then ok [] ts
      else pbind (parse_case_values ts) (\<lambda>vs ts1.
           pbind (blk case_body_end ts1) (\<lambda>b ts2.
           pbind (parse_cases blk n ts2) (\<lambda>cs. ok ((vs, b) # cs)))))"

definition parse_case :: "block_parser \<Rightarrow> nat \<Rightarrow> tokens \<Rightarrow> statement parsed" where
  "parse_case blk n ts =
     pbind (expect_ident ts) (\<lambda>(v, _) ts1.
     pbind (expect (kw KwOf) ts1) (\<lambda>_ ts2.
     pbind (parse_cases blk n ts2) (\<lambda>cs ts3.
     pbind (parse_else blk KwEndCase ts3) (\<lambda>b ts4.
     pbind (expects [kw KwEndCase, sy SySemicolon] ts4) (\<lambda>_. ok (Case v cs b))))))"

definition parse_repeat :: "block_parser \<Rightarrow> nat \<Rightarrow> tokens \<Rightarrow> statement parsed" where
  "parse_repeat blk n ts =
     pbind (blk (\<lambda>k. k = kw KwUntil) ts) (\<lambda>b ts1.
     pbind (expect (kw KwUntil) ts1) (\<lambda>_ ts2.
     pbind (parse_expression n ts2) (\<lambda>c ts3.
     pbind (expects [kw KwEndRepeat, sy SySemicolon] ts3) (\<lambda>_. ok (Repeat b c)))))"

definition statement_with :: "block_parser \<Rightarrow> nat \<Rightarrow> tokens \<Rightarrow> statement parsed" where
  "statement_with blk n ts =
     (if peek ts = Some (kw KwIf) then parse_if blk n (tl ts)
      else if peek ts = Some (kw KwWhile) then parse_while blk n (tl ts)
      else if peek ts = Some (kw KwFor) then parse_for blk n (tl ts)
      else if peek ts = Some (kw KwCase) then parse_case blk n (tl ts)
      else if peek ts = Some (kw KwRepeat) then parse_repeat blk n (tl ts)
      else if peek ts = Some (kw KwReturn) then pbind (expect (sy SySemicolon) (tl ts)) (\<lambda>_. ok Return)
      else if peek ts = Some (kw KwExit) then pbind (expect (sy SySemicolon) (tl ts)) (\<lambda>_. ok Exit)
      else parse_ident_stmt n ts)"

primrec parse_block :: "nat \<Rightarrow> block_parser" where
  "parse_block 0 stop ts = None"
| "parse_block (Suc n) stop ts =
     (if at_stop stop ts then ok [] ts
      else pbind (statement_with (parse_block n) n ts) (\<lambda>s ts1. pbind (parse_block n stop ts1) (\<lambda>ss. ok (s # ss))))"

definition parse_statement :: "nat \<Rightarrow> tokens \<Rightarrow> statement parsed" where
  "parse_statement n = statement_with (parse_block n) n"

subsection \<open>Programs\<close>

text \<open>The blocks of a function: inputs, outputs, in-outs, variables. A repeated block replaces the first.\<close>

type_synonym fn_blocks = "st_variable list \<times> st_variable list \<times> st_variable list \<times> st_variable list"

primrec parse_fn_blocks :: "nat \<Rightarrow> fn_blocks \<Rightarrow> tokens \<Rightarrow> fn_blocks parsed" where
  "parse_fn_blocks 0 b ts = None"
| "parse_fn_blocks (Suc n) b ts =
     (case b of (ins, outs, inouts, vars) \<Rightarrow>
        if peek ts = Some (kw KwVarInput) then pbind (parse_param_block n KwVarInput ts) (\<lambda>v. parse_fn_blocks n (v, outs, inouts, vars))
        else if peek ts = Some (kw KwVarOutput) then pbind (parse_param_block n KwVarOutput ts) (\<lambda>v. parse_fn_blocks n (ins, v, inouts, vars))
        else if peek ts = Some (kw KwVarInOut) then pbind (parse_param_block n KwVarInOut ts) (\<lambda>v. parse_fn_blocks n (ins, outs, v, vars))
        else if peek ts = Some (kw KwVar) then pbind (parse_var_block n ts) (\<lambda>v. parse_fn_blocks n (ins, outs, inouts, v))
        else ok b ts)"

definition parse_function_def :: "nat \<Rightarrow> tokens \<Rightarrow> function_def parsed" where
  "parse_function_def n ts =
     pbind (expect (kw KwFunction) ts) (\<lambda>_ ts1.
     pbind (expect_ident ts1) (\<lambda>(nm, _) ts2.
     pbind (expect (sy SyColon) ts2) (\<lambda>_ ts3.
     pbind (parse_var_type n ts3) (\<lambda>ty ts4.
     pbind (expect (sy SySemicolon) ts4) (\<lambda>_ ts5.
     pbind (parse_fn_blocks n ([], [], [], []) ts5) (\<lambda>(ins, outs, inouts, vars) ts6.
     pbind (parse_block n (\<lambda>k. k = kw KwEndFunction) ts6) (\<lambda>body ts7.
     pbind (expects [kw KwEndFunction, sy SySemicolon] ts7) (\<lambda>_.
       ok \<lparr>fn_name = nm, return_type = ty, fn_variables = vars, input_params = ins, output_params = outs,
           inout_params = inouts, fn_body = body\<rparr>))))))))"

primrec parse_items :: "nat \<Rightarrow> tokens \<Rightarrow> (statement list \<times> function_def list) parsed" where
  "parse_items 0 ts = None"
| "parse_items (Suc n) ts =
     (case peek ts of
        None \<Rightarrow> err UnexpectedEof
      | Some k \<Rightarrow>
          if k = kw KwFunction
          then pbind (parse_function_def n ts) (\<lambda>f ts1. pbind (parse_items n ts1) (\<lambda>(ss, fs). ok (ss, f # fs)))
          else if k = kw KwEndProgram then ok ([], []) ts
          else pbind (parse_statement n ts) (\<lambda>s ts1. pbind (parse_items n ts1) (\<lambda>(ss, fs). ok (s # ss, fs))))"

text \<open>The name that occurs twice first, with the line 0 the source reports for it.\<close>

fun redeclared :: "string list \<Rightarrow> st_variable list \<Rightarrow> string option" where
  "redeclared seen [] = None"
| "redeclared seen (v # vs) = (if var_name v \<in> set seen then Some (var_name v) else redeclared (var_name v # seen) vs)"

definition parse_program_inner :: "nat \<Rightarrow> tokens \<Rightarrow> st_program parsed" where
  "parse_program_inner n ts =
     pbind (expect (kw KwProgram) ts) (\<lambda>_ ts1.
     pbind (expect_ident ts1) (\<lambda>(nm, _) ts2.
     pbind (if peek ts2 = Some (kw KwVar) then parse_var_block n ts2 else ok [] ts2) (\<lambda>vars ts3.
       case redeclared [] vars of
         Some v \<Rightarrow> err (RedefinedVariable v 0)
       | None \<Rightarrow>
           pbind (parse_items n ts3) (\<lambda>(body, fns) ts4.
           pbind (expect (kw KwEndProgram) ts4) (\<lambda>_.
             ok \<lparr>prog_name = nm, prog_variables = vars, prog_body = body, prog_functions = fns\<rparr>)))))"

text \<open>The fuel: a call of the parser that nests another one reads a token every few levels.\<close>

definition parser_fuel :: "tokens \<Rightarrow> nat" where
  "parser_fuel ts = 4 * length ts + 8"

definition parse_program :: "tokens \<Rightarrow> parse_error + st_program" where
  "parse_program ts =
     (case parse_program_inner (parser_fuel ts) ts of
        Some (Inr (p, _)) \<Rightarrow> Inr p
      | Some (Inl e) \<Rightarrow> Inl e
      | None \<Rightarrow> Inl UnexpectedEof)"

end
