(* ===== verification/St_Parse_Correct.thy ===== *)
theory St_Parse_Correct
  imports St_Parser
begin

text \<open>
  The parser of structured text returns on every input: each function reads tokens, or stops, and
  its fuel is a bound on the tokens that are left.
\<close>

subsection \<open>Enough fuel\<close>

text \<open>A call returns, and leaves fewer than the given number of tokens when it succeeds.\<close>

definition runs :: "nat \<Rightarrow> 'a parsed \<Rightarrow> bool" where
  "runs b r \<longleftrightarrow> r \<noteq> None \<and> (\<forall>x rest. r = ok x rest \<longrightarrow> length rest < b)"

lemma runs_simps [simp]: "runs b (ok x ts) \<longleftrightarrow> length ts < b" "runs b (err e)" "\<not> runs b None"
  by (auto simp: runs_def)

lemma runs_mono: "runs b r \<Longrightarrow> b \<le> c \<Longrightarrow> runs c r"
  by (fastforce simp: runs_def)

lemma pbind_simps [simp]: "pbind (ok x ts) f = f x ts" "pbind (err e) f = err e" "pbind None f = None"
  by (simp_all add: pbind_def)

lemma runs_pbind:
  assumes "runs b r" and "\<And>x rest. length rest < b \<Longrightarrow> runs c (f x rest)"
  shows "runs c (pbind r f)"
  using assms by (cases r) (auto simp: runs_def pbind_def split: sum.splits)

lemma runs_expect: "runs (length ts) (expect k ts)"
  by (cases ts) (simp_all add: expect_def)

lemma runs_expect_ident: "runs (length ts) (expect_ident ts)"
  by (cases ts) (simp_all add: expect_ident_def split: st_token.splits)

lemma runs_expects: "runs (Suc (length ts)) (expects ks ts)"
proof (induction ks arbitrary: ts)
  case (Cons k ks)
  show ?case unfolding expects.simps
  proof (rule runs_pbind [OF runs_expect])
    fix x and rest :: tokens assume "length rest < length ts"
    then show "runs (Suc (length ts)) (expects ks rest)" using runs_mono [OF Cons.IH [of rest]] by simp
  qed
qed simp

lemma peek_Some: "peek ts = Some k \<Longrightarrow> \<exists>t rest. ts = t # rest"
  by (cases ts) (auto simp: peek_def)

lemma tl_shorter: "peek ts = Some k \<Longrightarrow> length (tl ts) < length ts"
  by (cases ts) (auto simp: peek_def)

lemma expression_runs:
  "4 * length ts + 4 \<le> n \<Longrightarrow> runs (length ts) (parse_expr_prec n m ts)"
  "4 * length ts + 1 \<le> n \<Longrightarrow> runs (Suc (length ts)) (expr_loop n m l ts)"
  "4 * length ts + 3 \<le> n \<Longrightarrow> runs (length ts) (parse_unary n ts)"
  "4 * length ts + 2 \<le> n \<Longrightarrow> runs (length ts) (parse_primary n ts)"
proof (induction n m ts and n m l ts and n ts and n ts rule: parse_expr_prec_expr_loop_parse_unary_parse_primary.induct)
  case (2 n m ts)
  show ?case unfolding parse_expr_prec.simps
  proof (rule runs_pbind)
    show "runs (length ts) (parse_unary n ts)" using 2 by simp
    fix l and rest :: tokens assume "length rest < length ts"
    then show "runs (length ts) (expr_loop n m l rest)" using 2 by (intro runs_mono [OF 2(2)]) simp_all
  qed
next
  case (4 n m l ts)
  show ?case
  proof (cases "Option.bind (peek ts) token_to_binop")
    case (Some op)
    then have s: "length (tl ts) < length ts" using tl_shorter by (auto simp: bind_eq_Some_conv)
    show ?thesis
    proof (cases "m \<le> precedence op")
      case True
      have "runs (Suc (length ts)) (pbind (parse_expr_prec n (precedence op + 1) (tl ts)) (\<lambda>r. expr_loop n m (Binary l op r)))"
      proof (rule runs_pbind)
        show "runs (length (tl ts)) (parse_expr_prec n (precedence op + 1) (tl ts))"
          using 4(1) [OF Some True] 4(3) s by simp
        fix r and rest :: tokens assume "length rest < length (tl ts)"
        then show "runs (Suc (length ts)) (expr_loop n m (Binary l op r) rest)"
          using s 4(3) by (intro runs_mono [OF 4(2) [OF Some True]]) simp_all
      qed
      then show ?thesis using Some True by simp
    qed (use Some in simp)
  qed simp
next
  case (6 n ts)
  have r: "runs (length ts) (pbind (parse_unary n (tl ts)) (\<lambda>e. ok (Unary u e)))"
    if p: "peek ts = Some k" and "runs (length (tl ts)) (parse_unary n (tl ts))" for k u
    using tl_shorter [OF p] by (intro runs_pbind [OF that(2)]) simp
  show ?case using 6 r [of "sy SyMinus" UNeg] r [of "kw KwNot" UNot] tl_shorter [of ts] by auto
next
  case (8 n ts)
  show ?case
  proof (cases ts)
    case (Cons t ts1)
    have e: "runs (length ts) (pbind (parse_expr_prec n 0 us) (\<lambda>x us1. pbind (expect k us1) (\<lambda>_. ok (f x))))"
      if "runs (length us) (parse_expr_prec n 0 us)" and "length us < length ts" for us k and f :: "expr \<Rightarrow> expr"
    proof (rule runs_pbind [OF that(1)])
      fix x and us1 :: tokens assume u: "length us1 < length us"
      show "runs (length ts) (pbind (expect k us1) (\<lambda>_. ok (f x)))"
        using u that(2) by (intro runs_pbind [OF runs_expect]) simp
    qed
    have d: "runs (length ts) (pbind (expect_ident (tl ts1)) (\<lambda>(field, _). ok (FieldAccess nm field)))" if "peek ts1 \<noteq> None" for nm
      using Cons by (intro runs_pbind [OF runs_expect_ident]) (auto split: prod.splits)
    show ?thesis
    proof (cases "tk_token t")
      case (Identifier nm)
      then show ?thesis using 8(2) [OF Cons Identifier] 8(3) Cons d [of nm] e [of "tl ts1" "sy SyRBracket" "ArrayAccess nm"]
        tl_shorter [of ts1] by auto
    next
      case (Symbol s)
      then show ?thesis using 8(1) [OF Cons Symbol] 8(3) Cons e [of ts1 "sy SyRParen" "\<lambda>x. x"] by auto
    qed (use Cons in simp_all)
  qed simp
qed simp_all

lemma runs_expression: "4 * length ts + 4 \<le> n \<Longrightarrow> runs (length ts) (parse_expression n ts)"
  by (simp add: parse_expression_def expression_runs(1))

lemma runs_case_values: "runs (length ts) (parse_case_values ts)"
proof (induction ts rule: parse_case_values.induct)
  case (2 t ts)
  have m: "runs (Suc (length ts)) (pbind (parse_case_values (tl ts)) (\<lambda>vs. ok (i # vs)))"
    if "runs (length (tl ts)) (parse_case_values (tl ts))" for i
    by (rule runs_pbind [OF that]) simp
  show ?case
  proof (cases "tk_token t")
    case (IntegerLiteral i)
    then show ?thesis using 2 [OF IntegerLiteral] m by (auto simp: le_imp_less_Suc)
  qed simp_all
qed simp

lemma runs_more_args: "4 * length ts + 1 \<le> n \<Longrightarrow> runs (Suc (length ts)) (parse_more_args n ts)"
proof (induction n arbitrary: ts)
  case (Suc n)
  show ?case
  proof (cases "peek ts = Some (sy SyComma)")
    case True
    note s = tl_shorter [OF True]
    have "runs (Suc (length ts)) (pbind (parse_expression n (tl ts)) (\<lambda>e ts1. pbind (parse_more_args n ts1) (\<lambda>es. ok (e # es))))"
    proof (rule runs_pbind [OF runs_expression])
      show "4 * length (tl ts) + 4 \<le> n" using s Suc.prems by simp
      fix e and ts1 :: tokens assume l: "length ts1 < length (tl ts)"
      show "runs (Suc (length ts)) (pbind (parse_more_args n ts1) (\<lambda>es. ok (e # es)))"
        using l s Suc.prems by (intro runs_pbind [OF Suc.IH]) simp_all
    qed
    then show ?thesis using True by simp
  qed simp
qed simp

lemma runs_args: "4 * length ts + 4 \<le> n \<Longrightarrow> runs (Suc (length ts)) (parse_args n ts)"
  unfolding parse_args_def
  by (simp, intro impI runs_pbind [OF runs_expression] runs_pbind [OF runs_more_args]) simp_all

lemma runs_step: "4 * length ts \<le> n \<Longrightarrow> runs (Suc (length ts)) (parse_step n ts)"
  unfolding parse_step_def
  by (auto intro!: runs_pbind [OF runs_expression] dest!: peek_Some)

lemmas parser_chain = runs_pbind [OF runs_expect] runs_pbind [OF runs_expect_ident] runs_pbind [OF runs_expects]
  runs_pbind [OF runs_expression] runs_pbind [OF runs_case_values] runs_pbind [OF runs_args] runs_pbind [OF runs_step]

lemma runs_ident_stmt: "4 * length ts \<le> n \<Longrightarrow> runs (length ts) (parse_ident_stmt n ts)"
  unfolding parse_ident_stmt_def
  by (auto simp del: expects.simps intro!: parser_chain split: prod.split; arith)

lemma runs_var_type: "4 * length ts + 4 \<le> n \<Longrightarrow> runs (length ts) (parse_var_type n ts)"
proof (induction n arbitrary: ts)
  case (Suc n)
  show ?case
  proof (cases ts)
    case (Cons t ts1)
    show ?thesis
    proof (cases "tk_token t")
      case (TypeKeyword ty)
      have a: "runs (length ts) (pbind (expect (sy SyLBracket) ts1) (\<lambda>_ ts2.
                    pbind (parse_expression n ts2) (\<lambda>_ ts3.
                    pbind (expect (sy SyDotDot) ts3) (\<lambda>_ ts4.
                    pbind (parse_expression n ts4) (\<lambda>_ ts5.
                    pbind (expects [sy SyRBracket, kw KwOf] ts5) (\<lambda>_ ts6.
                    pbind (parse_var_type n ts6) (\<lambda>_. ok TyArray)))))))"
        using Suc.prems Cons by (intro parser_chain runs_pbind [OF Suc.IH]) simp_all
      have b: "runs (length ts) (pbind (expect (sy SyRParen) (tl (tl ts1))) (\<lambda>_. ok TyString))"
        using Cons by (intro parser_chain) simp
      show ?thesis using a b Cons TypeKeyword by (simp split: option.split)
    qed (use Cons in simp_all)
  qed simp
qed simp

lemma runs_decls: "4 * length ts + 1 \<le> n \<Longrightarrow> runs (Suc (length ts)) (parse_decls n vars ts)"
proof (induction n arbitrary: vars ts)
  case (Suc n)
  show ?case
    unfolding parse_decls.simps using Suc.prems
    by (auto intro!: parser_chain runs_pbind [OF runs_var_type] runs_mono [OF Suc.IH] split: prod.split)
qed simp

text \<open>Statements, given that the blocks inside them are read.\<close>

definition reads_blocks :: "nat \<Rightarrow> block_parser \<Rightarrow> bool" where
  "reads_blocks b blk \<longleftrightarrow> (\<forall>stop ts. length ts < b \<longrightarrow> runs (Suc (length ts)) (blk stop ts))"

lemma runs_blk: "reads_blocks b blk \<Longrightarrow> length ts < b \<Longrightarrow> runs (Suc (length ts)) (blk stop ts)"
  by (simp add: reads_blocks_def)

lemma runs_else: "reads_blocks b blk \<Longrightarrow> length ts < b \<Longrightarrow> runs (Suc (length ts)) (parse_else blk end ts)"
  unfolding parse_else_def using runs_mono [OF runs_blk [of b blk "tl ts"]] by auto

lemma runs_cases:
  assumes "reads_blocks b blk"
  shows "4 * length ts + 1 \<le> n \<Longrightarrow> length ts < b \<Longrightarrow> runs (Suc (length ts)) (parse_cases blk n ts)"
proof (induction n arbitrary: ts)
  case (Suc n)
  show ?case unfolding parse_cases.simps using Suc.prems
    by (auto intro!: parser_chain runs_pbind [OF runs_blk [OF assms]] runs_pbind [OF Suc.IH]; arith)
qed simp

lemma runs_statement:
  assumes "reads_blocks (length ts) blk" and "4 * length ts \<le> n"
  shows "runs (length ts) (statement_with blk n ts)"
proof -
  note chain = parser_chain runs_pbind [OF runs_blk [OF assms(1)]] runs_pbind [OF runs_else [OF assms(1)]]
    runs_pbind [OF runs_cases [OF assms(1)]]
  have "runs (length ts) (parse_if blk n us)" "runs (length ts) (parse_while blk n us)" "runs (length ts) (parse_for blk n us)"
    "runs (length ts) (parse_case blk n us)" "runs (length ts) (parse_repeat blk n us)" if "length us < length ts" for us
    unfolding parse_if_def parse_while_def parse_for_def parse_case_def parse_repeat_def
    using that assms(2) by (auto simp del: expects.simps intro!: chain split: prod.split; arith)+
  moreover have "runs (length ts) (pbind (expect k us) (\<lambda>_. ok s))" if "length us < length ts" for us k and s :: statement
    using that by (intro parser_chain) simp
  ultimately show ?thesis using runs_ident_stmt [OF assms(2)] tl_shorter [of ts] by (auto simp: statement_with_def)
qed

lemma runs_block: "4 * length ts + 1 \<le> n \<Longrightarrow> runs (Suc (length ts)) (parse_block n stop ts)"
proof (induction n arbitrary: stop ts)
  case (Suc n)
  have b: "reads_blocks (length ts) (parse_block n)" unfolding reads_blocks_def using Suc by simp
  show ?case unfolding parse_block.simps using Suc.prems
    by (auto intro!: runs_pbind [OF runs_statement [OF b]] runs_pbind [OF Suc.IH])
qed simp

lemma blocks_read: "4 * length ts + 1 \<le> n \<Longrightarrow> reads_blocks (Suc (length ts)) (parse_block n)"
  unfolding reads_blocks_def using runs_block by simp

lemma runs_var_block: "4 * length ts \<le> n \<Longrightarrow> runs (length ts) (parse_var_block n ts)"
  unfolding parse_var_block_def by (auto intro!: parser_chain runs_pbind [OF runs_decls])

lemma runs_param_block: "4 * length ts \<le> n \<Longrightarrow> runs (length ts) (parse_param_block n start ts)"
  unfolding parse_param_block_def by (auto simp del: expects.simps intro!: parser_chain runs_pbind [OF runs_decls])

lemma runs_fn_blocks: "4 * length ts + 1 \<le> n \<Longrightarrow> runs (Suc (length ts)) (parse_fn_blocks n b ts)"
proof (induction n arbitrary: b ts)
  case (Suc n)
  show ?case unfolding parse_fn_blocks.simps using Suc.prems
    by (auto intro!: runs_pbind [OF runs_param_block] runs_pbind [OF runs_var_block] runs_mono [OF Suc.IH] split: prod.split)
qed simp

lemma runs_function_def: "4 * length ts \<le> n \<Longrightarrow> runs (length ts) (parse_function_def n ts)"
  unfolding parse_function_def_def
  by (auto simp del: expects.simps intro!: parser_chain runs_pbind [OF runs_var_type] runs_pbind [OF runs_fn_blocks]
      runs_pbind [OF runs_block] split: prod.split)

lemma runs_items: "4 * length ts + 2 \<le> n \<Longrightarrow> runs (Suc (length ts)) (parse_items n ts)"
proof (induction n arbitrary: ts)
  case (Suc n)
  have s: "runs (length ts) (parse_statement n ts)"
    using Suc.prems runs_statement [of ts "parse_block n" n] blocks_read [of ts n] by (simp add: parse_statement_def reads_blocks_def)
  show ?case unfolding parse_items.simps using Suc.prems
    by (auto intro!: runs_pbind [OF s] runs_pbind [OF runs_function_def] runs_pbind [OF Suc.IH] split: prod.split option.split)
qed simp

text \<open>
  C24: the parser returns on every list of tokens. The fuel that the top level gives is enough, so
  that every run ends in a program or in a parse error.
\<close>

theorem parser_returns: "parse_program_inner (parser_fuel ts) ts \<noteq> None"
proof -
  have "runs (Suc (length ts)) (parse_program_inner (parser_fuel ts) ts)"
    unfolding parse_program_inner_def parser_fuel_def
    by (auto intro!: parser_chain runs_pbind [OF runs_var_block] runs_pbind [OF runs_items] split: prod.split option.split)
  then show ?thesis by (auto simp: runs_def)
qed

end
