(* ===== verification/St_Expr.thy ===== *)
theory St_Expr
  imports St_Parse_Correct
begin

text \<open>
  Expressions of structured text: the parser reads what a printer writes that puts parentheses only
  where the precedence of the operators asks for them.
\<close>

subsection \<open>More fuel\<close>

definition below :: "'a option \<Rightarrow> 'a option \<Rightarrow> bool" where
  "below r s \<longleftrightarrow> (\<forall>v. r = Some v \<longrightarrow> s = Some v)"

lemma below_simps [simp]: "below None s" "below r r" "below (Some v) s \<longleftrightarrow> s = Some v"
  by (auto simp: below_def)

lemma below_pbind: "below r r' \<Longrightarrow> (\<And>x ts. below (f x ts) (f' x ts)) \<Longrightarrow> below (pbind r f) (pbind r' f')"
  by (cases r) (auto simp: below_def pbind_def split: sum.splits)

lemma expression_mono:
  "below (parse_expr_prec n m ts) (parse_expr_prec (Suc n) m ts)"
  "below (expr_loop n m l ts) (expr_loop (Suc n) m l ts)"
  "below (parse_unary n ts) (parse_unary (Suc n) ts)"
  "below (parse_primary n ts) (parse_primary (Suc n) ts)"
proof (induction n m ts and n m l ts and n ts and n ts rule: parse_expr_prec_expr_loop_parse_unary_parse_primary.induct)
  case (2 n m ts)
  then show ?case unfolding parse_expr_prec.simps(2) by (intro below_pbind)
next
  case (4 n m l ts)
  then show ?case unfolding expr_loop.simps(2) by (auto intro!: below_pbind simp del: expr_loop.simps parse_expr_prec.simps split: option.split)
next
  case (6 n ts)
  then show ?case unfolding parse_unary.simps(2) by (auto intro!: below_pbind simp del: parse_unary.simps parse_primary.simps)
next
  case (8 n ts)
  then show ?case unfolding parse_primary.simps(2)
    by (auto intro!: below_pbind simp del: parse_expr_prec.simps split: list.split st_token.split)
qed simp_all

lemma expression_stable:
  assumes "parse_expr_prec n m ts = Some v" and "n \<le> k"
  shows "parse_expr_prec k m ts = Some v"
  using assms(2)
proof (induction k rule: dec_induct)
  case (step k)
  then show ?case using expression_mono(1) [of k m ts] by simp
qed (rule assms(1))

subsection \<open>Printer\<close>

fun op_token :: "bin_op \<Rightarrow> st_token" where
  "op_token BAdd = sy SyPlus"
| "op_token BSub = sy SyMinus"
| "op_token BMul = sy SyStar"
| "op_token BDiv = sy SySlash"
| "op_token BEq = sy SyEqual"
| "op_token BNeq = sy SyNotEqual"
| "op_token BGt = sy SyGreater"
| "op_token BLt = sy SyLess"
| "op_token BGte = sy SyGreaterEq"
| "op_token BLte = sy SyLessEq"
| "op_token BAnd = kw KwAnd"
| "op_token BOr = kw KwOr"
| "op_token BMod = kw KwMod"
| "op_token BXor = kw KwXor"

fun unary_token :: "unary_op \<Rightarrow> st_token" where
  "unary_token UNeg = sy SyMinus"
| "unary_token UNot = kw KwNot"

text \<open>
  The text of an expression where the surroundings bind with the given strength: 0 for none, the
  precedence of an operator for its left operand and one more for its right operand, 6 for the
  operand of a unary operator.
\<close>

fun expr_text :: "nat \<Rightarrow> expr \<Rightarrow> st_token list" where
  "expr_text k (IntLiteral i) = [IntegerLiteral i]"
| "expr_text k (RealLit r) = [RealLiteral r]"
| "expr_text k (BoolLiteral b) = [Identifier (if b then ''TRUE'' else ''FALSE'')]"
| "expr_text k (Variable x) = [Identifier x]"
| "expr_text k (ArrayAccess x i) = [Identifier x, sy SyLBracket] @ expr_text 0 i @ [sy SyRBracket]"
| "expr_text k (FieldAccess x f) = [Identifier x, sy SyDot, Identifier f]"
| "expr_text k (Unary u e) = unary_token u # expr_text 6 e"
| "expr_text k (Binary l op r) =
     (let s = expr_text (precedence op) l @ [op_token op] @ expr_text (precedence op + 1) r
      in if precedence op < k then sy SyLParen # s @ [sy SyRParen] else s)"

text \<open>The words for the truth values are not names of variables.\<close>

fun names_ok :: "expr \<Rightarrow> bool" where
  "names_ok (Variable x) = (x \<notin> {''TRUE'', ''FALSE''})"
| "names_ok (ArrayAccess x i) = (x \<notin> {''TRUE'', ''FALSE''} \<and> names_ok i)"
| "names_ok (FieldAccess x f) = (x \<notin> {''TRUE'', ''FALSE''})"
| "names_ok (Unary u e) = names_ok e"
| "names_ok (Binary l op r) = (names_ok l \<and> names_ok r)"
| "names_ok _ = True"

subsection \<open>Reading\<close>

definition ev :: "(nat \<Rightarrow> 'a) \<Rightarrow> 'a \<Rightarrow> bool" where
  "ev f x \<longleftrightarrow> (\<exists>n0. \<forall>n \<ge> n0. f n = x)"

lemma ev_const: "(\<And>n. f (Suc n) = x) \<Longrightarrow> ev f x"
  unfolding ev_def by (metis Suc_le_D)

lemma ev_step: "ev f x \<Longrightarrow> (\<And>n. f n = x \<Longrightarrow> g (Suc n) = y) \<Longrightarrow> ev g y"
  unfolding ev_def by (metis Suc_le_D Suc_le_mono)

lemma ev_step2:
  assumes "ev f x" and "ev g y" and "\<And>n. f n = x \<Longrightarrow> g n = y \<Longrightarrow> h (Suc n) = z"
  shows "ev h z"
proof -
  obtain a b where "\<forall>n \<ge> a. f n = x" "\<forall>n \<ge> b. g n = y" using assms(1,2) by (auto simp: ev_def)
  then have "\<forall>n \<ge> Suc (max a b). h n = z" using assms(3) by (metis Suc_le_D Suc_le_mono max.bounded_iff)
  then show ?thesis unfolding ev_def by blast
qed

text \<open>The strength of the operator that follows, and tokens that continue a name.\<close>

definition next_prec :: "tokens \<Rightarrow> nat" where
  "next_prec ts = (case Option.bind (peek ts) token_to_binop of Some op \<Rightarrow> precedence op | None \<Rightarrow> 0)"

definition ends_name :: "tokens \<Rightarrow> bool" where
  "ends_name ts \<longleftrightarrow> peek ts \<noteq> Some (sy SyLBracket) \<and> peek ts \<noteq> Some (sy SyDot)"

lemma op_token_binop: "token_to_binop (op_token op) = Some op"
  by (cases op) (simp_all add: token_to_binop_def binop_table_def)

lemma op_token_ends: "op_token op \<noteq> sy SyLBracket" "op_token op \<noteq> sy SyDot"
  by (cases op; simp)+

lemma precedence_pos: "1 \<le> precedence op"
  by (cases op) simp_all

lemma precedence_small: "precedence op < 6"
  by (cases op) simp_all

lemma loop_stops: "next_prec rest < max m 1 \<Longrightarrow> ev (\<lambda>n. expr_loop n m e rest) (ok e rest)"
proof (rule ev_const)
  fix n assume a: "next_prec rest < max m 1"
  show "expr_loop (Suc n) m e rest = ok e rest"
  proof (cases "Option.bind (peek rest) token_to_binop")
    case (Some op)
    then have "\<not> m \<le> precedence op" using a precedence_pos [of op] by (simp add: next_prec_def max_def split: if_splits)
    then show ?thesis using Some by simp
  qed simp
qed

lemma unary_then_loop:
  "ev (\<lambda>n. parse_unary n ts) (ok e rest) \<Longrightarrow> ev (\<lambda>n. expr_loop n m e rest) x \<Longrightarrow> ev (\<lambda>n. parse_expr_prec n m ts) x"
  by (erule ev_step2) simp_all

lemma primary_unary:
  "ev (\<lambda>n. parse_primary n ts) x \<Longrightarrow> peek ts \<noteq> Some (sy SyMinus) \<Longrightarrow> peek ts \<noteq> Some (kw KwNot) \<Longrightarrow> ev (\<lambda>n. parse_unary n ts) x"
  by (erule ev_step) simp

lemma atom_unary:
  assumes "\<And>n. parse_primary (Suc n) ts = x" and "peek ts \<noteq> Some (sy SyMinus)" and "peek ts \<noteq> Some (kw KwNot)"
  shows "ev (\<lambda>n. parse_unary n ts) x"
  using assms by (intro primary_unary ev_const)

lemma peek_Cons [simp]: "peek (t # ts) = Some (tk_token t)"
  by (simp add: peek_def)

lemma expect_Cons [simp]: "expect k (t # ts) = (if tk_token t = k then ok () ts else err (unexpected t))"
  by (simp add: expect_def)

lemma map_enclosed: "map f xs = a # s @ [c] \<Longrightarrow> \<exists>x body y. xs = x # body @ [y] \<and> f x = a \<and> map f body = s \<and> f y = c"
  by (auto simp: map_eq_append_conv map_eq_Cons_conv)

lemma parens_read:
  assumes "ev (\<lambda>n. parse_expr_prec n 0 (body @ close # rest)) (ok e (close # rest))"
    and "tk_token op = sy SyLParen" and "tk_token close = sy SyRParen"
  shows "ev (\<lambda>n. parse_unary n (op # body @ close # rest)) (ok e rest)"
  by (rule primary_unary, rule ev_step [OF assms(1)]) (simp_all add: assms(2,3))

text \<open>
  An expression is read in front of the rest: as the operand of a unary operator, and as the start
  of an expression, after which the loop over the operators goes on.
\<close>

definition reads_unary :: "expr \<Rightarrow> bool" where
  "reads_unary e \<longleftrightarrow> (\<forall>ts rest. map tk_token ts = expr_text 6 e \<longrightarrow> ends_name rest
     \<longrightarrow> ev (\<lambda>n. parse_unary n (ts @ rest)) (ok e rest))"

definition reads_start :: "expr \<Rightarrow> bool" where
  "reads_start e \<longleftrightarrow> (\<forall>ts rest k m x. map tk_token ts = expr_text k e \<longrightarrow> ends_name rest \<longrightarrow> next_prec rest \<le> k \<longrightarrow> m \<le> k
     \<longrightarrow> ev (\<lambda>n. expr_loop n m e rest) x \<longrightarrow> ev (\<lambda>n. parse_expr_prec n m (ts @ rest)) x)"

lemma reads_startD:
  assumes "reads_start e" and "map tk_token ts = expr_text k e" and "ends_name rest" and "next_prec rest \<le> k" and "m \<le> k"
    and "ev (\<lambda>n. expr_loop n m e rest) x"
  shows "ev (\<lambda>n. parse_expr_prec n m (ts @ rest)) x"
  using assms unfolding reads_start_def by blast

lemma reads_atom:
  assumes "\<And>k. expr_text k e = expr_text 6 e" and "reads_unary e"
  shows "reads_start e"
  unfolding reads_start_def
proof (intro allI impI)
  fix ts rest :: tokens and k m x
  assume "map tk_token ts = expr_text k e" "ends_name rest" and l: "ev (\<lambda>n. expr_loop n m e rest) x"
  then have "ev (\<lambda>n. parse_unary n (ts @ rest)) (ok e rest)"
    using assms(2) assms(1) [of k] by (simp add: reads_unary_def)
  then show "ev (\<lambda>n. parse_expr_prec n m (ts @ rest)) x" using l by (rule unary_then_loop)
qed

text \<open>A whole expression in front of a closing token.\<close>

lemma reads_closed:
  assumes "reads_start e" and "map tk_token ts = expr_text 0 e" and "tk_token close \<in> {sy SyRParen, sy SyRBracket}"
  shows "ev (\<lambda>n. parse_expr_prec n 0 (ts @ close # rest)) (ok e (close # rest))"
proof (rule reads_startD [OF assms(1,2)])
  show e: "ends_name (close # rest)" using assms(3) by (auto simp: ends_name_def)
  show n: "next_prec (close # rest) \<le> 0"
    using assms(3) by (auto simp: next_prec_def token_to_binop_def binop_table_def)
  show "ev (\<lambda>n. expr_loop n 0 e (close # rest)) (ok e (close # rest))" using n by (intro loop_stops) simp
qed simp

text \<open>A binary operation without parentheses.\<close>

lemma reads_binary:
  assumes "reads_start l" and "reads_start r"
    and "map tk_token ts = expr_text (precedence op) l @ [op_token op] @ expr_text (precedence op + 1) r"
    and "ends_name rest" and "next_prec rest \<le> precedence op" and "m \<le> precedence op"
    and "ev (\<lambda>n. expr_loop n m (Binary l op r) rest) x"
  shows "ev (\<lambda>n. parse_expr_prec n m (ts @ rest)) x"
proof -
  let ?p = "precedence op"
  obtain tl1 t tr where ts: "ts = tl1 @ t # tr" and l: "map tk_token tl1 = expr_text ?p l"
    and t: "tk_token t = op_token op" and r: "map tk_token tr = expr_text (?p + 1) r"
    using assms(3) by (auto simp: map_eq_append_conv map_eq_Cons_conv)
  have right: "ev (\<lambda>n. parse_expr_prec n (?p + 1) (tr @ rest)) (ok r rest)"
    using assms(4,5) by (intro reads_startD [OF assms(2) r] loop_stops) simp_all
  have "ev (\<lambda>n. expr_loop n m l (t # tr @ rest)) x"
    by (rule ev_step2 [OF right assms(7)]) (simp add: op_token_binop assms(6) t)
  then have "ev (\<lambda>n. parse_expr_prec n m (tl1 @ t # tr @ rest)) x"
    using assms(6) t by (intro reads_startD [OF assms(1) l]) (auto simp: ends_name_def next_prec_def op_token_binop op_token_ends)
  then show ?thesis by (simp add: ts)
qed

lemma text_reads: "names_ok e \<Longrightarrow> reads_unary e \<and> reads_start e"
proof (induction e)
  case (Binary l op r)
  then have lr: "reads_start l" "reads_start r" by simp_all
  let ?s = "expr_text (precedence op) l @ [op_token op] @ expr_text (precedence op + 1) r"
  have paren: "ev (\<lambda>n. parse_unary n (ts @ rest)) (ok (Binary l op r) rest)"
    if p: "map tk_token ts = sy SyLParen # ?s @ [sy SyRParen]" for ts rest
  proof -
    obtain a body c where ts: "ts = a # body @ [c]" and k: "tk_token a = sy SyLParen" "map tk_token body = ?s" "tk_token c = sy SyRParen"
      using map_enclosed [OF p] by blast
    have n: "next_prec (c # rest) = 0" "ends_name (c # rest)"
      using k(3) by (simp_all add: next_prec_def token_to_binop_def binop_table_def ends_name_def)
    have "ev (\<lambda>n. parse_expr_prec n 0 (body @ c # rest)) (ok (Binary l op r) (c # rest))"
      using n by (intro reads_binary [OF lr k(2)] loop_stops) simp_all
    from parens_read [OF this k(1,3)] show ?thesis by (simp add: ts)
  qed
  have "reads_unary (Binary l op r)"
    using paren precedence_small [of op] by (simp add: reads_unary_def)
  moreover have "reads_start (Binary l op r)"
    unfolding reads_start_def
  proof (intro allI impI)
    fix ts rest :: tokens and k m x
    assume a: "map tk_token ts = expr_text k (Binary l op r)" "ends_name rest" "next_prec rest \<le> k" "m \<le> k"
      "ev (\<lambda>n. expr_loop n m (Binary l op r) rest) x"
    show "ev (\<lambda>n. parse_expr_prec n m (ts @ rest)) x"
    proof (cases "precedence op < k")
      case True
      then show ?thesis using a paren by (intro unary_then_loop [OF _ a(5)]) simp
    next
      case False
      then show ?thesis using a by (intro reads_binary [OF lr]) simp_all
    qed
  qed
  ultimately show ?case ..
next
  case (Unary u e)
  have "reads_unary (Unary u e)"
    unfolding reads_unary_def
  proof (intro allI impI)
    fix ts rest :: tokens
    assume a: "map tk_token ts = expr_text 6 (Unary u e)" "ends_name rest"
    then obtain t us where ts: "ts = t # us" and t: "tk_token t = unary_token u" and us: "map tk_token us = expr_text 6 e"
      by (auto simp: map_eq_Cons_conv)
    have "ev (\<lambda>n. parse_unary n (us @ rest)) (ok e rest)" using Unary us a(2) by (simp add: reads_unary_def)
    then have "ev (\<lambda>n. parse_unary n (t # us @ rest)) (ok (Unary u e) rest)" by (rule ev_step) (cases u; simp add: t)
    then show "ev (\<lambda>n. parse_unary n (ts @ rest)) (ok (Unary u e) rest)" by (simp add: ts)
  qed
  then show ?case using reads_atom [of "Unary u e"] by simp
next
  case (ArrayAccess a i)
  have "reads_unary (ArrayAccess a i)"
    unfolding reads_unary_def
  proof (intro allI impI)
    fix ts rest :: tokens
    assume "map tk_token ts = expr_text 6 (ArrayAccess a i)"
    then obtain t b us c where ts: "ts = t # b # us @ [c]" and k: "tk_token t = Identifier a" "tk_token b = sy SyLBracket"
        "map tk_token us = expr_text 0 i" "tk_token c = sy SyRBracket"
      by (auto simp: map_eq_append_conv map_eq_Cons_conv)
    have "ev (\<lambda>n. parse_expr_prec n 0 (us @ c # rest)) (ok i (c # rest))"
      using ArrayAccess k by (intro reads_closed) simp_all
    then have "ev (\<lambda>n. parse_primary n (t # b # us @ c # rest)) (ok (ArrayAccess a i) rest)"
      by (rule ev_step) (use ArrayAccess.prems in \<open>simp add: k\<close>)
    then show "ev (\<lambda>n. parse_unary n (ts @ rest)) (ok (ArrayAccess a i) rest)" by (simp add: ts primary_unary k)
  qed
  then show ?case using reads_atom [of "ArrayAccess a i"] by simp
qed (auto intro!: reads_atom atom_unary simp: reads_unary_def map_eq_Cons_conv ends_name_def expect_ident_def)

text \<open>
  C23: the parser honours the precedence of the operators. An expression that is written with the
  parentheses its operators need, and only those, is read back as the expression, whatever the
  positions of the tokens, in front of anything that does not continue it.
\<close>

theorem expression_roundtrip:
  assumes "map tk_token ts = expr_text 0 e" and "names_ok e" and "ends_name rest" and "next_prec rest = 0"
    and "4 * length (ts @ rest) + 4 \<le> n"
  shows "parse_expression n (ts @ rest) = ok e rest"
proof -
  have "ev (\<lambda>n. expr_loop n 0 e rest) (ok e rest)" using assms(4) by (intro loop_stops) simp
  then have "ev (\<lambda>n. parse_expr_prec n 0 (ts @ rest)) (ok e rest)"
    using text_reads [OF assms(2)] assms(1,3,4) by (auto intro: reads_startD)
  then obtain n0 where big: "\<And>k. n0 \<le> k \<Longrightarrow> parse_expr_prec k 0 (ts @ rest) = ok e rest" by (auto simp: ev_def)
  obtain v where v: "parse_expr_prec n 0 (ts @ rest) = Some v"
    using expression_runs(1) [OF assms(5), of 0] by (cases "parse_expr_prec n 0 (ts @ rest)") auto
  have "Some v = ok e rest"
    using expression_stable [OF v, of "max n n0"] big [of "max n n0"] by simp
  then show ?thesis using v by (simp add: parse_expression_def)
qed

text \<open>The expression \<^verbatim>\<open>a - (b + c) * - d > 1\<close>.\<close>

definition sample_expr :: expr where
  "sample_expr = Binary (Binary (Variable ''a'') BSub
     (Binary (Binary (Variable ''b'') BAdd (Variable ''c'')) BMul (Unary UNeg (Variable ''d'')))) BGt (IntLiteral 1)"

definition sample_tokens :: tokens where
  "sample_tokens = map (\<lambda>k. info k 1 1)
     [Identifier ''a'', sy SyMinus, sy SyLParen, Identifier ''b'', sy SyPlus, Identifier ''c'', sy SyRParen, sy SyStar,
      sy SyMinus, Identifier ''d'', sy SyGreater, IntegerLiteral 1]"

theorem expression_roundtrip_witness:
  "parse_expression 56 (sample_tokens @ [info (sy SySemicolon) 1 2]) = ok sample_expr [info (sy SySemicolon) 1 2]"
  by (rule expression_roundtrip)
     (simp_all add: sample_tokens_def sample_expr_def info_def ends_name_def next_prec_def token_to_binop_def binop_table_def)

end
